(* ===== verification/Go_Base.thy ===== *)
theory Go_Base
  imports Main "HOL-Library.Word" "HOL-Library.AList"
begin

text \<open>
  What the Go code of the repository uses of the language and of its standard library:
  maps with string (or integer) keys, decimal and hexadecimal formatting, the string
  functions of package \<open>strings\<close>, 64-bit durations, decoded JSON values and HTTP
  messages. Nothing here models a file of the repository; the component theories build on it.

  Conventions used by every theory:
  \<^item> a Go \<open>error\<close> result is a \<^typ>\<open>string option\<close>, \<open>None\<close> for \<open>nil\<close>; a function
    returning a value and an error returns a sum, \<open>Inl\<close> of the message or \<open>Inr\<close> of the value;
  \<^item> a Go map is an association list with distinct keys; \<open>range\<close> over it visits the list in
    order, and because the theorems quantify over all lists they hold for every iteration order;
  \<^item> everything outside the repository (processes, files, remote hosts) is a function of an
    abstract world of type \<open>'w\<close>, passed as an argument.
\<close>

named_theorems go_simps \<open>equations of the Go library model\<close>

section \<open>Maps\<close>

type_synonym ('k, 'v) gomap = "('k \<times> 'v) list"

abbreviation gm_get :: "('k, 'v) gomap \<Rightarrow> 'k \<Rightarrow> 'v option" where
  "gm_get m k \<equiv> map_of m k"

abbreviation gm_put :: "'k \<Rightarrow> 'v \<Rightarrow> ('k, 'v) gomap \<Rightarrow> ('k, 'v) gomap" where
  "gm_put k v m \<equiv> AList.update k v m"

abbreviation gm_del :: "'k \<Rightarrow> ('k, 'v) gomap \<Rightarrow> ('k, 'v) gomap" where
  "gm_del k m \<equiv> AList.delete k m"

abbreviation gm_keys :: "('k, 'v) gomap \<Rightarrow> 'k set" where
  "gm_keys m \<equiv> fst ` set m"

abbreviation gm_wf :: "('k, 'v) gomap \<Rightarrow> bool" where
  "gm_wf m \<equiv> distinct (map fst m)"

text \<open>Copying the entries of one map over another: \<open>for k, v := range src { dst[k] = v }\<close>.\<close>

definition gm_copy_into :: "('k, 'v) gomap \<Rightarrow> ('k, 'v) gomap \<Rightarrow> ('k, 'v) gomap" where
  "gm_copy_into src dst = fold (\<lambda>(k, v) m. gm_put k v m) src dst"

lemma gm_wf_put [simp, intro]: "gm_wf m \<Longrightarrow> gm_wf (gm_put k v m)"
  by (rule distinct_update)

lemma gm_wf_del [simp, intro]: "gm_wf m \<Longrightarrow> gm_wf (gm_del k m)"
  by (rule distinct_delete)

lemma gm_get_put [simp]: "gm_get (gm_put k v m) k' = (if k' = k then Some v else gm_get m k')"
  by (simp add: update_conv')

lemma gm_get_del [simp]: "gm_get (gm_del k m) k' = (if k' = k then None else gm_get m k')"
  by (simp add: delete_conv')

lemma gm_keys_put [simp]: "gm_keys (gm_put k v m) = insert k (gm_keys m)"
  by (simp add: dom_update)

lemma gm_keys_del [simp]: "gm_keys (gm_del k m) = gm_keys m - {k}"
  by (auto simp: AList.delete_eq)

lemma gm_get_None: "gm_get m k = None \<longleftrightarrow> k \<notin> gm_keys m"
  by (simp add: map_of_eq_None_iff)

lemma gm_get_SomeD: "gm_get m k = Some v \<Longrightarrow> k \<in> gm_keys m"
  by (force dest: map_of_SomeD)

lemma gm_keys_get: "k \<in> gm_keys m \<Longrightarrow> \<exists>v. gm_get m k = Some v"
  by (metis gm_get_None not_Some_eq)

lemma gm_card: "gm_wf m \<Longrightarrow> card (gm_keys m) = length m"
  by (metis distinct_card length_map set_map)

lemma gm_length_put: "length (gm_put k v m) = (if k \<in> gm_keys m then length m else Suc (length m))"
  by (induction m) auto

lemma gm_length_del:
  assumes "gm_wf m"
  shows "length (gm_del k m) = (if k \<in> gm_keys m then length m - 1 else length m)"
proof -
  have "length (gm_del k m) = card (gm_keys m - {k})"
    using gm_card [OF gm_wf_del [OF assms, of k]] by simp
  also have "\<dots> = (if k \<in> gm_keys m then card (gm_keys m) - 1 else card (gm_keys m))"
    by (simp add: card_Diff_singleton_if)
  finally show ?thesis by (simp add: gm_card [OF assms])
qed

lemma gm_del_absent: "k \<notin> gm_keys m \<Longrightarrow> gm_del k m = m"
  by (induction m) auto

lemma gm_del_put_absent: "k \<notin> gm_keys m \<Longrightarrow> gm_del k (gm_put k v m) = m"
  by (induction m) (auto simp: gm_del_absent)

lemma gm_length_del_le: "length (gm_del k m) \<le> length m"
  by (rule length_delete_le)

lemma set_gm_put: "set (gm_put k v m) \<subseteq> insert (k, v) (set m)"
  by (induction m) auto

lemma set_gm_del: "set (gm_del k m) \<subseteq> set m"
  by (auto simp: AList.delete_eq)

lemma gm_copy_into_get:
  "gm_wf src \<Longrightarrow> gm_get (gm_copy_into src dst) k = (case gm_get src k of None \<Rightarrow> gm_get dst k | Some v \<Rightarrow> Some v)"
proof (induction src arbitrary: dst)
  case Nil
  then show ?case by (simp add: gm_copy_into_def)
next
  case (Cons kv src)
  obtain a b where kv: "kv = (a, b)" by (cases kv)
  have step: "gm_copy_into (kv # src) dst = gm_copy_into src (gm_put a b dst)"
    by (simp add: gm_copy_into_def kv)
  have "a \<notin> gm_keys src" using Cons.prems kv by simp
  then have "gm_get src a = None" by (simp add: gm_get_None)
  then show ?case using Cons kv step by (auto split: option.splits)
qed

lemma gm_copy_into_wf: "gm_wf dst \<Longrightarrow> gm_wf (gm_copy_into src dst)"
  unfolding gm_copy_into_def by (induction src arbitrary: dst) auto

section \<open>Integers, durations and time\<close>

text \<open>
  \<open>time.Duration(t) * time.Second\<close>: the product of two 64-bit integers, which wraps around.
  A \<open>time.Time\<close> is the number of nanoseconds since the Unix epoch.
\<close>

type_synonym time = int

definition second :: int where
  "second = 1000000000"

definition duration_seconds :: "int \<Rightarrow> int" where
  "duration_seconds t = sint (word_of_int t * word_of_int second :: 64 word)"

definition zero_time :: time where
  "zero_time = - 62135596800 * second"

lemma duration_seconds_small:
  assumes "0 \<le> t" and "t \<le> 9223372036"
  shows "duration_seconds t = t * second"
proof -
  have "t * second < 2 ^ 63" "- (2 ^ 63) \<le> t * second"
    using assms by (simp_all add: second_def)
  then have "signed_take_bit 63 (t * second) = t * second"
    by (simp add: signed_take_bit_int_eq_self)
  moreover have "(word_of_int t * word_of_int second :: 64 word) = word_of_int (t * second)"
    by simp
  then have "duration_seconds t = sint (word_of_int (t * second) :: 64 word)"
    by (simp only: duration_seconds_def)
  then have "duration_seconds t = signed_take_bit (LENGTH(64) - 1) (t * second)"
    by (simp only: sint_sbintrunc')
  ultimately show ?thesis by simp
qed

lemma duration_seconds_wrapped:
  assumes "9223372037 \<le> t" and "t \<le> 18446744073"
  shows "duration_seconds t = t * second - 2 ^ 64"
proof -
  have "word_of_int t * word_of_int second = (word_of_int (t * second - 2 ^ 64) :: 64 word)"
  proof -
    have "(word_of_int (t * second - 2 ^ 64) :: 64 word) = word_of_int (t * second) - word_of_int (2 ^ 64)"
      by simp
    also have "(word_of_int (2 ^ 64) :: 64 word) = 0" by simp
    finally show ?thesis by simp
  qed
  then have "duration_seconds t = signed_take_bit (LENGTH(64) - 1) (t * second - 2 ^ 64)"
    by (simp only: duration_seconds_def sint_sbintrunc')
  also have "\<dots> = t * second - 2 ^ 64"
    using assms by (simp add: signed_take_bit_int_eq_self second_def)
  finally show ?thesis .
qed

text \<open>
  Storing a time as RFC 3339 text and parsing it back keeps whole seconds; the stored text is
  represented by that number of seconds (texts of UTC times of four-digit years are ordered as
  these numbers are).
\<close>

definition rfc3339 :: "time \<Rightarrow> int" where
  "rfc3339 t = t div second"

definition parse_rfc3339 :: "int \<Rightarrow> time" where
  "parse_rfc3339 n = n * second"

text \<open>The text of a UTC time, from the number of days since the epoch (proleptic Gregorian calendar).\<close>

definition civil_date :: "int \<Rightarrow> int \<times> int \<times> int" where
  "civil_date days =
     (let z = days + 719468; era = z div 146097; doe = z mod 146097;
          yoe = (doe - doe div 1460 + doe div 36524 - doe div 146096) div 365;
          doy = doe - (365 * yoe + yoe div 4 - yoe div 100);
          mp = (5 * doy + 2) div 153;
          d = doy - (153 * mp + 2) div 5 + 1;
          m = (if mp < 10 then mp + 3 else mp - 9)
      in (yoe + era * 400 + (if m \<le> 2 then 1 else 0), m, d))"

lemma rfc3339_roundtrip: "parse_rfc3339 (rfc3339 t) \<le> t \<and> t < parse_rfc3339 (rfc3339 t) + second"
proof -
  have "t div second * second + t mod second = t" by (rule div_mult_mod_eq)
  moreover have "0 \<le> t mod second" "t mod second < second" by (simp_all add: second_def)
  ultimately show ?thesis
    unfolding rfc3339_def parse_rfc3339_def by linarith
qed

section \<open>Formatting\<close>

definition digit :: "nat \<Rightarrow> char" where
  "digit n = char_of (if n < 10 then 48 + n else 55 + n)"

fun dec_nat :: "nat \<Rightarrow> string" where
  "dec_nat n = (if n < 10 then [digit n] else dec_nat (n div 10) @ [digit (n mod 10)])"

declare dec_nat.simps [simp del]

text \<open>\<open>%d\<close>\<close>

definition dec :: "int \<Rightarrow> string" where
  "dec i = (if i < 0 then ''-'' @ dec_nat (nat (- i)) else dec_nat (nat i))"

text \<open>\<open>%02X\<close> of a byte\<close>

definition hex2 :: "nat \<Rightarrow> string" where
  "hex2 n = [digit (n div 16), digit (n mod 16)]"

definition pad :: "nat \<Rightarrow> int \<Rightarrow> string" where
  "pad n i = (let s = dec_nat (nat i) in replicate (n - length s) CHR ''0'' @ s)"

definition time_text :: "time \<Rightarrow> string" where
  "time_text t =
     (let secs = t div second; (y, m, d) = civil_date (secs div 86400); r = secs mod 86400
      in pad 4 y @ ''-'' @ pad 2 m @ ''-'' @ pad 2 d @ ''T'' @ pad 2 (r div 3600) @ '':''
         @ pad 2 (r mod 3600 div 60) @ '':'' @ pad 2 (r mod 60) @ ''Z'')"

text \<open>The value of a digit string, the inverse of \<^const>\<open>dec_nat\<close>.\<close>

definition undigit :: "char \<Rightarrow> nat" where
  "undigit c = of_char c - 48"

definition undec :: "string \<Rightarrow> nat" where
  "undec s = foldl (\<lambda>a c. 10 * a + undigit c) 0 s"

lemma undigit_digit: "n < 10 \<Longrightarrow> undigit (digit n) = n"
  by (simp add: undigit_def digit_def)

lemma undec_dec_nat [simp]: "undec (dec_nat n) = n"
proof (induction n rule: dec_nat.induct)
  case (1 n)
  show ?case
  proof (cases "n < 10")
    case True
    then show ?thesis by (simp add: dec_nat.simps [of n] undec_def undigit_digit)
  next
    case False
    then have "undec (dec_nat n) = 10 * undec (dec_nat (n div 10)) + n mod 10"
      by (simp add: dec_nat.simps [of n] undec_def undigit_digit)
    also have "\<dots> = 10 * (n div 10) + n mod 10" using 1 False by simp
    finally show ?thesis by simp
  qed
qed

lemma dec_nat_inj: "dec_nat m = dec_nat n \<longleftrightarrow> m = n"
  by (metis undec_dec_nat)

lemma dec_inj: "0 \<le> i \<Longrightarrow> 0 \<le> j \<Longrightarrow> dec i = dec j \<longleftrightarrow> i = j"
  by (auto simp: dec_def dec_nat_inj)

lemma dec_nat_digits: "c \<in> set (dec_nat n) \<Longrightarrow> 48 \<le> (of_char c :: nat) \<and> (of_char c :: nat) < 58"
proof (induction n rule: dec_nat.induct)
  case (1 n)
  show ?case
  proof (cases "n < 10")
    case True
    with "1.prems" show ?thesis by (simp add: dec_nat.simps [of n] digit_def)
  next
    case False
    with "1.prems" have "c \<in> set (dec_nat (n div 10)) \<or> c = digit (n mod 10)"
      by (auto simp: dec_nat.simps [of n])
    then show ?thesis
    proof
      assume "c = digit (n mod 10)"
      moreover have "n mod 10 < 10" by simp
      ultimately show ?thesis by (simp add: digit_def)
    qed (use "1.IH" False in simp)
  qed
qed

lemma dot_notin_dec: "0 \<le> i \<Longrightarrow> CHR ''.'' \<notin> set (dec i)"
  by (auto simp: dec_def dest: dec_nat_digits)

section \<open>Package strings\<close>

definition has_prefix :: "string \<Rightarrow> string \<Rightarrow> bool" where
  "has_prefix s p \<longleftrightarrow> take (length p) s = p"

definition trim_prefix :: "string \<Rightarrow> string \<Rightarrow> string" where
  "trim_prefix s p = (if has_prefix s p then drop (length p) s else s)"

text \<open>\<open>strings.Index(s, c)\<close> and \<open>strings.LastIndex(s, c)\<close> for a one-byte \<open>c\<close>; \<open>None\<close> for -1.\<close>

fun index_byte :: "string \<Rightarrow> char \<Rightarrow> nat option" where
  "index_byte [] c = None"
| "index_byte (x # xs) c = (if x = c then Some 0 else map_option Suc (index_byte xs c))"

definition last_index_byte :: "string \<Rightarrow> char \<Rightarrow> nat option" where
  "last_index_byte s c = map_option (\<lambda>i. length s - 1 - i) (index_byte (rev s) c)"

definition is_space :: "char \<Rightarrow> bool" where
  "is_space c \<longleftrightarrow> of_char c \<in> {9, 10, 11, 12, 13, 32 :: nat}"

definition trim_space :: "string \<Rightarrow> string" where
  "trim_space s = rev (dropWhile is_space (rev (dropWhile is_space s)))"

text \<open>\<open>strings.Split(s, sep)\<close> for a one-byte separator: always at least one part.\<close>

fun split_byte :: "char \<Rightarrow> string \<Rightarrow> string list" where
  "split_byte c [] = [[]]"
| "split_byte c (x # xs) =
     (if x = c then [] # split_byte c xs
      else (case split_byte c xs of [] \<Rightarrow> [[x]] | p # ps \<Rightarrow> (x # p) # ps))"

fun join :: "string \<Rightarrow> string list \<Rightarrow> string" where
  "join sep [] = []"
| "join sep [x] = x"
| "join sep (x # y # ys) = x @ sep @ join sep (y # ys)"

lemma split_byte_nonempty [simp]: "split_byte c s \<noteq> []"
  by (induction s) (auto split: list.splits)

lemma join_split_byte: "join [c] (split_byte c s) = s"
proof (induction s)
  case Nil
  then show ?case by simp
next
  case (Cons x xs)
  obtain p ps where p: "split_byte c xs = p # ps"
    by (metis neq_Nil_conv split_byte_nonempty)
  then show ?case using Cons by (cases ps) auto
qed

lemma has_prefix_append [simp]: "has_prefix (p @ s) p"
  by (simp add: has_prefix_def)

lemma trim_prefix_append [simp]: "trim_prefix (p @ s) p = s"
  by (simp add: trim_prefix_def)

lemma index_byte_append:
  "c \<notin> set xs \<Longrightarrow> index_byte (xs @ c # ys) c = Some (length xs)"
  by (induction xs) auto

lemma index_byte_None: "index_byte s c = None \<longleftrightarrow> c \<notin> set s"
  by (induction s) auto

lemma index_byte_Some: "index_byte s c = Some i \<Longrightarrow> i < length s \<and> s ! i = c \<and> c \<notin> set (take i s)"
  by (induction s arbitrary: i) (auto split: if_splits)

text \<open>\<open>fmt.Sprintf("%v", args)\<close> of a string slice and \<open>%q\<close> of a string.\<close>

definition fmt_slice :: "string list \<Rightarrow> string" where
  "fmt_slice xs = ''['' @ join '' '' xs @ '']''"

definition digit_lower :: "nat \<Rightarrow> char" where
  "digit_lower n = char_of (if n < 10 then 48 + n else 87 + n)"

definition quote_char :: "char \<Rightarrow> string" where
  "quote_char c =
     (let n = (of_char c :: nat); bs = char_of (92 :: nat) in
      if n = 34 \<or> n = 92 then [bs, c]
      else if n = 7 then bs # ''a'' else if n = 8 then bs # ''b'' else if n = 9 then bs # ''t''
      else if n = 10 then bs # ''n'' else if n = 11 then bs # ''v'' else if n = 12 then bs # ''f''
      else if n = 13 then bs # ''r''
      else if n < 32 \<or> n = 127 then bs # ''x'' @ [digit_lower (n div 16), digit_lower (n mod 16)]
      else [c])"

definition quote :: "string \<Rightarrow> string" where
  "quote s = char_of (34 :: nat) # concat (map quote_char s) @ [char_of (34 :: nat)]"

text \<open>
  \<open>strconv.Atoi\<close>: the value, also the one that comes with an error, and the error. Out of range, the
  value is the nearest 64-bit integer.
\<close>

definition is_digit :: "char \<Rightarrow> bool" where
  "is_digit c \<longleftrightarrow> 48 \<le> (of_char c :: nat) \<and> (of_char c :: nat) < 58"

definition atoi_error :: "string \<Rightarrow> string \<Rightarrow> string option" where
  "atoi_error s why = Some (''strconv.Atoi: parsing '' @ quote s @ '': '' @ why)"

definition Atoi :: "string \<Rightarrow> int \<times> string option" where
  "Atoi s =
     (let neg = has_prefix s ''-''; ds = (if neg \<or> has_prefix s ''+'' then tl s else s); n = int (undec ds)
      in if ds = '''' \<or> \<not> list_all is_digit ds then (0, atoi_error s ''invalid syntax'')
         else if neg then (if n > 2 ^ 63 then (- (2 ^ 63), atoi_error s ''value out of range'') else (- n, None))
         else if n \<ge> 2 ^ 63 then (2 ^ 63 - 1, atoi_error s ''value out of range'') else (n, None))"

lemma dec_nat_nonempty [simp]: "dec_nat n \<noteq> ''''"
  by (simp add: dec_nat.simps [of n])

lemma Atoi_dec:
  assumes "- (2 ^ 63) \<le> i" and "i < 2 ^ 63"
  shows "Atoi (dec i) = (i, None)"
proof -
  have d: "list_all is_digit (dec_nat n)" for n
    using dec_nat_digits by (auto simp: list_all_iff is_digit_def)
  have p: "\<not> has_prefix (dec_nat n) ''-''" "\<not> has_prefix (dec_nat n) ''+''" for n
    using d [of n] by (cases "dec_nat n"; auto simp: has_prefix_def is_digit_def)+
  show ?thesis
  proof (cases "i < 0")
    case True
    have "has_prefix (dec i) ''-''" using True by (simp add: dec_def has_prefix_def)
    then show ?thesis using True assms d by (simp add: Atoi_def dec_def)
  next
    case False
    then show ?thesis using assms d p by (simp add: Atoi_def dec_def)
  qed
qed

section \<open>Results\<close>

text \<open>Sequencing of fallible steps: an error skips the rest.\<close>

definition bind_res :: "'e + 'a \<Rightarrow> ('a \<Rightarrow> 'e + 'b) \<Rightarrow> 'e + 'b" where
  "bind_res r f = (case r of Inl e \<Rightarrow> Inl e | Inr x \<Rightarrow> f x)"

lemma bind_res_simps [simp, go_simps]:
  "bind_res (Inl e) f = Inl e" "bind_res (Inr x) f = f x"
  by (simp_all add: bind_res_def)

lemma bind_res_Inr: "bind_res r f = Inr y \<longleftrightarrow> (\<exists>x. r = Inr x \<and> f x = Inr y)"
  by (simp add: bind_res_def split: sum.splits)

section \<open>Processes\<close>

text \<open>
  Package \<open>os/exec\<close>: running a command line in a world gives the error of \<open>Run\<close> (\<open>None\<close> when
  the process exits with status 0), the output it wrote, and the world it leaves.
\<close>

type_synonym 'w shell = "string list \<Rightarrow> 'w \<Rightarrow> (string option \<times> string) \<times> 'w"

definition sh_err :: "'w shell \<Rightarrow> string list \<Rightarrow> 'w \<Rightarrow> string option \<times> 'w" where
  "sh_err sh cmd w = (case sh cmd w of ((err, out), w') \<Rightarrow> (err, w'))"

definition sh_ignore :: "'w shell \<Rightarrow> string list \<Rightarrow> 'w \<Rightarrow> 'w" where
  "sh_ignore sh cmd w = snd (sh cmd w)"

text \<open>\<open>strings.SplitN(s, sep, n)\<close> for a positive \<open>n\<close>: the last part is the unsplit rest.\<close>

definition split_n :: "nat \<Rightarrow> char \<Rightarrow> string \<Rightarrow> string list" where
  "split_n n c s =
     (let ps = split_byte c s
      in if length ps \<le> n then ps else take (n - 1) ps @ [join [c] (drop (n - 1) ps)])"

lemma split_byte_no_sep: "c \<notin> set s \<Longrightarrow> split_byte c s = [s]"
  by (induction s) auto

lemma split_byte_first: "c \<notin> set x \<Longrightarrow> split_byte c (x @ c # s) = x # split_byte c s"
  by (induction x) auto

lemma last_index_byte_append:
  assumes "c \<notin> set ys"
  shows "last_index_byte (xs @ c # ys) c = Some (length xs)"
proof -
  have "index_byte (rev ys @ c # rev xs) c = Some (length ys)"
    using index_byte_append [of c "rev ys" "rev xs"] assms by simp
  then show ?thesis by (simp add: last_index_byte_def)
qed

lemma last_index_byte_None: "last_index_byte s c = None \<longleftrightarrow> c \<notin> set s"
  by (simp add: last_index_byte_def index_byte_None)


section \<open>Text in UTF-8\<close>

text \<open>
  Package \<open>unicode/utf8\<close>: the width of the rune that a text begins with, 0 when its first byte begins
  none. \<open>runes\<close> splits a text, with \<open>None\<close> for a byte that belongs to no rune; \<open>valid_text\<close> writes
  U+FFFD for each of those, which is what encoding a string as JSON does to it.
\<close>

definition continues :: "nat \<Rightarrow> nat \<Rightarrow> char \<Rightarrow> bool" where
  "continues lo hi c \<longleftrightarrow> lo \<le> (of_char c :: nat) \<and> (of_char c :: nat) \<le> hi"

definition rune_width :: "string \<Rightarrow> nat" where
  "rune_width s =
     (case s of
        [] \<Rightarrow> 0
      | c # cs \<Rightarrow>
          let n = (of_char c :: nat); k = length (takeWhile (continues 128 191) (take 3 cs))
          in if n < 128 then 1
             else if 194 \<le> n \<and> n \<le> 223 \<and> 1 \<le> k then 2
             else if 224 \<le> n \<and> n \<le> 239 \<and> 2 \<le> k
               \<and> continues (if n = 224 then 160 else 128) (if n = 237 then 159 else 191) (hd cs) then 3
             else if 240 \<le> n \<and> n \<le> 244 \<and> 3 \<le> k
               \<and> continues (if n = 240 then 144 else 128) (if n = 244 then 143 else 191) (hd cs) then 4
             else 0)"

function runes :: "string \<Rightarrow> string option list" where
  "runes [] = []"
| "runes (c # cs) =
     (let w = rune_width (c # cs)
      in if w = 0 then None # runes cs else Some (take w (c # cs)) # runes (drop (w - 1) cs))"
  by pat_completeness auto
termination by (relation "measure length") auto

definition replacement_char :: string where
  "replacement_char = [CHR 0xEF, CHR 0xBF, CHR 0xBD]"

definition valid_text :: "string \<Rightarrow> string" where
  "valid_text s = concat (map (\<lambda>r. case r of None \<Rightarrow> replacement_char | Some bs \<Rightarrow> bs) (runes s))"

lemma valid_text_Nil [simp]: "valid_text '''' = ''''"
  by (simp add: valid_text_def)

lemma valid_text_Cons:
  "valid_text (c # cs) = (let w = rune_width (c # cs)
     in if w = 0 then replacement_char @ valid_text cs else take w (c # cs) @ valid_text (drop (w - 1) cs))"
  by (simp add: valid_text_def Let_def)

lemma valid_text_empty [simp]: "valid_text s = '''' \<longleftrightarrow> s = ''''"
  by (cases s) (auto simp: valid_text_Cons Let_def replacement_char_def)

text \<open>Text without a broken byte is kept; ASCII text is such.\<close>

lemma valid_text_id: "None \<notin> set (runes s) \<Longrightarrow> valid_text s = s"
proof (induction s rule: runes.induct)
  case (2 c cs)
  define w where "w = rune_width (c # cs)"
  have "w \<noteq> 0" and "None \<notin> set (runes (drop (w - 1) cs))" using 2(3) by (auto simp: w_def Let_def split: if_splits)
  with 2(2) have "valid_text (drop (w - 1) cs) = drop (w - 1) cs" by (simp add: w_def)
  moreover have "take w (c # cs) @ drop (w - 1) cs = c # cs" using \<open>w \<noteq> 0\<close> by (cases w) simp_all
  ultimately show ?case using \<open>w \<noteq> 0\<close> by (simp add: valid_text_Cons w_def [symmetric] Let_def)
qed simp

lemma runes_ascii: "list_all (\<lambda>c. (of_char c :: nat) < 128) s \<Longrightarrow> runes s = map (\<lambda>c. Some [c]) s"
  by (induction s) (simp_all add: rune_width_def Let_def)

lemma valid_text_ascii: "list_all (\<lambda>c. (of_char c :: nat) < 128) s \<Longrightarrow> valid_text s = s"
  by (rule valid_text_id) (auto simp: runes_ascii)

end
