(* ===== verification/Network_Pool.thy ===== *)
theory Network_Pool
  imports Go_Base "HOL-Library.Multiset"
begin

text \<open>
  Package \<open>network\<close>: the addresses of a slot (\<open>types.go\<close>), the TAP device (\<open>tap.go\<close>), the
  iptables rules (\<open>iptables.go\<close>) and the pool that allocates slots (\<open>pool.go\<close>). The commands
  \<open>ip\<close>, \<open>iptables\<close> and \<open>sysctl\<close> are run by a shell argument over an abstract host.
\<close>

unbundle bit_operations_syntax

section \<open>Slots\<close>

record slot =
  slot_ID :: int
  TAPName :: string
  slot_GuestIP :: string
  slot_HostIP :: string
  slot_GuestMAC :: string

text \<open>The last two octets of the \<open>/30\<close> block of a slot, in 64-bit arithmetic.\<close>

definition slot_octet3 :: "int \<Rightarrow> 64 word" where
  "slot_octet3 i = (let base = word_of_int i * 4 in signed_drop_bit 8 base AND 0xFF)"

definition slot_octet4 :: "int \<Rightarrow> 64 word" where
  "slot_octet4 i = (let base = word_of_int i * 4 in base AND 0xFF)"

definition NewSlot :: "int \<Rightarrow> slot" where
  "NewSlot i =
     (let octet3 = slot_octet3 i;
          octet4 = slot_octet4 i;
          hostIP = ''10.0.'' @ dec (sint octet3) @ ''.'' @ dec (sint (octet4 + 1));
          guestIP = ''10.0.'' @ dec (sint octet3) @ ''.'' @ dec (sint (octet4 + 2));
          mac = ''AA:FC:00:00:'' @ hex2 (unat (signed_drop_bit 8 (word_of_int i :: 64 word) AND 0xFF))
                  @ '':'' @ hex2 (unat ((word_of_int i :: 64 word) AND 0xFF))
      in \<lparr>slot_ID = i, TAPName = ''gitvm'' @ dec i, slot_GuestIP = guestIP,
          slot_HostIP = hostIP, slot_GuestMAC = mac\<rparr>)"

section \<open>TAP devices\<close>

text \<open>\<open>run\<close>: the error names the command, its arguments and its output.\<close>

definition run :: "'w shell \<Rightarrow> string list \<Rightarrow> 'w \<Rightarrow> string option \<times> 'w" where
  "run sh cmd w =
     (case sh cmd w of
        ((None, out), w') \<Rightarrow> (None, w')
      | ((Some err, out), w') \<Rightarrow>
          (Some (hd cmd @ '' '' @ fmt_slice (tl cmd) @ '': '' @ out @ '': '' @ err), w'))"

definition DestroyTAP :: "'w shell \<Rightarrow> slot \<Rightarrow> 'w \<Rightarrow> string option \<times> 'w" where
  "DestroyTAP sh s w = run sh [''ip'', ''link'', ''del'', TAPName s] w"

definition CreateTAP :: "'w shell \<Rightarrow> slot \<Rightarrow> 'w \<Rightarrow> string option \<times> 'w" where
  "CreateTAP sh s w =
     (case run sh [''ip'', ''tuntap'', ''add'', ''dev'', TAPName s, ''mode'', ''tap''] w of
        (Some e, w1) \<Rightarrow> (Some (''create TAP '' @ TAPName s @ '': '' @ e), w1)
      | (None, w1) \<Rightarrow>
     (case run sh [''ip'', ''addr'', ''add'', slot_HostIP s @ ''/30'', ''dev'', TAPName s] w1 of
        (Some e, w2) \<Rightarrow>
          let (_, w3) = DestroyTAP sh s w2
          in (Some (''assign IP to '' @ TAPName s @ '': '' @ e), w3)
      | (None, w2) \<Rightarrow>
     (case run sh [''ip'', ''link'', ''set'', TAPName s, ''up''] w2 of
        (Some e, w3) \<Rightarrow>
          let (_, w4) = DestroyTAP sh s w3
          in (Some (''bring up '' @ TAPName s @ '': '' @ e), w4)
      | (None, w3) \<Rightarrow> (None, w3))))"

section \<open>NAT rules\<close>

definition rule_forward_out :: "slot \<Rightarrow> string \<Rightarrow> string list" where
  "rule_forward_out s hostIf = [''FORWARD'', ''-i'', TAPName s, ''-o'', hostIf, ''-j'', ''ACCEPT'']"

definition rule_forward_in :: "slot \<Rightarrow> string \<Rightarrow> string list" where
  "rule_forward_in s hostIf =
     [''FORWARD'', ''-i'', hostIf, ''-o'', TAPName s, ''-m'', ''state'', ''--state'',
      ''RELATED,ESTABLISHED'', ''-j'', ''ACCEPT'']"

definition rule_masquerade :: "slot \<Rightarrow> string \<Rightarrow> string list" where
  "rule_masquerade s hostIf =
     [''POSTROUTING'', ''-s'', slot_GuestIP s @ ''/30'', ''-o'', hostIf, ''-j'', ''MASQUERADE'']"

definition SetupNAT :: "'w shell \<Rightarrow> slot \<Rightarrow> string \<Rightarrow> 'w \<Rightarrow> string option \<times> 'w" where
  "SetupNAT sh s hostInterface w =
     (let hostInterface = (if hostInterface = '''' then ''eth0'' else hostInterface) in
      case run sh ([''iptables'', ''-A''] @ rule_forward_out s hostInterface) w of
        (Some e, w1) \<Rightarrow> (Some (''forward out: '' @ e), w1)
      | (None, w1) \<Rightarrow>
     (case run sh ([''iptables'', ''-A''] @ rule_forward_in s hostInterface) w1 of
        (Some e, w2) \<Rightarrow> (Some (''forward in: '' @ e), w2)
      | (None, w2) \<Rightarrow>
     (case run sh ([''iptables'', ''-t'', ''nat'', ''-A''] @ rule_masquerade s hostInterface) w2 of
        (Some e, w3) \<Rightarrow> (Some (''masquerade: '' @ e), w3)
      | (None, w3) \<Rightarrow> (None, w3))))"

definition TeardownNAT :: "'w shell \<Rightarrow> slot \<Rightarrow> string \<Rightarrow> 'w \<Rightarrow> string option \<times> 'w" where
  "TeardownNAT sh s hostInterface w =
     (let hostInterface = (if hostInterface = '''' then ''eth0'' else hostInterface);
          w1 = snd (run sh ([''iptables'', ''-D''] @ rule_forward_out s hostInterface) w);
          w2 = snd (run sh ([''iptables'', ''-D''] @ rule_forward_in s hostInterface) w1);
          w3 = snd (run sh ([''iptables'', ''-t'', ''nat'', ''-D''] @ rule_masquerade s hostInterface) w2)
      in (None, w3))"

definition EnableIPForwarding :: "'w shell \<Rightarrow> 'w \<Rightarrow> string option \<times> 'w" where
  "EnableIPForwarding sh w =
     (case run sh [''sysctl'', ''-w'', ''net.ipv4.ip_forward=1''] w of
        (Some e, w1) \<Rightarrow> (Some (''enable ip forwarding: '' @ e), w1)
      | (None, w1) \<Rightarrow> (None, w1))"

section \<open>The pool\<close>

record pool =
  maxSlots :: int
  allocated :: "(int, bool) gomap"
  hostInterface :: string

definition NewPool :: "int \<Rightarrow> string \<Rightarrow> pool" where
  "NewPool mx hostIf =
     \<lparr>maxSlots = (if mx \<le> 0 then 255 else mx), allocated = [],
      hostInterface = (if hostIf = '''' then ''eth0'' else hostIf)\<rparr>"

text \<open>Reading a missing key of a \<open>map[int]bool\<close> gives \<open>false\<close>.\<close>

definition is_allocated :: "pool \<Rightarrow> int \<Rightarrow> bool" where
  "is_allocated p i = (case gm_get (allocated p) i of None \<Rightarrow> False | Some b \<Rightarrow> b)"

text \<open>The search loop of \<open>Allocate\<close>: the first index from \<open>i\<close> on that is free, -1 if there is none.\<close>

function first_free :: "(int \<Rightarrow> bool) \<Rightarrow> int \<Rightarrow> int \<Rightarrow> int" where
  "first_free used i mx = (if i < mx then (if \<not> used i then i else first_free used (i + 1) mx) else - 1)"
  by pat_completeness auto
termination
  by (relation "measure (\<lambda>(used, i, mx). nat (mx - i))") auto

declare first_free.simps [simp del]

definition Allocate :: "'w shell \<Rightarrow> pool \<Rightarrow> 'w \<Rightarrow> (string + slot) \<times> pool \<times> 'w" where
  "Allocate sh p w =
     (let i = first_free (is_allocated p) 0 (maxSlots p) in
      if i < 0 then (Inl (''no free network slots (max '' @ dec (maxSlots p) @ '')''), p, w)
      else
        let s = NewSlot i in
        case CreateTAP sh s w of
          (Some e, w1) \<Rightarrow> (Inl (''create TAP: '' @ e), p, w1)
        | (None, w1) \<Rightarrow>
       (case SetupNAT sh s (hostInterface p) w1 of
          (Some e, w2) \<Rightarrow>
            let (_, w3) = DestroyTAP sh s w2
            in (Inl (''setup NAT: '' @ e), p, w3)
        | (None, w2) \<Rightarrow> (Inr s, p\<lparr>allocated := gm_put i True (allocated p)\<rparr>, w2)))"

definition Release :: "'w shell \<Rightarrow> slot \<Rightarrow> pool \<Rightarrow> 'w \<Rightarrow> pool \<times> 'w" where
  "Release sh s p w =
     (let (_, w1) = TeardownNAT sh s (hostInterface p) w;
          (_, w2) = DestroyTAP sh s w1
      in (p\<lparr>allocated := gm_del (slot_ID s) (allocated p)\<rparr>, w2))"

definition Count :: "pool \<Rightarrow> nat" where
  "Count p = length (allocated p)"

section \<open>Addresses of a slot\<close>

lemma low_byte_int:
  "signed_take_bit 63 (drop_bit 8 (signed_take_bit 63 (x :: int)) AND 255) = take_bit 8 (drop_bit 8 x)"
  "take_bit 8 (drop_bit 8 (signed_take_bit 63 x)) = take_bit 8 (drop_bit 8 x)"
  "signed_take_bit 63 (x AND 255) = take_bit 8 x"
  unfolding mask_eq_exp_minus_1 [of 8, where 'a = int, simplified, symmetric]
  by (rule bit_eqI, auto simp: bit_simps min_def)+

lemma slot_octet3_int: "sint (slot_octet3 i) = i * 4 div 256 mod 256"
proof -
  have "sint (slot_octet3 i) = take_bit 8 (drop_bit 8 (i * 4))"
    unfolding slot_octet3_def Let_def by transfer (simp add: low_byte_int)
  then show ?thesis by (simp add: take_bit_eq_mod drop_bit_eq_div)
qed

lemma slot_octet4_int: "sint (slot_octet4 i) = i * 4 mod 256"
proof -
  have "sint (slot_octet4 i) = take_bit 8 (i * 4)"
    unfolding slot_octet4_def Let_def by transfer (simp add: low_byte_int)
  then show ?thesis by (simp add: take_bit_eq_mod)
qed

lemma sint_add_small:
  assumes "0 \<le> sint (w :: 64 word)" "sint w < 256" "0 \<le> k" "k < 256"
  shows "sint (w + word_of_int k) = sint w + k"
proof -
  have "w + word_of_int k = word_of_int (sint w + k)" by simp
  then have "sint (w + word_of_int k) = signed_take_bit 63 (sint w + k)"
    by (simp only: sint_sbintrunc') simp
  also have "\<dots> = sint w + k" using assms by (simp add: signed_take_bit_int_eq_self)
  finally show ?thesis .
qed

lemma slot_host_octet: "sint (slot_octet4 i + 1) = i * 4 mod 256 + 1"
  using sint_add_small [of "slot_octet4 i" 1] by (simp add: slot_octet4_int)

lemma slot_guest_octet: "sint (slot_octet4 i + 2) = i * 4 mod 256 + 2"
  using sint_add_small [of "slot_octet4 i" 2] by (simp add: slot_octet4_int)

text \<open>An address \<open>10.0.a.b\<close> determines \<open>a\<close> and \<open>b\<close>.\<close>

definition addr :: "int \<Rightarrow> int \<Rightarrow> string" where
  "addr a b = ''10.0.'' @ dec a @ ''.'' @ dec b"

lemma append_sep_inj:
  "c \<notin> set xs \<Longrightarrow> c \<notin> set ys \<Longrightarrow> xs @ c # us = ys @ c # vs \<longleftrightarrow> xs = ys \<and> us = vs"
proof (induction xs arbitrary: ys)
  case Nil
  then show ?case by (cases ys) auto
next
  case (Cons x xs)
  then show ?case by (cases ys) auto
qed

lemma addr_inj:
  "0 \<le> a \<Longrightarrow> 0 \<le> b \<Longrightarrow> 0 \<le> c \<Longrightarrow> 0 \<le> d \<Longrightarrow> addr a b = addr c d \<longleftrightarrow> a = c \<and> b = d"
  by (simp add: addr_def append_sep_inj dot_notin_dec dec_inj)

lemma NewSlot_addrs:
  "slot_HostIP (NewSlot i) = addr (i * 4 div 256 mod 256) (i * 4 mod 256 + 1)"
  "slot_GuestIP (NewSlot i) = addr (i * 4 div 256 mod 256) (i * 4 mod 256 + 2)"
  by (simp_all add: NewSlot_def Let_def addr_def slot_octet3_int slot_host_octet slot_guest_octet)

lemma NewSlot_ID [simp]: "slot_ID (NewSlot i) = i"
  by (simp add: NewSlot_def Let_def)

lemma NewSlot_TAPName: "TAPName (NewSlot i) = ''gitvm'' @ dec i"
  by (simp add: NewSlot_def Let_def)

lemma block_eq:
  "(i :: int) * 4 div 256 mod 256 = j * 4 div 256 mod 256 \<and> i * 4 mod 256 = j * 4 mod 256
     \<longleftrightarrow> i mod 16384 = j mod 16384"
proof -
  have split: "x * 4 mod 65536 = 256 * (x * 4 div 256 mod 256) + x * 4 mod 256" for x :: int
    using zmod_zmult2_eq [of 256 "x * 4" 256] by simp
  have scale: "x * 4 mod 65536 = (x mod 16384) * 4" for x :: int
    using mod_mult_mult2 [of x 4 16384] by simp
  have digits: "256 * a + b = 256 * c + d \<longleftrightarrow> a = c \<and> b = d"
    if "0 \<le> b" "b < 256" "0 \<le> d" "d < 256" for a b c d :: int
  proof
    assume eq: "256 * a + b = 256 * c + d"
    with that have "- 1 < a - c" "a - c < 1" by linarith+
    with eq show "a = c \<and> b = d" by simp
  qed simp
  have "i * 4 mod 65536 = j * 4 mod 65536
      \<longleftrightarrow> i * 4 div 256 mod 256 = j * 4 div 256 mod 256 \<and> i * 4 mod 256 = j * 4 mod 256"
    unfolding split by (rule digits) simp_all
  then show ?thesis unfolding scale by simp
qed

lemma NewSlot_host_guest_differ: "slot_HostIP (NewSlot i) \<noteq> slot_GuestIP (NewSlot j)"
proof -
  have "x * 4 mod 256 = (x mod 64) * 4" for x :: int
    using mod_mult_mult2 [of x 4 64] by simp
  moreover have "a * 4 + 1 \<noteq> b * 4 + 2" for a b :: int by presburger
  ultimately have "i * 4 mod 256 + 1 \<noteq> j * 4 mod 256 + 2" by simp
  then show ?thesis by (simp add: NewSlot_addrs addr_inj)
qed

lemma NewSlot_GuestIP_eq: "slot_GuestIP (NewSlot i) = slot_GuestIP (NewSlot j) \<longleftrightarrow> i mod 16384 = j mod 16384"
  using block_eq [of i j] by (simp add: NewSlot_addrs addr_inj)

lemma NewSlot_HostIP_eq: "slot_HostIP (NewSlot i) = slot_HostIP (NewSlot j) \<longleftrightarrow> i mod 16384 = j mod 16384"
  using block_eq [of i j] by (simp add: NewSlot_addrs addr_inj)

lemma NewSlot_TAPName_eq: "0 \<le> i \<Longrightarrow> 0 \<le> j \<Longrightarrow> TAPName (NewSlot i) = TAPName (NewSlot j) \<longleftrightarrow> i = j"
  by (simp add: NewSlot_TAPName dec_inj)

section \<open>Laws of the search and of the pool\<close>

lemma first_free_found:
  assumes "first_free used i mx = r" "0 \<le> r" "0 \<le> i"
  shows "i \<le> r \<and> r < mx \<and> \<not> used r \<and> (\<forall>j. i \<le> j \<and> j < r \<longrightarrow> used j)"
  using assms
proof (induction used i mx rule: first_free.induct)
  case (1 used i mx)
  show ?case
  proof (cases "i < mx \<and> used i")
    case True
    with 1 have "i + 1 \<le> r \<and> r < mx \<and> \<not> used r \<and> (\<forall>j. i + 1 \<le> j \<and> j < r \<longrightarrow> used j)"
      by (simp add: first_free.simps [of used i mx])
    moreover have "j = i \<or> i + 1 \<le> j" if "i \<le> j" for j using that by arith
    ultimately show ?thesis using True by auto
  next
    case False
    with 1 show ?thesis by (auto simp: first_free.simps [of used i mx] split: if_splits)
  qed
qed

lemma first_free_none:
  "first_free used i mx < 0 \<Longrightarrow> 0 \<le> i \<Longrightarrow> i \<le> j \<Longrightarrow> j < mx \<Longrightarrow> used j"
proof (induction used i mx rule: first_free.induct)
  case (1 used i mx)
  have "i < mx" using "1.prems" by simp
  with "1.prems"(1,2) have u: "used i" and r: "first_free used (i + 1) mx < 0"
    by (auto simp: first_free.simps [of used i mx] split: if_splits)
  show ?case
  proof (cases "j = i")
    case False
    then have "i + 1 \<le> j" using "1.prems"(3) by simp
    then show ?thesis using "1.IH" \<open>i < mx\<close> u r "1.prems"(2,4) by simp
  qed (use u in simp)
qed

lemma first_free_exists:
  "0 \<le> i \<Longrightarrow> i \<le> j \<Longrightarrow> j < mx \<Longrightarrow> \<not> used j \<Longrightarrow> 0 \<le> first_free used i mx"
  using first_free_none [of used i mx j] by linarith

section \<open>The allocator interface\<close>

text \<open>
  What the Firecracker runtime relies on: an allocation hands out a slot that is not in use and
  marks it used, a failed allocation changes nothing, and a release frees exactly its slot.
\<close>

locale slot_allocator =
  fixes alloc :: "'p \<Rightarrow> 'w \<Rightarrow> (string + slot) \<times> 'p \<times> 'w"
    and release :: "slot \<Rightarrow> 'p \<Rightarrow> 'w \<Rightarrow> 'p \<times> 'w"
    and used :: "'p \<Rightarrow> int set"
    and limit :: "'p \<Rightarrow> int"
    and inv :: "'p \<Rightarrow> bool"
  assumes alloc_ok: "inv p \<Longrightarrow> alloc p w = (Inr s, p', w') \<Longrightarrow>
      inv p' \<and> s = NewSlot (slot_ID s) \<and> slot_ID s \<notin> used p \<and> 0 \<le> slot_ID s \<and> slot_ID s < limit p
      \<and> used p' = insert (slot_ID s) (used p) \<and> limit p' = limit p"
    and alloc_err: "alloc p w = (Inl e, p', w') \<Longrightarrow> p' = p"
    and release_frees: "inv p \<Longrightarrow> release s p w = (p', w') \<Longrightarrow>
      inv p' \<and> used p' = used p - {slot_ID s} \<and> limit p' = limit p"

text \<open>
  Any sequence of allocations and releases, with the list of slots handed out and not yet given
  back. The outside world may change between any two steps.
\<close>

inductive slot_reach ::
  "('p \<Rightarrow> 'w \<Rightarrow> (string + slot) \<times> 'p \<times> 'w) \<Rightarrow> (slot \<Rightarrow> 'p \<Rightarrow> 'w \<Rightarrow> 'p \<times> 'w) \<Rightarrow> 'p \<Rightarrow> slot list \<Rightarrow> 'p \<Rightarrow> bool"
  for alloc release p0 where
  start: "slot_reach alloc release p0 [] p0"
| allocate: "slot_reach alloc release p0 held p \<Longrightarrow> alloc p w = (Inr s, p', w') \<Longrightarrow>
    slot_reach alloc release p0 (s # held) p'"
| refuse: "slot_reach alloc release p0 held p \<Longrightarrow> alloc p w = (Inl e, p', w') \<Longrightarrow>
    slot_reach alloc release p0 held p'"
| give_back: "slot_reach alloc release p0 held p \<Longrightarrow> s \<in> set held \<Longrightarrow> release s p w = (p', w') \<Longrightarrow>
    slot_reach alloc release p0 (remove1 s held) p'"

definition held_ok :: "slot list \<Rightarrow> int set \<Rightarrow> int \<Rightarrow> bool" where
  "held_ok held u mx \<longleftrightarrow> distinct (map slot_ID held) \<and> slot_ID ` set held = u
     \<and> (\<forall>s \<in> set held. s = NewSlot (slot_ID s) \<and> 0 \<le> slot_ID s \<and> slot_ID s < mx)"

lemma held_ok_remove1:
  assumes "held_ok held u mx" "s \<in> set held"
  shows "held_ok (remove1 s held) (u - {slot_ID s}) mx"
proof -
  have d: "distinct (map slot_ID held)" using assms by (simp add: held_ok_def)
  then have inj: "inj_on slot_ID (set held)" and dh: "distinct held"
    by (simp_all add: distinct_map)
  have "slot_ID ` set (remove1 s held) = slot_ID ` set held - {slot_ID s}"
    using dh inj assms(2) by (auto simp: inj_on_def)
  moreover have "distinct (map slot_ID (remove1 s held))"
    using dh inj by (auto simp: distinct_map inj_on_def)
  ultimately show ?thesis using assms dh by (auto simp: held_ok_def)
qed

context slot_allocator begin

lemma reach_held_ok:
  assumes "slot_reach alloc release p0 held p" "inv p0" "used p0 = {}"
  shows "inv p \<and> limit p = limit p0 \<and> held_ok held (used p) (limit p0)"
  using assms
proof (induction rule: slot_reach.induct)
  case start
  then show ?case by (simp add: held_ok_def)
next
  case (allocate held p w s p' w')
  then have i: "inv p" "limit p = limit p0" "held_ok held (used p) (limit p0)" by auto
  with alloc_ok [OF i(1) allocate.hyps(2)] show ?case
    by (auto simp: held_ok_def)
next
  case (refuse held p w e p' w')
  then show ?case using alloc_err by blast
next
  case (give_back held p s w p' w')
  then have i: "inv p" "limit p = limit p0" "held_ok held (used p) (limit p0)" by auto
  with release_frees [OF i(1) give_back.hyps(3)] held_ok_remove1 [OF i(3) give_back.hyps(2)]
  show ?case by auto
qed

text \<open>Two slots held at the same time share nothing, as long as the pool has at most 16384 slots.\<close>

lemma held_disjoint:
  assumes "slot_reach alloc release p0 held p" "inv p0" "used p0 = {}" "limit p0 \<le> 16384"
    and "s \<in> set held" "t \<in> set held" "s \<noteq> t"
  shows "slot_ID s \<noteq> slot_ID t \<and> TAPName s \<noteq> TAPName t
    \<and> {slot_HostIP s, slot_GuestIP s} \<inter> {slot_HostIP t, slot_GuestIP t} = {}"
proof -
  from reach_held_ok [OF assms(1-3)] have ok: "held_ok held (used p) (limit p0)" by simp
  then have s: "s = NewSlot (slot_ID s)" "0 \<le> slot_ID s" "slot_ID s < 16384"
    and t: "t = NewSlot (slot_ID t)" "0 \<le> slot_ID t" "slot_ID t < 16384"
    using assms(4-6) by (fastforce simp: held_ok_def)+
  obtain i j where ij: "s = NewSlot i" "t = NewSlot j" "0 \<le> i" "i < 16384" "0 \<le> j" "j < 16384"
    using s t by blast
  then have "i \<noteq> j" using assms(7) by auto
  then show ?thesis using ij
    by (simp add: NewSlot_TAPName_eq NewSlot_GuestIP_eq NewSlot_HostIP_eq
        NewSlot_host_guest_differ NewSlot_host_guest_differ [symmetric])
qed

end

section \<open>The pool implements the interface\<close>

definition pool_inv :: "pool \<Rightarrow> bool" where
  "pool_inv p \<longleftrightarrow> gm_wf (allocated p)
     \<and> (\<forall>(i, b) \<in> set (allocated p). b \<and> 0 \<le> i \<and> i < maxSlots p)"

definition used_slots :: "pool \<Rightarrow> int set" where
  "used_slots p = gm_keys (allocated p)"

lemma is_allocated_iff: "pool_inv p \<Longrightarrow> is_allocated p i \<longleftrightarrow> i \<in> used_slots p"
  by (force simp: is_allocated_def pool_inv_def used_slots_def
      split: option.splits dest: map_of_SomeD dest!: gm_get_None [THEN iffD1])

definition next_slot :: "pool \<Rightarrow> int" where
  "next_slot p = first_free (is_allocated p) 0 (maxSlots p)"

lemma Allocate_unfold:
  assumes "\<not> next_slot p < 0" "CreateTAP sh (NewSlot (next_slot p)) w = (c, w1)"
    "SetupNAT sh (NewSlot (next_slot p)) (hostInterface p) w1 = (n, w2)"
    "DestroyTAP sh (NewSlot (next_slot p)) w2 = (d, w3)"
  shows "Allocate sh p w =
    (case c of Some e \<Rightarrow> (Inl (''create TAP: '' @ e), p, w1)
     | None \<Rightarrow> (case n of Some e \<Rightarrow> (Inl (''setup NAT: '' @ e), p, w3)
       | None \<Rightarrow> (Inr (NewSlot (next_slot p)), p\<lparr>allocated := gm_put (next_slot p) True (allocated p)\<rparr>, w2)))"
  using assms unfolding next_slot_def by (simp add: Allocate_def Let_def split: option.split)

lemma Allocate_full: "next_slot p < 0 \<Longrightarrow>
    Allocate sh p w = (Inl (''no free network slots (max '' @ dec (maxSlots p) @ '')''), p, w)"
  by (simp add: Allocate_def next_slot_def)

lemma Allocate_cases:
  assumes "Allocate sh p w = (r, p', w')"
  shows "(\<exists>e. r = Inl e) \<and> p' = p
    \<or> r = Inr (NewSlot (next_slot p)) \<and> 0 \<le> next_slot p
      \<and> p' = p\<lparr>allocated := gm_put (next_slot p) True (allocated p)\<rparr>"
proof (cases "next_slot p < 0")
  case True
  with assms show ?thesis by (auto simp: Allocate_full)
next
  case False
  obtain c w1 where c: "CreateTAP sh (NewSlot (next_slot p)) w = (c, w1)" by fastforce
  obtain n w2 where n: "SetupNAT sh (NewSlot (next_slot p)) (hostInterface p) w1 = (n, w2)" by fastforce
  obtain d w3 where d: "DestroyTAP sh (NewSlot (next_slot p)) w2 = (d, w3)" by fastforce
  from assms False show ?thesis
    by (auto simp: Allocate_unfold [OF False c n d] split: option.splits)
qed

lemma pool_inv_New [simp]: "pool_inv (NewPool mx h)"
  by (simp add: pool_inv_def NewPool_def)

lemma used_New [simp]: "used_slots (NewPool mx h) = {}"
  by (simp add: used_slots_def NewPool_def)

lemma Allocate_ok:
  assumes "pool_inv p" "Allocate sh p w = (Inr s, p', w')"
  shows "pool_inv p' \<and> s = NewSlot (slot_ID s) \<and> slot_ID s \<notin> used_slots p \<and> 0 \<le> slot_ID s
    \<and> slot_ID s < maxSlots p \<and> used_slots p' = insert (slot_ID s) (used_slots p) \<and> maxSlots p' = maxSlots p"
proof -
  from assms(2) obtain i where i: "s = NewSlot i" "i = first_free (is_allocated p) 0 (maxSlots p)" "0 \<le> i"
    "p' = p\<lparr>allocated := gm_put i True (allocated p)\<rparr>"
    using Allocate_cases [OF assms(2)] by (auto simp: next_slot_def)
  from first_free_found [OF i(2) [symmetric] i(3)]
  have f: "i < maxSlots p" "\<not> is_allocated p i" by auto
  with assms(1) i show ?thesis
    using set_gm_put [of i True "allocated p"]
    by (auto simp: pool_inv_def used_slots_def is_allocated_iff [OF assms(1), unfolded used_slots_def])
qed

lemma Release_frees:
  assumes "pool_inv p" "Release sh s p w = (p', w')"
  shows "pool_inv p' \<and> used_slots p' = used_slots p - {slot_ID s} \<and> maxSlots p' = maxSlots p"
proof -
  have "p' = p\<lparr>allocated := gm_del (slot_ID s) (allocated p)\<rparr>"
    using assms(2) by (auto simp: Release_def Let_def split: prod.splits)
  with assms(1) show ?thesis
    using set_gm_del [of "slot_ID s" "allocated p"]
    by (auto simp: pool_inv_def used_slots_def)
qed

interpretation net: slot_allocator "Allocate sh" "Release sh" used_slots maxSlots pool_inv for sh
proof
  show "pool_inv p \<Longrightarrow> Allocate sh p w = (Inr s, p', w') \<Longrightarrow>
      pool_inv p' \<and> s = NewSlot (slot_ID s) \<and> slot_ID s \<notin> used_slots p \<and> 0 \<le> slot_ID s
      \<and> slot_ID s < maxSlots p \<and> used_slots p' = insert (slot_ID s) (used_slots p)
      \<and> maxSlots p' = maxSlots p" for p p' w w' s
    by (rule Allocate_ok)
  show "Allocate sh p w = (Inl e, p', w') \<Longrightarrow> p' = p" for p p' w w' e
    by (drule Allocate_cases) auto
  show "pool_inv p \<Longrightarrow> Release sh s p w = (p', w') \<Longrightarrow>
      pool_inv p' \<and> used_slots p' = used_slots p - {slot_ID s} \<and> maxSlots p' = maxSlots p" for p p' w w' s
    by (rule Release_frees)
qed

lemma Count_used: "pool_inv p \<Longrightarrow> Count p = card (used_slots p)"
  by (simp add: Count_def used_slots_def pool_inv_def gm_card)

section \<open>The rules on the host\<close>

text \<open>
  The documented behaviour of \<open>iptables\<close> the code relies on: a successful \<open>-A\<close> appends its rule
  to the table, a failed one changes nothing; \<open>-D\<close> removes one copy of its rule if there is one;
  \<open>ip\<close> touches no rule. The rules of a world are a multiset of pairs of a table and a rule.
\<close>

type_synonym rules = "(string \<times> string list) multiset"

definition iptables_laws :: "'w shell \<Rightarrow> ('w \<Rightarrow> rules) \<Rightarrow> bool" where
  "iptables_laws sh rules \<longleftrightarrow>
     (\<forall>w r. rules (snd (sh ([''iptables'', ''-A''] @ r) w)) =
        (if fst (fst (sh ([''iptables'', ''-A''] @ r) w)) = None
         then add_mset (''filter'', r) (rules w) else rules w))
   \<and> (\<forall>w r. rules (snd (sh ([''iptables'', ''-t'', ''nat'', ''-A''] @ r) w)) =
        (if fst (fst (sh ([''iptables'', ''-t'', ''nat'', ''-A''] @ r) w)) = None
         then add_mset (''nat'', r) (rules w) else rules w))
   \<and> (\<forall>w r. rules (snd (sh ([''iptables'', ''-D''] @ r) w)) = rules w - {#(''filter'', r)#})
   \<and> (\<forall>w r. rules (snd (sh ([''iptables'', ''-t'', ''nat'', ''-D''] @ r) w)) = rules w - {#(''nat'', r)#})
   \<and> (\<forall>w args. rules (snd (sh (''ip'' # args) w)) = rules w)"

lemma run_snd [simp]: "snd (run sh cmd w) = snd (sh cmd w)"
  by (auto simp: run_def split: prod.splits option.splits)

lemma run_None: "fst (run sh cmd w) = None \<longleftrightarrow> fst (fst (sh cmd w)) = None"
  by (auto simp: run_def split: prod.splits option.splits)

lemma run_rules:
  assumes "iptables_laws sh rules"
  shows "rules (snd (run sh ([''iptables'', ''-A''] @ r) w)) =
      (if fst (run sh ([''iptables'', ''-A''] @ r) w) = None then add_mset (''filter'', r) (rules w) else rules w)"
    and "rules (snd (run sh ([''iptables'', ''-t'', ''nat'', ''-A''] @ r) w)) =
      (if fst (run sh ([''iptables'', ''-t'', ''nat'', ''-A''] @ r) w) = None
       then add_mset (''nat'', r) (rules w) else rules w)"
    and "rules (snd (run sh ([''iptables'', ''-D''] @ r) w)) = rules w - {#(''filter'', r)#}"
    and "rules (snd (run sh ([''iptables'', ''-t'', ''nat'', ''-D''] @ r) w)) = rules w - {#(''nat'', r)#}"
    and "rules (snd (run sh (''ip'' # args) w)) = rules w"
  using assms unfolding iptables_laws_def run_snd run_None by blast+

definition host_if :: "string \<Rightarrow> string" where
  "host_if h = (if h = '''' then ''eth0'' else h)"

definition forward_rules :: "slot \<Rightarrow> string \<Rightarrow> rules" where
  "forward_rules s h = {#(''filter'', rule_forward_out s (host_if h)), (''filter'', rule_forward_in s (host_if h))#}"

definition slot_rules :: "slot \<Rightarrow> string \<Rightarrow> rules" where
  "slot_rules s h = add_mset (''nat'', rule_masquerade s (host_if h)) (forward_rules s h)"

lemma DestroyTAP_rules: "iptables_laws sh rules \<Longrightarrow> DestroyTAP sh s w = (e, w') \<Longrightarrow> rules w' = rules w"
  unfolding DestroyTAP_def by (metis run_rules(5) snd_conv)

lemma CreateTAP_rules: "iptables_laws sh rules \<Longrightarrow> CreateTAP sh s w = (e, w') \<Longrightarrow> rules w' = rules w"
proof -
  assume laws: "iptables_laws sh rules" and c: "CreateTAP sh s w = (e, w')"
  have ip: "run sh (''ip'' # args) v = (x, v') \<Longrightarrow> rules v' = rules v" for args v x v'
    using run_rules(5) [OF laws, of args v] by simp
  show ?thesis
    using c unfolding CreateTAP_def Let_def
    by (auto split: prod.splits option.splits dest!: ip DestroyTAP_rules [OF laws])
qed

text \<open>
  Setting up NAT installs the three rules of the slot; a failure leaves the rules installed before
  it in place.
\<close>

lemma SetupNAT_rules:
  assumes laws: "iptables_laws sh rules" and n: "SetupNAT sh s h w = (e, w')"
  shows "(e = None \<and> rules w' = rules w + slot_rules s h)
    \<or> (\<exists>m. e = Some (''forward out: '' @ m) \<and> rules w' = rules w)
    \<or> (\<exists>m. e = Some (''forward in: '' @ m)
        \<and> rules w' = rules w + {#(''filter'', rule_forward_out s (host_if h))#})
    \<or> (\<exists>m. e = Some (''masquerade: '' @ m) \<and> rules w' = rules w + forward_rules s h)"
proof -
  let ?h = "host_if h"
  obtain e1 w1 where r1: "run sh ([''iptables'', ''-A''] @ rule_forward_out s ?h) w = (e1, w1)" by fastforce
  obtain e2 w2 where r2: "run sh ([''iptables'', ''-A''] @ rule_forward_in s ?h) w1 = (e2, w2)" by fastforce
  obtain e3 w3 where r3: "run sh ([''iptables'', ''-t'', ''nat'', ''-A''] @ rule_masquerade s ?h) w2 = (e3, w3)"
    by fastforce
  have m1: "rules w1 = (if e1 = None then add_mset (''filter'', rule_forward_out s ?h) (rules w) else rules w)"
    using run_rules(1) [OF laws, of "rule_forward_out s ?h" w] by (simp only: r1 fst_conv snd_conv)
  have m2: "rules w2 = (if e2 = None then add_mset (''filter'', rule_forward_in s ?h) (rules w1) else rules w1)"
    using run_rules(1) [OF laws, of "rule_forward_in s ?h" w1] by (simp only: r2 fst_conv snd_conv)
  have m3: "rules w3 = (if e3 = None then add_mset (''nat'', rule_masquerade s ?h) (rules w2) else rules w2)"
    using run_rules(2) [OF laws, of "rule_masquerade s ?h" w2] by (simp only: r3 fst_conv snd_conv)
  have "SetupNAT sh s h w = (case e1 of Some e \<Rightarrow> (Some (''forward out: '' @ e), w1) | None \<Rightarrow>
      (case e2 of Some e \<Rightarrow> (Some (''forward in: '' @ e), w2) | None \<Rightarrow>
      (case e3 of Some e \<Rightarrow> (Some (''masquerade: '' @ e), w3) | None \<Rightarrow> (None, w3))))"
    unfolding SetupNAT_def Let_def host_if_def [symmetric] r1 prod.case
    by (cases e1; cases e2) (simp_all only: option.case r2 r3 prod.case)
  with n m1 m2 m3 show ?thesis
    by (auto simp: slot_rules_def forward_rules_def split: option.splits)
qed

lemma TeardownNAT_rules:
  assumes laws: "iptables_laws sh rules" and t: "TeardownNAT sh s h w = (e, w')"
  shows "rules w' = rules w - slot_rules s h"
proof -
  have "rules w' = rules w - {#(''filter'', rule_forward_out s (host_if h))#}
      - {#(''filter'', rule_forward_in s (host_if h))#} - {#(''nat'', rule_masquerade s (host_if h))#}"
    using t unfolding TeardownNAT_def Let_def host_if_def [symmetric]
    by (metis prod.inject run_rules(3,4) [OF laws])
  then show ?thesis by (simp add: slot_rules_def forward_rules_def add_mset_commute)
qed

lemma Release_rules:
  assumes laws: "iptables_laws sh rules" and r: "Release sh s p w = (p', w')"
  shows "rules w' = rules w - slot_rules s (hostInterface p)"
proof -
  obtain t w1 where t: "TeardownNAT sh s (hostInterface p) w = (t, w1)" by fastforce
  obtain d w2 where d: "DestroyTAP sh s w1 = (d, w2)" by fastforce
  from r t d have "w' = w2" by (simp add: Release_def)
  with TeardownNAT_rules [OF laws t] DestroyTAP_rules [OF laws d] show ?thesis by simp
qed

lemma Allocate_rules_ok:
  assumes laws: "iptables_laws sh rules" and a: "Allocate sh p w = (Inr s, p', w')"
  shows "rules w' = rules w + slot_rules s (hostInterface p)"
proof -
  from Allocate_cases [OF a] have nz: "\<not> next_slot p < 0" and s: "s = NewSlot (next_slot p)" by auto
  obtain c w1 where c: "CreateTAP sh (NewSlot (next_slot p)) w = (c, w1)" by fastforce
  obtain n w2 where n: "SetupNAT sh (NewSlot (next_slot p)) (hostInterface p) w1 = (n, w2)" by fastforce
  obtain d w3 where d: "DestroyTAP sh (NewSlot (next_slot p)) w2 = (d, w3)" by fastforce
  from a have "n = None" "w' = w2"
    by (auto simp: Allocate_unfold [OF nz c n d] split: option.splits)
  with SetupNAT_rules [OF laws n] CreateTAP_rules [OF laws c] s show ?thesis by auto
qed

lemma Allocate_rules_masquerade:
  assumes laws: "iptables_laws sh rules"
    and a: "Allocate sh p w = (Inl (''setup NAT: masquerade: '' @ m), p', w')"
  shows "rules w' = rules w + forward_rules (NewSlot (next_slot p)) (hostInterface p)"
proof -
  have nz: "\<not> next_slot p < 0" using a by (auto simp: Allocate_full)
  obtain c w1 where c: "CreateTAP sh (NewSlot (next_slot p)) w = (c, w1)" by fastforce
  obtain n w2 where n: "SetupNAT sh (NewSlot (next_slot p)) (hostInterface p) w1 = (n, w2)" by fastforce
  obtain d w3 where d: "DestroyTAP sh (NewSlot (next_slot p)) w2 = (d, w3)" by fastforce
  from a have "n = Some (''masquerade: '' @ m)" "w' = w3"
    by (auto simp: Allocate_unfold [OF nz c n d] split: option.splits)
  with SetupNAT_rules [OF laws n] CreateTAP_rules [OF laws c] DestroyTAP_rules [OF laws d]
  show ?thesis by auto
qed

section \<open>Concrete hosts, for the witnesses\<close>

definition ok_shell :: "'w shell" where
  "ok_shell cmd w = ((None, ''''), w)"

definition rule_host :: "bool \<Rightarrow> rules shell" where
  "rule_host nat_fails cmd w =
     (if take 2 cmd = [''iptables'', ''-A''] then ((None, ''''), add_mset (''filter'', drop 2 cmd) w)
      else if take 4 cmd = [''iptables'', ''-t'', ''nat'', ''-A''] then
        (if nat_fails then ((Some ''exit status 4'', ''''), w)
         else ((None, ''''), add_mset (''nat'', drop 4 cmd) w))
      else if take 2 cmd = [''iptables'', ''-D''] then ((None, ''''), w - {#(''filter'', drop 2 cmd)#})
      else if take 4 cmd = [''iptables'', ''-t'', ''nat'', ''-D''] then ((None, ''''), w - {#(''nat'', drop 4 cmd)#})
      else ((None, ''''), w))"

lemma rule_host_laws: "iptables_laws (rule_host b) (\<lambda>w. w)"
  by (simp add: iptables_laws_def rule_host_def)

lemma next_slot_New: "mx > 0 \<Longrightarrow> next_slot (NewPool mx h) = 0"
  by (simp add: next_slot_def NewPool_def is_allocated_def first_free.simps)

definition commands_succeed :: "'w shell \<Rightarrow> bool" where
  "commands_succeed sh \<longleftrightarrow> (\<forall>cmd w. fst (fst (sh cmd w)) = None)"

lemma ok_shell_succeeds: "commands_succeed ok_shell"
  by (simp add: commands_succeed_def ok_shell_def)

lemma rule_host_succeeds: "commands_succeed (rule_host False)"
  by (simp add: commands_succeed_def rule_host_def)

lemma run_ok: "commands_succeed sh \<Longrightarrow> run sh cmd w = (None, snd (sh cmd w))"
  by (simp add: prod_eq_iff run_None commands_succeed_def)

lemma CreateTAP_ok: "commands_succeed sh \<Longrightarrow> fst (CreateTAP sh s w) = None"
  by (simp add: CreateTAP_def run_ok)

lemma SetupNAT_ok: "commands_succeed sh \<Longrightarrow> fst (SetupNAT sh s h w) = None"
  by (simp add: SetupNAT_def run_ok Let_def)

lemma Allocate_all_ok:
  assumes "commands_succeed sh" "0 \<le> next_slot p"
  shows "fst (Allocate sh p w) = Inr (NewSlot (next_slot p))
    \<and> fst (snd (Allocate sh p w)) = p\<lparr>allocated := gm_put (next_slot p) True (allocated p)\<rparr>"
proof -
  have nz: "\<not> next_slot p < 0" using assms(2) by simp
  obtain c w1 where c: "CreateTAP sh (NewSlot (next_slot p)) w = (c, w1)" by fastforce
  obtain n w2 where n: "SetupNAT sh (NewSlot (next_slot p)) (hostInterface p) w1 = (n, w2)" by fastforce
  obtain d w3 where d: "DestroyTAP sh (NewSlot (next_slot p)) w2 = (d, w3)" by fastforce
  have "c = None" "n = None"
    using CreateTAP_ok [OF assms(1)] SetupNAT_ok [OF assms(1)] c n by (metis fst_conv)+
  then show ?thesis by (simp add: Allocate_unfold [OF nz c n d])
qed

lemma used_full_iff:
  assumes "pool_inv p"
  shows "next_slot p < 0 \<longleftrightarrow> maxSlots p \<le> int (Count p)"
proof -
  have sub: "used_slots p \<subseteq> {0..<maxSlots p}"
    using assms by (auto simp: pool_inv_def used_slots_def)
  have fin: "finite (used_slots p)" by (simp add: used_slots_def)
  have card: "card (used_slots p) = Count p" using assms by (simp add: Count_used)
  show ?thesis
  proof
    assume "next_slot p < 0"
    then have "{0..<maxSlots p} \<subseteq> used_slots p"
      using first_free_none [of "is_allocated p" 0 "maxSlots p"] is_allocated_iff [OF assms]
      by (auto simp: next_slot_def)
    then have "card {0..<maxSlots p} \<le> Count p" using card fin card_mono by metis
    then show "maxSlots p \<le> int (Count p)" by simp
  next
    assume le: "maxSlots p \<le> int (Count p)"
    then have "card {0..<maxSlots p} \<le> card (used_slots p)" by (simp add: card)
    then have eq: "used_slots p = {0..<maxSlots p}" using sub by (simp add: card_seteq)
    show "next_slot p < 0"
    proof (rule ccontr)
      assume "\<not> next_slot p < 0"
      then have "next_slot p < maxSlots p \<and> \<not> is_allocated p (next_slot p)"
        using first_free_found [of "is_allocated p" 0 "maxSlots p" "next_slot p"]
        by (simp add: next_slot_def)
      with eq \<open>\<not> next_slot p < 0\<close> show False by (simp add: is_allocated_iff [OF assms])
    qed
  qed
qed

section \<open>Properties\<close>

text \<open>
  C16. Two slots that are held at the same time never share a TAP device name, a host address or
  a guest address, after any sequence of allocations and releases on a pool of at most 16384
  slots, whatever the host commands answer.
\<close>

theorem held_slots_disjoint:
  assumes "slot_reach (Allocate sh) (Release sh) (NewPool mx h) held p"
    and "mx \<le> 16384" "s \<in> set held" "t \<in> set held" "s \<noteq> t"
  shows "TAPName s \<noteq> TAPName t \<and> {slot_HostIP s, slot_GuestIP s} \<inter> {slot_HostIP t, slot_GuestIP t} = {}"
proof -
  have "maxSlots (NewPool mx h) \<le> 16384" using assms(2) by (simp add: NewPool_def)
  with net.held_disjoint [OF assms(1) pool_inv_New used_New _ assms(3-5)] show ?thesis by simp
qed

lemma two_slots_reach:
  "\<exists>p. slot_reach (Allocate (ok_shell :: unit shell)) (Release ok_shell) (NewPool 2 ''eth0'') [NewSlot 1, NewSlot 0] p"
proof -
  let ?p0 = "NewPool 2 ''eth0''"
  have n0: "next_slot ?p0 = 0" by (simp add: next_slot_New)
  let ?p1 = "?p0\<lparr>allocated := gm_put 0 True (allocated ?p0)\<rparr>"
  have n1: "next_slot ?p1 = 1"
    by (simp add: next_slot_def is_allocated_def NewPool_def first_free.simps)
  obtain w1 where a0: "Allocate ok_shell ?p0 () = (Inr (NewSlot 0), ?p1, w1)"
    using Allocate_all_ok [OF ok_shell_succeeds, of ?p0 "()"] n0
    by (metis prod.collapse order_refl)
  obtain p2 w2 where a1: "Allocate ok_shell ?p1 () = (Inr (NewSlot 1), p2, w2)"
    using Allocate_all_ok [OF ok_shell_succeeds, of ?p1 "()"] n1
    by (metis prod.collapse zero_le_one)
  have "slot_reach (Allocate (ok_shell :: unit shell)) (Release ok_shell) ?p0 [NewSlot 0] ?p1"
    using slot_reach.start a0 by (rule slot_reach.allocate)
  then have "slot_reach (Allocate (ok_shell :: unit shell)) (Release ok_shell) ?p0 [NewSlot 1, NewSlot 0] p2"
    using a1 by (rule slot_reach.allocate)
  then show ?thesis by blast
qed

lemma held_slots_disjoint_witness:
  "TAPName (NewSlot 1) \<noteq> TAPName (NewSlot 0)
    \<and> {slot_HostIP (NewSlot 1), slot_GuestIP (NewSlot 1)}
      \<inter> {slot_HostIP (NewSlot 0), slot_GuestIP (NewSlot 0)} = {}"
proof -
  obtain p where r: "slot_reach (Allocate (ok_shell :: unit shell)) (Release ok_shell) (NewPool 2 ''eth0'') [NewSlot 1, NewSlot 0] p"
    using two_slots_reach by blast
  have "NewSlot 1 \<noteq> NewSlot 0" by (metis NewSlot_ID zero_neq_one)
  with held_slots_disjoint [OF r, of "NewSlot 1" "NewSlot 0"] show ?thesis by simp
qed

text \<open>
  The addresses of a slot repeat with period 16384: two indices give the same guest address,
  and the same host address, exactly when they agree modulo 16384. A pool larger than that hands
  out one address twice.
\<close>

theorem NewSlot_addresses_period:
  "(slot_GuestIP (NewSlot i) = slot_GuestIP (NewSlot j) \<longleftrightarrow> i mod 16384 = j mod 16384)
   \<and> (slot_HostIP (NewSlot i) = slot_HostIP (NewSlot j) \<longleftrightarrow> i mod 16384 = j mod 16384)
   \<and> slot_GuestIP (NewSlot i) \<noteq> slot_HostIP (NewSlot j)"
  by (simp add: NewSlot_GuestIP_eq NewSlot_HostIP_eq NewSlot_host_guest_differ [symmetric])

text \<open>
  C24. On a host whose commands succeed, an allocation succeeds exactly when fewer slots are in
  use than the pool has; it then returns the lowest index not in use and the count grows by one.
\<close>

theorem Allocate_lowest_free:
  assumes "pool_inv p" and "commands_succeed sh"
    and "Allocate sh p w = (r, p', w')"
  shows "(int (Count p) < maxSlots p \<longrightarrow>
      (\<exists>s. r = Inr s \<and> s = NewSlot (slot_ID s) \<and> slot_ID s \<notin> used_slots p \<and> slot_ID s < maxSlots p
        \<and> (\<forall>j. 0 \<le> j \<and> j < slot_ID s \<longrightarrow> j \<in> used_slots p) \<and> pool_inv p' \<and> Count p' = Suc (Count p)))
    \<and> (maxSlots p \<le> int (Count p) \<longrightarrow>
      r = Inl (''no free network slots (max '' @ dec (maxSlots p) @ '')'') \<and> p' = p \<and> w' = w)"
proof (cases "maxSlots p \<le> int (Count p)")
  case True
  then have "next_slot p < 0" using used_full_iff [OF assms(1)] by simp
  then have "Allocate sh p w = (Inl (''no free network slots (max '' @ dec (maxSlots p) @ '')''), p, w)"
    by (rule Allocate_full)
  with assms(3) have "r = Inl (''no free network slots (max '' @ dec (maxSlots p) @ '')'')" "p' = p" "w' = w"
    by auto
  with True show ?thesis by simp
next
  case False
  then have nn: "0 \<le> next_slot p" using used_full_iff [OF assms(1)] by linarith
  from Allocate_all_ok [OF assms(2) nn, of w] assms(3)
  have r: "r = Inr (NewSlot (next_slot p))" by simp
  from Allocate_ok [OF assms(1)] assms(3) r
  have a: "pool_inv p'" "next_slot p \<notin> used_slots p" "next_slot p < maxSlots p"
    "used_slots p' = insert (next_slot p) (used_slots p)" by fastforce+
  have "\<forall>j. 0 \<le> j \<and> j < next_slot p \<longrightarrow> j \<in> used_slots p"
    using first_free_found [of "is_allocated p" 0 "maxSlots p" "next_slot p"] nn
      is_allocated_iff [OF assms(1)] by (simp add: next_slot_def)
  moreover have "Count p' = Suc (Count p)"
    using a by (simp add: Count_used [OF assms(1)] Count_used [OF a(1)] used_slots_def)
  ultimately show ?thesis using False r a by simp
qed

lemma Allocate_lowest_free_witness:
  "\<exists>s p' w'. Allocate ok_shell (NewPool 3 ''eth0'') () = (Inr s, p', w') \<and> Count p' = 1"
proof -
  obtain r p' w' where a: "Allocate ok_shell (NewPool 3 ''eth0'') () = (r, p', w')"
    by (metis prod_cases3)
  have "int (Count (NewPool 3 ''eth0'')) < maxSlots (NewPool 3 ''eth0'')"
    "Count (NewPool 3 ''eth0'') = 0" by (simp_all add: Count_def NewPool_def)
  with Allocate_lowest_free [OF pool_inv_New ok_shell_succeeds a] a show ?thesis by auto
qed

text \<open>
  C23. Releasing a slot right after it was allocated restores the host's iptables rules and the
  set of slots in use.
\<close>

theorem Allocate_Release_restores:
  assumes "iptables_laws sh rules" "pool_inv p"
    and "Allocate sh p w = (Inr s, p1, w1)" "Release sh s p1 w1 = (p2, w2)"
  shows "rules w2 = rules w \<and> used_slots p2 = used_slots p \<and> Count p2 = Count p"
proof -
  from Allocate_ok [OF assms(2,3)] have a: "pool_inv p1" "slot_ID s \<notin> used_slots p"
    "used_slots p1 = insert (slot_ID s) (used_slots p)" by auto
  from Release_frees [OF a(1) assms(4)] a have u: "used_slots p2 = used_slots p" "pool_inv p2" by auto
  have "hostInterface p1 = hostInterface p" using Allocate_cases [OF assms(3)] by auto
  with Allocate_rules_ok [OF assms(1,3)] Release_rules [OF assms(1,4)] have "rules w2 = rules w" by simp
  with u show ?thesis by (simp add: Count_used assms(2))
qed

lemma Allocate_Release_restores_witness:
  "\<exists>s p1 w1 p2 w2. Allocate (rule_host False) (NewPool 3 ''eth0'') {#} = (Inr s, p1, w1)
     \<and> Release (rule_host False) s p1 w1 = (p2, w2) \<and> w2 = {#}"
proof -
  have nn: "0 \<le> next_slot (NewPool 3 ''eth0'')" by (simp add: next_slot_New)
  obtain s p1 w1 where a: "Allocate (rule_host False) (NewPool 3 ''eth0'') {#} = (Inr s, p1, w1)"
    using Allocate_all_ok [OF rule_host_succeeds nn] by (metis prod.collapse)
  obtain p2 w2 where r: "Release (rule_host False) s p1 w1 = (p2, w2)" by fastforce
  from Allocate_Release_restores [OF rule_host_laws pool_inv_New a r] a r show ?thesis by blast
qed

text \<open>
  C39. When the last iptables command of an allocation fails, the allocation fails and the pool
  is unchanged, but the two forwarding rules installed before stay on the host: only the TAP
  device is removed.
\<close>

theorem Allocate_failure_leaks_rules:
  assumes "iptables_laws sh rules"
    and "Allocate sh p w = (Inl (''setup NAT: masquerade: '' @ m), p', w')"
  shows "p' = p \<and> rules w' = rules w
      + {#(''filter'', rule_forward_out (NewSlot (next_slot p)) (host_if (hostInterface p))),
          (''filter'', rule_forward_in (NewSlot (next_slot p)) (host_if (hostInterface p)))#}"
  using Allocate_rules_masquerade [OF assms] Allocate_cases [OF assms(2)]
  by (auto simp: forward_rules_def)

lemma Allocate_failure_leaks_rules_witness:
  "\<exists>e w'. Allocate (rule_host True) (NewPool 3 ''eth0'') {#} = (Inl e, NewPool 3 ''eth0'', w') \<and> w' \<noteq> {#}"
proof -
  let ?p = "NewPool 3 ''eth0''"
  have nz: "\<not> next_slot ?p < 0" by (simp add: next_slot_New)
  obtain c w1 where c: "CreateTAP (rule_host True) (NewSlot (next_slot ?p)) {#} = (c, w1)" by fastforce
  obtain n w2 where n: "SetupNAT (rule_host True) (NewSlot (next_slot ?p)) (hostInterface ?p) w1 = (n, w2)" by fastforce
  obtain d w3 where d: "DestroyTAP (rule_host True) (NewSlot (next_slot ?p)) w2 = (d, w3)" by fastforce
  have c0: "c = None"
    using c by (auto simp: CreateTAP_def run_def rule_host_def split: prod.splits)
  obtain m where "n = Some (''masquerade: '' @ m)"
    using n by (auto simp: SetupNAT_def NewPool_def run_def rule_host_def Let_def
        rule_forward_out_def rule_forward_in_def rule_masquerade_def split: prod.splits)
  then have "Allocate (rule_host True) ?p {#} = (Inl (''setup NAT: masquerade: '' @ m), ?p, w3)"
    using c0 by (simp add: Allocate_unfold [OF nz c n d])
  with Allocate_failure_leaks_rules [OF rule_host_laws this] show ?thesis by auto
qed

end
