(* ===== verification/Go_Http.thy ===== *)
theory Go_Http
  imports Go_Base
begin

text \<open>
  JSON values and HTTP messages, as the handlers and clients of the repository use them: the
  body of a request is the JSON value it decodes to (or the decoder's error), a response has a
  status, headers and a body, and a client call is a function of an abstract network world.
\<close>

section \<open>JSON\<close>

datatype json =
    JNull
  | JBool bool
  | JInt int
  | JStr string
  | JArr "json list"
  | JObj "(string \<times> json) list"

definition jstr_map :: "(string, string) gomap \<Rightarrow> json" where
  "jstr_map m = JObj (map (\<lambda>(k, v). (k, JStr v)) m)"

text \<open>
  Decoding into the fields of a Go struct: an absent or null field keeps its zero value, a field
  of another type is an error. An integer must fit 64 bits. A map may be absent (\<open>nil\<close>).
\<close>

definition jfield :: "string \<Rightarrow> json \<Rightarrow> json option" where
  "jfield k j = (case j of JObj fs \<Rightarrow> map_of (rev fs) k | _ \<Rightarrow> None)"

definition unmarshal_error :: "string \<Rightarrow> string" where
  "unmarshal_error k = ''json: cannot unmarshal value into Go struct field '' @ k"

definition dec_string :: "string \<Rightarrow> json \<Rightarrow> string + string" where
  "dec_string k j =
     (case jfield k j of
        None \<Rightarrow> Inr ''''
      | Some JNull \<Rightarrow> Inr ''''
      | Some (JStr s) \<Rightarrow> Inr s
      | Some _ \<Rightarrow> Inl (unmarshal_error k))"

definition dec_int :: "string \<Rightarrow> json \<Rightarrow> string + int" where
  "dec_int k j =
     (case jfield k j of
        None \<Rightarrow> Inr 0
      | Some JNull \<Rightarrow> Inr 0
      | Some (JInt i) \<Rightarrow> (if - (2 ^ 63) \<le> i \<and> i < 2 ^ 63 then Inr i else Inl (unmarshal_error k))
      | Some _ \<Rightarrow> Inl (unmarshal_error k))"

fun dec_entries :: "string \<Rightarrow> (string \<times> json) list \<Rightarrow> (string, string) gomap \<Rightarrow> string + (string, string) gomap" where
  "dec_entries k [] m = Inr m"
| "dec_entries k ((x, JStr s) # fs) m = dec_entries k fs (gm_put x s m)"
| "dec_entries k ((x, JNull) # fs) m = dec_entries k fs (gm_put x '''' m)"
| "dec_entries k ((x, _) # fs) m = Inl (unmarshal_error k)"

definition dec_map :: "string \<Rightarrow> json \<Rightarrow> string + (string, string) gomap option" where
  "dec_map k j =
     (case jfield k j of
        None \<Rightarrow> Inr None
      | Some JNull \<Rightarrow> Inr None
      | Some (JObj fs) \<Rightarrow> bind_res (dec_entries k fs []) (\<lambda>m. Inr (Some m))
      | Some _ \<Rightarrow> Inl (unmarshal_error k))"

text \<open>The value decoded must be an object, or null (which leaves the zero struct).\<close>

definition dec_object :: "string + json \<Rightarrow> string + json" where
  "dec_object b =
     (case b of
        Inl e \<Rightarrow> Inl e
      | Inr (JObj fs) \<Rightarrow> Inr (JObj fs)
      | Inr JNull \<Rightarrow> Inr JNull
      | Inr _ \<Rightarrow> Inl ''json: cannot unmarshal value into Go value'')"

text \<open>A list decoded element by element, up to the first error.\<close>

fun traverse :: "('a \<Rightarrow> 'e + 'b) \<Rightarrow> 'a list \<Rightarrow> 'e + 'b list" where
  "traverse f [] = Inr []"
| "traverse f (x # xs) = bind_res (f x) (\<lambda>y. bind_res (traverse f xs) (\<lambda>ys. Inr (y # ys)))"

text \<open>A list field of objects, and an object field.\<close>

definition dec_objects :: "string \<Rightarrow> json \<Rightarrow> string + json list" where
  "dec_objects k j =
     (case jfield k j of
        None \<Rightarrow> Inr []
      | Some JNull \<Rightarrow> Inr []
      | Some (JArr xs) \<Rightarrow> traverse (\<lambda>x. dec_object (Inr x)) xs
      | Some _ \<Rightarrow> Inl (unmarshal_error k))"

definition dec_sub :: "string \<Rightarrow> json \<Rightarrow> string + json" where
  "dec_sub k j = (case jfield k j of None \<Rightarrow> Inr JNull | Some x \<Rightarrow> dec_object (Inr x))"

definition dec_top_list :: "json \<Rightarrow> string + json list" where
  "dec_top_list j =
     (case j of
        JNull \<Rightarrow> Inr []
      | JArr xs \<Rightarrow> traverse (\<lambda>x. dec_object (Inr x)) xs
      | _ \<Rightarrow> Inl ''json: cannot unmarshal value into Go value'')"

lemma jstr_map_decode: "gm_wf m \<Longrightarrow> gm_wf (acc @ m) \<Longrightarrow>
    dec_entries k (map (\<lambda>(k, v). (k, JStr v)) m) acc = Inr (acc @ m)"
proof (induction m arbitrary: acc)
  case Nil
  then show ?case by simp
next
  case (Cons kv m)
  obtain a b where kv: "kv = (a, b)" by (cases kv)
  have "a \<notin> gm_keys acc" using Cons.prems kv by auto
  then have "gm_put a b acc = acc @ [(a, b)]"
    by (induction acc) auto
  then show ?case using Cons.IH [of "acc @ [(a, b)]"] Cons.prems kv by simp
qed

lemma dec_map_jstr_map: "gm_wf m \<Longrightarrow> jfield k j = Some (jstr_map m) \<Longrightarrow> dec_map k j = Inr (Some m)"
  using jstr_map_decode [of m "[]" k] by (simp add: dec_map_def jstr_map_def)

section \<open>HTTP messages\<close>

text \<open>\<open>BEvents\<close> is a stream of server-sent events, one JSON value each.\<close>

datatype body = BJson json | BRaw string | BEvents "json list" | BEmpty

record response =
  status :: nat
  rheaders :: "(string \<times> string) list"
  rbody :: body

text \<open>
  A request as a handler sees it. \<open>rq_header\<close> and \<open>rq_cookie\<close> answer lookups
  (\<open>Header.Get\<close> gives the empty string for a missing header), \<open>rq_path\<close> is the URL path,
  \<open>rq_vars\<close> holds the wildcards of the matched pattern (\<open>PathValue\<close>), \<open>rq_query\<close> is the raw query,
  \<open>rq_params\<close> its decoded parameters and \<open>rq_json\<close> the decoded body.
\<close>

record request =
  rq_method :: string
  rq_path :: string
  rq_header :: "(string, string) gomap"
  rq_cookie :: "(string, string) gomap"
  rq_vars :: "(string, string) gomap"
  rq_query :: string
  rq_params :: "(string, string) gomap"
  rq_json :: "string + json"
  rq_raw :: string

definition get_or_empty :: "(string, string) gomap \<Rightarrow> string \<Rightarrow> string" where
  "get_or_empty m k = (case gm_get m k of None \<Rightarrow> '''' | Some v \<Rightarrow> v)"

definition empty_request :: request where
  "empty_request = \<lparr>rq_method = ''GET'', rq_path = ''/'', rq_header = [], rq_cookie = [], rq_vars = [],
     rq_query = '''', rq_params = [], rq_json = Inl ''EOF'', rq_raw = ''''\<rparr>"

text \<open>An outgoing request of package \<open>net/http\<close>, and a client: the response or the transport error.\<close>

record out_request =
  oq_method :: string
  oq_url :: string
  oq_headers :: "(string \<times> string) list"
  oq_body :: body

type_synonym 'w http_client = "out_request \<Rightarrow> 'w \<Rightarrow> (string + response) \<times> 'w"

text \<open>The same client, noting its requests, latest first.\<close>

definition recording :: "'w http_client \<Rightarrow> ('w \<times> out_request list) http_client" where
  "recording cl q wl = (let (res, w1) = cl q (fst wl) in (res, (w1, q # snd wl)))"

lemma recording_eq: "recording cl q wl = (fst (cl q (fst wl)), (snd (cl q (fst wl)), q # snd wl))"
  by (simp add: recording_def Let_def case_prod_unfold)

definition json_response :: "nat \<Rightarrow> json \<Rightarrow> response" where
  "json_response st j = \<lparr>status = st, rheaders = [(''Content-Type'', ''application/json'')], rbody = BJson j\<rparr>"

lemma status_json_response [simp]: "status (json_response st j) = st"
  by (simp add: json_response_def)

lemma rbody_json_response [simp]: "rbody (json_response st j) = BJson j"
  by (simp add: json_response_def)

lemma json_response_eq [simp]: "json_response s j = json_response s' j' \<longleftrightarrow> s = s' \<and> j = j'"
  by (auto simp: json_response_def)

text \<open>Copying the headers of a response with \<open>Set\<close>: the last value of each name stays.\<close>

definition set_headers :: "(string \<times> string) list \<Rightarrow> (string \<times> string) list" where
  "set_headers hs = fold (\<lambda>(k, v) m. gm_put k v m) hs []"

abbreviation http_ok :: nat where "http_ok \<equiv> 200"
abbreviation http_created :: nat where "http_created \<equiv> 201"
abbreviation http_no_content :: nat where "http_no_content \<equiv> 204"
abbreviation http_bad_request :: nat where "http_bad_request \<equiv> 400"
abbreviation http_unauthorized :: nat where "http_unauthorized \<equiv> 401"
abbreviation http_not_found :: nat where "http_not_found \<equiv> 404"
abbreviation http_conflict :: nat where "http_conflict \<equiv> 409"
abbreviation http_internal :: nat where "http_internal \<equiv> 500"
abbreviation http_bad_gateway :: nat where "http_bad_gateway \<equiv> 502"
abbreviation http_unavailable :: nat where "http_unavailable \<equiv> 503"

section \<open>Bodies as text\<close>

text \<open>
  The text of a string as \<open>encoding/json\<close> writes it: control characters, the quote, the backslash and
  the characters of HTML are escaped, so are U+2028 and U+2029, and a byte that belongs to no rune
  becomes the escape of U+FFFD. The line feed that an \<open>Encoder\<close> adds after a value is left out.
\<close>

definition hex_escape :: "nat \<Rightarrow> string" where
  "hex_escape n = char_of (92 :: nat) # ''u00'' @ [digit_lower (n div 16), digit_lower (n mod 16)]"

definition json_char :: "char \<Rightarrow> string" where
  "json_char c =
     (let n = (of_char c :: nat); bs = char_of (92 :: nat) in
      if n = 34 \<or> n = 92 then [bs, c]
      else if n = 8 then bs # ''b'' else if n = 9 then bs # ''t'' else if n = 10 then bs # ''n''
      else if n = 12 then bs # ''f'' else if n = 13 then bs # ''r''
      else if n < 32 \<or> c \<in> {CHR ''<'', CHR ''>'', CHR ''&''} then hex_escape n
      else [c])"

definition json_rune :: "string option \<Rightarrow> string" where
  "json_rune r =
     (case r of
        None \<Rightarrow> char_of (92 :: nat) # ''ufffd''
      | Some bytes \<Rightarrow>
          if bytes = [CHR 0xE2, CHR 0x80, CHR 0xA8] then char_of (92 :: nat) # ''u2028''
          else if bytes = [CHR 0xE2, CHR 0x80, CHR 0xA9] then char_of (92 :: nat) # ''u2029''
          else concat (map json_char bytes))"

definition json_string :: "string \<Rightarrow> string" where
  "json_string s = char_of (34 :: nat) # concat (map json_rune (runes s)) @ [char_of (34 :: nat)]"

fun json_text :: "json \<Rightarrow> string" where
  "json_text JNull = ''null''"
| "json_text (JBool b) = (if b then ''true'' else ''false'')"
| "json_text (JInt i) = dec i"
| "json_text (JStr s) = json_string s"
| "json_text (JArr js) = ''['' @ join '','' (map json_text js) @ '']''"
| "json_text (JObj fs) = ''{'' @ join '','' (map (\<lambda>(k, j). json_string k @ '':'' @ json_text j) fs) @ ''}''"

definition body_text :: "body \<Rightarrow> string" where
  "body_text b =
     (case b of
        BJson j \<Rightarrow> json_text j
      | BRaw s \<Rightarrow> s
      | BEvents js \<Rightarrow> concat (map (\<lambda>j. ''data: '' @ json_text j @ [CHR 0x0A, CHR 0x0A]) js)
      | BEmpty \<Rightarrow> '''')"

end
