(* ===== verification/Runtime_Iface.thy ===== *)
theory Runtime_Iface
  imports Go_Http
begin

text \<open>
  Package \<open>runtime\<close>: the interface every sandbox backend implements, as the record of its methods
  over an abstract backend state \<open>'r\<close>, and the two contracts the orchestrator relies on, as
  locales. \<open>runtime_backend\<close> is what every backend gives; \<open>tracked_backend\<close> adds what a
  backend gives that knows its own sandboxes (the Firecracker runtime keeps them in a map).
\<close>

record create_opts =
  co_ID :: string
  co_Template :: string
  co_VCPUs :: int
  co_MemoryMB :: int
  co_EnvVars :: "(string, string) gomap"

record sandbox =
  sb_ID :: string
  sb_State :: string
  sb_Runtime :: string
  sb_IP :: string
  sb_AgentURL :: string

record snapshot_info =
  si_ID :: string
  si_SandboxID :: string
  si_CreatedAt :: string
  si_SizeMB :: int

record 'r runtime =
  rt_Name :: string
  rt_Create :: "create_opts \<Rightarrow> 'r \<Rightarrow> (string + sandbox) \<times> 'r"
  rt_Start :: "string \<Rightarrow> 'r \<Rightarrow> string option \<times> 'r"
  rt_Stop :: "string \<Rightarrow> 'r \<Rightarrow> string option \<times> 'r"
  rt_Destroy :: "string \<Rightarrow> 'r \<Rightarrow> string option \<times> 'r"
  rt_Pause :: "string \<Rightarrow> 'r \<Rightarrow> string option \<times> 'r"
  rt_Resume :: "string \<Rightarrow> 'r \<Rightarrow> string option \<times> 'r"
  rt_Get :: "string \<Rightarrow> 'r \<Rightarrow> (string + sandbox) \<times> 'r"
  rt_List :: "'r \<Rightarrow> (string + sandbox list) \<times> 'r"
  rt_AgentURL :: "string \<Rightarrow> 'r \<Rightarrow> (string + string) \<times> 'r"
  rt_Snapshot :: "string \<Rightarrow> string \<Rightarrow> 'r \<Rightarrow> string option \<times> 'r"
  rt_Restore :: "string \<Rightarrow> string \<Rightarrow> 'r \<Rightarrow> (string + sandbox) \<times> 'r"
  rt_DeleteSnapshot :: "string \<Rightarrow> 'r \<Rightarrow> string option \<times> 'r"
  rt_ListSnapshots :: "string \<Rightarrow> 'r \<Rightarrow> (string + snapshot_info list) \<times> 'r"

text \<open>Every backend: a sandbox it returns carries the requested name and is running.\<close>

locale runtime_backend =
  fixes rt :: "'r runtime"
  assumes create_sandbox: "rt_Create rt opts r = (Inr sb, r') \<Longrightarrow>
      sb_ID sb = co_ID opts \<and> sb_State sb = ''running'' \<and> sb_Runtime sb = rt_Name rt"
    and restore_sandbox: "rt_Restore rt snap newID r = (Inr sb, r') \<Longrightarrow>
      sb_ID sb = newID \<and> sb_State sb = ''running'' \<and> sb_Runtime sb = rt_Name rt"

text \<open>
  A backend that tracks its sandboxes: \<open>live\<close> are the names of the sandboxes that exist, \<open>ok\<close> its
  invariant, and \<open>env\<close> the changes of the outside world it tolerates between calls (the agents'
  HTTP traffic through \<open>cl\<close> is one of them).
\<close>

locale tracked_backend = runtime_backend rt for rt :: "'r runtime" +
  fixes cl :: "'r http_client"
    and live :: "'r \<Rightarrow> string set"
    and ok :: "'r \<Rightarrow> bool"
    and env :: "'r \<Rightarrow> 'r \<Rightarrow> bool"
  assumes create_live: "ok r \<Longrightarrow> co_ID opts \<notin> live r \<Longrightarrow> rt_Create rt opts r = (res, r') \<Longrightarrow>
      ok r' \<and> live r' = (case res of Inl e \<Rightarrow> live r | Inr sb \<Rightarrow> insert (co_ID opts) (live r))"
    and restore_live: "ok r \<Longrightarrow> newID \<notin> live r \<Longrightarrow> rt_Restore rt snap newID r = (res, r') \<Longrightarrow>
      ok r' \<and> live r' = (case res of Inl e \<Rightarrow> live r | Inr sb \<Rightarrow> insert newID (live r))"
    and destroy_live: "ok r \<Longrightarrow> rt_Destroy rt i r = (e, r') \<Longrightarrow>
      ok r' \<and> live r' = live r - {i} \<and> (e = None \<longleftrightarrow> i \<in> live r)"
    and pause_live: "ok r \<Longrightarrow> rt_Pause rt i r = (e, r') \<Longrightarrow>
      ok r' \<and> live r' = live r \<and> (e = None \<longleftrightarrow> i \<in> live r)"
    and resume_live: "ok r \<Longrightarrow> rt_Resume rt i r = (e, r') \<Longrightarrow>
      ok r' \<and> live r' = live r \<and> (e = None \<longleftrightarrow> i \<in> live r)"
    and snapshot_live: "ok r \<Longrightarrow> rt_Snapshot rt i snap r = (e, r') \<Longrightarrow> ok r' \<and> live r' = live r"
    and delete_snapshot_live: "ok r \<Longrightarrow> rt_DeleteSnapshot rt snap r = (e, r') \<Longrightarrow> ok r' \<and> live r' = live r"
    and list_snapshots_live: "ok r \<Longrightarrow> rt_ListSnapshots rt i r = (infos, r') \<Longrightarrow> ok r' \<and> live r' = live r"
    and env_live: "ok r \<Longrightarrow> env r r' \<Longrightarrow> ok r' \<and> live r' = live r"
    and client_env: "cl q r = (resp, r') \<Longrightarrow> env r r'"

end
