(* ===== verification/Orchestrator.thy ===== *)
theory Orchestrator
  imports Runtime_Iface
begin

text \<open>
  Package \<open>orchestrator\<close>: the instance store (\<open>state.go\<close>), the sandbox life cycle
  (\<open>orchestrator.go\<close>) and the expiry loop (\<open>cleanup.go\<close>) over any runtime backend. The state is the
  configuration, the store and the state of the backend; the backend's methods \<open>rt\<close>, the HTTP
  client \<open>cl\<close>, the generated identifier and the clock are arguments of the operations that use them.
\<close>

section \<open>The store\<close>

record VMInstance =
  vi_ID :: string
  vi_State :: string
  vi_Runtime :: string
  vi_Template :: string
  vi_VCPUs :: int
  vi_MemoryMB :: int
  vi_CreatedAt :: time
  vi_ExpiresAt :: time
  vi_Metadata :: "(string, string) gomap"
  vi_AgentURL :: string
  vi_GuestIP :: string

type_synonym VMStore = "(string, VMInstance) gomap"

definition NewVMStore :: VMStore where
  "NewVMStore = []"

definition store_Put :: "VMInstance \<Rightarrow> VMStore \<Rightarrow> VMStore" where
  "store_Put inst s = gm_put (vi_ID inst) inst s"

definition store_Get :: "VMStore \<Rightarrow> string \<Rightarrow> VMInstance option" where
  "store_Get s i = gm_get s i"

definition store_Delete :: "string \<Rightarrow> VMStore \<Rightarrow> VMStore" where
  "store_Delete i s = gm_del i s"

definition store_List :: "VMStore \<Rightarrow> VMInstance list" where
  "store_List s = map snd s"

definition is_expired :: "time \<Rightarrow> VMInstance \<Rightarrow> bool" where
  "is_expired now vm \<longleftrightarrow> vi_ExpiresAt vm \<noteq> zero_time \<and> now > vi_ExpiresAt vm"

definition store_Expired :: "time \<Rightarrow> VMStore \<Rightarrow> VMInstance list" where
  "store_Expired now s = filter (is_expired now) (map snd s)"

definition store_Count :: "VMStore \<Rightarrow> int" where
  "store_Count s = int (length s)"

section \<open>The orchestrator\<close>

record orch_config =
  cf_DataDir :: string
  cf_MaxVMs :: int
  cf_DefaultTimeoutSec :: int
  cf_FirecrackerBin :: string
  cf_HostInterface :: string

definition DefaultOrchestratorConfig :: orch_config where
  "DefaultOrchestratorConfig = \<lparr>cf_DataDir = ''/tmp/gitvm'', cf_MaxVMs = 50,
     cf_DefaultTimeoutSec = 300, cf_FirecrackerBin = ''firecracker'', cf_HostInterface = ''eth0''\<rparr>"

record CreateRequest =
  cr_Template :: string
  cr_VCPUs :: int
  cr_MemoryMB :: int
  cr_Timeout :: int
  cr_Metadata :: "(string, string) gomap"
  cr_EnvVars :: "(string, string) gomap"

record 'r orch =
  config :: orch_config
  store :: VMStore
  backend :: 'r

definition NewOrch :: "orch_config \<Rightarrow> 'r \<Rightarrow> 'r orch" where
  "NewOrch cfg r = \<lparr>config = cfg, store = NewVMStore, backend = r\<rparr>"

text \<open>Best effort: the response, or the transport error, is dropped.\<close>

definition initAgent :: "'r http_client \<Rightarrow> string \<Rightarrow> (string, string) gomap \<Rightarrow> 'r \<Rightarrow> 'r" where
  "initAgent cl agentURL envVars r =
     snd (cl \<lparr>oq_method = ''POST'', oq_url = agentURL @ ''/init'',
              oq_headers = [(''Content-Type'', ''application/json'')],
              oq_body = BJson (JObj [(''envVars'', jstr_map envVars)])\<rparr> r)"

definition sandbox_id :: "string \<Rightarrow> string" where
  "sandbox_id uuid = ''sb-'' @ take 8 uuid"

text \<open>
  \<open>Create\<close> and \<open>Restore\<close> read the number of entries once, before the boot, and store the new entry
  after it: \<open>check_capacity\<close> is the check, \<open>CreateAdmitted\<close> and \<open>RestoreAdmitted\<close> what follows it.
\<close>

definition check_capacity :: "'r orch \<Rightarrow> string option" where
  "check_capacity orc =
     (if store_Count (store orc) \<ge> cf_MaxVMs (config orc)
      then Some (''max sandboxes reached ('' @ dec (cf_MaxVMs (config orc)) @ '')'')
      else None)"

definition CreateAdmitted ::
  "'r runtime \<Rightarrow> 'r http_client \<Rightarrow> string \<Rightarrow> time \<Rightarrow> CreateRequest \<Rightarrow> 'r orch \<Rightarrow> (string + VMInstance) \<times> 'r orch" where
  "CreateAdmitted rt cl uuid now req orc =
     (let templateName = (if cr_Template req = '''' then ''base'' else cr_Template req);
          vcpus = (if cr_VCPUs req > 0 then cr_VCPUs req else 1);
          memoryMB = (if cr_MemoryMB req > 0 then cr_MemoryMB req else 512);
          timeout = (if cr_Timeout req > 0 then cr_Timeout req else cf_DefaultTimeoutSec (config orc));
          i = sandbox_id uuid
      in case rt_Create rt \<lparr>co_ID = i, co_Template = templateName, co_VCPUs = vcpus,
                           co_MemoryMB = memoryMB, co_EnvVars = cr_EnvVars req\<rparr> (backend orc) of
           (Inl e, r1) \<Rightarrow> (Inl (''create sandbox: '' @ e), orc\<lparr>backend := r1\<rparr>)
         | (Inr sb, r1) \<Rightarrow>
             let r2 = (if length (cr_EnvVars req) > 0
                       then initAgent cl (sb_AgentURL sb) (cr_EnvVars req) r1 else r1);
                 inst = \<lparr>vi_ID = i, vi_State = ''running'', vi_Runtime = rt_Name rt,
                         vi_Template = templateName, vi_VCPUs = vcpus, vi_MemoryMB = memoryMB,
                         vi_CreatedAt = now, vi_ExpiresAt = now + duration_seconds timeout,
                         vi_Metadata = cr_Metadata req, vi_AgentURL = sb_AgentURL sb,
                         vi_GuestIP = sb_IP sb\<rparr>
             in (Inr inst, orc\<lparr>store := store_Put inst (store orc), backend := r2\<rparr>))"

definition Create ::
  "'r runtime \<Rightarrow> 'r http_client \<Rightarrow> string \<Rightarrow> time \<Rightarrow> CreateRequest \<Rightarrow> 'r orch \<Rightarrow> (string + VMInstance) \<times> 'r orch" where
  "Create rt cl uuid now req orc =
     (case check_capacity orc of
        Some e \<Rightarrow> (Inl e, orc)
      | None \<Rightarrow> CreateAdmitted rt cl uuid now req orc)"

definition not_found :: "string \<Rightarrow> string" where
  "not_found i = ''sandbox not found: '' @ i"

text \<open>An error of the backend is logged and the entry is removed all the same.\<close>

definition Delete :: "'r runtime \<Rightarrow> string \<Rightarrow> 'r orch \<Rightarrow> string option \<times> 'r orch" where
  "Delete rt i orc =
     (case store_Get (store orc) i of
        None \<Rightarrow> (Some (not_found i), orc)
      | Some inst \<Rightarrow>
          let (_, r1) = rt_Destroy rt i (backend orc)
          in (None, orc\<lparr>store := store_Delete i (store orc), backend := r1\<rparr>))"

definition Pause :: "'r runtime \<Rightarrow> string \<Rightarrow> 'r orch \<Rightarrow> string option \<times> 'r orch" where
  "Pause rt i orc =
     (case store_Get (store orc) i of
        None \<Rightarrow> (Some (not_found i), orc)
      | Some inst \<Rightarrow>
          if vi_State inst \<noteq> ''running''
          then (Some (''sandbox '' @ i @ '' is not running (status: '' @ vi_State inst @ '')''), orc)
          else case rt_Pause rt i (backend orc) of
                 (Some e, r1) \<Rightarrow> (Some e, orc\<lparr>backend := r1\<rparr>)
               | (None, r1) \<Rightarrow>
                   (None, orc\<lparr>store := store_Put (inst\<lparr>vi_State := ''paused''\<rparr>) (store orc), backend := r1\<rparr>))"

definition Resume :: "'r runtime \<Rightarrow> string \<Rightarrow> 'r orch \<Rightarrow> string option \<times> 'r orch" where
  "Resume rt i orc =
     (case store_Get (store orc) i of
        None \<Rightarrow> (Some (not_found i), orc)
      | Some inst \<Rightarrow>
          if vi_State inst \<noteq> ''paused''
          then (Some (''sandbox '' @ i @ '' is not paused (status: '' @ vi_State inst @ '')''), orc)
          else case rt_Resume rt i (backend orc) of
                 (Some e, r1) \<Rightarrow> (Some e, orc\<lparr>backend := r1\<rparr>)
               | (None, r1) \<Rightarrow>
                   (None, orc\<lparr>store := store_Put (inst\<lparr>vi_State := ''running''\<rparr>) (store orc), backend := r1\<rparr>))"

definition orch_Get :: "'r orch \<Rightarrow> string \<Rightarrow> VMInstance option" where
  "orch_Get orc i = store_Get (store orc) i"

definition orch_List :: "'r orch \<Rightarrow> VMInstance list" where
  "orch_List orc = store_List (store orc)"

definition Snapshot :: "'r runtime \<Rightarrow> string \<Rightarrow> string \<Rightarrow> 'r orch \<Rightarrow> string option \<times> 'r orch" where
  "Snapshot rt i snapshotID orc =
     (case store_Get (store orc) i of
        None \<Rightarrow> (Some (not_found i), orc)
      | Some inst \<Rightarrow>
          if vi_State inst \<noteq> ''running'' \<and> vi_State inst \<noteq> ''paused''
          then (Some (''sandbox '' @ i @ '' must be running or paused to snapshot (status: ''
                        @ vi_State inst @ '')''), orc)
          else let (e, r1) = rt_Snapshot rt i snapshotID (backend orc)
               in (e, orc\<lparr>backend := r1\<rparr>))"

definition RestoreAdmitted ::
  "'r runtime \<Rightarrow> string \<Rightarrow> time \<Rightarrow> string \<Rightarrow> int \<Rightarrow> 'r orch \<Rightarrow> (string + VMInstance) \<times> 'r orch" where
  "RestoreAdmitted rt uuid now snapshotID timeout orc =
     (let timeout = (if timeout \<le> 0 then cf_DefaultTimeoutSec (config orc) else timeout);
          newID = sandbox_id uuid
      in case rt_Restore rt snapshotID newID (backend orc) of
           (Inl e, r1) \<Rightarrow> (Inl (''restore from snapshot: '' @ e), orc\<lparr>backend := r1\<rparr>)
         | (Inr sb, r1) \<Rightarrow>
             let inst = \<lparr>vi_ID = newID, vi_State = ''running'', vi_Runtime = rt_Name rt,
                         vi_Template = ''snapshot:'' @ snapshotID, vi_VCPUs = 0, vi_MemoryMB = 0,
                         vi_CreatedAt = now, vi_ExpiresAt = now + duration_seconds timeout,
                         vi_Metadata = [], vi_AgentURL = sb_AgentURL sb, vi_GuestIP = sb_IP sb\<rparr>
             in (Inr inst, orc\<lparr>store := store_Put inst (store orc), backend := r1\<rparr>))"

definition Restore ::
  "'r runtime \<Rightarrow> string \<Rightarrow> time \<Rightarrow> string \<Rightarrow> int \<Rightarrow> 'r orch \<Rightarrow> (string + VMInstance) \<times> 'r orch" where
  "Restore rt uuid now snapshotID timeout orc =
     (case check_capacity orc of
        Some e \<Rightarrow> (Inl e, orc)
      | None \<Rightarrow> RestoreAdmitted rt uuid now snapshotID timeout orc)"

definition DeleteSnapshot :: "'r runtime \<Rightarrow> string \<Rightarrow> 'r orch \<Rightarrow> string option \<times> 'r orch" where
  "DeleteSnapshot rt snapshotID orc =
     (let (e, r1) = rt_DeleteSnapshot rt snapshotID (backend orc) in (e, orc\<lparr>backend := r1\<rparr>))"

definition ListSnapshots ::
  "'r runtime \<Rightarrow> string \<Rightarrow> 'r orch \<Rightarrow> (string + snapshot_info list) \<times> 'r orch" where
  "ListSnapshots rt sandboxID orc =
     (let (res, r1) = rt_ListSnapshots rt sandboxID (backend orc) in (res, orc\<lparr>backend := r1\<rparr>))"

section \<open>Cleanup and shutdown\<close>

text \<open>\<open>for _, instance := range list { Delete(instance.ID) }\<close>; a failed deletion is only logged.\<close>

fun delete_all :: "'r runtime \<Rightarrow> VMInstance list \<Rightarrow> 'r orch \<Rightarrow> 'r orch" where
  "delete_all rt [] orc = orc"
| "delete_all rt (inst # insts) orc = delete_all rt insts (snd (Delete rt (vi_ID inst) orc))"

definition cleanupExpired :: "'r runtime \<Rightarrow> time \<Rightarrow> 'r orch \<Rightarrow> 'r orch" where
  "cleanupExpired rt now orc = delete_all rt (store_Expired now (store orc)) orc"

definition Shutdown :: "'r runtime \<Rightarrow> 'r orch \<Rightarrow> 'r orch" where
  "Shutdown rt orc = delete_all rt (store_List (store orc)) orc"

text \<open>
  The cleanup goroutine runs once per tick until its context is cancelled: the ticks are the list
  of times it is run at. A non-positive interval is replaced by 30 seconds.
\<close>

definition cleanup_interval :: "int \<Rightarrow> int" where
  "cleanup_interval interval = (if interval \<le> 0 then 30 * second else interval)"

fun cleanup_loop :: "'r runtime \<Rightarrow> time list \<Rightarrow> 'r orch \<Rightarrow> 'r orch" where
  "cleanup_loop rt [] orc = orc"
| "cleanup_loop rt (now # ticks) orc = cleanup_loop rt ticks (cleanupExpired rt now orc)"

section \<open>The store after an operation\<close>

named_theorems orch_store \<open>effect of an operation on the store\<close>

definition store_ok :: "VMStore \<Rightarrow> bool" where
  "store_ok s \<longleftrightarrow> gm_wf s \<and> (\<forall>(k, v) \<in> set s. vi_ID v = k \<and> vi_State v \<in> {''running'', ''paused''})"

lemma store_ok_New [simp]: "store_ok NewVMStore"
  by (simp add: store_ok_def NewVMStore_def)

lemma store_ok_Put:
  "store_ok s \<Longrightarrow> vi_State v \<in> {''running'', ''paused''} \<Longrightarrow> store_ok (store_Put v s)"
  using set_gm_put [of "vi_ID v" v s] by (auto simp: store_ok_def store_Put_def)

lemma store_ok_Delete: "store_ok s \<Longrightarrow> store_ok (store_Delete i s)"
  using set_gm_del [of i s] by (auto simp: store_ok_def store_Delete_def)

lemma store_ok_Get: "store_ok s \<Longrightarrow> store_Get s i = Some v \<Longrightarrow> vi_ID v = i \<and> vi_State v \<in> {''running'', ''paused''}"
  by (auto simp: store_ok_def store_Get_def dest!: map_of_SomeD)

lemma store_ok_listed:
  assumes "store_ok (store orc)"
  shows "distinct (map vi_ID (orch_List orc))" "vi_State ` set (orch_List orc) \<subseteq> {''running'', ''paused''}"
proof -
  have "map vi_ID (orch_List orc) = map fst (store orc)"
    using assms by (auto simp: orch_List_def store_List_def store_ok_def)
  then show "distinct (map vi_ID (orch_List orc))" using assms by (simp add: store_ok_def)
  show "vi_State ` set (orch_List orc) \<subseteq> {''running'', ''paused''}"
    using assms by (auto simp: orch_List_def store_List_def store_ok_def)
qed

lemma length_store_Put: "length (store_Put v s) = (if vi_ID v \<in> gm_keys s then length s else Suc (length s))"
  by (simp add: store_Put_def gm_length_put)

lemma store_Get_keys: "store_Get s i = Some v \<Longrightarrow> i \<in> gm_keys s"
  unfolding store_Get_def by (rule gm_get_SomeD)

lemma store_Get_None: "store_Get s i = None \<longleftrightarrow> i \<notin> gm_keys s"
  by (simp add: store_Get_def gm_get_None)

lemma keys_Put [simp]: "gm_keys (store_Put v s) = insert (vi_ID v) (gm_keys s)"
  by (simp add: store_Put_def)

lemma keys_Delete [simp]: "gm_keys (store_Delete i s) = gm_keys s - {i}"
  by (simp add: store_Delete_def)

lemma store_of_Delete [orch_store]: "store (snd (Delete rt i orc)) = gm_del i (store orc)"
  by (auto simp: Delete_def store_Delete_def store_Get_None split: option.splits prod.splits)

lemma config_of_Delete [simp]: "config (snd (Delete rt i orc)) = config orc"
  by (auto simp: Delete_def split: option.splits prod.splits)

lemma store_of_delete_all [orch_store]:
  "store (delete_all rt insts orc) = filter (\<lambda>(k, v). k \<notin> vi_ID ` set insts) (store orc)"
proof (induction insts arbitrary: orc)
  case Nil
  then show ?case by (simp add: case_prod_unfold)
next
  case (Cons x xs)
  then show ?case
    by (auto simp: orch_store AList.delete_eq case_prod_unfold intro: filter_cong)
qed

lemma store_of_cleanup [orch_store]:
  assumes "store_ok (store orc)"
  shows "store (cleanupExpired rt now orc) = filter (\<lambda>(k, v). \<not> is_expired now v) (store orc)"
proof -
  have key: "k \<in> vi_ID ` set (store_Expired now (store orc)) \<longleftrightarrow> is_expired now v"
    if kv: "(k, v) \<in> set (store orc)" for k v
  proof
    assume "k \<in> vi_ID ` set (store_Expired now (store orc))"
    then obtain k' v' where e: "(k', v') \<in> set (store orc)" "vi_ID v' = k" "is_expired now v'"
      by (auto simp: store_Expired_def)
    with assms have "k' = k" by (auto simp: store_ok_def)
    with e kv assms have "v' = v" by (auto simp: store_ok_def dest: eq_key_imp_eq_value)
    with e show "is_expired now v" by simp
  next
    assume "is_expired now v"
    moreover have "vi_ID v = k" using assms kv by (auto simp: store_ok_def)
    ultimately show "k \<in> vi_ID ` set (store_Expired now (store orc))"
      using kv by (force simp: store_Expired_def)
  qed
  show ?thesis
    unfolding cleanupExpired_def store_of_delete_all
  proof (rule filter_cong [OF refl])
    fix kv assume m: "kv \<in> set (store orc)"
    obtain k v where kv: "kv = (k, v)" by (cases kv)
    show "(case kv of (k, v) \<Rightarrow> k \<notin> vi_ID ` set (store_Expired now (store orc))) =
        (case kv of (k, v) \<Rightarrow> \<not> is_expired now v)"
      using key [of k v] m unfolding kv prod.case by blast
  qed
qed

lemma store_of_Shutdown [orch_store]:
  assumes "store_ok (store orc)"
  shows "store (Shutdown rt orc) = []"
proof -
  have "k \<in> vi_ID ` set (map snd (store orc))" if m: "(k, v) \<in> set (store orc)" for k v
  proof -
    have "vi_ID v = k" using assms m by (auto simp: store_ok_def)
    moreover have "v \<in> set (map snd (store orc))" using m by (metis in_set_conv_nth length_map nth_map snd_conv)
    ultimately show ?thesis by blast
  qed
  then show ?thesis
    unfolding Shutdown_def store_of_delete_all store_List_def filter_empty_conv by blast
qed

lemma CreateAdmitted_cases:
  assumes "CreateAdmitted rt cl uuid now req orc = (res, orc')"
  obtains (failed) e r1 opts where
      "rt_Create rt opts (backend orc) = (Inl e, r1)" "co_ID opts = sandbox_id uuid"
      "res = Inl (''create sandbox: '' @ e)" "orc' = orc\<lparr>backend := r1\<rparr>"
  | (created) opts sb r1 r2 inst where
      "rt_Create rt opts (backend orc) = (Inr sb, r1)" "co_ID opts = sandbox_id uuid"
      "r2 = (if length (cr_EnvVars req) > 0 then initAgent cl (sb_AgentURL sb) (cr_EnvVars req) r1 else r1)"
      "res = Inr inst" "vi_ID inst = sandbox_id uuid" "vi_State inst = ''running''"
      "orc' = orc\<lparr>store := store_Put inst (store orc), backend := r2\<rparr>"
proof -
  let ?opts = "\<lparr>co_ID = sandbox_id uuid,
     co_Template = (if cr_Template req = '''' then ''base'' else cr_Template req),
     co_VCPUs = (if cr_VCPUs req > 0 then cr_VCPUs req else 1),
     co_MemoryMB = (if cr_MemoryMB req > 0 then cr_MemoryMB req else 512), co_EnvVars = cr_EnvVars req\<rparr>"
  obtain x r1 where c: "rt_Create rt ?opts (backend orc) = (x, r1)" by fastforce
  then show ?thesis
    using assms
    by (cases x) (auto simp: CreateAdmitted_def Let_def intro: failed [of ?opts] created [of ?opts])
qed

lemma Create_cases:
  assumes "Create rt cl uuid now req orc = (res, orc')"
  obtains (full) "store_Count (store orc) \<ge> cf_MaxVMs (config orc)" "orc' = orc"
      "res = Inl (''max sandboxes reached ('' @ dec (cf_MaxVMs (config orc)) @ '')'')"
  | (admitted) "store_Count (store orc) < cf_MaxVMs (config orc)"
      "CreateAdmitted rt cl uuid now req orc = (res, orc')"
  using assms that by (auto simp: Create_def check_capacity_def not_le split: if_splits)

lemma Restore_cases:
  assumes "Restore rt uuid now snap timeout orc = (res, orc')"
  obtains (full) "store_Count (store orc) \<ge> cf_MaxVMs (config orc)" "orc' = orc"
      "res = Inl (''max sandboxes reached ('' @ dec (cf_MaxVMs (config orc)) @ '')'')"
  | (failed) e r1 where "store_Count (store orc) < cf_MaxVMs (config orc)"
      "rt_Restore rt snap (sandbox_id uuid) (backend orc) = (Inl e, r1)"
      "res = Inl (''restore from snapshot: '' @ e)" "orc' = orc\<lparr>backend := r1\<rparr>"
  | (restored) sb r1 inst where "store_Count (store orc) < cf_MaxVMs (config orc)"
      "rt_Restore rt snap (sandbox_id uuid) (backend orc) = (Inr sb, r1)"
      "res = Inr inst" "vi_ID inst = sandbox_id uuid" "vi_State inst = ''running''"
      "orc' = orc\<lparr>store := store_Put inst (store orc), backend := r1\<rparr>"
proof -
  obtain x r1 where c: "rt_Restore rt snap (sandbox_id uuid) (backend orc) = (x, r1)" by fastforce
  show ?thesis
  proof (cases "store_Count (store orc) \<ge> cf_MaxVMs (config orc)")
    case True
    with assms show ?thesis by (intro full) (auto simp: Restore_def check_capacity_def)
  next
    case False
    then show ?thesis
      using assms c by (cases x) (auto simp: Restore_def check_capacity_def RestoreAdmitted_def Let_def intro: failed restored)
  qed
qed

lemma Pause_cases:
  assumes "Pause rt i orc = (e, orc')"
  obtains (refused) "e \<noteq> None" "orc' = orc"
      "\<And>inst. store_Get (store orc) i = Some inst \<Longrightarrow> vi_State inst \<noteq> ''running''"
  | (failed) r1 where "e \<noteq> None" "rt_Pause rt i (backend orc) = (e, r1)" "orc' = orc\<lparr>backend := r1\<rparr>"
  | (paused) inst r1 where "e = None" "store_Get (store orc) i = Some inst" "vi_State inst = ''running''"
      "rt_Pause rt i (backend orc) = (None, r1)"
      "orc' = orc\<lparr>store := store_Put (inst\<lparr>vi_State := ''paused''\<rparr>) (store orc), backend := r1\<rparr>"
proof (cases "store_Get (store orc) i")
  case None
  with assms show ?thesis by (intro refused) (auto simp: Pause_def)
next
  case (Some inst)
  obtain x r1 where c: "rt_Pause rt i (backend orc) = (x, r1)" by fastforce
  show ?thesis
  proof (cases "vi_State inst = ''running''")
    case True
    with Some assms c show ?thesis
      by (cases x) (auto simp: Pause_def intro: failed paused)
  next
    case False
    with Some assms show ?thesis by (intro refused) (auto simp: Pause_def)
  qed
qed

lemma Resume_cases:
  assumes "Resume rt i orc = (e, orc')"
  obtains (refused) "e \<noteq> None" "orc' = orc"
      "\<And>inst. store_Get (store orc) i = Some inst \<Longrightarrow> vi_State inst \<noteq> ''paused''"
  | (failed) r1 where "e \<noteq> None" "rt_Resume rt i (backend orc) = (e, r1)" "orc' = orc\<lparr>backend := r1\<rparr>"
  | (resumed) inst r1 where "e = None" "store_Get (store orc) i = Some inst" "vi_State inst = ''paused''"
      "rt_Resume rt i (backend orc) = (None, r1)"
      "orc' = orc\<lparr>store := store_Put (inst\<lparr>vi_State := ''running''\<rparr>) (store orc), backend := r1\<rparr>"
proof (cases "store_Get (store orc) i")
  case None
  with assms show ?thesis by (intro refused) (auto simp: Resume_def)
next
  case (Some inst)
  obtain x r1 where c: "rt_Resume rt i (backend orc) = (x, r1)" by fastforce
  show ?thesis
  proof (cases "vi_State inst = ''paused''")
    case True
    with Some assms c show ?thesis
      by (cases x) (auto simp: Resume_def intro: failed resumed)
  next
    case False
    with Some assms show ?thesis by (intro refused) (auto simp: Resume_def)
  qed
qed

lemma Snapshot_store [orch_store]: "store (snd (Snapshot rt i snap orc)) = store orc"
  by (auto simp: Snapshot_def split: option.splits prod.splits)

lemma Snapshot_config [simp]: "config (snd (Snapshot rt i snap orc)) = config orc"
  by (auto simp: Snapshot_def split: option.splits prod.splits)

lemma delete_all_config [simp]: "config (delete_all rt insts orc) = config orc"
  by (induction insts arbitrary: orc) auto

section \<open>Reachable states\<close>

text \<open>
  One request handled at a time, in any order and number, with the world changing between them
  as \<open>env\<close> allows. A generated identifier is not the one of a stored sandbox. \<open>relabel\<close> is no
  operation of the orchestrator: \<open>Get\<close> returns a pointer to the stored instance, and a caller may
  write the state label through it, which the node server does past \<open>Pause\<close> and \<open>Resume\<close>
  (\<open>node/server.go:174-200\<close>).
\<close>

inductive orch_step ::
  "'r runtime \<Rightarrow> 'r http_client \<Rightarrow> ('r \<Rightarrow> 'r \<Rightarrow> bool) \<Rightarrow> 'r orch \<Rightarrow> 'r orch \<Rightarrow> bool"
  for rt :: "'r runtime" and cl :: "'r http_client" and env :: "'r \<Rightarrow> 'r \<Rightarrow> bool" where
  create: "sandbox_id uuid \<notin> gm_keys (store orc) \<Longrightarrow> orch_step rt cl env orc (snd (Create rt cl uuid now req orc))"
| restore: "sandbox_id uuid \<notin> gm_keys (store orc) \<Longrightarrow> orch_step rt cl env orc (snd (Restore rt uuid now snap timeout orc))"
| delete: "orch_step rt cl env orc (snd (Delete rt i orc))"
| pause: "orch_step rt cl env orc (snd (Pause rt i orc))"
| resume: "orch_step rt cl env orc (snd (Resume rt i orc))"
| snapshot: "orch_step rt cl env orc (snd (Snapshot rt i snap orc))"
| delete_snapshot: "orch_step rt cl env orc (snd (DeleteSnapshot rt snap orc))"
| list_snapshots: "orch_step rt cl env orc (snd (ListSnapshots rt i orc))"
| relabel: "orch_Get orc i = Some inst \<Longrightarrow> st \<in> {''running'', ''paused''} \<Longrightarrow>
    orch_step rt cl env orc (orc\<lparr>store := store_Put (inst\<lparr>vi_State := st\<rparr>) (store orc)\<rparr>)"
| cleanup: "orch_step rt cl env orc (cleanupExpired rt now orc)"
| shutdown: "orch_step rt cl env orc (Shutdown rt orc)"
| world: "env (backend orc) r \<Longrightarrow> orch_step rt cl env orc (orc\<lparr>backend := r\<rparr>)"

definition within_capacity :: "'r orch \<Rightarrow> bool" where
  "within_capacity orc \<longleftrightarrow> store_ok (store orc) \<and> store_Count (store orc) \<le> max 0 (cf_MaxVMs (config orc))"

lemma store_ok_filter: "store_ok s \<Longrightarrow> store_ok (filter P s)"
  by (auto simp: store_ok_def distinct_map_filter)

lemma store_ok_del: "store_ok s \<Longrightarrow> store_ok (gm_del i s)"
  using store_ok_Delete by (simp add: store_Delete_def)

lemma delete_all_cons_config: "config (cleanupExpired rt now orc) = config orc" "config (Shutdown rt orc) = config orc"
  by (simp_all add: cleanupExpired_def Shutdown_def)

lemma within_capacity_Create:
  assumes "within_capacity orc"
  shows "within_capacity (snd (Create rt cl uuid now req orc))"
proof -
  obtain res orc' where c: "Create rt cl uuid now req orc = (res, orc')" by fastforce
  from c show ?thesis
  proof (cases rule: Create_cases)
    case full
    then show ?thesis using assms c by simp
  next
    case admitted
    from admitted(2) show ?thesis
    proof (cases rule: CreateAdmitted_cases)
      case failed
      then show ?thesis using assms c by (simp add: within_capacity_def)
    next
      case (created opts sb r1 r2 inst)
      then show ?thesis using assms c admitted(1)
        by (auto simp: within_capacity_def store_Count_def length_store_Put store_ok_Put)
    qed
  qed
qed

lemma within_capacity_Restore:
  assumes "within_capacity orc"
  shows "within_capacity (snd (Restore rt uuid now snap timeout orc))"
proof -
  obtain res orc' where c: "Restore rt uuid now snap timeout orc = (res, orc')" by fastforce
  from c show ?thesis
  proof (cases rule: Restore_cases)
    case (restored sb r1 inst)
    then show ?thesis using assms c
      by (auto simp: within_capacity_def store_Count_def length_store_Put store_ok_Put)
  qed (use assms c in \<open>simp_all add: within_capacity_def\<close>)
qed

lemma within_capacity_swap:
  assumes "within_capacity orc" "store_Get (store orc) i = Some inst" "vi_State v \<in> {''running'', ''paused''}" "vi_ID v = vi_ID inst"
  shows "within_capacity (orc\<lparr>store := store_Put v (store orc), backend := r\<rparr>)"
proof -
  have "vi_ID inst = i" "i \<in> gm_keys (store orc)"
    using assms(1,2) store_ok_Get store_Get_keys by (auto simp: within_capacity_def)
  then show ?thesis using assms
    by (auto simp: within_capacity_def store_Count_def length_store_Put intro: store_ok_Put)
qed

lemma within_capacity_Pause: "within_capacity orc \<Longrightarrow> within_capacity (snd (Pause rt i orc))"
proof -
  assume w: "within_capacity orc"
  obtain e orc' where c: "Pause rt i orc = (e, orc')" by fastforce
  from c show ?thesis
  proof (cases rule: Pause_cases)
    case (paused inst r1)
    then show ?thesis using within_capacity_swap [OF w paused(2)] c by simp
  qed (use w c in \<open>simp_all add: within_capacity_def\<close>)
qed

lemma within_capacity_Resume: "within_capacity orc \<Longrightarrow> within_capacity (snd (Resume rt i orc))"
proof -
  assume w: "within_capacity orc"
  obtain e orc' where c: "Resume rt i orc = (e, orc')" by fastforce
  from c show ?thesis
  proof (cases rule: Resume_cases)
    case (resumed inst r1)
    then show ?thesis using within_capacity_swap [OF w resumed(2)] c by simp
  qed (use w c in \<open>simp_all add: within_capacity_def\<close>)
qed

lemma within_capacity_filter:
  "within_capacity orc \<Longrightarrow> config orc' = config orc \<Longrightarrow> store orc' = filter P (store orc) \<Longrightarrow> within_capacity orc'"
  unfolding within_capacity_def store_Count_def
  by (metis length_filter_le of_nat_mono order_trans store_ok_filter)

lemma within_capacity_step: "orch_step rt cl env orc orc' \<Longrightarrow> within_capacity orc \<Longrightarrow> within_capacity orc'"
proof (induction rule: orch_step.induct)
  case (delete orc i)
  then show ?case using gm_length_del_le [of i "store orc"]
    by (auto simp: within_capacity_def store_of_Delete store_Count_def store_ok_del)
next
  case (cleanup orc now)
  then show ?case
    using within_capacity_filter [of orc "cleanupExpired rt now orc" "\<lambda>(k, v). \<not> is_expired now v"]
    by (simp add: delete_all_cons_config store_of_cleanup within_capacity_def)
next
  case (shutdown orc)
  then show ?case
    by (auto simp: within_capacity_def delete_all_cons_config store_of_Shutdown store_Count_def store_ok_def)
next
  case (delete_snapshot orc snap)
  then show ?case by (simp add: within_capacity_def DeleteSnapshot_def Let_def case_prod_unfold)
next
  case (list_snapshots orc i)
  then show ?case by (simp add: within_capacity_def ListSnapshots_def Let_def case_prod_unfold)
next
  case (relabel orc i inst st)
  then show ?case
    using within_capacity_swap [of orc i inst "inst\<lparr>vi_State := st\<rparr>" "backend orc"] by (simp add: orch_Get_def)
next
  case (snapshot orc i snap)
  then show ?case by (simp add: within_capacity_def Snapshot_store)
next
  case (world orc r)
  then show ?case by (simp add: within_capacity_def)
qed (simp_all only: within_capacity_Create within_capacity_Restore within_capacity_Pause within_capacity_Resume)

abbreviation orch_reachable ::
  "'r runtime \<Rightarrow> 'r http_client \<Rightarrow> ('r \<Rightarrow> 'r \<Rightarrow> bool) \<Rightarrow> orch_config \<Rightarrow> 'r \<Rightarrow> 'r orch \<Rightarrow> bool" where
  "orch_reachable rt cl env cfg r orc \<equiv> (orch_step rt cl env)\<^sup>*\<^sup>* (NewOrch cfg r) orc"

lemma config_of_CreateAdmitted [simp]: "config (snd (CreateAdmitted rt cl uuid now req orc)) = config orc"
proof -
  obtain res orc' where c: "CreateAdmitted rt cl uuid now req orc = (res, orc')" by fastforce
  then show ?thesis by (cases rule: CreateAdmitted_cases) (simp_all add: c)
qed

lemma config_of_Create [simp]: "config (snd (Create rt cl uuid now req orc)) = config orc"
  by (simp add: Create_def split: option.split)

lemma config_of_Restore [simp]: "config (snd (Restore rt uuid now snap timeout orc)) = config orc"
proof -
  obtain res orc' where c: "Restore rt uuid now snap timeout orc = (res, orc')" by fastforce
  then show ?thesis by (cases rule: Restore_cases) (simp_all add: c)
qed

lemma config_of_Pause [simp]: "config (snd (Pause rt i orc)) = config orc"
proof -
  obtain e orc' where c: "Pause rt i orc = (e, orc')" by fastforce
  then show ?thesis by (cases rule: Pause_cases) (simp_all add: c)
qed

lemma config_of_Resume [simp]: "config (snd (Resume rt i orc)) = config orc"
proof -
  obtain e orc' where c: "Resume rt i orc = (e, orc')" by fastforce
  then show ?thesis by (cases rule: Resume_cases) (simp_all add: c)
qed

lemma DeleteSnapshot_store [simp, orch_store]:
  "store (snd (DeleteSnapshot rt snap orc)) = store orc" "config (snd (DeleteSnapshot rt snap orc)) = config orc"
  "backend (snd (DeleteSnapshot rt snap orc)) = snd (rt_DeleteSnapshot rt snap (backend orc))"
  by (simp_all add: DeleteSnapshot_def Let_def case_prod_unfold)

lemma ListSnapshots_store [simp, orch_store]:
  "store (snd (ListSnapshots rt i orc)) = store orc" "config (snd (ListSnapshots rt i orc)) = config orc"
  "backend (snd (ListSnapshots rt i orc)) = snd (rt_ListSnapshots rt i (backend orc))"
  by (simp_all add: ListSnapshots_def Let_def case_prod_unfold)

lemma orch_step_config: "orch_step rt cl env orc orc' \<Longrightarrow> config orc' = config orc"
  by (induction rule: orch_step.induct) (simp_all add: delete_all_cons_config)

lemma orch_reachable_config: "orch_reachable rt cl env cfg r orc \<Longrightarrow> config orc = cfg"
  by (induction rule: rtranclp_induct) (auto simp: NewOrch_def dest: orch_step_config)

lemma within_capacity_New: "within_capacity (NewOrch cfg r)"
  by (simp add: within_capacity_def NewOrch_def NewVMStore_def store_Count_def store_ok_def)

lemma orch_reachable_capacity: "orch_reachable rt cl env cfg r orc \<Longrightarrow> within_capacity orc"
  by (induction rule: rtranclp_induct) (auto intro: within_capacity_step within_capacity_New)

section \<open>What the operations do\<close>

text \<open>A backend that always succeeds and keeps nothing, for concrete runs.\<close>

definition idle_runtime :: "'r runtime" where
  "idle_runtime = \<lparr>rt_Name = ''idle'',
     rt_Create = (\<lambda>opts r. (Inr \<lparr>sb_ID = co_ID opts, sb_State = ''running'', sb_Runtime = ''idle'', sb_IP = '''', sb_AgentURL = ''''\<rparr>, r)),
     rt_Start = (\<lambda>i r. (None, r)), rt_Stop = (\<lambda>i r. (None, r)), rt_Destroy = (\<lambda>i r. (None, r)),
     rt_Pause = (\<lambda>i r. (None, r)), rt_Resume = (\<lambda>i r. (None, r)), rt_Get = (\<lambda>i r. (Inl '''', r)),
     rt_List = (\<lambda>r. (Inr [], r)), rt_AgentURL = (\<lambda>i r. (Inl '''', r)), rt_Snapshot = (\<lambda>i s r. (None, r)),
     rt_Restore = (\<lambda>s i r. (Inl '''', r)), rt_DeleteSnapshot = (\<lambda>s r. (None, r)), rt_ListSnapshots = (\<lambda>i r. (Inr [], r))\<rparr>"

definition no_client :: "'r http_client" where
  "no_client q w = (Inl ''refused'', w)"

definition small_config :: orch_config where
  "small_config = DefaultOrchestratorConfig\<lparr>cf_MaxVMs := 1\<rparr>"

definition plain_request :: CreateRequest where
  "plain_request = \<lparr>cr_Template = '''', cr_VCPUs = 0, cr_MemoryMB = 0, cr_Timeout = 0, cr_Metadata = [], cr_EnvVars = []\<rparr>"

definition one_sandbox :: "unit orch" where
  "one_sandbox = snd (Create idle_runtime no_client ''0a1b2c3d-'' 0 plain_request (NewOrch DefaultOrchestratorConfig ()))"

text \<open>The instance a successful \<open>Create\<close> returns and stores.\<close>

definition created_instance ::
  "'r runtime \<Rightarrow> orch_config \<Rightarrow> string \<Rightarrow> time \<Rightarrow> CreateRequest \<Rightarrow> sandbox \<Rightarrow> VMInstance" where
  "created_instance rt cfg uuid now req sb =
     \<lparr>vi_ID = ''sb-'' @ take 8 uuid, vi_State = ''running'', vi_Runtime = rt_Name rt,
      vi_Template = (if cr_Template req = '''' then ''base'' else cr_Template req),
      vi_VCPUs = (if cr_VCPUs req > 0 then cr_VCPUs req else 1),
      vi_MemoryMB = (if cr_MemoryMB req > 0 then cr_MemoryMB req else 512),
      vi_CreatedAt = now,
      vi_ExpiresAt = now + duration_seconds (if cr_Timeout req > 0 then cr_Timeout req else cf_DefaultTimeoutSec cfg),
      vi_Metadata = cr_Metadata req, vi_AgentURL = sb_AgentURL sb, vi_GuestIP = sb_IP sb\<rparr>"

lemma CreateAdmitted_created:
  assumes "CreateAdmitted rt cl uuid now req orc = (Inr inst, orc')"
  obtains sb where "inst = created_instance rt (config orc) uuid now req sb"
    "store orc' = store_Put inst (store orc)"
  using assms
  by (auto simp: CreateAdmitted_def created_instance_def sandbox_id_def Let_def split: sum.splits prod.splits)

lemma Create_created:
  assumes "Create rt cl uuid now req orc = (Inr inst, orc')"
  obtains sb where "inst = created_instance rt (config orc) uuid now req sb"
    "store orc' = store_Put inst (store orc)" "store_Count (store orc) < cf_MaxVMs (config orc)"
  using assms
  by (cases rule: Create_cases) (auto elim: CreateAdmitted_created intro: that)

text \<open>
  C28. A successful creation stores exactly the instance it returns: the identifier is made from the
  generated one, missing template, CPU and memory values are replaced by their defaults, and, for
  a timeout whose nanoseconds fit 63 bits, the expiry time is that many seconds after the creation.
  No other entry changes.
\<close>
theorem Create_stores_instance:
  assumes "Create rt cl uuid now req orc = (Inr inst, orc')"
    and "cr_Timeout req \<le> 9223372036" and "0 \<le> cf_DefaultTimeoutSec (config orc)"
    and "cf_DefaultTimeoutSec (config orc) \<le> 9223372036"
  shows "vi_ID inst = ''sb-'' @ take 8 uuid \<and> vi_State inst = ''running''
    \<and> vi_Template inst = (if cr_Template req = '''' then ''base'' else cr_Template req)
    \<and> vi_VCPUs inst = (if cr_VCPUs req > 0 then cr_VCPUs req else 1)
    \<and> vi_MemoryMB inst = (if cr_MemoryMB req > 0 then cr_MemoryMB req else 512)
    \<and> vi_ExpiresAt inst = vi_CreatedAt inst
        + (if cr_Timeout req > 0 then cr_Timeout req else cf_DefaultTimeoutSec (config orc)) * second
    \<and> vi_Metadata inst = cr_Metadata req
    \<and> (\<forall>j. orch_Get orc' j = (if j = vi_ID inst then Some inst else orch_Get orc j))
    \<and> store_Count (store orc) < cf_MaxVMs (config orc)"
proof -
  obtain sb where i: "inst = created_instance rt (config orc) uuid now req sb"
    and s: "store orc' = store_Put inst (store orc)" and c: "store_Count (store orc) < cf_MaxVMs (config orc)"
    using Create_created [OF assms(1)] by blast
  show ?thesis
    using c assms(2-4)
    by (auto simp: i s created_instance_def orch_Get_def store_Get_def store_Put_def duration_seconds_small)
qed

lemma Create_stores_instance_witness:
  "\<exists>inst. orch_Get one_sandbox ''sb-0a1b2c3d'' = Some inst \<and> vi_ExpiresAt inst = 300 * second"
proof -
  obtain inst where c: "Create idle_runtime no_client ''0a1b2c3d-'' 0 plain_request
      (NewOrch DefaultOrchestratorConfig ()) = (Inr inst, one_sandbox)" and t: "vi_CreatedAt inst = 0"
    by (simp add: one_sandbox_def Create_def check_capacity_def CreateAdmitted_def idle_runtime_def NewOrch_def NewVMStore_def
        store_Count_def DefaultOrchestratorConfig_def plain_request_def Let_def)
  from Create_stores_instance [OF c] t show ?thesis
    by (simp add: NewOrch_def DefaultOrchestratorConfig_def plain_request_def)
qed

text \<open>
  A requested timeout of 9223372037 to 18446744073 seconds wraps around in the 64-bit product
  of nanoseconds: the sandbox is created already expired, and the next cleanup, at whatever later
  time, removes it.
\<close>
theorem huge_timeout_is_expired_at_once:
  assumes "Create rt cl uuid now req orc = (Inr inst, orc')" and "store_ok (store orc)"
    and "9223372037 \<le> cr_Timeout req" and "cr_Timeout req \<le> 18446744073"
    and "0 \<le> now" and "now \<le> now'"
  shows "orch_Get orc' (vi_ID inst) = Some inst \<and> is_expired now inst
    \<and> orch_Get (cleanupExpired rt now' orc') (vi_ID inst) = None"
proof -
  obtain sb where i: "inst = created_instance rt (config orc) uuid now req sb"
    and s: "store orc' = store_Put inst (store orc)"
    using Create_created [OF assms(1)] by blast
  have e: "vi_ExpiresAt inst = now + (cr_Timeout req * second - 2 ^ 64)"
    using assms(3,4) by (simp add: i created_instance_def duration_seconds_wrapped)
  have "now + (cr_Timeout req * second - 2 ^ 64) < now" "zero_time < now + (cr_Timeout req * second - 2 ^ 64)"
    using assms(3-5) by (simp_all add: second_def zero_time_def)
  with assms(6) have x: "is_expired now inst" "is_expired now' inst"
    unfolding is_expired_def e by simp_all
  have ok: "store_ok (store orc')"
    unfolding s by (rule store_ok_Put [OF assms(2)]) (simp add: i created_instance_def)
  have "vi_ID inst \<notin> gm_keys (store (cleanupExpired rt now' orc'))"
  proof
    assume "vi_ID inst \<in> gm_keys (store (cleanupExpired rt now' orc'))"
    then obtain v where "(vi_ID inst, v) \<in> set (store orc')" "\<not> is_expired now' v"
      by (auto simp: store_of_cleanup [OF ok])
    moreover have "gm_get (store orc') (vi_ID inst) = Some inst" by (simp add: s store_Put_def)
    ultimately show False using ok x(2) by (auto simp: store_ok_def dest!: map_of_SomeD dest: eq_key_imp_eq_value)
  qed
  then show ?thesis
    using x by (auto simp: orch_Get_def store_Get_None) (simp add: store_Get_def s store_Put_def)
qed

lemma huge_timeout_is_expired_at_once_witness:
  "\<exists>orc. orch_Get (orc :: unit orch) ''sb-0a1b2c3d'' = None \<and> store_Count (store orc) = 0
     \<and> (\<exists>orc'. orc = cleanupExpired idle_runtime 5 orc' \<and> orch_Get orc' ''sb-0a1b2c3d'' \<noteq> None)"
proof -
  let ?orc = "NewOrch DefaultOrchestratorConfig ()"
  let ?req = "plain_request\<lparr>cr_Timeout := 9223372037\<rparr>"
  obtain inst orc' where c: "Create idle_runtime no_client ''0a1b2c3d-'' 0 ?req ?orc = (Inr inst, orc')"
    and i: "vi_ID inst = ''sb-0a1b2c3d''" and s: "store orc' = [(''sb-0a1b2c3d'', inst)]"
    by (simp add: Create_def check_capacity_def CreateAdmitted_def idle_runtime_def NewOrch_def NewVMStore_def sandbox_id_def
        store_Count_def store_Put_def DefaultOrchestratorConfig_def plain_request_def Let_def)
  have h: "orch_Get orc' (vi_ID inst) = Some inst \<and> is_expired 0 inst
    \<and> orch_Get (cleanupExpired idle_runtime 5 orc') (vi_ID inst) = None"
    by (rule huge_timeout_is_expired_at_once [OF c]) (simp_all add: NewOrch_def plain_request_def)
  have "store (cleanupExpired idle_runtime 5 orc') = []"
    using h i by (auto simp: cleanupExpired_def store_of_delete_all s orch_Get_def store_Get_def split: if_splits)
  then show ?thesis using h i by (auto simp: store_Count_def)
qed

text \<open>
  C1. However many requests are served one after the other, and whatever the backend answers, there
  are never more than MaxVMs sandboxes, their identifiers are distinct, each is stored under its
  own identifier, and each is running or paused.
\<close>
theorem sandboxes_within_capacity:
  assumes "orch_reachable rt cl env cfg r orc" and "0 \<le> cf_MaxVMs cfg"
  shows "store_Count (store orc) \<le> cf_MaxVMs cfg \<and> distinct (map vi_ID (orch_List orc))
    \<and> (\<forall>i inst. orch_Get orc i = Some inst \<longrightarrow> vi_ID inst = i \<and> vi_State inst \<in> {''running'', ''paused''})"
proof -
  have w: "store_ok (store orc)" "store_Count (store orc) \<le> max 0 (cf_MaxVMs (config orc))"
    using orch_reachable_capacity [OF assms(1)] by (simp_all add: within_capacity_def)
  have "map vi_ID (orch_List orc) = map fst (store orc)"
    using w(1) by (auto simp: orch_List_def store_List_def store_ok_def)
  then show ?thesis
    using w assms(2) orch_reachable_config [OF assms(1)]
    by (auto simp: store_ok_def orch_Get_def store_Get_def dest!: map_of_SomeD)
qed

lemma sandboxes_within_capacity_witness:
  "store_Count (store one_sandbox) \<le> 50 \<and> orch_Get one_sandbox ''sb-0a1b2c3d'' \<noteq> None"
proof -
  have r: "orch_reachable idle_runtime no_client (\<lambda>_ _. False) DefaultOrchestratorConfig () one_sandbox"
    unfolding one_sandbox_def by (rule r_into_rtranclp, rule orch_step.create) (simp add: NewOrch_def NewVMStore_def)
  have "orch_Get one_sandbox ''sb-0a1b2c3d'' \<noteq> None"
    by (simp add: one_sandbox_def Create_def check_capacity_def CreateAdmitted_def idle_runtime_def NewOrch_def NewVMStore_def
        store_Count_def DefaultOrchestratorConfig_def plain_request_def Let_def orch_Get_def store_Get_def
        store_Put_def sandbox_id_def)
  then show ?thesis
    using sandboxes_within_capacity [OF r] by (simp add: DefaultOrchestratorConfig_def)
qed

definition destroy_all :: "'r runtime \<Rightarrow> string list \<Rightarrow> 'r \<Rightarrow> 'r" where
  "destroy_all rt ids r = fold (\<lambda>i r. snd (rt_Destroy rt i r)) ids r"

lemma backend_of_Delete:
  "i \<in> gm_keys (store orc) \<Longrightarrow> backend (snd (Delete rt i orc)) = snd (rt_Destroy rt i (backend orc))"
  by (auto simp: Delete_def Let_def case_prod_unfold store_Get_def gm_get_None split: option.splits)

lemma backend_of_delete_all:
  "distinct (map vi_ID insts) \<Longrightarrow> vi_ID ` set insts \<subseteq> gm_keys (store orc) \<Longrightarrow>
     backend (delete_all rt insts orc) = destroy_all rt (map vi_ID insts) (backend orc)"
proof (induction insts arbitrary: orc)
  case Nil
  then show ?case by (simp add: destroy_all_def)
next
  case (Cons x xs)
  have "vi_ID ` set xs \<subseteq> gm_keys (store (snd (Delete rt (vi_ID x) orc)))"
  proof
    fix i assume i: "i \<in> vi_ID ` set xs"
    with Cons.prems have "i \<noteq> vi_ID x" "i \<in> gm_keys (store orc)" by fastforce+
    then show "i \<in> gm_keys (store (snd (Delete rt (vi_ID x) orc)))"
      unfolding store_of_Delete gm_keys_del by simp
  qed
  with Cons.IH [of "snd (Delete rt (vi_ID x) orc)"] Cons.prems show ?case
    by (simp add: destroy_all_def backend_of_Delete)
qed

lemma store_ok_ids: "store_ok s \<Longrightarrow> map vi_ID (store_List s) = map fst s"
  by (auto simp: store_List_def store_ok_def)

lemma store_ok_get_in: "store_ok s \<Longrightarrow> gm_get s i = Some v \<longleftrightarrow> (i, v) \<in> set s"
  by (simp add: store_ok_def map_of_eq_Some_iff)

lemma expired_ids:
  assumes "store_ok s"
  shows "distinct (map vi_ID (store_Expired now s))" "vi_ID ` set (store_Expired now s) \<subseteq> gm_keys s"
proof -
  have "distinct (map vi_ID (map snd s))"
    unfolding store_ok_ids [OF assms, unfolded store_List_def] using assms by (simp add: store_ok_def)
  then show "distinct (map vi_ID (store_Expired now s))"
    unfolding store_Expired_def by (rule distinct_map_filter)
  show "vi_ID ` set (store_Expired now s) \<subseteq> gm_keys s"
  proof -
    have "set (map vi_ID (store_Expired now s)) \<subseteq> set (map vi_ID (store_List s))"
      by (auto simp: store_Expired_def store_List_def)
    then show ?thesis unfolding store_ok_ids [OF assms] by simp
  qed
qed

lemma get_filter:
  assumes "gm_wf s"
  shows "gm_get (filter (\<lambda>(k, v). P v) s) i = (case gm_get s i of Some v \<Rightarrow> if P v then Some v else None | None \<Rightarrow> None)"
  using assms
proof (induction s)
  case Nil
  then show ?case by simp
next
  case (Cons kv s)
  obtain k v where kv: "kv = (k, v)" by (cases kv)
  have "gm_get s k = None" using Cons.prems kv by (simp add: gm_get_None)
  then show ?case using Cons by (auto simp: kv)
qed

text \<open>
  C15. A cleanup removes exactly the expired sandboxes and keeps every other entry as it was; the
  backend is asked to destroy each expired sandbox, once and in order, and nothing else.
\<close>
theorem cleanup_removes_exactly_expired:
  assumes "orch_reachable rt cl env cfg r orc"
  shows "orch_Get (cleanupExpired rt now orc) i =
      (case orch_Get orc i of Some inst \<Rightarrow> if is_expired now inst then None else Some inst | None \<Rightarrow> None)
    \<and> backend (cleanupExpired rt now orc)
        = destroy_all rt (map vi_ID (filter (is_expired now) (orch_List orc))) (backend orc)
    \<and> store_Expired now (store (cleanupExpired rt now orc)) = []"
proof -
  have ok: "store_ok (store orc)"
    using orch_reachable_capacity [OF assms] by (simp add: within_capacity_def)
  have "backend (cleanupExpired rt now orc) = destroy_all rt (map vi_ID (store_Expired now (store orc))) (backend orc)"
    unfolding cleanupExpired_def by (rule backend_of_delete_all) (use expired_ids [OF ok] in auto)
  moreover have "store_Expired now (store (cleanupExpired rt now orc)) = []"
    by (auto simp: store_of_cleanup [OF ok] store_Expired_def filter_empty_conv)
  ultimately show ?thesis
    using ok get_filter [of "store orc" "\<lambda>v. \<not> is_expired now v" i]
    by (auto simp: orch_Get_def store_Get_def store_of_cleanup store_Expired_def orch_List_def store_List_def
        store_ok_def split: option.splits)
qed

lemma cleanup_removes_exactly_expired_witness:
  "orch_Get (cleanupExpired idle_runtime (301 * second) one_sandbox) ''sb-0a1b2c3d'' = None
     \<and> orch_Get (cleanupExpired idle_runtime (299 * second) one_sandbox) ''sb-0a1b2c3d'' \<noteq> None"
proof -
  have r: "orch_reachable idle_runtime no_client (\<lambda>_ _. False) DefaultOrchestratorConfig () one_sandbox"
    unfolding one_sandbox_def by (rule r_into_rtranclp, rule orch_step.create) (simp add: NewOrch_def NewVMStore_def)
  obtain inst where "orch_Get one_sandbox ''sb-0a1b2c3d'' = Some inst" and "vi_ExpiresAt inst = 300 * second"
    by (simp add: one_sandbox_def Create_def check_capacity_def CreateAdmitted_def idle_runtime_def NewOrch_def NewVMStore_def
        store_Count_def DefaultOrchestratorConfig_def plain_request_def Let_def orch_Get_def store_Get_def
        store_Put_def sandbox_id_def duration_seconds_small)
  then show ?thesis
    using cleanup_removes_exactly_expired [OF r, of "301 * second" "''sb-0a1b2c3d''"]
      cleanup_removes_exactly_expired [OF r, of "299 * second" "''sb-0a1b2c3d''"]
    by (simp add: is_expired_def second_def zero_time_def)
qed

text \<open>
  C27. Shutting down empties the store and asks the backend to destroy every sandbox, even when some
  of these calls fail.
\<close>
theorem Shutdown_destroys_everything:
  assumes "orch_reachable rt cl env cfg r orc"
  shows "orch_List (Shutdown rt orc) = []
    \<and> backend (Shutdown rt orc) = destroy_all rt (map vi_ID (orch_List orc)) (backend orc)"
proof -
  have ok: "store_ok (store orc)"
    using orch_reachable_capacity [OF assms] by (simp add: within_capacity_def)
  then have "distinct (map vi_ID (store_List (store orc)))"
    "vi_ID ` set (store_List (store orc)) \<subseteq> gm_keys (store orc)"
    using store_ok_ids [OF ok] by (simp_all add: store_ok_def flip: set_map)
  then have "backend (Shutdown rt orc) = destroy_all rt (map vi_ID (store_List (store orc))) (backend orc)"
    unfolding Shutdown_def by (rule backend_of_delete_all)
  then show ?thesis by (simp add: orch_List_def store_of_Shutdown [OF ok]) (simp add: store_List_def)
qed

lemma Shutdown_destroys_everything_witness: "orch_List (Shutdown idle_runtime one_sandbox) = []"
proof -
  have r: "orch_reachable idle_runtime no_client (\<lambda>_ _. False) DefaultOrchestratorConfig () one_sandbox"
    unfolding one_sandbox_def by (rule r_into_rtranclp, rule orch_step.create) (simp add: NewOrch_def NewVMStore_def)
  from Shutdown_destroys_everything [OF r] show ?thesis by simp
qed

text \<open>
  Pausing succeeds exactly on a stored, running sandbox whose backend pause succeeds, and changes
  only the state of that entry; then a second pause is refused without asking the backend, and a
  successful resume gives back exactly the entries there were before the pause.
\<close>
theorem Pause_then_Resume:
  assumes "store_ok (store orc)"
    and "Pause rt i orc = (e, orc1)"
  shows "(e = None \<longleftrightarrow> (\<exists>inst. orch_Get orc i = Some inst \<and> vi_State inst = ''running''
            \<and> fst (rt_Pause rt i (backend orc)) = None))
    \<and> (e \<noteq> None \<longrightarrow> store orc1 = store orc)
    \<and> (e = None \<longrightarrow> (\<forall>j. orch_Get orc1 j
          = (if j = i then map_option (vi_State_update (\<lambda>_. ''paused'')) (orch_Get orc i) else orch_Get orc j))
        \<and> Pause rt i orc1 = (Some (''sandbox '' @ i @ '' is not running (status: paused)''), orc1)
        \<and> (\<forall>orc2. Resume rt i orc1 = (None, orc2) \<longrightarrow> (\<forall>j. orch_Get orc2 j = orch_Get orc j)))"
  using assms(2)
proof (cases rule: Pause_cases)
  case refused
  then show ?thesis by (auto simp: orch_Get_def)
next
  case (failed r1)
  then show ?thesis by auto
next
  case (paused inst r1)
  have i: "vi_ID inst = i" using store_ok_Get [OF assms(1) paused(2)] by simp
  have g: "orch_Get orc1 j = (if j = i then Some (inst\<lparr>vi_State := ''paused''\<rparr>) else orch_Get orc j)" for j
    by (simp add: paused(5) orch_Get_def store_Get_def store_Put_def i)
  have again: "Pause rt i orc1 = (Some (''sandbox '' @ i @ '' is not running (status: paused)''), orc1)"
    using g [of i] by (simp add: Pause_def orch_Get_def)
  have undone: "orch_Get orc2 j = orch_Get orc j" if r: "Resume rt i orc1 = (None, orc2)" for orc2 j
    using r
  proof (cases rule: Resume_cases)
    case (resumed inst' r2)
    with g [of i] have "inst' = inst\<lparr>vi_State := ''paused''\<rparr>" by (simp add: orch_Get_def)
    moreover have "inst\<lparr>vi_State := ''running''\<rparr> = inst" using paused(3) by simp
    ultimately show ?thesis
      using g [of j] paused(2) by (auto simp: resumed(5) orch_Get_def store_Get_def store_Put_def i)
  qed auto
  show ?thesis
    using paused g again undone by (auto simp: orch_Get_def)
qed

lemma Pause_then_Resume_witness:
  "\<exists>orc1 orc2. Pause idle_runtime ''sb-0a1b2c3d'' one_sandbox = (None, orc1)
     \<and> Resume idle_runtime ''sb-0a1b2c3d'' orc1 = (None, orc2)
     \<and> orch_Get orc2 ''sb-0a1b2c3d'' = orch_Get one_sandbox ''sb-0a1b2c3d''"
proof -
  obtain inst where s: "store one_sandbox = [(''sb-0a1b2c3d'', inst)]" and v: "vi_State inst = ''running''" "vi_ID inst = ''sb-0a1b2c3d''"
    by (simp add: one_sandbox_def Create_def check_capacity_def CreateAdmitted_def idle_runtime_def NewOrch_def NewVMStore_def
        store_Count_def DefaultOrchestratorConfig_def plain_request_def Let_def orch_Get_def store_Get_def
        store_Put_def sandbox_id_def)
  have ok: "store_ok (store one_sandbox)" using s v by (simp add: store_ok_def)
  obtain orc1 where p: "Pause idle_runtime ''sb-0a1b2c3d'' one_sandbox = (None, orc1)"
    using s v by (simp add: Pause_def store_Get_def idle_runtime_def)
  obtain orc2 where r: "Resume idle_runtime ''sb-0a1b2c3d'' orc1 = (None, orc2)"
    using s v p by (auto simp: Pause_def Resume_def store_Get_def store_Put_def idle_runtime_def)
  from Pause_then_Resume [OF ok p] r p show ?thesis by auto
qed

section \<open>Requests handled at the same time\<close>

text \<open>
  The handlers run in parallel and the store's lock covers single calls only. Up to \<open>n\<close> creations
  and restorations may be between their capacity check and their store write, in any order. The
  pending calls are those that passed \<open>check_capacity\<close>; \<open>run_call\<close> is the whole call as one step,
  \<open>finish_call\<close> what is left of it after the check.
\<close>

datatype orch_call = CreateCall CreateRequest | RestoreCall string int

fun run_call ::
  "'r runtime \<Rightarrow> 'r http_client \<Rightarrow> string \<Rightarrow> time \<Rightarrow> orch_call \<Rightarrow> 'r orch \<Rightarrow> (string + VMInstance) \<times> 'r orch" where
  "run_call rt cl uuid now (CreateCall req) orc = Create rt cl uuid now req orc"
| "run_call rt cl uuid now (RestoreCall snap timeout) orc = Restore rt uuid now snap timeout orc"

fun finish_call ::
  "'r runtime \<Rightarrow> 'r http_client \<Rightarrow> string \<Rightarrow> time \<Rightarrow> orch_call \<Rightarrow> 'r orch \<Rightarrow> (string + VMInstance) \<times> 'r orch" where
  "finish_call rt cl uuid now (CreateCall req) orc = CreateAdmitted rt cl uuid now req orc"
| "finish_call rt cl uuid now (RestoreCall snap timeout) orc = RestoreAdmitted rt uuid now snap timeout orc"

inductive conc_step ::
  "'r runtime \<Rightarrow> 'r http_client \<Rightarrow> nat \<Rightarrow> 'r orch \<times> orch_call list \<Rightarrow> 'r orch \<times> orch_call list \<Rightarrow> bool"
  for rt :: "'r runtime" and cl :: "'r http_client" and n :: nat where
  admit: "check_capacity orc = None \<Longrightarrow> length ps < n \<Longrightarrow> conc_step rt cl n (orc, ps) (orc, c # ps)"
| finish: "c \<in> set ps \<Longrightarrow> sandbox_id uuid \<notin> gm_keys (store orc) \<Longrightarrow>
     conc_step rt cl n (orc, ps) (snd (finish_call rt cl uuid now c orc), remove1 c ps)"
| remove: "conc_step rt cl n (orc, ps) (snd (Delete rt i orc), ps)"
| expire: "conc_step rt cl n (orc, ps) (cleanupExpired rt now orc, ps)"

inductive_simps conc_step_pair: "conc_step rt cl n (orc, ps) (orc', ps')"

lemma check_capacity_None: "check_capacity orc = None \<longleftrightarrow> store_Count (store orc) < cf_MaxVMs (config orc)"
  by (auto simp: check_capacity_def)

text \<open>A call is refused exactly by the check, and is the check followed by the rest otherwise.\<close>

lemma run_call_split:
  "run_call rt cl uuid now c orc =
     (if store_Count (store orc) < cf_MaxVMs (config orc) then finish_call rt cl uuid now c orc
      else (Inl (''max sandboxes reached ('' @ dec (cf_MaxVMs (config orc)) @ '')''), orc))"
  by (cases c) (simp_all add: Create_def Restore_def check_capacity_def)

lemma store_Count_delete_all: "store_Count (store (delete_all rt insts orc)) \<le> store_Count (store orc)"
  by (simp add: store_of_delete_all store_Count_def)

text \<open>What is left of a call stores at most the one new entry.\<close>

lemma finish_call_store:
  "config (snd (finish_call rt cl uuid now c orc)) = config orc
   \<and> (store (snd (finish_call rt cl uuid now c orc)) = store orc
      \<or> (\<exists>inst. vi_ID inst = sandbox_id uuid
           \<and> store (snd (finish_call rt cl uuid now c orc)) = store_Put inst (store orc)))"
proof (cases c)
  case (CreateCall req)
  obtain res orc' where c: "CreateAdmitted rt cl uuid now req orc = (res, orc')" by fastforce
  then show ?thesis by (cases rule: CreateAdmitted_cases) (simp_all add: CreateCall c, blast)
next
  case (RestoreCall snap timeout)
  obtain x r1 where "rt_Restore rt snap (sandbox_id uuid) (backend orc) = (x, r1)" by fastforce
  then show ?thesis
    by (cases x; simp add: RestoreCall RestoreAdmitted_def Let_def) (intro conjI impI disjI2 exI conjI [rotated]; (rule refl)?; simp)
qed

lemma store_Count_finish_call:
  "store_Count (store (snd (finish_call rt cl uuid now c orc))) \<le> store_Count (store orc) + 1"
  using finish_call_store [of rt cl uuid now c orc] by (auto simp: store_Count_def length_store_Put)

lemma conc_step_bound:
  "conc_step rt cl n s s' \<Longrightarrow>
     store_Count (store (fst s)) + int (length (snd s)) \<le> max 0 (cf_MaxVMs (config (fst s)) - 1) + int n \<Longrightarrow>
     config (fst s') = config (fst s) \<and>
     store_Count (store (fst s')) + int (length (snd s')) \<le> max 0 (cf_MaxVMs (config (fst s)) - 1) + int n"
proof (induction rule: conc_step.induct)
  case (admit orc ps c)
  then show ?case by (simp add: check_capacity_None)
next
  case (finish c ps uuid orc now)
  then have "length (remove1 c ps) = length ps - 1" "0 < length ps"
    by (auto simp: length_remove1)
  then have "int (length (remove1 c ps)) = int (length ps) - 1" by linarith
  with finish store_Count_finish_call [of rt cl uuid now c orc] finish_call_store [of rt cl uuid now c orc]
  show ?case by simp
next
  case (remove orc ps i)
  then show ?case using gm_length_del_le [of i "store orc"] by (simp add: store_Count_def store_of_Delete)
next
  case (expire orc ps now)
  have "store_Count (store (cleanupExpired rt now orc)) \<le> store_Count (store orc)"
    unfolding cleanupExpired_def by (rule store_Count_delete_all)
  with expire show ?case by (simp add: delete_all_cons_config)
qed

lemma conc_reachable_bound:
  assumes "(conc_step rt cl n)\<^sup>*\<^sup>* (NewOrch cfg r, []) s"
  shows "config (fst s) = cfg \<and> store_Count (store (fst s)) + int (length (snd s)) \<le> max 0 (cf_MaxVMs cfg - 1) + int n"
  using assms
proof (induction rule: rtranclp_induct)
  case base
  then show ?case by (simp add: NewOrch_def NewVMStore_def store_Count_def)
next
  case (step s s')
  then show ?case using conc_step_bound [OF step(2)] by simp
qed

text \<open>How the bound is reached, on a backend that boots every sandbox.\<close>

definition boots_all :: "'r runtime \<Rightarrow> bool" where
  "boots_all rt \<longleftrightarrow> (\<forall>opts r. \<not> (\<exists>e. fst (rt_Create rt opts r) = Inl e))"

lemma finish_call_boots:
  assumes "boots_all rt" and "sandbox_id uuid \<notin> gm_keys (store orc)"
    and "orc' = snd (finish_call rt cl uuid now (CreateCall req) orc)"
  shows "config orc' = config orc" "gm_keys (store orc') = insert (sandbox_id uuid) (gm_keys (store orc))"
    "store_Count (store orc') = store_Count (store orc) + 1"
proof -
  obtain res where c: "CreateAdmitted rt cl uuid now req orc = (res, orc')"
    using assms(3) by (cases "CreateAdmitted rt cl uuid now req orc") auto
  then have "config orc' = config orc \<and> gm_keys (store orc') = insert (sandbox_id uuid) (gm_keys (store orc))
      \<and> store_Count (store orc') = store_Count (store orc) + 1"
  proof (cases rule: CreateAdmitted_cases)
    case (failed e r1 opts)
    then show ?thesis using assms(1) by (auto simp: boots_all_def) (metis fst_conv)
  next
    case (created opts sb r1 r2 inst)
    then show ?thesis using assms(2) by (simp add: store_Put_def store_Count_def gm_length_put)
  qed
  then show "config orc' = config orc" "gm_keys (store orc') = insert (sandbox_id uuid) (gm_keys (store orc))"
    "store_Count (store orc') = store_Count (store orc) + 1" by simp_all
qed

lemma admit_many:
  assumes "check_capacity orc = None" and "k + length ps \<le> n"
  shows "(conc_step rt cl n)\<^sup>*\<^sup>* (orc, ps) (orc, replicate k c @ ps)"
  using assms(2)
proof (induction k)
  case (Suc k)
  then have "(conc_step rt cl n)\<^sup>*\<^sup>* (orc, ps) (orc, replicate k c @ ps)" by simp
  moreover have "conc_step rt cl n (orc, replicate k c @ ps) (orc, replicate (Suc k) c @ ps)"
    using assms(1) Suc.prems by (auto intro: conc_step.admit)
  ultimately show ?case by (rule rtranclp.rtrancl_into_rtrancl)
qed simp

lemma finish_many:
  assumes "boots_all rt" and "distinct (map sandbox_id us)" and "sandbox_id ` set us \<inter> gm_keys (store orc) = {}"
  shows "\<exists>orc'. (conc_step rt cl n)\<^sup>*\<^sup>* (orc, replicate (length us) (CreateCall req)) (orc', [])
    \<and> config orc' = config orc \<and> gm_keys (store orc') = sandbox_id ` set us \<union> gm_keys (store orc)
    \<and> store_Count (store orc') = store_Count (store orc) + int (length us)"
  using assms(2,3)
proof (induction us arbitrary: orc)
  case Nil
  then show ?case by (intro exI [of _ orc]) simp
next
  case (Cons u us)
  let ?c = "CreateCall req" and ?one = "snd (finish_call rt cl u 0 (CreateCall req) orc)"
  have u: "sandbox_id u \<notin> gm_keys (store orc)" using Cons.prems by auto
  note one = finish_call_boots [OF assms(1) u, of ?one cl 0 req, OF refl]
  have st: "conc_step rt cl n (orc, replicate (length (u # us)) ?c) (?one, replicate (length us) ?c)"
    using conc_step.finish [of ?c "replicate (length (u # us)) ?c" u orc rt cl n 0] u by simp
  have "sandbox_id ` set us \<inter> gm_keys (store ?one) = {}"
    using Cons.prems one(2) by auto
  with Cons.IH [of ?one] Cons.prems(1) obtain orc' where
    r: "(conc_step rt cl n)\<^sup>*\<^sup>* (?one, replicate (length us) ?c) (orc', [])"
    and o: "config orc' = config ?one" "gm_keys (store orc') = sandbox_id ` set us \<union> gm_keys (store ?one)"
      "store_Count (store orc') = store_Count (store ?one) + int (length us)"
    by auto
  from converse_rtranclp_into_rtranclp [OF st r] o one show ?case
    by (intro exI [of _ orc']) (auto simp: Un_commute)
qed

text \<open>Creations that do not overlap fill the store up to its limit.\<close>

lemma create_one_by_one:
  assumes "boots_all rt" and "0 < n" and "distinct (map sandbox_id us)"
    and "sandbox_id ` set us \<inter> gm_keys (store orc) = {}"
    and "store_Count (store orc) + int (length us) \<le> cf_MaxVMs (config orc)"
  shows "\<exists>orc'. (conc_step rt cl n)\<^sup>*\<^sup>* (orc, []) (orc', [])
    \<and> config orc' = config orc \<and> gm_keys (store orc') = sandbox_id ` set us \<union> gm_keys (store orc)
    \<and> store_Count (store orc') = store_Count (store orc) + int (length us)"
  using assms(3-5)
proof (induction us arbitrary: orc)
  case Nil
  then show ?case by (intro exI [of _ orc]) simp
next
  case (Cons u us)
  let ?one = "snd (finish_call rt cl u 0 (CreateCall req) orc)"
  have u: "sandbox_id u \<notin> gm_keys (store orc)" using Cons.prems by auto
  note one = finish_call_boots [OF assms(1) u, of ?one cl 0 req, OF refl]
  have "conc_step rt cl n (orc, []) (orc, [CreateCall req])"
    using Cons.prems(3) assms(2) by (intro conc_step.admit) (simp_all add: check_capacity_None)
  moreover have "conc_step rt cl n (orc, [CreateCall req]) (?one, [])"
    using conc_step.finish [of "CreateCall req" "[CreateCall req]" u orc rt cl n 0] u by simp
  moreover have "sandbox_id ` set us \<inter> gm_keys (store ?one) = {}"
    using Cons.prems one(2) by auto
  with Cons.IH [of ?one] Cons.prems one obtain orc' where
    "(conc_step rt cl n)\<^sup>*\<^sup>* (?one, []) (orc', [])"
    and o: "config orc' = config ?one" "gm_keys (store orc') = sandbox_id ` set us \<union> gm_keys (store ?one)"
      "store_Count (store orc') = store_Count (store ?one) + int (length us)"
    by auto
  ultimately have "(conc_step rt cl n)\<^sup>*\<^sup>* (orc, []) (orc', [])"
    by (meson converse_rtranclp_into_rtranclp)
  with o one show ?case by (intro exI [of _ orc']) (auto simp: Un_commute)
qed

lemma concurrent_bound_reached:
  assumes "boots_all rt" and "1 \<le> n" and "1 \<le> cf_MaxVMs cfg" and "distinct (map sandbox_id uuids)"
    and "int (length uuids) = cf_MaxVMs cfg + int n - 1"
  shows "\<exists>orc. (conc_step rt cl n)\<^sup>*\<^sup>* (NewOrch cfg r, []) (orc, [])
    \<and> gm_keys (store orc) = sandbox_id ` set uuids \<and> store_Count (store orc) = cf_MaxVMs cfg + int n - 1"
proof -
  let ?m = "length uuids - n" and ?new = "NewOrch cfg r"
  have m: "int ?m = cf_MaxVMs cfg - 1" and d: "length (drop ?m uuids) = n"
    using assms(2,3,5) by auto
  have dis: "distinct (map sandbox_id (take ?m uuids))" "distinct (map sandbox_id (drop ?m uuids))"
    "sandbox_id ` set (take ?m uuids) \<inter> sandbox_id ` set (drop ?m uuids) = {}"
    using assms(4) distinct_append [of "map sandbox_id (take ?m uuids)" "map sandbox_id (drop ?m uuids)"]
    by (simp_all flip: map_append)
  have u: "sandbox_id ` set (take ?m uuids) \<union> sandbox_id ` set (drop ?m uuids) = sandbox_id ` set uuids"
    by (simp flip: image_Un set_append)
  have new: "store_Count (store ?new) = 0" "config ?new = cfg" "gm_keys (store ?new) = {}"
    by (simp_all add: NewOrch_def NewVMStore_def store_Count_def)
  have "length (take ?m uuids) = ?m" by simp
  with create_one_by_one [OF assms(1) _ dis(1), of n ?new cl] assms(2) new m obtain orc1 where
    r1: "(conc_step rt cl n)\<^sup>*\<^sup>* (?new, []) (orc1, [])"
    and o1: "config orc1 = cfg" "gm_keys (store orc1) = sandbox_id ` set (take ?m uuids)"
      "store_Count (store orc1) = cf_MaxVMs cfg - 1"
    by auto
  have "check_capacity orc1 = None" using o1 by (simp add: check_capacity_None)
  from admit_many [OF this, of n "[]" n rt cl "CreateCall plain_request"] have
    r2: "(conc_step rt cl n)\<^sup>*\<^sup>* (orc1, []) (orc1, replicate (length (drop ?m uuids)) (CreateCall plain_request))"
    by (simp only: d append_Nil2) simp
  from finish_many [OF assms(1) dis(2), of orc1 cl n plain_request] dis(3) o1 d obtain orc2 where
    r3: "(conc_step rt cl n)\<^sup>*\<^sup>* (orc1, replicate (length (drop ?m uuids)) (CreateCall plain_request)) (orc2, [])"
    and o2: "gm_keys (store orc2) = sandbox_id ` set (drop ?m uuids) \<union> sandbox_id ` set (take ?m uuids)"
      "store_Count (store orc2) = cf_MaxVMs cfg - 1 + int n"
    by (auto simp: Int_commute)
  from r1 r2 r3 have "(conc_step rt cl n)\<^sup>*\<^sup>* (?new, []) (orc2, [])" by (meson rtranclp_trans)
  with o2 u show ?thesis by (intro exI [of _ orc2]) (auto simp: Un_commute)
qed

text \<open>
  C25. The capacity check and the store write of a creation or restoration are separate steps.
  A call that runs alone is refused exactly when the store holds MaxVMs sandboxes. With at most n
  creations and restorations in flight there are never more than MaxVMs + n - 1 sandboxes,
  pending ones included; and that many are reached on every backend that boots what it is asked
  to, for any distinct generated identifiers. So MaxVMs itself is kept only when calls do not
  overlap.
\<close>
theorem concurrent_creates_bound:
  assumes "1 \<le> n" and "1 \<le> cf_MaxVMs cfg"
  shows "(\<forall>rt cl uuid now c orc. run_call rt cl uuid now c orc =
        (if store_Count (store orc) < cf_MaxVMs (config orc) then finish_call rt cl uuid now c orc
         else (Inl (''max sandboxes reached ('' @ dec (cf_MaxVMs (config orc)) @ '')''), orc)))
    \<and> (\<forall>orc pending. (conc_step rt cl n)\<^sup>*\<^sup>* (NewOrch cfg r, []) (orc, pending) \<longrightarrow>
        store_Count (store orc) + int (length pending) \<le> cf_MaxVMs cfg + int n - 1)
    \<and> (boots_all rt \<longrightarrow> (\<forall>uuids. distinct (map sandbox_id uuids) \<longrightarrow>
        int (length uuids) = cf_MaxVMs cfg + int n - 1 \<longrightarrow>
        (\<exists>orc. (conc_step rt cl n)\<^sup>*\<^sup>* (NewOrch cfg r, []) (orc, [])
           \<and> gm_keys (store orc) = sandbox_id ` set uuids
           \<and> store_Count (store orc) = cf_MaxVMs cfg + int n - 1)))"
proof -
  have "store_Count (store orc) + int (length pending) \<le> cf_MaxVMs cfg + int n - 1"
    if "(conc_step rt cl n)\<^sup>*\<^sup>* (NewOrch cfg r, []) (orc, pending)" for orc pending
    using conc_reachable_bound [OF that] assms by simp
  moreover note concurrent_bound_reached [OF _ assms, of rt _ cl r]
  ultimately show ?thesis by (intro conjI allI impI) (simp_all only: run_call_split not_False_eq_True)
qed

text \<open>Two overlapping creations exceed a capacity of one.\<close>

lemma concurrent_creates_bound_witness:
  "\<exists>orc :: unit orch. (conc_step idle_runtime no_client 2)\<^sup>*\<^sup>* (NewOrch small_config (), []) (orc, [])
     \<and> gm_keys (store orc) = {''sb-0a1b2c3d'', ''sb-4e5f6a7b''} \<and> store_Count (store orc) = 2"
proof -
  have "boots_all (idle_runtime :: unit runtime)" by (simp add: boots_all_def idle_runtime_def)
  moreover have "distinct (map sandbox_id [''0a1b2c3d'', ''4e5f6a7b''])" by (simp add: sandbox_id_def)
  moreover have "int (length [''0a1b2c3d'', ''4e5f6a7b'']) = cf_MaxVMs small_config + int 2 - 1"
    by (simp add: small_config_def)
  ultimately obtain orc :: "unit orch" where
    "(conc_step idle_runtime no_client 2)\<^sup>*\<^sup>* (NewOrch small_config (), []) (orc, [])"
    "gm_keys (store orc) = sandbox_id ` set [''0a1b2c3d'', ''4e5f6a7b'']"
    "store_Count (store orc) = cf_MaxVMs small_config + int 2 - 1"
    using concurrent_creates_bound [of 2 small_config idle_runtime no_client "()"]
    by (auto simp: small_config_def dest!: spec [of _ "[''0a1b2c3d'', ''4e5f6a7b'']"])
  then show ?thesis by (intro exI [of _ orc]) (simp add: sandbox_id_def small_config_def insert_commute)
qed

section \<open>The store and a backend that tracks its sandboxes\<close>

context tracked_backend
begin

definition synced :: "'r orch \<Rightarrow> bool" where
  "synced orc \<longleftrightarrow> ok (backend orc) \<and> gm_keys (store orc) = live (backend orc)"

lemma synced_initAgent: "ok r \<Longrightarrow> ok (initAgent cl url envs r) \<and> live (initAgent cl url envs r) = live r"
  unfolding initAgent_def by (rule env_live, assumption, rule client_env) (rule prod.collapse [symmetric])

lemma synced_CreateAdmitted:
  assumes "synced orc" "sandbox_id uuid \<notin> gm_keys (store orc)"
  shows "synced (snd (CreateAdmitted rt cl uuid now req orc))"
proof -
  obtain res orc' where c: "CreateAdmitted rt cl uuid now req orc = (res, orc')" by fastforce
  then show ?thesis
  proof (cases rule: CreateAdmitted_cases)
    case (failed e r1 opts)
    with assms create_live [OF _ _ failed(1)] show ?thesis by (simp add: synced_def c)
  next
    case (created opts sb r1 r2 inst)
    have "ok r1 \<and> live r1 = insert (sandbox_id uuid) (live (backend orc))"
      using assms create_live [OF _ _ created(1)] created(2) by (simp add: synced_def)
    then have "ok r2 \<and> live r2 = insert (sandbox_id uuid) (live (backend orc))"
      using synced_initAgent [of r1] by (simp add: created(3))
    with assms created show ?thesis by (simp add: synced_def c)
  qed
qed

lemma synced_Create: "synced orc \<Longrightarrow> sandbox_id uuid \<notin> gm_keys (store orc) \<Longrightarrow> synced (snd (Create rt cl uuid now req orc))"
  by (simp add: Create_def synced_CreateAdmitted split: option.split)

lemma synced_Restore:
  assumes "synced orc" "sandbox_id uuid \<notin> gm_keys (store orc)"
  shows "synced (snd (Restore rt uuid now snap timeout orc))"
proof -
  obtain res orc' where c: "Restore rt uuid now snap timeout orc = (res, orc')" by fastforce
  then show ?thesis
  proof (cases rule: Restore_cases)
    case (failed e r1)
    with assms restore_live [OF _ _ failed(2)] show ?thesis by (simp add: synced_def c)
  next
    case (restored sb r1 inst)
    with assms restore_live [OF _ _ restored(2)] show ?thesis by (simp add: synced_def c)
  qed (use assms c in simp)
qed

lemma synced_Delete: "synced orc \<Longrightarrow> synced (snd (Delete rt i orc))"
proof (cases "store_Get (store orc) i")
  case (Some inst)
  assume s: "synced orc"
  obtain e r1 where d: "rt_Destroy rt i (backend orc) = (e, r1)" by fastforce
  from s destroy_live [OF _ d] Some d show ?thesis by (simp add: synced_def Delete_def)
qed (simp add: Delete_def)

lemma synced_delete_all: "synced orc \<Longrightarrow> synced (delete_all rt insts orc)"
  by (induction insts arbitrary: orc) (auto intro: synced_Delete)

lemma synced_Pause: "synced orc \<Longrightarrow> store_ok (store orc) \<Longrightarrow> synced (snd (Pause rt i orc))"
proof -
  assume s: "synced orc" "store_ok (store orc)"
  obtain e orc' where c: "Pause rt i orc = (e, orc')" by fastforce
  then show ?thesis
  proof (cases rule: Pause_cases)
    case (failed r1)
    with s pause_live [OF _ failed(2)] show ?thesis by (simp add: synced_def c)
  next
    case (paused inst r1)
    with s pause_live [OF _ paused(4)] store_Get_keys [OF paused(2)] store_ok_Get [OF s(2) paused(2)]
    show ?thesis by (auto simp: synced_def c)
  qed (use s c in simp)
qed

lemma synced_Resume: "synced orc \<Longrightarrow> store_ok (store orc) \<Longrightarrow> synced (snd (Resume rt i orc))"
proof -
  assume s: "synced orc" "store_ok (store orc)"
  obtain e orc' where c: "Resume rt i orc = (e, orc')" by fastforce
  then show ?thesis
  proof (cases rule: Resume_cases)
    case (failed r1)
    with s resume_live [OF _ failed(2)] show ?thesis by (simp add: synced_def c)
  next
    case (resumed inst r1)
    with s resume_live [OF _ resumed(4)] store_Get_keys [OF resumed(2)] store_ok_Get [OF s(2) resumed(2)]
    show ?thesis by (auto simp: synced_def c)
  qed (use s c in simp)
qed

lemma synced_Snapshot: "synced orc \<Longrightarrow> synced (snd (Snapshot rt i snap orc))"
proof -
  assume s: "synced orc"
  obtain e r1 where d: "rt_Snapshot rt i snap (backend orc) = (e, r1)" by fastforce
  from s snapshot_live [OF _ d] d show ?thesis
    by (auto simp: synced_def Snapshot_def split: option.splits)
qed

lemma synced_step:
  "orch_step rt cl env orc orc' \<Longrightarrow> store_ok (store orc) \<Longrightarrow> synced orc \<Longrightarrow> synced orc'"
proof (induction rule: orch_step.induct)
  case (delete_snapshot orc snap)
  obtain e r1 where d: "rt_DeleteSnapshot rt snap (backend orc) = (e, r1)" by fastforce
  with delete_snapshot delete_snapshot_live [OF _ d] show ?case by (simp add: synced_def)
next
  case (list_snapshots orc i)
  obtain e r1 where d: "rt_ListSnapshots rt i (backend orc) = (e, r1)" by fastforce
  with list_snapshots list_snapshots_live [OF _ d] show ?case by (simp add: synced_def)
next
  case (relabel orc i inst st)
  then have "vi_ID inst = i" "i \<in> gm_keys (store orc)"
    using store_ok_Get store_Get_keys by (auto simp: orch_Get_def)
  with relabel show ?case by (auto simp: synced_def)
next
  case (world orc r)
  then show ?case using env_live [of "backend orc" r] by (simp add: synced_def)
next
  case (cleanup orc now)
  then show ?case unfolding cleanupExpired_def by (intro synced_delete_all)
next
  case (shutdown orc)
  then show ?case unfolding Shutdown_def by (intro synced_delete_all)
qed (simp_all add: synced_Create synced_Restore synced_Delete synced_Pause synced_Resume synced_Snapshot)

lemma reachable_synced:
  assumes "orch_reachable rt cl env cfg r orc" "ok r" "live r = {}"
  shows "ok (backend orc) \<and> gm_keys (store orc) = live (backend orc)"
proof -
  have "synced orc"
    using assms(1)
  proof (induction rule: rtranclp_induct)
    case base
    then show ?case using assms(2,3) by (simp add: synced_def NewOrch_def NewVMStore_def)
  next
    case (step y z)
    have "store_ok (store y)" using orch_reachable_capacity [OF step(1)] by (simp add: within_capacity_def)
    then show ?case using synced_step step by blast
  qed
  then show ?thesis by (simp add: synced_def)
qed

end

context runtime_backend
begin

lemma CreateAdmitted_backend:
  assumes "CreateAdmitted rt cl uuid now req orc = (Inr inst, orc')"
  obtains opts sb r1 where "rt_Create rt opts (backend orc) = (Inr sb, r1)" "co_ID opts = vi_ID inst"
    "co_Template opts = vi_Template inst" "co_VCPUs opts = vi_VCPUs inst" "co_MemoryMB opts = vi_MemoryMB inst"
    "sb_ID sb = vi_ID inst" "sb_State sb = vi_State inst" "sb_Runtime sb = vi_Runtime inst"
    "sb_AgentURL sb = vi_AgentURL inst" "sb_IP sb = vi_GuestIP inst"
proof -
  let ?opts = "\<lparr>co_ID = sandbox_id uuid,
     co_Template = (if cr_Template req = '''' then ''base'' else cr_Template req),
     co_VCPUs = (if cr_VCPUs req > 0 then cr_VCPUs req else 1),
     co_MemoryMB = (if cr_MemoryMB req > 0 then cr_MemoryMB req else 512), co_EnvVars = cr_EnvVars req\<rparr>"
  obtain x r1 where c: "rt_Create rt ?opts (backend orc) = (x, r1)" by fastforce
  obtain sb where x: "x = Inr sb"
    using assms c by (cases x) (auto simp: CreateAdmitted_def Let_def)
  show ?thesis
    using assms create_sandbox [OF c [unfolded x]]
    by (intro that [OF c [unfolded x]]) (auto simp: CreateAdmitted_def Let_def c x)
qed

end

end
