(* ===== verification/Go_Host.thy ===== *)
theory Go_Host
  imports Go_Http
begin

text \<open>
  Package \<open>path/filepath\<close> on Unix, and the host the programs run on: its files, processes, sockets
  and clock, as a record of functions over an abstract world \<open>'w\<close>. \<open>logging\<close> runs the same host
  and notes every call that acts on it, so that a theorem can speak of the calls a routine makes.
\<close>

section \<open>Paths\<close>

text \<open>\<open>Clean\<close>: the kept components, last one first; \<open>..\<close> drops the component before it.\<close>

fun clean_parts :: "bool \<Rightarrow> string list \<Rightarrow> string list \<Rightarrow> string list" where
  "clean_parts rooted [] out = rev out"
| "clean_parts rooted (p # ps) out =
     (if p = '''' \<or> p = ''.'' then clean_parts rooted ps out
      else if p = ''..'' then
        (case out of
           [] \<Rightarrow> clean_parts rooted ps (if rooted then [] else [''..''])
         | q # out' \<Rightarrow> clean_parts rooted ps (if q = ''..'' then ''..'' # out else out'))
      else clean_parts rooted ps (p # out))"

definition clean_path :: "string \<Rightarrow> string" where
  "clean_path s =
     (let rooted = has_prefix s ''/''; parts = clean_parts rooted (split_byte CHR ''/'' s) []
      in if rooted then ''/'' @ join ''/'' parts
         else if parts = [] then ''.'' else join ''/'' parts)"

definition path_join :: "string list \<Rightarrow> string" where
  "path_join elems =
     (let es = dropWhile (\<lambda>e. e = '''') elems in if es = [] then '''' else clean_path (join ''/'' es))"

definition path_dir :: "string \<Rightarrow> string" where
  "path_dir s = clean_path (take (case last_index_byte s CHR ''/'' of None \<Rightarrow> 0 | Some i \<Rightarrow> Suc i) s)"

section \<open>The host\<close>

record file_info =
  fi_Size :: int
  fi_ModTime :: string
  fi_IsDir :: bool

record 'w host =
  h_sh :: "'w shell"
  h_stat :: "string \<Rightarrow> 'w \<Rightarrow> string + file_info"
  h_readDir :: "string \<Rightarrow> 'w \<Rightarrow> (bool \<times> string) + (string \<times> bool) list"
  h_mkdirAll :: "string \<Rightarrow> 'w \<Rightarrow> string option \<times> 'w"
  h_removeAll :: "string \<Rightarrow> 'w \<Rightarrow> string option \<times> 'w"
  h_remove :: "string \<Rightarrow> 'w \<Rightarrow> string option \<times> 'w"
  h_open :: "string \<Rightarrow> 'w \<Rightarrow> string option"
  h_create :: "string \<Rightarrow> 'w \<Rightarrow> string option \<times> 'w"
  h_copy :: "string \<Rightarrow> string \<Rightarrow> 'w \<Rightarrow> string option \<times> 'w"
  h_start :: "string list \<Rightarrow> string \<Rightarrow> 'w \<Rightarrow> (string + int) \<times> 'w"
  h_term :: "int \<Rightarrow> 'w \<Rightarrow> bool \<times> 'w"
  h_kill :: "int \<Rightarrow> 'w \<Rightarrow> 'w"
  h_sleep :: "int \<Rightarrow> 'w \<Rightarrow> 'w"
  h_http :: "'w http_client"
  h_unix :: "string \<Rightarrow> 'w http_client"

text \<open>
  \<open>h_readDir\<close> gives the entries (name, is a directory), or whether the directory does not exist
  and the error. \<open>h_start\<close> starts a process whose output goes to a file. \<open>h_term\<close> sends
  \<open>SIGTERM\<close> and tells whether the process ended within five seconds, \<open>h_kill\<close> kills it and waits
  for its end. \<open>h_unix\<close> is an HTTP client on a Unix socket. \<open>h_sleep\<close> takes milliseconds.
\<close>

definition stat_ok :: "'w host \<Rightarrow> string \<Rightarrow> 'w \<Rightarrow> bool" where
  "stat_ok h p w \<longleftrightarrow> (case h_stat h p w of Inl _ \<Rightarrow> False | Inr _ \<Rightarrow> True)"

section \<open>Calls noted in a log\<close>

datatype event =
    Ran "string list" bool
  | MkdirAll string
  | RemoveAll string
  | Removed string
  | Created string bool
  | Copied string string
  | Started "string list" "int option"
  | Terminated int
  | Killed int
  | Slept int
  | Http out_request "nat option"
  | Unix string out_request "nat option"

type_synonym 'w logged = "'w \<times> event list"

definition response_status :: "string + response \<Rightarrow> nat option" where
  "response_status r = (case r of Inl _ \<Rightarrow> None | Inr resp \<Rightarrow> Some (status resp))"

text \<open>The log is kept with the latest call first.\<close>

definition noting :: "('a \<Rightarrow> event) \<Rightarrow> ('w \<Rightarrow> 'a \<times> 'w) \<Rightarrow> 'w logged \<Rightarrow> 'a \<times> 'w logged" where
  "noting ev f = (\<lambda>(w, log). case f w of (a, w') \<Rightarrow> (a, (w', ev a # log)))"

definition logging :: "'w host \<Rightarrow> 'w logged host" where
  "logging h =
     \<lparr>h_sh = (\<lambda>cmd. noting (\<lambda>(e, out). Ran cmd (e = None)) (h_sh h cmd)),
      h_stat = (\<lambda>p (w, log). h_stat h p w),
      h_readDir = (\<lambda>p (w, log). h_readDir h p w),
      h_mkdirAll = (\<lambda>p. noting (\<lambda>e. MkdirAll p) (h_mkdirAll h p)),
      h_removeAll = (\<lambda>p. noting (\<lambda>e. RemoveAll p) (h_removeAll h p)),
      h_remove = (\<lambda>p. noting (\<lambda>e. Removed p) (h_remove h p)),
      h_open = (\<lambda>p (w, log). h_open h p w),
      h_create = (\<lambda>p. noting (\<lambda>e. Created p (e = None)) (h_create h p)),
      h_copy = (\<lambda>dst src. noting (\<lambda>e. Copied dst src) (h_copy h dst src)),
      h_start = (\<lambda>cmd out. noting (\<lambda>r. Started cmd (case r of Inl _ \<Rightarrow> None | Inr pid \<Rightarrow> Some pid)) (h_start h cmd out)),
      h_term = (\<lambda>pid. noting (\<lambda>e. Terminated pid) (h_term h pid)),
      h_kill = (\<lambda>pid wl. snd (noting (\<lambda>e. Killed pid) (\<lambda>w. ((), h_kill h pid w)) wl)),
      h_sleep = (\<lambda>ms wl. snd (noting (\<lambda>e. Slept ms) (\<lambda>w. ((), h_sleep h ms w)) wl)),
      h_http = (\<lambda>q. noting (\<lambda>r. Http q (response_status r)) (h_http h q)),
      h_unix = (\<lambda>s q. noting (\<lambda>r. Unix s q (response_status r)) (h_unix h s q))\<rparr>"

named_theorems logged \<open>what a call does to the log\<close>

lemma noting_eq: "noting ev f (w, log) = (a, wl) \<longleftrightarrow> (\<exists>w'. f w = (a, w') \<and> wl = (w', ev a # log))"
  by (auto simp: noting_def split: prod.splits)

lemma snd_noting: "snd (snd (noting ev f wl)) = ev (fst (noting ev f wl)) # snd wl"
  by (cases wl) (auto simp: noting_def split: prod.splits)

lemma logging_sel [logged]:
  "h_sh (logging h) cmd = noting (\<lambda>(e, out). Ran cmd (e = None)) (h_sh h cmd)"
  "h_stat (logging h) p wl = h_stat h p (fst wl)"
  "h_readDir (logging h) p wl = h_readDir h p (fst wl)"
  "h_mkdirAll (logging h) p = noting (\<lambda>e. MkdirAll p) (h_mkdirAll h p)"
  "h_removeAll (logging h) p = noting (\<lambda>e. RemoveAll p) (h_removeAll h p)"
  "h_remove (logging h) p = noting (\<lambda>e. Removed p) (h_remove h p)"
  "h_open (logging h) p wl = h_open h p (fst wl)"
  "h_create (logging h) p = noting (\<lambda>e. Created p (e = None)) (h_create h p)"
  "h_copy (logging h) dst src = noting (\<lambda>e. Copied dst src) (h_copy h dst src)"
  "h_start (logging h) cmd out = noting (\<lambda>r. Started cmd (case r of Inl _ \<Rightarrow> None | Inr pid \<Rightarrow> Some pid)) (h_start h cmd out)"
  "h_term (logging h) pid = noting (\<lambda>e. Terminated pid) (h_term h pid)"
  "h_kill (logging h) pid wl = (h_kill h pid (fst wl), Killed pid # snd wl)"
  "h_sleep (logging h) ms wl = (h_sleep h ms (fst wl), Slept ms # snd wl)"
  "h_http (logging h) q = noting (\<lambda>r. Http q (response_status r)) (h_http h q)"
  "h_unix (logging h) s q = noting (\<lambda>r. Unix s q (response_status r)) (h_unix h s q)"
  by (simp_all add: logging_def noting_def case_prod_unfold)

lemma noting_pair: "noting ev f (w, l) = (fst (f w), snd (f w), ev (fst (f w)) # l)"
  by (simp add: noting_def case_prod_unfold)

lemma sh_err_logging: "sh_err (h_sh (logging h)) cmd = noting (\<lambda>e. Ran cmd (e = None)) (sh_err (h_sh h) cmd)"
  by (auto simp: sh_err_def logging_sel noting_def fun_eq_iff split: prod.splits)

lemma snd_noting_pair: "snd (noting ev f (w, l)) = (snd (f w), ev (fst (f w)) # l)"
  by (simp add: noting_pair)


lemma new_events_Cons: "(\<exists>xs. y # zs = xs @ l \<and> P xs) \<longleftrightarrow> (y # zs = l \<and> P []) \<or> (\<exists>xs. zs = xs @ l \<and> P (y # xs))"
  by (auto simp: Cons_eq_append_conv)

section \<open>A host where everything works\<close>

definition good_host :: "unit host" where
  "good_host =
     \<lparr>h_sh = (\<lambda>cmd w. ((None, ''c0ffee'' @ [CHR 0x0A]), w)),
      h_stat = (\<lambda>p w. Inr \<lparr>fi_Size = 4096, fi_ModTime = '''', fi_IsDir = False\<rparr>),
      h_readDir = (\<lambda>p w. Inr []),
      h_mkdirAll = (\<lambda>p w. (None, w)), h_removeAll = (\<lambda>p w. (None, w)), h_remove = (\<lambda>p w. (None, w)),
      h_open = (\<lambda>p w. None), h_create = (\<lambda>p w. (None, w)), h_copy = (\<lambda>d s w. (None, w)),
      h_start = (\<lambda>cmd out w. (Inr 4711, w)), h_term = (\<lambda>pid w. (True, w)), h_kill = (\<lambda>pid w. w),
      h_sleep = (\<lambda>ms w. w),
      h_http = (\<lambda>q w. (Inr \<lparr>status = 200, rheaders = [], rbody = BEmpty\<rparr>, w)),
      h_unix = (\<lambda>s q w. (Inr \<lparr>status = 204, rheaders = [], rbody = BEmpty\<rparr>, w))\<rparr>"

section \<open>Polling\<close>

text \<open>
  \<open>for i := 0; i < n; i++ { if done { return nil }; time.Sleep(ms) }\<close>: whether the probe succeeded
  within \<open>n\<close> attempts.
\<close>

fun poll :: "nat \<Rightarrow> ('w \<Rightarrow> bool \<times> 'w) \<Rightarrow> ('w \<Rightarrow> 'w) \<Rightarrow> 'w \<Rightarrow> bool \<times> 'w" where
  "poll 0 probe wait w = (False, w)"
| "poll (Suc n) probe wait w =
     (case probe w of (True, w1) \<Rightarrow> (True, w1) | (False, w1) \<Rightarrow> poll n probe wait (wait w1))"

lemma poll_found: "fst (probe w) \<Longrightarrow> poll (Suc n) probe wait w = (True, snd (probe w))"
  by (cases "probe w") simp

fun polled :: "nat \<Rightarrow> ('w \<Rightarrow> bool \<times> 'w) \<Rightarrow> ('w \<Rightarrow> 'w) \<Rightarrow> 'w \<Rightarrow> 'w" where
  "polled 0 probe wait w = w"
| "polled (Suc k) probe wait w = polled k probe wait (wait (snd (probe w)))"

text \<open>The loop succeeds exactly when one of the first \<open>n\<close> probes does.\<close>

lemma poll_iff: "fst (poll n probe wait w) \<longleftrightarrow> (\<exists>k < n. fst (probe (polled k probe wait w)))"
proof (induction n arbitrary: w)
  case 0
  then show ?case by simp
next
  case (Suc n)
  obtain b w1 where p: "probe w = (b, w1)" by fastforce
  have "(\<exists>k < Suc n. fst (probe (polled k probe wait w))) \<longleftrightarrow>
      b \<or> (\<exists>k < n. fst (probe (polled k probe wait (wait w1))))"
    using less_Suc_eq_0_disj by (auto simp: p)
  with Suc show ?case by (cases b) (simp_all add: p)
qed

lemma poll_log:
  assumes p: "\<And>w l. \<exists>w' xs. snd (probe (w, l)) = (w', xs @ l) \<and> list_all P xs" and s: "P (Slept ms)"
  shows "\<exists>w' xs. snd (poll n probe (h_sleep (logging h) ms) (w, l)) = (w', xs @ l) \<and> list_all P xs"
proof (induction n arbitrary: w l)
  case 0
  then show ?case by (auto intro: exI [of _ "[]"])
next
  case (Suc n)
  obtain b w1 xs where 1: "probe (w, l) = (b, (w1, xs @ l))" "list_all P xs"
    using p [of w l] by (metis prod.collapse)
  show ?case
  proof (cases b)
    case True
    with 1 show ?thesis by (auto intro: exI [of _ w1])
  next
    case False
    have sl: "h_sleep (logging h) ms (w1, xs @ l) = (h_sleep h ms w1, Slept ms # xs @ l)"
      by (simp add: logging_sel)
    obtain w' ys where 2: "snd (poll n probe (h_sleep (logging h) ms) (h_sleep h ms w1, Slept ms # xs @ l))
        = (w', ys @ Slept ms # xs @ l)" "list_all P ys"
      using Suc by blast
    show ?thesis
      using False 1 2 s sl by (intro exI [of _ w'] exI [of _ "ys @ Slept ms # xs"]) simp
  qed
qed

lemma good_host_sel [logged]:
  "h_sh good_host cmd w = ((None, ''c0ffee'' @ [CHR 0x0A]), w)"
  "h_stat good_host p w = Inr \<lparr>fi_Size = 4096, fi_ModTime = '''', fi_IsDir = False\<rparr>"
  "h_mkdirAll good_host p w = (None, w)" "h_removeAll good_host p w = (None, w)" "h_remove good_host p w = (None, w)"
  "h_create good_host p w = (None, w)" "h_start good_host cmd out w = (Inr 4711, w)"
  "h_term good_host pid w = (True, w)"
  "h_http good_host q w = (Inr \<lparr>status = 200, rheaders = [], rbody = BEmpty\<rparr>, w)"
  "h_unix good_host s q w = (Inr \<lparr>status = 204, rheaders = [], rbody = BEmpty\<rparr>, w)"
  by (simp_all add: good_host_def)

lemma good_host_poll [logged]:
  "stat_ok good_host p w" "stat_ok (logging good_host) p wl"
  "poll 50 (Pair True) f v = (True, v)"
  by (simp_all add: poll.simps(2) [of 49, simplified] stat_ok_def logging_sel good_host_sel)

end
