(* ===== verification/Template_Cache.thy ===== *)
theory Template_Cache
  imports Go_Host
begin

text \<open>
  Package \<open>template\<close>: the directory of root file systems (\<open>cache.go\<close>) and the builder that makes
  one from a Dockerfile (\<open>builder.go\<close>).
\<close>

section \<open>The cache\<close>

record template_info =
  ti_Name :: string
  ti_Path :: string
  ti_SizeMB :: int
  ti_ModTime :: string

text \<open>A cache is its directory; \<open>home\<close> is \<open>os.UserHomeDir()\<close>.\<close>

type_synonym cache = string

definition NewCache :: "string \<Rightarrow> string \<Rightarrow> cache" where
  "NewCache home dir = (if dir = '''' then path_join [home, ''.gitvm/templates''] else dir)"

definition TemplatePath :: "cache \<Rightarrow> string \<Rightarrow> string" where
  "TemplatePath c name = path_join [c, name, ''rootfs.ext4'']"

definition KernelPath :: "'w host \<Rightarrow> cache \<Rightarrow> string \<Rightarrow> 'w \<Rightarrow> string" where
  "KernelPath h c name w =
     (let templateKernel = path_join [c, name, ''vmlinux'']
      in if stat_ok h templateKernel w then templateKernel else path_join [c, ''vmlinux''])"

definition template_Exists :: "'w host \<Rightarrow> cache \<Rightarrow> string \<Rightarrow> 'w \<Rightarrow> bool" where
  "template_Exists h c name w = stat_ok h (TemplatePath c name) w"

fun list_templates :: "'w host \<Rightarrow> cache \<Rightarrow> (string \<times> bool) list \<Rightarrow> 'w \<Rightarrow> template_info list" where
  "list_templates h c [] w = []"
| "list_templates h c ((name, isDir) # entries) w =
     (if \<not> isDir then list_templates h c entries w
      else let rootfs = path_join [c, name, ''rootfs.ext4'']
           in case h_stat h rootfs w of
                Inl err \<Rightarrow> list_templates h c entries w
              | Inr info \<Rightarrow>
                  \<lparr>ti_Name = name, ti_Path = rootfs, ti_SizeMB = fi_Size info div (1024 * 1024),
                   ti_ModTime = fi_ModTime info\<rparr> # list_templates h c entries w)"

definition template_List :: "'w host \<Rightarrow> cache \<Rightarrow> 'w \<Rightarrow> string + template_info list" where
  "template_List h c w =
     (case h_readDir h c w of
        Inl (notExist, err) \<Rightarrow> if notExist then Inr [] else Inl (''read templates dir: '' @ err)
      | Inr entries \<Rightarrow> Inr (list_templates h c entries w))"

section \<open>The builder\<close>

text \<open>Deferred calls run last in, first out, after the result is determined.\<close>

definition createExt4 :: "'w host \<Rightarrow> string \<Rightarrow> string \<Rightarrow> 'w \<Rightarrow> string option \<times> 'w" where
  "createExt4 h tarPath rootfsPath w =
     (let run = sh_err (h_sh h) in
      case run [''dd'', ''if=/dev/zero'', ''of='' @ rootfsPath, ''bs=1M'', ''count=0'', ''seek='' @ dec 2048] w of
        (Some e, w1) \<Rightarrow> (Some (''create sparse file: '' @ e), w1)
      | (None, w1) \<Rightarrow>
     (case run [''mkfs.ext4'', ''-F'', rootfsPath] w1 of
        (Some e, w2) \<Rightarrow> (Some (''mkfs.ext4: '' @ e), w2)
      | (None, w2) \<Rightarrow>
      let mountDir = rootfsPath @ ''.mnt'' in
     (case h_mkdirAll h mountDir w2 of
        (Some e, w3) \<Rightarrow> (Some (''create mount dir: '' @ e), w3)
      | (None, w3) \<Rightarrow>
      let defer_removeAll = (\<lambda>w. snd (h_removeAll h mountDir w)) in
     (case run [''mount'', ''-o'', ''loop'', rootfsPath, mountDir] w3 of
        (Some e, w4) \<Rightarrow> (Some (''mount: '' @ e), defer_removeAll w4)
      | (None, w4) \<Rightarrow>
      let defer_umount = (\<lambda>w. snd (run [''umount'', mountDir] w)) in
     (case run [''tar'', ''xf'', tarPath, ''-C'', mountDir] w4 of
        (Some e, w5) \<Rightarrow> (Some (''extract tar: '' @ e), defer_removeAll (defer_umount w5))
      | (None, w5) \<Rightarrow> (None, defer_removeAll (defer_umount w5)))))))"

text \<open>
  \<open>Build\<close>: the container name is the output of \<open>docker create\<close> less its last byte; with no output
  the slice is out of range and the call panics (\<open>Inl\<close>).
\<close>

definition image_name :: "string \<Rightarrow> string" where
  "image_name name = ''gitvm-template-'' @ name"

definition Build :: "'w host \<Rightarrow> cache \<Rightarrow> string \<Rightarrow> string \<Rightarrow> 'w \<Rightarrow> (string + string option) \<times> 'w" where
  "Build h c name dockerfileDir w =
     (let imageName = image_name name in
      case sh_err (h_sh h) [''docker'', ''build'', ''-t'', imageName, dockerfileDir] w of
        (Some e, w1) \<Rightarrow> (Inr (Some (''docker build: '' @ e)), w1)
      | (None, w1) \<Rightarrow>
     (case h_sh h [''docker'', ''create'', imageName] w1 of
        ((Some e, out), w2) \<Rightarrow> (Inr (Some (''docker create: '' @ e)), w2)
      | ((None, out), w2) \<Rightarrow>
      if out = '''' then (Inl ''slice bounds out of range [:-1]'', w2)
      else
        let containerID = butlast out;
            defer_rm = (\<lambda>w. sh_ignore (h_sh h) [''docker'', ''rm'', containerID] w);
            templateDir = path_join [c, name]
        in case h_mkdirAll h templateDir w2 of
             (Some e, w3) \<Rightarrow> (Inr (Some (''create template dir: '' @ e)), defer_rm w3)
           | (None, w3) \<Rightarrow>
          let tarPath = path_join [templateDir, ''rootfs.tar''] in
          case sh_err (h_sh h) [''docker'', ''export'', ''-o'', tarPath, containerID] w3 of
            (Some e, w4) \<Rightarrow> (Inr (Some (''docker export: '' @ e)), defer_rm w4)
          | (None, w4) \<Rightarrow>
          let defer_remove = (\<lambda>w. snd (h_remove h tarPath w));
              rootfsPath = path_join [templateDir, ''rootfs.ext4'']
          in case createExt4 h tarPath rootfsPath w4 of
               (Some e, w5) \<Rightarrow> (Inr (Some (''create ext4: '' @ e)), defer_rm (defer_remove w5))
             | (None, w5) \<Rightarrow> (Inr None, defer_rm (defer_remove w5))))"

section \<open>What a build leaves behind\<close>

lemma createExt4_log:
  assumes "createExt4 (logging h) tar rootfs (w, l) = (e, wl)"
  shows "\<exists>xs. snd wl = xs @ l \<and> xs \<noteq> [] \<and> (\<forall>p. Removed p \<notin> set xs)
    \<and> (Ran [''mount'', ''-o'', ''loop'', rootfs, rootfs @ ''.mnt''] True \<in> set xs \<longrightarrow>
        (\<exists>b ys. xs = RemoveAll (rootfs @ ''.mnt'') # Ran [''umount'', rootfs @ ''.mnt''] b # ys))
    \<and> (e = None \<longrightarrow> Ran [''tar'', ''xf'', tar, ''-C'', rootfs @ ''.mnt''] True \<in> set xs)"
  using assms
  unfolding createExt4_def Let_def sh_err_logging
  by (auto simp: logging_sel noting_eq snd_noting_pair new_events_Cons split: prod.splits option.splits)

lemma Build_log:
  assumes "Build (logging h) c name dir (w, []) = (Inr res, (w', log))"
    and rootfs: "rootfs = path_join [path_join [c, name], ''rootfs.ext4'']"
    and tar: "tar = path_join [path_join [c, name], ''rootfs.tar'']"
    and B: "B = [''docker'', ''build'', ''-t'', image_name name, dir]"
    and C: "C = [''docker'', ''create'', image_name name]"
    and cid: "cid = butlast (snd (fst (h_sh h C (snd (h_sh h B w)))))"
  obtains (build) b where "log = [Ran B b]" "res \<noteq> None"
  | (nocreate) "log = [Ran C False, Ran B True]" "res \<noteq> None"
  | (nomkdir) b where "log = [Ran [''docker'', ''rm'', cid] b, MkdirAll (path_join [c, name]), Ran C True, Ran B True]"
       "res \<noteq> None"
  | (noexport) b where "log = [Ran [''docker'', ''rm'', cid] b, Ran [''docker'', ''export'', ''-o'', tar, cid] False,
         MkdirAll (path_join [c, name]), Ran C True, Ran B True]" "res \<noteq> None"
  | (exported) b ys e l w4 w5 where "log = Ran [''docker'', ''rm'', cid] b # Removed tar # ys @ l"
     "l = [Ran [''docker'', ''export'', ''-o'', tar, cid] True, MkdirAll (path_join [c, name]), Ran C True, Ran B True]"
     "res = None \<longleftrightarrow> e = None" "createExt4 (logging h) tar rootfs (w4, l) = (e, (w5, ys @ l))"
proof -
  obtain e1 w1 where 1: "sh_err (h_sh h) B w = (e1, w1)" by fastforce
  obtain e2 out w2 where 2: "h_sh h C w1 = ((e2, out), w2)" by (metis surj_pair)
  obtain e3 w3 where 3: "h_mkdirAll h (path_join [c, name]) w2 = (e3, w3)" by fastforce
  have "snd (sh_err (h_sh h) B w) = snd (h_sh h B w)" by (simp add: sh_err_def case_prod_unfold)
  with 1 2 have out: "butlast out = cid" by (simp add: cid)
  let ?E = "[''docker'', ''export'', ''-o'', tar, cid]"
  obtain e4 w4 where 4: "sh_err (h_sh h) ?E w3 = (e4, w4)" by fastforce
  let ?l = "[Ran ?E True, MkdirAll (path_join [c, name]), Ran C True, Ran B True]"
  obtain e5 w5 l5 where 5: "createExt4 (logging h) tar rootfs (w4, ?l) = (e5, (w5, l5))"
    by (metis surj_pair)
  then obtain ys where 6: "l5 = ys @ ?l" using createExt4_log [OF 5] by auto
  have sh: "sh_ignore (h_sh (logging h)) cmd (w, l) = (snd (sh_err (h_sh h) cmd w), Ran cmd (fst (sh_err (h_sh h) cmd w) = None) # l)" for cmd w l
    by (auto simp: sh_err_def sh_ignore_def logging_sel noting_def split: prod.splits)
  let ?d = "\<lambda>w. fst (sh_err (h_sh h) [''docker'', ''rm'', cid] w) = None"
  note eqs = Build_def Let_def sh_err_logging logging_sel noting_pair snd_noting_pair sh 1 2 3 4 out
    rootfs [symmetric] tar [symmetric] B [symmetric] C [symmetric]
  show ?thesis
  proof (cases "e1 = None \<and> e2 = None \<and> e3 = None \<and> e4 = None")
    case True
    have c: "createExt4 (logging h) tar rootfs (w4, ?l) = (e5, (w5, ys @ ?l))" using 5 6 by simp
    show ?thesis
      by (rule exported [OF _ refl _ c, of "?d (snd (h_remove h tar w5))"])
        (use assms(1) c True in \<open>auto simp: eqs split: if_splits option.splits\<close>)
  next
    case False
    then show ?thesis
      using assms(1) build nocreate nomkdir [of "?d w3"] noexport [of "?d w4"]
      by (cases e1; cases e2; cases e3; cases e4) (auto simp: eqs split: if_splits)
  qed
qed



end
