(* ===== verification/Firecracker_VM.thy ===== *)
theory Firecracker_VM
  imports Go_Host
begin

text \<open>
  A single microVM of package \<open>firecracker\<close>: its configuration (\<open>config.go\<close>), the REST client of
  the Firecracker process (\<open>socket.go\<close>) and its life cycle (\<open>vm.go\<close>). The Firecracker process is
  not part of the repository: it is started, signalled and talked to through the host.
\<close>

section \<open>Configuration\<close>

record VMConfig =
  vc_ID :: string
  vc_VCPUs :: int
  vc_MemoryMB :: int
  vc_KernelPath :: string
  vc_RootfsPath :: string
  vc_KernelArgs :: string
  vc_SocketPath :: string
  vc_FirecrackerBin :: string
  vc_DataDir :: string
  vc_TAPDevice :: string
  vc_GuestIP :: string
  vc_HostIP :: string
  vc_GuestMAC :: string
  vc_GatewayIP :: string
  vc_Netmask :: string

text \<open>\<open>uuid\<close> is the generated identifier, \<open>tmp\<close> is \<open>os.TempDir()\<close>.\<close>

definition DefaultConfig :: "string \<Rightarrow> string \<Rightarrow> VMConfig" where
  "DefaultConfig uuid tmp =
     \<lparr>vc_ID = take 8 uuid, vc_VCPUs = 1, vc_MemoryMB = 512, vc_KernelPath = '''', vc_RootfsPath = '''',
      vc_KernelArgs = ''console=ttyS0 reboot=k panic=1 pci=off init=/sbin/init'', vc_SocketPath = '''',
      vc_FirecrackerBin = ''firecracker'', vc_DataDir = path_join [tmp, ''gitvm''],
      vc_TAPDevice = '''', vc_GuestIP = '''', vc_HostIP = '''', vc_GuestMAC = '''', vc_GatewayIP = '''',
      vc_Netmask = ''255.255.255.252''\<rparr>"

definition Validate :: "'w host \<Rightarrow> VMConfig \<Rightarrow> 'w \<Rightarrow> string option" where
  "Validate h c w =
     (if vc_ID c = '''' then Some ''VM ID is required''
      else if vc_KernelPath c = '''' then Some ''KernelPath is required''
      else if vc_RootfsPath c = '''' then Some ''RootfsPath is required''
      else case h_stat h (vc_KernelPath c) w of
             Inl e \<Rightarrow> Some (''kernel not found at '' @ vc_KernelPath c @ '': '' @ e)
           | Inr _ \<Rightarrow>
          (case h_stat h (vc_RootfsPath c) w of
             Inl e \<Rightarrow> Some (''rootfs not found at '' @ vc_RootfsPath c @ '': '' @ e)
           | Inr _ \<Rightarrow> None))"

definition VMDir :: "VMConfig \<Rightarrow> string" where
  "VMDir c = path_join [vc_DataDir c, vc_ID c]"

definition SocketPathForVM :: "VMConfig \<Rightarrow> string" where
  "SocketPathForVM c =
     (if vc_SocketPath c \<noteq> '''' then vc_SocketPath c
      else path_join [vc_DataDir c, vc_ID c, ''firecracker.sock''])"

definition RootfsCopyPath :: "VMConfig \<Rightarrow> string" where
  "RootfsCopyPath c = path_join [vc_DataDir c, vc_ID c, ''rootfs.ext4'']"

definition KernelArgsWithNetwork :: "VMConfig \<Rightarrow> string" where
  "KernelArgsWithNetwork c =
     (if vc_GuestIP c = '''' then vc_KernelArgs c
      else vc_KernelArgs c @ '' '' @ ''ip='' @ vc_GuestIP c @ ''::'' @ vc_GatewayIP c @ '':''
             @ vc_Netmask c @ ''::eth0:off'')"

section \<open>The REST client\<close>

record MachineConfiguration =
  mc_VCPUCount :: int
  mc_MemSizeMib :: int
  mc_HtEnabled :: bool

record BootSource =
  bs_KernelImagePath :: string
  bs_BootArgs :: string

record Drive =
  dr_DriveID :: string
  dr_PathOnHost :: string
  dr_IsRootDevice :: bool
  dr_IsReadOnly :: bool

record NetworkInterface =
  ni_IfaceID :: string
  ni_GuestMAC :: string
  ni_HostDevName :: string

text \<open>A client is the path of its socket.\<close>

type_synonym fc_client = string

definition fc_request :: "string \<Rightarrow> json \<Rightarrow> out_request" where
  "fc_request path body =
     \<lparr>oq_method = ''PUT'', oq_url = ''http://localhost'' @ path,
      oq_headers = [(''Content-Type'', ''application/json'')], oq_body = BJson body\<rparr>"

definition fc_put :: "'w host \<Rightarrow> fc_client \<Rightarrow> string \<Rightarrow> json \<Rightarrow> 'w \<Rightarrow> string option \<times> 'w" where
  "fc_put h fc path body w =
     (case h_unix h fc (fc_request path body) w of
        (Inl e, w1) \<Rightarrow> (Some (''request '' @ path @ '': '' @ e), w1)
      | (Inr resp, w1) \<Rightarrow>
          if status resp \<ge> 300
          then (Some (''firecracker '' @ path @ '' returned '' @ dec (int (status resp)) @ '': ''
                  @ body_text (rbody resp)), w1)
          else (None, w1))"

definition SetMachineConfig :: "'w host \<Rightarrow> fc_client \<Rightarrow> MachineConfiguration \<Rightarrow> 'w \<Rightarrow> string option \<times> 'w" where
  "SetMachineConfig h fc cfg w =
     fc_put h fc ''/machine-config''
       (JObj [(''vcpu_count'', JInt (mc_VCPUCount cfg)), (''mem_size_mib'', JInt (mc_MemSizeMib cfg)),
              (''ht_enabled'', JBool (mc_HtEnabled cfg))]) w"

definition SetBootSource :: "'w host \<Rightarrow> fc_client \<Rightarrow> BootSource \<Rightarrow> 'w \<Rightarrow> string option \<times> 'w" where
  "SetBootSource h fc src w =
     fc_put h fc ''/boot-source''
       (JObj [(''kernel_image_path'', JStr (bs_KernelImagePath src)), (''boot_args'', JStr (bs_BootArgs src))]) w"

definition AddDrive :: "'w host \<Rightarrow> fc_client \<Rightarrow> Drive \<Rightarrow> 'w \<Rightarrow> string option \<times> 'w" where
  "AddDrive h fc d w =
     fc_put h fc (''/drives/'' @ dr_DriveID d)
       (JObj [(''drive_id'', JStr (dr_DriveID d)), (''path_on_host'', JStr (dr_PathOnHost d)),
              (''is_root_device'', JBool (dr_IsRootDevice d)), (''is_read_only'', JBool (dr_IsReadOnly d))]) w"

definition AddNetworkInterface :: "'w host \<Rightarrow> fc_client \<Rightarrow> NetworkInterface \<Rightarrow> 'w \<Rightarrow> string option \<times> 'w" where
  "AddNetworkInterface h fc n w =
     fc_put h fc (''/network-interfaces/'' @ ni_IfaceID n)
       (JObj ([(''iface_id'', JStr (ni_IfaceID n))]
              @ (if ni_GuestMAC n = '''' then [] else [(''guest_mac'', JStr (ni_GuestMAC n))])
              @ [(''host_dev_name'', JStr (ni_HostDevName n))])) w"

definition StartInstance :: "'w host \<Rightarrow> fc_client \<Rightarrow> 'w \<Rightarrow> string option \<times> 'w" where
  "StartInstance h fc w = fc_put h fc ''/actions'' (JObj [(''action_type'', JStr ''InstanceStart'')]) w"

section \<open>The life cycle\<close>

datatype VMState = VMStateIdle | VMStateStarting | VMStateRunning | VMStateStopped

text \<open>\<open>vm_proc\<close> is \<open>vm.cmd.Process\<close>: there is none before the process was started.\<close>

record VM =
  vm_Config :: VMConfig
  vm_State :: VMState
  vm_PID :: int
  vm_fc :: "fc_client option"
  vm_proc :: "int option"

definition NewVM :: "VMConfig \<Rightarrow> VM" where
  "NewVM cfg = \<lparr>vm_Config = cfg, vm_State = VMStateIdle, vm_PID = 0, vm_fc = None, vm_proc = None\<rparr>"

definition manualCopyRootfs :: "'w host \<Rightarrow> string \<Rightarrow> string \<Rightarrow> 'w \<Rightarrow> string option \<times> 'w" where
  "manualCopyRootfs h src dst w =
     (case h_open h src w of
        Some e \<Rightarrow> (Some e, w)
      | None \<Rightarrow>
     (case h_create h dst w of
        (Some e, w1) \<Rightarrow> (Some e, w1)
      | (None, w1) \<Rightarrow> h_copy h dst src w1))"

definition copyRootfs :: "'w host \<Rightarrow> VM \<Rightarrow> 'w \<Rightarrow> string option \<times> 'w" where
  "copyRootfs h vm w =
     (let src = vc_RootfsPath (vm_Config vm); dst = RootfsCopyPath (vm_Config vm)
      in case sh_err (h_sh h) [''cp'', ''--reflink=auto'', src, dst] w of
           (Some e, w1) \<Rightarrow> manualCopyRootfs h src dst w1
         | (None, w1) \<Rightarrow> (None, w1))"

text \<open>
  The command is bound to the context of the creating request (\<open>exec.CommandContext\<close>). It is taken
  as open while this function and the rest of the start run (a client that waits for its answer);
  the kill that follows its end is \<open>end_of_request\<close> of Firecracker_Runtime.
\<close>

definition startProcess :: "'w host \<Rightarrow> VM \<Rightarrow> string \<Rightarrow> 'w \<Rightarrow> string option \<times> VM \<times> 'w" where
  "startProcess h vm socketPath w =
     (let (_, w1) = h_remove h socketPath w;
          logFile = path_join [VMDir (vm_Config vm), ''firecracker.log'']
      in case h_create h logFile w1 of
           (Some e, w2) \<Rightarrow> (Some (''create log file: '' @ e), vm, w2)
         | (None, w2) \<Rightarrow>
        (case h_start h [vc_FirecrackerBin (vm_Config vm), ''--api-sock'', socketPath] logFile w2 of
           (Inl e, w3) \<Rightarrow> (Some (''start firecracker binary: '' @ e), vm\<lparr>vm_proc := None\<rparr>, w3)
         | (Inr pid, w3) \<Rightarrow> (None, vm\<lparr>vm_proc := Some pid, vm_PID := pid\<rparr>, w3)))"

definition waitForSocket :: "'w host \<Rightarrow> string \<Rightarrow> 'w \<Rightarrow> string option \<times> 'w" where
  "waitForSocket h socketPath w =
     (case poll 50 (\<lambda>w. (stat_ok h socketPath w, w)) (h_sleep h 100) w of
        (True, w1) \<Rightarrow> (None, w1)
      | (False, w1) \<Rightarrow> (Some (''socket '' @ socketPath @ '' did not appear after 5s''), w1))"

definition configureVM :: "'w host \<Rightarrow> VM \<Rightarrow> fc_client \<Rightarrow> 'w \<Rightarrow> string option \<times> 'w" where
  "configureVM h vm fc w =
     (let c = vm_Config vm in
      case SetMachineConfig h fc \<lparr>mc_VCPUCount = vc_VCPUs c, mc_MemSizeMib = vc_MemoryMB c, mc_HtEnabled = False\<rparr> w of
        (Some e, w1) \<Rightarrow> (Some (''set machine config: '' @ e), w1)
      | (None, w1) \<Rightarrow>
     (case SetBootSource h fc \<lparr>bs_KernelImagePath = vc_KernelPath c, bs_BootArgs = KernelArgsWithNetwork c\<rparr> w1 of
        (Some e, w2) \<Rightarrow> (Some (''set boot source: '' @ e), w2)
      | (None, w2) \<Rightarrow>
     (case AddDrive h fc \<lparr>dr_DriveID = ''rootfs'', dr_PathOnHost = RootfsCopyPath c, dr_IsRootDevice = True,
                          dr_IsReadOnly = False\<rparr> w2 of
        (Some e, w3) \<Rightarrow> (Some (''add rootfs drive: '' @ e), w3)
      | (None, w3) \<Rightarrow>
      if vc_TAPDevice c \<noteq> ''''
      then (case AddNetworkInterface h fc \<lparr>ni_IfaceID = ''eth0'', ni_GuestMAC = vc_GuestMAC c,
                                           ni_HostDevName = vc_TAPDevice c\<rparr> w3 of
              (Some e, w4) \<Rightarrow> (Some (''add network interface: '' @ e), w4)
            | (None, w4) \<Rightarrow> (None, w4))
      else (None, w3))))"

definition vm_Stop :: "'w host \<Rightarrow> VM \<Rightarrow> 'w \<Rightarrow> VM \<times> 'w" where
  "vm_Stop h vm w =
     (let w1 = (case vm_proc vm of
                  None \<Rightarrow> w
                | Some pid \<Rightarrow>
                    (case h_term h pid w of
                       (True, w1) \<Rightarrow> w1
                     | (False, w1) \<Rightarrow> h_kill h pid w1));
          (_, w2) = h_removeAll h (VMDir (vm_Config vm)) w1
      in (vm\<lparr>vm_State := VMStateStopped\<rparr>, w2))"

definition vm_Start :: "'w host \<Rightarrow> VM \<Rightarrow> 'w \<Rightarrow> string option \<times> VM \<times> 'w" where
  "vm_Start h vm w =
     (if vm_State vm = VMStateRunning
      then (Some (''VM '' @ vc_ID (vm_Config vm) @ '' is already running''), vm, w)
      else
      let vm = vm\<lparr>vm_State := VMStateStarting\<rparr>;
          stopped = vm\<lparr>vm_State := VMStateStopped\<rparr>
      in case Validate h (vm_Config vm) w of
           Some e \<Rightarrow> (Some (''invalid config: '' @ e), stopped, w)
         | None \<Rightarrow>
        (case h_mkdirAll h (VMDir (vm_Config vm)) w of
           (Some e, w1) \<Rightarrow> (Some (''create VM dir: '' @ e), stopped, w1)
         | (None, w1) \<Rightarrow>
        (case copyRootfs h vm w1 of
           (Some e, w2) \<Rightarrow> (Some (''copy rootfs: '' @ e), stopped, w2)
         | (None, w2) \<Rightarrow>
        let socketPath = SocketPathForVM (vm_Config vm) in
        (case startProcess h vm socketPath w2 of
           (Some e, vm1, w3) \<Rightarrow> (Some (''start firecracker: '' @ e), vm1\<lparr>vm_State := VMStateStopped\<rparr>, w3)
         | (None, vm1, w3) \<Rightarrow>
        (case waitForSocket h socketPath w3 of
           (Some e, w4) \<Rightarrow>
             let (vm2, w5) = vm_Stop h vm1 w4 in (Some (''wait for socket: '' @ e), vm2, w5)
         | (None, w4) \<Rightarrow>
        let fc = socketPath; vm2 = vm1\<lparr>vm_fc := Some fc\<rparr> in
        (case configureVM h vm2 fc w4 of
           (Some e, w5) \<Rightarrow>
             let (vm3, w6) = vm_Stop h vm2 w5 in (Some (''configure VM: '' @ e), vm3, w6)
         | (None, w5) \<Rightarrow>
        (case StartInstance h fc w5 of
           (Some e, w6) \<Rightarrow>
             let (vm3, w7) = vm_Stop h vm2 w6 in (Some (''boot VM: '' @ e), vm3, w7)
         | (None, w6) \<Rightarrow> (None, vm2\<lparr>vm_State := VMStateRunning\<rparr>, w6))))))))"

section \<open>The calls of a start\<close>

text \<open>A request the Firecracker process accepted.\<close>

fun accepted :: "event \<Rightarrow> (string \<times> out_request) option" where
  "accepted (Unix s q (Some st)) = (if st < 300 then Some (s, q) else None)"
| "accepted _ = None"

fun started :: "event \<Rightarrow> int option" where
  "started (Started cmd (Some pid)) = Some pid"
| "started _ = None"

definition quiet :: "event list \<Rightarrow> bool" where
  "quiet xs \<longleftrightarrow> (\<forall>x \<in> set xs. accepted x = None \<and> started x = None)"

definition config_requests :: "VMConfig \<Rightarrow> out_request list" where
  "config_requests c =
     [fc_request ''/machine-config''
        (JObj [(''vcpu_count'', JInt (vc_VCPUs c)), (''mem_size_mib'', JInt (vc_MemoryMB c)), (''ht_enabled'', JBool False)]),
      fc_request ''/boot-source''
        (JObj [(''kernel_image_path'', JStr (vc_KernelPath c)), (''boot_args'', JStr (KernelArgsWithNetwork c))]),
      fc_request ''/drives/rootfs''
        (JObj [(''drive_id'', JStr ''rootfs''), (''path_on_host'', JStr (RootfsCopyPath c)),
               (''is_root_device'', JBool True), (''is_read_only'', JBool False)])]
     @ (if vc_TAPDevice c = '''' then [] else
         [fc_request ''/network-interfaces/eth0''
           (JObj ([(''iface_id'', JStr ''eth0'')]
              @ (if vc_GuestMAC c = '''' then [] else [(''guest_mac'', JStr (vc_GuestMAC c))])
              @ [(''host_dev_name'', JStr (vc_TAPDevice c))]))])"

definition boot_request :: out_request where
  "boot_request = fc_request ''/actions'' (JObj [(''action_type'', JStr ''InstanceStart'')])"

definition accepted_requests :: "event list \<Rightarrow> (string \<times> out_request) list" where
  "accepted_requests log = List.map_filter accepted (rev log)"

lemma accepted_requests_simps [simp]:
  "accepted_requests [] = []"
  "accepted_requests (x # log) = accepted_requests log @ (case accepted x of None \<Rightarrow> [] | Some r \<Rightarrow> [r])"
  "accepted_requests (xs @ ys) = accepted_requests ys @ accepted_requests xs"
  by (auto simp: accepted_requests_def map_filter_def split: option.splits)

lemma accepted_requests_quiet [simp]: "quiet xs \<Longrightarrow> accepted_requests xs = []"
  by (auto simp: accepted_requests_def quiet_def map_filter_def filter_empty_conv)

lemma quiet_simps [simp]:
  "quiet []" "quiet (x # xs) \<longleftrightarrow> accepted x = None \<and> started x = None \<and> quiet xs" "quiet (xs @ ys) \<longleftrightarrow> quiet xs \<and> quiet ys"
  by (auto simp: quiet_def)

lemma quiet_started: "quiet xs \<Longrightarrow> Started cmd (Some pid) \<notin> set xs"
  by (auto simp: quiet_def)

lemma fc_put_log:
  assumes "fc_put (logging h) fc path b (w, l) = (e, wl)"
  obtains w' st where "wl = (w', Unix fc (fc_request path b) st # l)"
    "accepted (Unix fc (fc_request path b) st) = (if e = None then Some (fc, fc_request path b) else None)"
  using assms
  by (auto simp: fc_put_def logging_sel noting_eq response_status_def split: prod.splits sum.splits if_splits)


lemma waitForSocket_log:
  assumes "waitForSocket (logging h) s (w, l) = (e, wl)"
  obtains w' xs where "wl = (w', xs @ l)" "quiet xs"
proof -
  have "\<exists>w' xs. snd (poll 50 (\<lambda>w. (stat_ok (logging h) s w, w)) (h_sleep (logging h) 100) (w, l)) = (w', xs @ l)
      \<and> list_all (\<lambda>x. accepted x = None \<and> started x = None) xs"
    by (rule poll_log) auto
  then have "\<exists>w' xs. wl = (w', xs @ l) \<and> quiet xs"
    using assms by (auto simp: waitForSocket_def quiet_def list_all_iff split: prod.splits bool.splits)
  with that show ?thesis by blast
qed

lemma copyRootfs_log:
  assumes "copyRootfs (logging h) vm (w, l) = (e, wl)"
  obtains w' xs where "wl = (w', xs @ l)" "quiet xs"
proof -
  have "\<exists>w' xs. wl = (w', xs @ l) \<and> quiet xs"
    using assms
    by (auto simp: copyRootfs_def manualCopyRootfs_def Let_def sh_err_logging logging_sel noting_eq
        new_events_Cons split: prod.splits option.splits)
  with that show ?thesis by blast
qed

lemma startProcess_log:
  assumes "startProcess (logging h) vm s (w, l) = (e, vm', wl)"
  obtains (failed) w' xs where "wl = (w', xs @ l)" "quiet xs" "e \<noteq> None" "vm_Config vm' = vm_Config vm"
  | (ok) w' xs pid where
    "wl = (w', Started [vc_FirecrackerBin (vm_Config vm), ''--api-sock'', s] (Some pid) # xs @ l)" "quiet xs"
    "e = None" "vm' = vm\<lparr>vm_proc := Some pid, vm_PID := pid\<rparr>"
proof -
  have "(\<exists>w' xs. wl = (w', xs @ l) \<and> quiet xs) \<and> e \<noteq> None \<and> vm_Config vm' = vm_Config vm \<or>
     (\<exists>w' xs pid. wl = (w', Started [vc_FirecrackerBin (vm_Config vm), ''--api-sock'', s] (Some pid) # xs @ l) \<and> quiet xs
        \<and> e = None \<and> vm' = vm\<lparr>vm_proc := Some pid, vm_PID := pid\<rparr>)"
    using assms
    by (auto simp: startProcess_def Let_def logging_sel noting_eq new_events_Cons split: prod.splits option.splits sum.splits)
  with failed ok show ?thesis by blast
qed

lemma vm_Stop_log:
  assumes "vm_Stop (logging h) vm (w, l) = (vm', wl)"
  obtains w' xs where "wl = (w', RemoveAll (VMDir (vm_Config vm)) # xs @ l)" "quiet xs"
    "vm' = vm\<lparr>vm_State := VMStateStopped\<rparr>" "\<forall>pid. vm_proc vm = Some pid \<longrightarrow> Terminated pid \<in> set xs"
proof -
  have "\<exists>w' xs. wl = (w', RemoveAll (VMDir (vm_Config vm)) # xs @ l) \<and> quiet xs \<and>
    vm' = vm\<lparr>vm_State := VMStateStopped\<rparr> \<and> (\<forall>pid. vm_proc vm = Some pid \<longrightarrow> Terminated pid \<in> set xs)"
    using assms
    by (auto simp: vm_Stop_def Let_def logging_sel noting_eq new_events_Cons split: prod.splits option.splits bool.splits)
  with that show ?thesis by blast
qed

text \<open>A step issues the requests \<open>qs\<close>: in order, up to the first one that is not accepted.\<close>

definition issues :: "string \<Rightarrow> out_request list \<Rightarrow> ('w logged \<Rightarrow> string option \<times> 'w logged) \<Rightarrow> bool" where
  "issues fc qs f \<longleftrightarrow> (\<forall>w l. \<exists>w' xs n. snd (f (w, l)) = (w', xs @ l) \<and> (\<forall>x \<in> set xs. started x = None)
     \<and> accepted_requests xs = map (Pair fc) (take n qs) \<and> (fst (f (w, l)) = None \<longrightarrow> n = length qs))"

lemma issues_nothing: "issues fc [] (\<lambda>wl. (None, wl))"
  unfolding issues_def by (intro allI exI [of _ "[]"]) auto

lemma issues_put: "issues fc [fc_request path b] (fc_put (logging h) fc path b)"
  unfolding issues_def
proof (intro allI)
  fix w l
  obtain e wl where f: "fc_put (logging h) fc path b (w, l) = (e, wl)" by (metis surj_pair)
  then obtain w' st where "wl = (w', Unix fc (fc_request path b) st # l)"
    "accepted (Unix fc (fc_request path b) st) = (if e = None then Some (fc, fc_request path b) else None)"
    by (rule fc_put_log)
  with f show "\<exists>w' xs n. snd (fc_put (logging h) fc path b (w, l)) = (w', xs @ l) \<and> (\<forall>x \<in> set xs. started x = None)
     \<and> accepted_requests xs = map (Pair fc) (take n [fc_request path b])
     \<and> (fst (fc_put (logging h) fc path b (w, l)) = None \<longrightarrow> n = length [fc_request path b])"
    by (intro exI [of _ w'] exI [of _ "[Unix fc (fc_request path b) st]"] exI [of _ "if e = None then 1 else 0"]) auto
qed

lemma issues_seq:
  assumes f: "issues fc qs f" and g: "issues fc rs g"
  shows "issues fc (qs @ rs) (\<lambda>wl. case f wl of (Some e, wl1) \<Rightarrow> (Some (m e), wl1) | (None, wl1) \<Rightarrow> g wl1)"
  unfolding issues_def
proof (intro allI)
  fix w l
  let ?h = "\<lambda>wl. case f wl of (Some e, wl1) \<Rightarrow> (Some (m e), wl1) | (None, wl1) \<Rightarrow> g wl1"
  obtain w1 xs n where 1: "snd (f (w, l)) = (w1, xs @ l)" "\<forall>x \<in> set xs. started x = None"
    "accepted_requests xs = map (Pair fc) (take n qs)" "fst (f (w, l)) = None \<longrightarrow> n = length qs"
    using f unfolding issues_def by blast
  show "\<exists>w' xs n. snd (?h (w, l)) = (w', xs @ l) \<and> (\<forall>x \<in> set xs. started x = None)
     \<and> accepted_requests xs = map (Pair fc) (take n (qs @ rs)) \<and> (fst (?h (w, l)) = None \<longrightarrow> n = length (qs @ rs))"
  proof (cases "fst (f (w, l))")
    case None
    obtain w2 ys k where 2: "snd (g (w1, xs @ l)) = (w2, ys @ xs @ l)" "\<forall>x \<in> set ys. started x = None"
      "accepted_requests ys = map (Pair fc) (take k rs)" "fst (g (w1, xs @ l)) = None \<longrightarrow> k = length rs"
      using g unfolding issues_def by blast
    have "?h (w, l) = g (w1, xs @ l)" using None 1(1) by (cases "f (w, l)") auto
    with 1 2 None show ?thesis
      by (intro exI [of _ w2] exI [of _ "ys @ xs"] exI [of _ "length qs + k"]) auto
  next
    case (Some e)
    then have "?h (w, l) = (Some (m e), (w1, xs @ l))" using 1(1) by (cases "f (w, l)") auto
    moreover have "take n qs = take (min n (length qs)) qs" by (cases "n \<le> length qs") simp_all
    ultimately show ?thesis using 1 Some
      by (intro exI [of _ w1] exI [of _ xs] exI [of _ "min n (length qs)"]) simp
  qed
qed

lemma issues_configureVM: "issues fc (config_requests (vm_Config vm)) (configureVM (logging h) vm fc)"
proof -
  let ?nic = "\<lambda>wl. if vc_TAPDevice (vm_Config vm) \<noteq> '''' then
      (case AddNetworkInterface (logging h) fc \<lparr>ni_IfaceID = ''eth0'', ni_GuestMAC = vc_GuestMAC (vm_Config vm),
            ni_HostDevName = vc_TAPDevice (vm_Config vm)\<rparr> wl of
         (Some e, w4) \<Rightarrow> (Some (''add network interface: '' @ e), w4) | (None, w4) \<Rightarrow> (None, w4))
      else (None, wl)"
  have nic: "issues fc (drop 3 (config_requests (vm_Config vm))) ?nic"
  proof (cases "vc_TAPDevice (vm_Config vm) = ''''")
    case True
    then show ?thesis using issues_nothing by (simp add: config_requests_def)
  next
    case False
    then have d: "drop 3 (config_requests (vm_Config vm)) = [fc_request ''/network-interfaces/eth0''
           (JObj ([(''iface_id'', JStr ''eth0'')]
              @ (if vc_GuestMAC (vm_Config vm) = '''' then [] else [(''guest_mac'', JStr (vc_GuestMAC (vm_Config vm)))])
              @ [(''host_dev_name'', JStr (vc_TAPDevice (vm_Config vm)))]))] @ []"
      by (simp add: config_requests_def)
    have n: "?nic = (\<lambda>wl. case fc_put (logging h) fc ''/network-interfaces/eth0''
           (JObj ([(''iface_id'', JStr ''eth0'')]
              @ (if vc_GuestMAC (vm_Config vm) = '''' then [] else [(''guest_mac'', JStr (vc_GuestMAC (vm_Config vm)))])
              @ [(''host_dev_name'', JStr (vc_TAPDevice (vm_Config vm)))])) wl of
         (Some e, w4) \<Rightarrow> (Some (''add network interface: '' @ e), w4) | (None, w4) \<Rightarrow> (None, w4))"
      using False by (simp add: AddNetworkInterface_def)
    show ?thesis unfolding d n by (rule issues_seq [OF issues_put issues_nothing])
  qed
  have c: "config_requests (vm_Config vm) =
     [fc_request ''/machine-config'' (JObj [(''vcpu_count'', JInt (vc_VCPUs (vm_Config vm))),
        (''mem_size_mib'', JInt (vc_MemoryMB (vm_Config vm))), (''ht_enabled'', JBool False)])]
     @ [fc_request ''/boot-source'' (JObj [(''kernel_image_path'', JStr (vc_KernelPath (vm_Config vm))),
        (''boot_args'', JStr (KernelArgsWithNetwork (vm_Config vm)))])]
     @ [fc_request ''/drives/rootfs'' (JObj [(''drive_id'', JStr ''rootfs''), (''path_on_host'', JStr (RootfsCopyPath (vm_Config vm))),
               (''is_root_device'', JBool True), (''is_read_only'', JBool False)])]
     @ drop 3 (config_requests (vm_Config vm))"
    by (simp add: config_requests_def)
  have puts: "issues fc [fc_request ''/machine-config'' (JObj [(''vcpu_count'', JInt (mc_VCPUCount cfg)),
        (''mem_size_mib'', JInt (mc_MemSizeMib cfg)), (''ht_enabled'', JBool (mc_HtEnabled cfg))])] (SetMachineConfig (logging h) fc cfg)"
     "issues fc [fc_request ''/boot-source'' (JObj [(''kernel_image_path'', JStr (bs_KernelImagePath src)),
        (''boot_args'', JStr (bs_BootArgs src))])] (SetBootSource (logging h) fc src)"
     "issues fc [fc_request (''/drives/'' @ dr_DriveID d) (JObj [(''drive_id'', JStr (dr_DriveID d)), (''path_on_host'', JStr (dr_PathOnHost d)),
               (''is_root_device'', JBool (dr_IsRootDevice d)), (''is_read_only'', JBool (dr_IsReadOnly d))])] (AddDrive (logging h) fc d)" for cfg src d
    unfolding SetMachineConfig_def [abs_def] SetBootSource_def [abs_def] AddDrive_def [abs_def]
    by (rule issues_put)+
  note put = puts(1) [of "\<lparr>mc_VCPUCount = vc_VCPUs (vm_Config vm), mc_MemSizeMib = vc_MemoryMB (vm_Config vm), mc_HtEnabled = False\<rparr>", simplified]
    puts(2) [of "\<lparr>bs_KernelImagePath = vc_KernelPath (vm_Config vm), bs_BootArgs = KernelArgsWithNetwork (vm_Config vm)\<rparr>", simplified]
    puts(3) [of "\<lparr>dr_DriveID = ''rootfs'', dr_PathOnHost = RootfsCopyPath (vm_Config vm), dr_IsRootDevice = True, dr_IsReadOnly = False\<rparr>", simplified]
  show ?thesis
    unfolding configureVM_def [abs_def] Let_def
    by (subst c) (intro issues_seq nic put)
qed

lemma issuesD:
  assumes "issues fc qs f" "f (w, l) = (e, wl)"
  obtains w' xs n where "wl = (w', xs @ l)" "\<forall>x \<in> set xs. started x = None"
     "accepted_requests xs = map (Pair fc) (take n qs)" "e = None \<longrightarrow> n = length qs"
  using assms unfolding issues_def by (metis fst_conv snd_conv)

lemma quiet_no_start: "\<forall>x \<in> set xs. started x = None \<Longrightarrow> Started cmd (Some pid) \<notin> set xs"
  by auto

text \<open>What a start that gets as far as the process does, seen in the log.\<close>

definition boot_log :: "VMConfig \<Rightarrow> string option \<Rightarrow> VM \<Rightarrow> event list \<Rightarrow> bool" where
  "boot_log c e vm' log \<longleftrightarrow>
     vm_State vm' = (if e = None then VMStateRunning else VMStateStopped)
     \<and> (\<exists>n. accepted_requests log = map (Pair (SocketPathForVM c)) (take n (config_requests c @ [boot_request]))
          \<and> (e = None \<longrightarrow> n = length (config_requests c @ [boot_request])))
     \<and> (e = None \<longrightarrow> (\<exists>pid. vm_proc vm' = Some pid
          \<and> Started [vc_FirecrackerBin c, ''--api-sock'', SocketPathForVM c] (Some pid) \<in> set log))
     \<and> (e \<noteq> None \<longrightarrow> (\<forall>cmd pid. Started cmd (Some pid) \<in> set log \<longrightarrow>
          Terminated pid \<in> set log \<and> hd log = RemoveAll (VMDir c)))
     \<and> vm_Config vm' = c"

lemma boot_log_early:
  "e \<noteq> None \<Longrightarrow> vm_State vm' = VMStateStopped \<Longrightarrow> vm_Config vm' = c \<Longrightarrow> quiet log \<Longrightarrow> boot_log c e vm' log"
  unfolding boot_log_def by (auto dest: quiet_started intro: exI [of _ 0])

lemma boot_log_stopped:
  assumes "vm_Stop (logging h) vm (w, l) = (vm', (w', log))" and "e \<noteq> None" and "vm_Config vm = c" "vm_proc vm = Some pid"
    and "accepted_requests l = map (Pair (SocketPathForVM c)) (take n (config_requests c @ [boot_request]))"
    and "\<And>cmd p. Started cmd (Some p) \<in> set l \<Longrightarrow> p = pid"
  shows "boot_log c e vm' log"
  using assms(1)
proof (rule vm_Stop_log)
  fix w'' xs
  assume x: "(w', log) = (w'', RemoveAll (VMDir (vm_Config vm)) # xs @ l)" "quiet xs"
    "vm' = vm\<lparr>vm_State := VMStateStopped\<rparr>" "\<forall>pid. vm_proc vm = Some pid \<longrightarrow> Terminated pid \<in> set xs"
  then show ?thesis
    using assms(2-6) unfolding boot_log_def by (auto dest: quiet_started intro: exI [of _ n])
qed

lemma issues_boot: "issues fc [boot_request] (StartInstance (logging h) fc)"
  unfolding StartInstance_def [abs_def] boot_request_def by (rule issues_put)

definition only_started :: "VMConfig \<Rightarrow> int \<Rightarrow> event list \<Rightarrow> bool" where
  "only_started c pid log \<longleftrightarrow> (\<forall>cmd p. Started cmd (Some p) \<in> set log
     \<longleftrightarrow> p = pid \<and> cmd = [vc_FirecrackerBin c, ''--api-sock'', SocketPathForVM c])"

lemma only_started_append: "only_started c pid l \<Longrightarrow> \<forall>x \<in> set xs. started x = None \<Longrightarrow> only_started c pid (xs @ l)"
  unfolding only_started_def by (auto dest: quiet_no_start)

lemma startProcess_only:
  assumes "startProcess (logging h) vm (SocketPathForVM (vm_Config vm)) (w, l) = (None, vm1, wl)" "quiet l"
  obtains w' l' pid where "wl = (w', l')" "vm1 = vm\<lparr>vm_proc := Some pid, vm_PID := pid\<rparr>"
    "only_started (vm_Config vm) pid l'" "accepted_requests l' = []"
  using assms(1)
proof (cases rule: startProcess_log)
  case (ok w' xs pid)
  then show ?thesis
    using assms(2) by (intro that [OF ok(1) ok(4)]) (auto simp: only_started_def dest: quiet_started)
qed simp

lemma take_requests: "\<exists>m. take n qs = take m (qs @ rs)"
proof (cases "n \<le> length qs")
  case True
  then show ?thesis by (intro exI [of _ n]) simp
next
  case False
  then show ?thesis by (intro exI [of _ "length qs"]) simp
qed

lemma boot_log_running:
  assumes "only_started c pid l" "accepted_requests l = map (Pair (SocketPathForVM c)) (config_requests c)"
    and "StartInstance (logging h) (SocketPathForVM c) (w, l) = (None, (w', log))"
    and "vm_State vm = VMStateRunning" "vm_proc vm = Some pid" "vm_Config vm = c"
  shows "boot_log c None vm log"
proof -
  obtain xs n where "log = xs @ l" "\<forall>x \<in> set xs. started x = None"
     "accepted_requests xs = map (Pair (SocketPathForVM c)) (take n [boot_request])" "n = length [boot_request]"
    using issuesD [OF issues_boot assms(3)] by auto
  with assms show ?thesis
    unfolding boot_log_def by (auto simp: only_started_def intro: exI [of _ "Suc (length (config_requests c))"])
qed

lemma vm_Start_boot_log:
  assumes "vm_Start (logging h) vm (w, []) = (e, vm', (w', log))" and "vm_State vm \<noteq> VMStateRunning"
  shows "boot_log (vm_Config vm) e vm' log"
proof -
  let ?c = "vm_Config vm" and ?s = "SocketPathForVM (vm_Config vm)"
  let ?vm = "vm\<lparr>vm_State := VMStateStarting\<rparr>"
  show ?thesis
  proof (cases "Validate (logging h) ?c (w, [])")
    case (Some m)
    with assms show ?thesis by (auto simp: vm_Start_def Let_def intro: boot_log_early)
  next
    case v: None
    obtain e1 w1 where 1: "h_mkdirAll h (VMDir ?c) w = (e1, w1)" by fastforce
    then have 1: "h_mkdirAll (logging h) (VMDir ?c) (w, []) = (e1, (w1, [MkdirAll (VMDir ?c)]))"
      by (simp add: logging_sel noting_pair)
    show ?thesis
    proof (cases e1)
      case (Some m)
      with assms v 1 show ?thesis by (auto simp: vm_Start_def Let_def intro: boot_log_early)
    next
      case e1: None
      obtain e2 w2 l2 where 2: "copyRootfs (logging h) ?vm (w1, [MkdirAll (VMDir ?c)]) = (e2, (w2, l2))" by (metis surj_pair)
      have q2: "quiet l2" using 2 by (auto elim!: copyRootfs_log)
      show ?thesis
      proof (cases e2)
        case (Some m)
        with assms v 1 e1 2 q2 show ?thesis by (auto simp: vm_Start_def Let_def intro: boot_log_early)
      next
        case e2: None
        obtain e3 vm1 w3 l3 where 3: "startProcess (logging h) ?vm ?s (w2, l2) = (e3, vm1, (w3, l3))" by (metis surj_pair)
        show ?thesis
        proof (cases e3)
          case (Some m)
          have "quiet l3 \<and> vm_Config vm1 = ?c" using 3 Some q2 by (auto elim!: startProcess_log)
          with assms v 1 e1 2 e2 3 Some show ?thesis by (auto simp: vm_Start_def Let_def intro: boot_log_early)
        next
          case e3: None
          let ?f = "\<lambda>vm1. vm1\<lparr>vm_fc := Some ?s\<rparr>"
          obtain pid where s3: "vm1 = ?vm\<lparr>vm_proc := Some pid, vm_PID := pid\<rparr>"
            "only_started ?c pid l3" "accepted_requests l3 = []"
            using startProcess_only [of h ?vm w2 l2 vm1 "(w3, l3)"] 3 q2 e3 by auto
          obtain e4 w4 l4 where 4: "waitForSocket (logging h) ?s (w3, l3) = (e4, (w4, l4))" by (metis surj_pair)
          have l4: "only_started ?c pid l4" "accepted_requests l4 = []"
            using 4 s3(2,3) by (auto elim!: waitForSocket_log simp: quiet_def intro: only_started_append)
          obtain e5 w5 l5 where 5: "configureVM (logging h) (?f vm1) ?s (w4, l4) = (e5, (w5, l5))" by (metis surj_pair)
          obtain w5' xs5 n where x5: "(w5, l5) = (w5', xs5 @ l4)" "\<forall>x \<in> set xs5. started x = None"
             "accepted_requests xs5 = map (Pair ?s) (take n (config_requests (vm_Config (?f vm1))))"
             "e5 = None \<longrightarrow> n = length (config_requests (vm_Config (?f vm1)))"
            by (rule issuesD [OF issues_configureVM 5])
          have l5: "only_started ?c pid l5" "accepted_requests l5 = map (Pair ?s) (take n (config_requests ?c))"
            "e5 = None \<longrightarrow> n = length (config_requests ?c)"
            using x5 l4 s3(1) by (auto intro: only_started_append)
          obtain e6 w6 l6 where 6: "StartInstance (logging h) ?s (w5, l5) = (e6, (w6, l6))" by (metis surj_pair)
          obtain w6' xs6 m where x6: "(w6, l6) = (w6', xs6 @ l5)" "\<forall>x \<in> set xs6. started x = None"
             "accepted_requests xs6 = map (Pair ?s) (take m [boot_request])"
            by (rule issuesD [OF issues_boot 6])
          have l6: "only_started ?c pid l6"
            "accepted_requests l6 = accepted_requests l5 @ map (Pair ?s) (take m [boot_request])"
            using x6 l5(1) by (auto intro: only_started_append)
          obtain k where k: "take n (config_requests ?c) = take k (config_requests ?c @ [boot_request])"
            using take_requests by blast
          have j: "map (Pair ?s) (config_requests ?c) @ map (Pair ?s) (take m [boot_request])
              = map (Pair ?s) (take (length (config_requests ?c) + m) (config_requests ?c @ [boot_request]))" by simp
          note run = assms(1) [unfolded vm_Start_def Let_def] assms(2) v 1 e1 2 e2 3 e3 4 5 6
          have stop: "boot_log ?c (Some msg) vm2 log2"
            if "vm_Stop (logging h) u (w'', l'') = (vm2, (w2', log2))" "vm_Config u = ?c" "vm_proc u = Some pid"
              "only_started ?c pid l''" "\<exists>n. accepted_requests l'' = map (Pair ?s) (take n (config_requests ?c @ [boot_request]))"
            for msg u w'' l'' vm2 w2' log2
            using that boot_log_stopped [OF that(1) _ that(2,3)] by (auto simp: only_started_def)
          show ?thesis
          proof (cases e4)
            case (Some x)
            then show ?thesis using run l4 s3(1)
              by (auto split: prod.splits intro!: stop exI [of _ 0])
          next
            case e4: None
            show ?thesis
            proof (cases e5)
              case (Some x)
              then show ?thesis using run e4 l5(1,2) s3(1) k
                by (auto split: prod.splits intro!: stop exI [of _ k])
            next
              case e5: None
              show ?thesis
              proof (cases e6)
                case (Some x)
                obtain vm2 w7 l7 where 7: "vm_Stop (logging h) (?f vm1) (w6, l6) = (vm2, (w7, l7))" by (metis surj_pair)
                have r: "e = Some (''boot VM: '' @ x)" "vm' = vm2" "log = l7"
                  using run e4 e5 Some 7 by simp_all
                have q: "accepted_requests l6 = map (Pair ?s) (take (length (config_requests ?c) + m) (config_requests ?c @ [boot_request]))"
                proof -
                  have n: "n = length (config_requests ?c)" using l5(3) e5 by simp
                  show ?thesis unfolding l6(2) l5(2) n j [symmetric] by simp
                qed
                show ?thesis unfolding r
                  by (rule stop [OF 7 _ _ l6(1)]) (use s3(1) q in \<open>simp, simp, blast\<close>)
              next
                case e6: None
                have r: "e = None" "vm' = (?f vm1)\<lparr>vm_State := VMStateRunning\<rparr>" "log = l6"
                  using run e4 e5 e6 by simp_all
                show ?thesis unfolding r
                  by (rule boot_log_running [OF l5(1) _ 6 [unfolded e6]]) (use l5 e5 s3(1) in simp_all)
              qed
            qed
          qed
        qed
      qed
    qed
  qed
qed

text \<open>
  C20. A start that succeeds leaves the VM running with the process it started, after the process
  accepted exactly the configuration requests of the VM, in order, and then the boot request; a
  start that fails leaves the VM stopped, after a prefix of these requests, and if it had started
  the process, it has terminated it and removed the VM's directory as its last action.
\<close>
theorem vm_Start_boots_or_stops:
  assumes "vm_Start (logging h) vm (w, []) = (e, vm', (w', log))" and "vm_State vm \<noteq> VMStateRunning"
  shows "vm_State vm' = (if e = None then VMStateRunning else VMStateStopped)
    \<and> (\<exists>n. accepted_requests log =
            map (Pair (SocketPathForVM (vm_Config vm))) (take n (config_requests (vm_Config vm) @ [boot_request]))
          \<and> (e = None \<longrightarrow> n = length (config_requests (vm_Config vm) @ [boot_request])))
    \<and> (e = None \<longrightarrow> (\<exists>pid. vm_proc vm' = Some pid
          \<and> Started [vc_FirecrackerBin (vm_Config vm), ''--api-sock'', SocketPathForVM (vm_Config vm)] (Some pid) \<in> set log))
    \<and> (e \<noteq> None \<longrightarrow> (\<forall>cmd pid. Started cmd (Some pid) \<in> set log \<longrightarrow>
          Terminated pid \<in> set log \<and> hd log = RemoveAll (VMDir (vm_Config vm))))"
  using vm_Start_boot_log [OF assms] by (simp add: boot_log_def)

definition demo_vm :: VM where
  "demo_vm = NewVM ((DefaultConfig ''0a1b2c3d-9999'' ''/tmp'')\<lparr>vc_KernelPath := ''/k'', vc_RootfsPath := ''/r'',
     vc_TAPDevice := ''gitvm0''\<rparr>)"

lemma vm_Start_boots_or_stops_witness:
  "\<exists>vm' log. vm_Start (logging good_host) demo_vm ((), []) = (None, vm', ((), log))
     \<and> length (accepted_requests log) = 5 \<and> vm_State vm' = VMStateRunning"
proof -
  obtain vm' log where r: "vm_Start (logging good_host) demo_vm ((), []) = (None, vm', ((), log))"
    by (simp add: vm_Start_def demo_vm_def NewVM_def DefaultConfig_def Validate_def copyRootfs_def startProcess_def
        waitForSocket_def configureVM_def SetMachineConfig_def SetBootSource_def AddDrive_def AddNetworkInterface_def
        StartInstance_def fc_put_def Let_def logging_sel noting_pair sh_err_def good_host_sel good_host_poll)
  have "length (config_requests (vm_Config demo_vm)) = 4"
    by (simp add: config_requests_def demo_vm_def NewVM_def)
  with vm_Start_boots_or_stops [OF r] r show ?thesis
    by (intro exI [of _ vm'] exI [of _ log]) (auto simp: demo_vm_def NewVM_def)
qed

end
