(* ===== verification/Firecracker_Runtime.thy ===== *)
theory Firecracker_Runtime
  imports Orchestrator Network_Pool Template_Cache Firecracker_VM
begin

text \<open>
  The Firecracker backend (\<open>firecracker.go\<close>): every sandbox is a microVM with a network slot of
  the pool. The state is the runtime's own record and the host; the methods of the \<open>runtime\<close>
  interface are collected in \<open>firecracker\<close>, and the theory interprets the contract
  \<open>tracked_backend\<close> on them. The record is what the backend has written down: whether a process
  still runs is the host's affair. The last section adds what the context of the creating request
  does to the process (\<open>end_of_request\<close>).
\<close>

section \<open>The runtime\<close>

record vm_info =
  vi_vm :: VM
  vi_slot :: slot
  vi_sb :: sandbox

record fc_config =
  fcc_DataDir :: string
  fcc_FirecrackerBin :: string
  fcc_HostInterface :: string
  fcc_MaxVMs :: int

record fc_runtime =
  fr_config :: fc_config
  netPool :: pool
  tmplCache :: cache
  vms :: "(string, vm_info) gomap"

definition NewFirecracker :: "fc_config \<Rightarrow> cache \<Rightarrow> fc_runtime" where
  "NewFirecracker cfg tmpl =
     (let cfg = (if fcc_MaxVMs cfg \<le> 0 then cfg\<lparr>fcc_MaxVMs := 50\<rparr> else cfg)
      in \<lparr>fr_config = cfg, netPool = NewPool (fcc_MaxVMs cfg) (fcc_HostInterface cfg), tmplCache = tmpl, vms = []\<rparr>)"

definition agent_DefaultPort :: int where
  "agent_DefaultPort = 49983"

definition get_request :: "string \<Rightarrow> out_request" where
  "get_request url = \<lparr>oq_method = ''GET'', oq_url = url, oq_headers = [], oq_body = BEmpty\<rparr>"

definition health_probe :: "'w host \<Rightarrow> string \<Rightarrow> 'w \<Rightarrow> bool \<times> 'w" where
  "health_probe h url w =
     (case h_http h (get_request url) w of
        (Inl e, w1) \<Rightarrow> (False, w1)
      | (Inr resp, w1) \<Rightarrow> (status resp = 200, w1))"

definition fc_waitForAgent :: "'w host \<Rightarrow> string \<Rightarrow> 'w \<Rightarrow> string option \<times> 'w" where
  "fc_waitForAgent h agentURL w =
     (case poll 60 (health_probe h (agentURL @ ''/health'')) (h_sleep h 500) w of
        (True, w1) \<Rightarrow> (None, w1)
      | (False, w1) \<Rightarrow> (Some (''agent at '' @ agentURL @ '' not healthy after 30s''), w1))"

type_synonym 'w fc = "fc_runtime \<times> 'w"

definition fc_vm_config :: "fc_runtime \<Rightarrow> VMConfig \<Rightarrow> create_opts \<Rightarrow> string \<Rightarrow> slot \<Rightarrow> VMConfig" where
  "fc_vm_config f dflt opts kernelPath s =
     (let c = dflt\<lparr>vc_ID := co_ID opts, vc_KernelPath := kernelPath,
                vc_RootfsPath := TemplatePath (tmplCache f) (if co_Template opts = '''' then ''base'' else co_Template opts),
                vc_DataDir := fcc_DataDir (fr_config f), vc_FirecrackerBin := fcc_FirecrackerBin (fr_config f),
                vc_TAPDevice := TAPName s, vc_GuestIP := slot_GuestIP s, vc_HostIP := slot_HostIP s,
                vc_GuestMAC := slot_GuestMAC s, vc_GatewayIP := slot_HostIP s\<rparr>;
          c = (if co_VCPUs opts > 0 then c\<lparr>vc_VCPUs := co_VCPUs opts\<rparr> else c)
      in if co_MemoryMB opts > 0 then c\<lparr>vc_MemoryMB := co_MemoryMB opts\<rparr> else c)"

text \<open>
  \<open>dflt\<close> is the configuration \<open>DefaultConfig()\<close> returns; its generated identifier and its data
  directory are overwritten.
\<close>

definition fc_Create :: "'w host \<Rightarrow> VMConfig \<Rightarrow> create_opts \<Rightarrow> 'w fc \<Rightarrow> (string + sandbox) \<times> 'w fc" where
  "fc_Create h dflt opts fw =
     (let (f, w) = fw;
          templateName = (if co_Template opts = '''' then ''base'' else co_Template opts)
      in if \<not> template_Exists h (tmplCache f) templateName w
         then (Inl (''template '' @ quote templateName @ '' not found''), f, w)
         else case Allocate (h_sh h) (netPool f) w of
                (Inl e, p1, w1) \<Rightarrow> (Inl (''allocate network: '' @ e), f\<lparr>netPool := p1\<rparr>, w1)
              | (Inr s, p1, w1) \<Rightarrow>
                  let vmCfg = fc_vm_config f dflt opts (KernelPath h (tmplCache f) templateName w1) s
                  in case vm_Start h (NewVM vmCfg) w1 of
                       (Some e, vm, w2) \<Rightarrow>
                         let (p2, w3) = Release (h_sh h) s p1 w2
                         in (Inl (''start VM: '' @ e), f\<lparr>netPool := p2\<rparr>, w3)
                     | (None, vm, w2) \<Rightarrow>
                         let agentURL = ''http://'' @ slot_GuestIP s @ '':'' @ dec agent_DefaultPort
                         in case fc_waitForAgent h agentURL w2 of
                              (Some e, w3) \<Rightarrow>
                                let (_, w4) = vm_Stop h vm w3;
                                    (p2, w5) = Release (h_sh h) s p1 w4
                                in (Inl (''agent not ready: '' @ e), f\<lparr>netPool := p2\<rparr>, w5)
                            | (None, w3) \<Rightarrow>
                                let sb = \<lparr>sb_ID = co_ID opts, sb_State = ''running'', sb_Runtime = ''firecracker'',
                                          sb_IP = slot_GuestIP s, sb_AgentURL = agentURL\<rparr>
                                in (Inr sb, f\<lparr>netPool := p1,
                                       vms := gm_put (co_ID opts) \<lparr>vi_vm = vm, vi_slot = s, vi_sb = sb\<rparr> (vms f)\<rparr>, w3))"

definition fc_not_found :: "string \<Rightarrow> string" where
  "fc_not_found i = ''sandbox '' @ i @ '' not found''"

definition fc_Start :: "string \<Rightarrow> 'w fc \<Rightarrow> string option \<times> 'w fc" where
  "fc_Start i fw = (Some ''firecracker VMs cannot be restarted; destroy and create a new one'', fw)"

definition fc_Destroy :: "'w host \<Rightarrow> string \<Rightarrow> 'w fc \<Rightarrow> string option \<times> 'w fc" where
  "fc_Destroy h i fw =
     (let (f, w) = fw in
      case gm_get (vms f) i of
        None \<Rightarrow> (Some (fc_not_found i), f, w)
      | Some info \<Rightarrow>
          let (_, w1) = vm_Stop h (vi_vm info) w;
              (p1, w2) = Release (h_sh h) (vi_slot info) (netPool f) w1
          in (None, f\<lparr>netPool := p1, vms := gm_del i (vms f)\<rparr>, w2))"

definition fc_Stop :: "'w host \<Rightarrow> string \<Rightarrow> 'w fc \<Rightarrow> string option \<times> 'w fc" where
  "fc_Stop h i fw = fc_Destroy h i fw"

text \<open>\<open>info.sb.State = st\<close>\<close>

definition set_sb_state :: "string \<Rightarrow> vm_info \<Rightarrow> vm_info" where
  "set_sb_state st info = info\<lparr>vi_sb := (vi_sb info)\<lparr>sb_State := st\<rparr>\<rparr>"

definition fc_Pause :: "string \<Rightarrow> 'w fc \<Rightarrow> string option \<times> 'w fc" where
  "fc_Pause i fw =
     (let (f, w) = fw in
      case gm_get (vms f) i of
        None \<Rightarrow> (Some (fc_not_found i), f, w)
      | Some info \<Rightarrow> (None, f\<lparr>vms := gm_put i (set_sb_state ''paused'' info) (vms f)\<rparr>, w))"

definition fc_Resume :: "string \<Rightarrow> 'w fc \<Rightarrow> string option \<times> 'w fc" where
  "fc_Resume i fw =
     (let (f, w) = fw in
      case gm_get (vms f) i of
        None \<Rightarrow> (Some (fc_not_found i), f, w)
      | Some info \<Rightarrow> (None, f\<lparr>vms := gm_put i (set_sb_state ''running'' info) (vms f)\<rparr>, w))"

definition fc_Get :: "string \<Rightarrow> 'w fc \<Rightarrow> (string + sandbox) \<times> 'w fc" where
  "fc_Get i fw =
     (case gm_get (vms (fst fw)) i of
        None \<Rightarrow> (Inl (fc_not_found i), fw)
      | Some info \<Rightarrow> (Inr (vi_sb info), fw))"

definition fc_List :: "'w fc \<Rightarrow> (string + sandbox list) \<times> 'w fc" where
  "fc_List fw = (Inr (map (\<lambda>(k, info). vi_sb info) (vms (fst fw))), fw)"

definition fc_AgentURL :: "string \<Rightarrow> 'w fc \<Rightarrow> (string + string) \<times> 'w fc" where
  "fc_AgentURL i fw =
     (case gm_get (vms (fst fw)) i of
        None \<Rightarrow> (Inl (fc_not_found i), fw)
      | Some info \<Rightarrow> (Inr (sb_AgentURL (vi_sb info)), fw))"

definition no_snapshots :: string where
  "no_snapshots = ''snapshots not yet implemented for firecracker runtime''"

definition fc_Snapshot :: "string \<Rightarrow> string \<Rightarrow> 'w fc \<Rightarrow> string option \<times> 'w fc" where
  "fc_Snapshot i snap fw = (Some no_snapshots, fw)"

definition fc_Restore :: "string \<Rightarrow> string \<Rightarrow> 'w fc \<Rightarrow> (string + sandbox) \<times> 'w fc" where
  "fc_Restore snap newID fw = (Inl no_snapshots, fw)"

definition fc_DeleteSnapshot :: "string \<Rightarrow> 'w fc \<Rightarrow> string option \<times> 'w fc" where
  "fc_DeleteSnapshot snap fw = (Some no_snapshots, fw)"

definition fc_ListSnapshots :: "string \<Rightarrow> 'w fc \<Rightarrow> (string + snapshot_info list) \<times> 'w fc" where
  "fc_ListSnapshots i fw = (Inl no_snapshots, fw)"

definition firecracker :: "'w host \<Rightarrow> VMConfig \<Rightarrow> 'w fc runtime" where
  "firecracker h dflt =
     \<lparr>rt_Name = ''firecracker'', rt_Create = fc_Create h dflt, rt_Start = fc_Start, rt_Stop = fc_Stop h,
      rt_Destroy = fc_Destroy h, rt_Pause = fc_Pause, rt_Resume = fc_Resume, rt_Get = fc_Get, rt_List = fc_List,
      rt_AgentURL = fc_AgentURL, rt_Snapshot = fc_Snapshot, rt_Restore = fc_Restore,
      rt_DeleteSnapshot = fc_DeleteSnapshot, rt_ListSnapshots = fc_ListSnapshots\<rparr>"

section \<open>The runtime and its slots\<close>

text \<open>
  The invariant: every sandbox holds a slot of the pool, no two the same, every used slot belongs
  to a sandbox, and each entry's sandbox and VM agree with its slot.
\<close>

definition info_ok :: "string \<Rightarrow> vm_info \<Rightarrow> bool" where
  "info_ok k info \<longleftrightarrow> sb_ID (vi_sb info) = k \<and> sb_State (vi_sb info) \<in> {''running'', ''paused''}
     \<and> sb_IP (vi_sb info) = slot_GuestIP (vi_slot info)
     \<and> vm_State (vi_vm info) = VMStateRunning \<and> vc_ID (vm_Config (vi_vm info)) = k
     \<and> vc_TAPDevice (vm_Config (vi_vm info)) = TAPName (vi_slot info)
     \<and> vc_GuestIP (vm_Config (vi_vm info)) = slot_GuestIP (vi_slot info)"

definition slots_of :: "(string, vm_info) gomap \<Rightarrow> slot list" where
  "slots_of m = map (\<lambda>(k, info). vi_slot info) m"

definition fc_ok :: "int \<Rightarrow> 'w fc \<Rightarrow> bool" where
  "fc_ok mx fw \<longleftrightarrow> pool_inv (netPool (fst fw)) \<and> maxSlots (netPool (fst fw)) = mx \<and> gm_wf (vms (fst fw))
     \<and> held_ok (slots_of (vms (fst fw))) (used_slots (netPool (fst fw))) mx
     \<and> (\<forall>(k, info) \<in> set (vms (fst fw)). info_ok k info)"

definition fc_live :: "'w fc \<Rightarrow> string set" where
  "fc_live fw = gm_keys (vms (fst fw))"

text \<open>Outside the calls of the runtime, only the host changes.\<close>

definition fc_env :: "'w fc \<Rightarrow> 'w fc \<Rightarrow> bool" where
  "fc_env fw fw' \<longleftrightarrow> fst fw' = fst fw"

definition fc_client_of :: "'w http_client \<Rightarrow> 'w fc http_client" where
  "fc_client_of cl q fw = (case cl q (snd fw) of (resp, w') \<Rightarrow> (resp, (fst fw, w')))"

lemma fc_Create_cases:
  assumes "fc_Create h dflt opts (f, w) = (res, fw')"
  obtains (missing) "res = Inl (''template '' @ quote (if co_Template opts = '''' then ''base'' else co_Template opts) @ '' not found'')"
      "fw' = (f, w)"
  | (nonet) e p1 w1 where "Allocate (h_sh h) (netPool f) w = (Inl e, p1, w1)" "res = Inl (''allocate network: '' @ e)"
      "fw' = (f\<lparr>netPool := p1\<rparr>, w1)"
  | (failed) s p1 w1 w2 p2 w3 msg where "Allocate (h_sh h) (netPool f) w = (Inr s, p1, w1)"
      "Release (h_sh h) s p1 w2 = (p2, w3)" "res = Inl msg" "fw' = (f\<lparr>netPool := p2\<rparr>, w3)"
  | (created) s p1 w1 vm w2 w3 sb where "Allocate (h_sh h) (netPool f) w = (Inr s, p1, w1)"
      "vm_Start h (NewVM (fc_vm_config f dflt opts (KernelPath h (tmplCache f)
          (if co_Template opts = '''' then ''base'' else co_Template opts) w1) s)) w1 = (None, vm, w2)"
      "sb = \<lparr>sb_ID = co_ID opts, sb_State = ''running'', sb_Runtime = ''firecracker'',
             sb_IP = slot_GuestIP s, sb_AgentURL = ''http://'' @ slot_GuestIP s @ '':'' @ dec agent_DefaultPort\<rparr>"
      "res = Inr sb" "fc_waitForAgent h (sb_AgentURL sb) w2 = (None, w3)"
      "fw' = (f\<lparr>netPool := p1, vms := gm_put (co_ID opts) \<lparr>vi_vm = vm, vi_slot = s, vi_sb = sb\<rparr> (vms f)\<rparr>, w3)"
proof -
  let ?t = "if co_Template opts = '''' then ''base'' else co_Template opts"
  obtain r p1 w1 where a: "Allocate (h_sh h) (netPool f) w = (r, p1, w1)" by (metis surj_pair)
  show ?thesis
  proof (cases "template_Exists h (tmplCache f) ?t w")
    case False
    then show ?thesis using assms by (intro missing) (auto simp: fc_Create_def Let_def)
  next
    case t: True
    show ?thesis
    proof (cases r)
      case (Inl e)
      then show ?thesis using assms a t by (intro nonet) (auto simp: fc_Create_def Let_def)
    next
      case r: (Inr s)
      let ?vm = "NewVM (fc_vm_config f dflt opts (KernelPath h (tmplCache f) ?t w1) s)"
      obtain e vm w2 where v: "vm_Start h ?vm w1 = (e, vm, w2)" by (metis surj_pair)
      show ?thesis
      proof (cases e)
        case (Some m)
        obtain p2 w3 where "Release (h_sh h) s p1 w2 = (p2, w3)" by fastforce
        then show ?thesis using assms a t r v Some by (intro failed) (auto simp: fc_Create_def Let_def)
      next
        case e: None
        let ?u = "''http://'' @ slot_GuestIP s @ '':'' @ dec agent_DefaultPort"
        obtain x w3 where x: "fc_waitForAgent h ?u w2 = (x, w3)" by fastforce
        obtain vm' w4 where s: "vm_Stop h vm w3 = (vm', w4)" by fastforce
        obtain p2 w5 where l: "Release (h_sh h) s p1 w4 = (p2, w5)" by fastforce
        show ?thesis
        proof (cases x)
          case (Some m)
          then show ?thesis using assms a t r v e x s l
            by (intro failed [of s p1 w1 w4 p2 w5 "''agent not ready: '' @ m"]) (auto simp: fc_Create_def Let_def)
        next
          case None
          then show ?thesis using assms a t r v e x
            by (intro created [of s p1 w1 vm w2 _ w3]) (auto simp: fc_Create_def Let_def)
        qed
      qed
    qed
  qed
qed

lemma startProcess_config: "startProcess h vm s w = (e, vm', w') \<Longrightarrow> vm_Config vm' = vm_Config vm"
  by (auto simp: startProcess_def Let_def split: prod.splits option.splits sum.splits)

lemma vm_Start_ok:
  assumes "vm_Start h vm w = (None, vm', w')"
  shows "vm_Config vm' = vm_Config vm \<and> vm_State vm' = VMStateRunning"
  using assms
  by (auto simp: vm_Start_def Let_def dest!: startProcess_config split: if_splits prod.splits option.splits)

lemma fc_vm_config_sel [simp]:
  "vc_ID (fc_vm_config f dflt opts k s) = co_ID opts" "vc_TAPDevice (fc_vm_config f dflt opts k s) = TAPName s"
  "vc_GuestIP (fc_vm_config f dflt opts k s) = slot_GuestIP s" "vc_KernelPath (fc_vm_config f dflt opts k s) = k"
  "vc_RootfsPath (fc_vm_config f dflt opts k s) =
     TemplatePath (tmplCache f) (if co_Template opts = '''' then ''base'' else co_Template opts)"
  by (simp_all add: fc_vm_config_def Let_def)

lemma slots_of_put_new: "k \<notin> gm_keys m \<Longrightarrow> slots_of (gm_put k info m) = slots_of m @ [vi_slot info]"
  by (induction m) (auto simp: slots_of_def)

lemma slots_of_del:
  "gm_wf m \<Longrightarrow> gm_get m k = Some info \<Longrightarrow> distinct (map slot_ID (slots_of m)) \<Longrightarrow>
     slots_of (gm_del k m) = remove1 (vi_slot info) (slots_of m)"
proof (induction m)
  case Nil
  then show ?case by simp
next
  case (Cons kv m)
  obtain k' i' where kv: "kv = (k', i')" by (cases kv)
  show ?case
  proof (cases "k' = k")
    case True
    then have "k \<notin> gm_keys m" using Cons.prems(1) kv by auto
    then have "gm_del k m = m" by (rule gm_del_absent)
    with True show ?thesis using Cons.prems(2) kv by (simp add: slots_of_def)
  next
    case False
    with Cons.prems have g: "gm_get m k = Some info" by (simp add: kv)
    then have "vi_slot info \<in> set (slots_of m)" by (force simp: slots_of_def dest: map_of_SomeD)
    then have "slot_ID (vi_slot info) \<in> set (map slot_ID (slots_of m))" by simp
    moreover have "slot_ID (vi_slot i') \<notin> set (map slot_ID (slots_of m))"
      using Cons.prems(3) unfolding kv slots_of_def list.map prod.case distinct.simps by blast
    ultimately have "slot_ID (vi_slot i') \<noteq> slot_ID (vi_slot info)" by metis
    then have "vi_slot i' \<noteq> vi_slot info" by auto
    moreover have "slots_of (gm_del k m) = remove1 (vi_slot info) (slots_of m)"
      using Cons.IH Cons.prems(1,3) g by (simp add: slots_of_def kv)
    ultimately show ?thesis using False by (simp add: slots_of_def kv)
  qed
qed

lemma slots_of_put_same:
  "gm_get m k = Some info \<Longrightarrow> vi_slot info' = vi_slot info \<Longrightarrow> slots_of (gm_put k info' m) = slots_of m"
  by (induction m) (auto simp: slots_of_def split: if_splits)

lemma info_ok_state: "info_ok k info \<Longrightarrow> st \<in> {''running'', ''paused''} \<Longrightarrow> info_ok k (set_sb_state st info)"
  by (auto simp: info_ok_def set_sb_state_def)

lemma fc_ok_New: "fc_ok (if fcc_MaxVMs cfg \<le> 0 then 50 else fcc_MaxVMs cfg) (NewFirecracker cfg tmpl, w)"
  by (simp add: fc_ok_def NewFirecracker_def Let_def held_ok_def slots_of_def NewPool_def [of "fcc_MaxVMs cfg"] NewPool_def [of 50])

lemma fc_Create_ok:
  assumes ok: "fc_ok mx fw" and new: "co_ID opts \<notin> fc_live fw" and c: "fc_Create h dflt opts fw = (res, fw')"
  shows "fc_ok mx fw' \<and> fc_live fw' = (case res of Inl e \<Rightarrow> fc_live fw | Inr sb \<Rightarrow> insert (co_ID opts) (fc_live fw))"
proof -
  obtain f w where fw: "fw = (f, w)" by (cases fw)
  from c [unfolded fw] show ?thesis
  proof (cases rule: fc_Create_cases)
    case missing
    then show ?thesis using ok fw by simp
  next
    case (nonet e p1 w1)
    then have "p1 = netPool f" by (auto dest: net.alloc_err)
    with nonet ok show ?thesis by (simp add: fw fc_ok_def fc_live_def)
  next
    case (failed s p1 w1 w2 p2 w3 msg)
    have i: "pool_inv (netPool f)" using ok by (simp add: fw fc_ok_def)
    note a = net.alloc_ok [OF i failed(1)]
    then have "pool_inv p2 \<and> used_slots p2 = used_slots (netPool f) \<and> maxSlots p2 = maxSlots (netPool f)"
      using Release_frees [OF _ failed(2)] by auto
    with failed ok show ?thesis by (simp add: fw fc_ok_def fc_live_def)
  next
    case (created s p1 w1 vm w2 w3 sb)
    have i: "pool_inv (netPool f)" using ok by (simp add: fw fc_ok_def)
    note a = net.alloc_ok [OF i created(1)] and v = vm_Start_ok [OF created(2)]
    let ?info = "\<lparr>vi_vm = vm, vi_slot = s, vi_sb = sb\<rparr>"
    have n: "co_ID opts \<notin> gm_keys (vms f)" using new by (simp add: fw fc_live_def)
    have "held_ok (slots_of (gm_put (co_ID opts) ?info (vms f))) (used_slots p1) mx"
      using ok a by (auto simp: fw fc_ok_def held_ok_def slots_of_put_new [OF n])
    moreover have "info_ok (co_ID opts) ?info"
      using v by (simp add: info_ok_def created(3) NewVM_def)
    ultimately show ?thesis
      using ok a set_gm_put [of "co_ID opts" ?info "vms f"]
      by (auto simp: fw fc_ok_def fc_live_def created(4-6))
  qed
qed

lemma fc_Destroy_ok:
  assumes ok: "fc_ok mx fw" and d: "fc_Destroy h i fw = (e, fw')"
  shows "fc_ok mx fw' \<and> fc_live fw' = fc_live fw - {i} \<and> (e = None \<longleftrightarrow> i \<in> fc_live fw)"
proof -
  obtain f w where fw: "fw = (f, w)" by (cases fw)
  show ?thesis
  proof (cases "gm_get (vms f) i")
    case None
    then have "i \<notin> gm_keys (vms f)" by (simp add: gm_get_None)
    with None ok d show ?thesis by (auto simp: fw fc_Destroy_def fc_live_def)
  next
    case (Some info)
    obtain vm w1 where s: "vm_Stop h (vi_vm info) w = (vm, w1)" by fastforce
    obtain p1 w2 where r: "Release (h_sh h) (vi_slot info) (netPool f) w1 = (p1, w2)" by fastforce
    have e: "e = None" "fw' = (f\<lparr>netPool := p1, vms := gm_del i (vms f)\<rparr>, w2)"
      using d Some s r by (auto simp: fw fc_Destroy_def)
    have i: "pool_inv (netPool f)" and wf: "gm_wf (vms f)"
      and held: "held_ok (slots_of (vms f)) (used_slots (netPool f)) mx"
      using ok by (simp_all add: fw fc_ok_def)
    note p = Release_frees [OF i r]
    have "vi_slot info \<in> set (slots_of (vms f))" using Some by (force simp: slots_of_def dest: map_of_SomeD)
    with held p have "held_ok (slots_of (gm_del i (vms f))) (used_slots p1) mx"
      using slots_of_del [OF wf Some] held_ok_remove1 [OF held] by (simp add: held_ok_def)
    moreover have "i \<in> gm_keys (vms f)" using Some by (rule gm_get_SomeD)
    ultimately show ?thesis
      using ok p set_gm_del [of i "vms f"] by (auto simp: fw fc_ok_def fc_live_def e)
  qed
qed

lemma fc_set_state_ok:
  assumes "fc_ok mx (f, w)" "gm_get (vms f) i = Some info" "st \<in> {''running'', ''paused''}"
  shows "fc_ok mx (f\<lparr>vms := gm_put i (set_sb_state st info) (vms f)\<rparr>, w)"
proof -
  have "info_ok i info" using assms by (auto simp: fc_ok_def dest!: map_of_SomeD)
  then have "info_ok i (set_sb_state st info)" using assms(3) by (rule info_ok_state)
  moreover have "slots_of (gm_put i (set_sb_state st info) (vms f)) = slots_of (vms f)"
    by (rule slots_of_put_same [OF assms(2)]) (simp add: set_sb_state_def)
  ultimately show ?thesis
    using assms(1) set_gm_put [of i "set_sb_state st info" "vms f"] by (auto simp: fc_ok_def)
qed

lemma fc_Pause_ok:
  assumes "fc_ok mx fw" "fc_Pause i fw = (e, fw')"
  shows "fc_ok mx fw' \<and> fc_live fw' = fc_live fw \<and> (e = None \<longleftrightarrow> i \<in> fc_live fw)"
proof -
  obtain f w where fw: "fw = (f, w)" by (cases fw)
  show ?thesis
  proof (cases "gm_get (vms f) i")
    case None
    then have "i \<notin> gm_keys (vms f)" by (simp add: gm_get_None)
    with None assms show ?thesis by (auto simp: fw fc_Pause_def fc_live_def)
  next
    case (Some info)
    then have "i \<in> gm_keys (vms f)" by (rule gm_get_SomeD)
    moreover have "e = None" "fw' = (f\<lparr>vms := gm_put i (set_sb_state ''paused'' info) (vms f)\<rparr>, w)"
      using Some assms(2) by (simp_all add: fw fc_Pause_def)
    ultimately show ?thesis
      using Some assms(1) fc_set_state_ok [of mx f w i info "''paused''"]
      by (simp add: fw fc_live_def insert_absorb)
  qed
qed

lemma fc_Resume_ok:
  assumes "fc_ok mx fw" "fc_Resume i fw = (e, fw')"
  shows "fc_ok mx fw' \<and> fc_live fw' = fc_live fw \<and> (e = None \<longleftrightarrow> i \<in> fc_live fw)"
proof -
  obtain f w where fw: "fw = (f, w)" by (cases fw)
  show ?thesis
  proof (cases "gm_get (vms f) i")
    case None
    then have "i \<notin> gm_keys (vms f)" by (simp add: gm_get_None)
    with None assms show ?thesis by (auto simp: fw fc_Resume_def fc_live_def)
  next
    case (Some info)
    then have "i \<in> gm_keys (vms f)" by (rule gm_get_SomeD)
    moreover have "e = None" "fw' = (f\<lparr>vms := gm_put i (set_sb_state ''running'' info) (vms f)\<rparr>, w)"
      using Some assms(2) by (simp_all add: fw fc_Resume_def)
    ultimately show ?thesis
      using Some assms(1) fc_set_state_ok [of mx f w i info "''running''"]
      by (simp add: fw fc_live_def insert_absorb)
  qed
qed

interpretation fc: tracked_backend "firecracker h dflt" "fc_client_of cl" fc_live "fc_ok mx" fc_env for h :: "'w host" and dflt cl mx
proof
  fix opts and r r' :: "'w fc" and sb
  assume "rt_Create (firecracker h dflt) opts r = (Inr sb, r')"
  then show "sb_ID sb = co_ID opts \<and> sb_State sb = ''running'' \<and> sb_Runtime sb = rt_Name (firecracker h dflt)"
    by (cases r) (auto simp: firecracker_def elim: fc_Create_cases)
next
  fix snap newID and r r' :: "'w fc" and sb
  assume "rt_Restore (firecracker h dflt) snap newID r = (Inr sb, r')"
  then show "sb_ID sb = newID \<and> sb_State sb = ''running'' \<and> sb_Runtime sb = rt_Name (firecracker h dflt)"
    by (simp add: firecracker_def fc_Restore_def)
next
  fix r r' :: "'w fc" and opts res
  assume a: "fc_ok mx r" "co_ID opts \<notin> fc_live r" and "rt_Create (firecracker h dflt) opts r = (res, r')"
  then have "fc_Create h dflt opts r = (res, r')" by (simp add: firecracker_def)
  then show "fc_ok mx r' \<and> fc_live r' = (case res of Inl e \<Rightarrow> fc_live r | Inr sb \<Rightarrow> insert (co_ID opts) (fc_live r))"
    by (rule fc_Create_ok [OF a])
next
  fix r r' :: "'w fc" and newID snap res
  assume "fc_ok mx r" "rt_Restore (firecracker h dflt) snap newID r = (res, r')"
  then show "fc_ok mx r' \<and> fc_live r' = (case res of Inl e \<Rightarrow> fc_live r | Inr sb \<Rightarrow> insert newID (fc_live r))"
    by (auto simp: firecracker_def fc_Restore_def)
next
  fix r r' :: "'w fc" and i e
  assume ok: "fc_ok mx r"
  { assume "rt_Destroy (firecracker h dflt) i r = (e, r')"
    then have "fc_Destroy h i r = (e, r')" by (simp add: firecracker_def)
    then show "fc_ok mx r' \<and> fc_live r' = fc_live r - {i} \<and> (e = None \<longleftrightarrow> i \<in> fc_live r)" by (rule fc_Destroy_ok [OF ok]) }
  { assume "rt_Pause (firecracker h dflt) i r = (e, r')"
    then have "fc_Pause i r = (e, r')" by (simp add: firecracker_def)
    then show "fc_ok mx r' \<and> fc_live r' = fc_live r \<and> (e = None \<longleftrightarrow> i \<in> fc_live r)" by (rule fc_Pause_ok [OF ok]) }
  { assume "rt_Resume (firecracker h dflt) i r = (e, r')"
    then have "fc_Resume i r = (e, r')" by (simp add: firecracker_def)
    then show "fc_ok mx r' \<and> fc_live r' = fc_live r \<and> (e = None \<longleftrightarrow> i \<in> fc_live r)" by (rule fc_Resume_ok [OF ok]) }
next
  fix r r' :: "'w fc" and i snap e
  assume "fc_ok mx r"
  { assume "rt_Snapshot (firecracker h dflt) i snap r = (e, r')"
    with \<open>fc_ok mx r\<close> show "fc_ok mx r' \<and> fc_live r' = fc_live r" by (simp add: firecracker_def fc_Snapshot_def) }
  { assume "rt_DeleteSnapshot (firecracker h dflt) snap r = (e, r')"
    with \<open>fc_ok mx r\<close> show "fc_ok mx r' \<and> fc_live r' = fc_live r" by (simp add: firecracker_def fc_DeleteSnapshot_def) }
  { fix infos assume "rt_ListSnapshots (firecracker h dflt) i r = (infos, r')"
    with \<open>fc_ok mx r\<close> show "fc_ok mx r' \<and> fc_live r' = fc_live r" by (simp add: firecracker_def fc_ListSnapshots_def) }
next
  fix r r' :: "'w fc"
  assume "fc_ok mx r" "fc_env r r'"
  then show "fc_ok mx r' \<and> fc_live r' = fc_live r" by (simp add: fc_env_def fc_ok_def fc_live_def)
next
  fix q resp and r r' :: "'w fc"
  assume "fc_client_of cl q r = (resp, r')"
  then show "fc_env r r'" by (auto simp: fc_client_of_def fc_env_def split: prod.splits)
qed

section \<open>What the runtime guarantees\<close>

lemma pool_restored:
  assumes "pool_inv p" "Allocate sh p w = (Inr s, p1, w1)" "Release sh' s p1 w2 = (p2, w3)"
  shows "p2 = p"
proof -
  have n: "slot_ID s \<notin> gm_keys (allocated p)"
    using net.alloc_ok [OF assms(1,2)] by (simp add: used_slots_def)
  have p1: "p1 = p\<lparr>allocated := gm_put (slot_ID s) True (allocated p)\<rparr>"
    using Allocate_cases [OF assms(2)] by auto
  from assms(3) show ?thesis
    by (auto simp: Release_def Let_def p1 gm_del_put_absent [OF n] split: prod.splits)
qed

text \<open>
  C22. A creation that fails, at whatever step, leaves the runtime as it was: the slot it took is
  given back and no sandbox is recorded.
\<close>
theorem fc_Create_failure_restores:
  assumes "fc_ok mx (f, w)" and "fc_Create h dflt opts (f, w) = (Inl e, (f', w'))"
  shows "f' = f"
  using assms(2)
proof (cases rule: fc_Create_cases)
  case (nonet e' p1 w1)
  then show ?thesis by (auto dest!: net.alloc_err)
next
  case (failed s p1 w1 w2 p2 w3 msg)
  have "p2 = netPool f" using assms(1) pool_restored [OF _ failed(1,2)] by (simp add: fc_ok_def)
  then show ?thesis using failed by simp
qed auto

definition demo_fc :: "fc_runtime" where
  "demo_fc = NewFirecracker \<lparr>fcc_DataDir = ''/d'', fcc_FirecrackerBin = ''firecracker'', fcc_HostInterface = ''eth0'',
     fcc_MaxVMs = 2\<rparr> ''/t''"

lemma demo_fc_ok: "fc_ok 2 (demo_fc, ())"
  using fc_ok_New [of "\<lparr>fcc_DataDir = ''/d'', fcc_FirecrackerBin = ''firecracker'', fcc_HostInterface = ''eth0'', fcc_MaxVMs = 2\<rparr>"]
  by (simp add: demo_fc_def)

definition demo_opts :: create_opts where
  "demo_opts = \<lparr>co_ID = ''sb-1'', co_Template = ''base'', co_VCPUs = 1, co_MemoryMB = 512, co_EnvVars = []\<rparr>"

text \<open>A host whose agents never answer.\<close>

definition deaf_host :: "unit host" where
  "deaf_host = good_host\<lparr>h_http := (\<lambda>q w. (Inl ''refused'', w))\<rparr>"

lemma poll_never: "(\<And>w. fst (probe w) = False) \<Longrightarrow> fst (poll n probe wait w) = False"
  by (simp add: poll_iff)

lemma fc_Create_failure_restores_witness:
  "\<exists>e w'. fc_Create deaf_host (DefaultConfig ''u'' ''/tmp'') demo_opts (demo_fc, ()) = (Inl e, (demo_fc, w'))"
proof -
  obtain res f' w' where c: "fc_Create deaf_host (DefaultConfig ''u'' ''/tmp'') demo_opts (demo_fc, ()) = (res, (f', w'))"
    by (metis surj_pair)
  have "fst (poll 60 (health_probe deaf_host u) (h_sleep deaf_host 500) v) = False" for u v
    by (rule poll_never) (simp add: health_probe_def deaf_host_def)
  then obtain v' where "poll 60 (health_probe deaf_host u) (h_sleep deaf_host 500) v = (False, v')" for u v
    by (metis (full_types) old.unit.exhaust prod.collapse)
  then have "fc_waitForAgent deaf_host u v \<noteq> (None, v')" for u v v'
    by (simp add: fc_waitForAgent_def)
  with c have "\<exists>e. res = Inl e" by (auto elim: fc_Create_cases)
  with fc_Create_failure_restores [OF demo_fc_ok] c show ?thesis by blast
qed

text \<open>
  C21. Creating a sandbox under a new identifier and destroying it again restores the runtime: the
  other sandboxes and the slots are as before, whatever the host did in between.
\<close>
theorem fc_Create_Destroy_restores:
  assumes "fc_ok mx (f, w)" and "co_ID opts \<notin> fc_live (f, w)"
    and "fc_Create h dflt opts (f, w) = (Inr sb, (f1, w1))" and "fc_Destroy h' (co_ID opts) (f1, w2) = (e, (f2, w3))"
  shows "e = None \<and> f2 = f"
  using assms(3)
proof (cases rule: fc_Create_cases)
  case (created s p1 w1' vm w2' w3' sb')
  let ?info = "\<lparr>vi_vm = vm, vi_slot = s, vi_sb = sb'\<rparr>"
  have f1: "f1 = f\<lparr>netPool := p1, vms := gm_put (co_ID opts) ?info (vms f)\<rparr>" using created by simp
  have i: "pool_inv (netPool f)" using assms(1) by (simp add: fc_ok_def)
  have n: "co_ID opts \<notin> gm_keys (vms f)" using assms(2) by (simp add: fc_live_def)
  obtain vm'' w4 where s: "vm_Stop h' vm w2 = (vm'', w4)" by fastforce
  obtain p2 w5 where r: "Release (h_sh h') s p1 w4 = (p2, w5)" by fastforce
  have "p2 = netPool f"
    by (rule pool_restored [OF i created(1) r])
  then show ?thesis using assms(4) s r by (auto simp: fc_Destroy_def f1 gm_del_put_absent [OF n])
qed auto

lemma good_Allocate: "Allocate (h_sh good_host) (netPool demo_fc) () =
    (Inr (NewSlot 0), (netPool demo_fc)\<lparr>allocated := [(0, True)]\<rparr>, ())"
  by (simp add: Allocate_def Let_def demo_fc_def NewFirecracker_def NewPool_def first_free.simps is_allocated_def
      CreateTAP_def SetupNAT_def run_def good_host_sel)

lemma good_fc_put: "fc_put good_host fc path b () = (None, ())"
  by (simp add: fc_put_def good_host_sel)

lemma good_configureVM: "configureVM good_host vm fc () = (None, ())"
  by (simp add: configureVM_def SetMachineConfig_def SetBootSource_def AddDrive_def AddNetworkInterface_def
      good_fc_put Let_def)

lemma good_startProcess: "startProcess good_host vm s () = (None, vm\<lparr>vm_proc := Some 4711, vm_PID := 4711\<rparr>, ())"
  by (simp add: startProcess_def good_host_sel Let_def)

lemma good_waitForSocket: "waitForSocket good_host s () = (None, ())"
  by (simp add: waitForSocket_def good_host_poll)

lemma good_vm_Start:
  assumes "vc_ID (vm_Config vm) \<noteq> ''''" "vc_KernelPath (vm_Config vm) \<noteq> ''''" "vc_RootfsPath (vm_Config vm) \<noteq> ''''"
    "vm_State vm \<noteq> VMStateRunning"
  shows "\<exists>vm'. vm_Start good_host vm () = (None, vm', ())"
proof -
  have "Validate good_host (vm_Config vm) () = None"
    using assms by (simp add: Validate_def good_host_sel)
  moreover have "copyRootfs good_host (vm\<lparr>vm_State := VMStateStarting\<rparr>) () = (None, ())"
    by (simp add: copyRootfs_def sh_err_def good_host_sel Let_def)
  ultimately show ?thesis
    using assms(4)
    by (simp add: vm_Start_def good_startProcess good_waitForSocket good_configureVM StartInstance_def good_fc_put
        good_host_sel Let_def)
qed

lemma good_waitForAgent: "fc_waitForAgent good_host u () = (None, ())"
  by (simp add: fc_waitForAgent_def poll.simps(2) [of 59, simplified] health_probe_def good_host_sel)

lemma good_fc_Create_any:
  assumes o: "co_ID opts \<noteq> ''''" "co_Template opts = ''base''"
  shows "\<exists>sb f1. fc_Create good_host (DefaultConfig ''u'' ''/tmp'') opts (demo_fc, ()) = (Inr sb, (f1, ()))
     \<and> gm_keys (vms f1) = {co_ID opts}"
proof -
  let ?t = "''base''"
  let ?c = "fc_vm_config demo_fc (DefaultConfig ''u'' ''/tmp'') opts (KernelPath good_host (tmplCache demo_fc) ?t ()) (NewSlot 0)"
  have t: "tmplCache demo_fc = ''/t''" by (simp add: demo_fc_def NewFirecracker_def Let_def)
  have "KernelPath good_host ''/t'' ?t () = ''/t/base/vmlinux''"
    by (simp add: KernelPath_def good_host_poll path_join_def clean_path_def has_prefix_def)
  moreover have "TemplatePath ''/t'' ?t = ''/t/base/rootfs.ext4''"
    by (simp add: TemplatePath_def path_join_def clean_path_def has_prefix_def)
  ultimately obtain vm where v: "vm_Start good_host (NewVM ?c) () = (None, vm, ())"
    using good_vm_Start [of "NewVM ?c"]
    by (auto simp: NewVM_def o t)
  have "template_Exists good_host (tmplCache demo_fc) ?t ()"
    by (simp add: template_Exists_def good_host_poll)
  with v good_waitForAgent show ?thesis
    by (simp add: fc_Create_def good_Allocate o Let_def) (simp add: demo_fc_def NewFirecracker_def Let_def)
qed

lemma good_fc_Create:
  "\<exists>sb f1. fc_Create good_host (DefaultConfig ''u'' ''/tmp'') demo_opts (demo_fc, ()) = (Inr sb, (f1, ()))
     \<and> gm_keys (vms f1) = {''sb-1''}"
  using good_fc_Create_any [of demo_opts] by (simp add: demo_opts_def)

lemma fc_Create_Destroy_restores_witness:
  "\<exists>sb f1. fc_Create good_host (DefaultConfig ''u'' ''/tmp'') demo_opts (demo_fc, ()) = (Inr sb, (f1, ()))
     \<and> f1 \<noteq> demo_fc \<and> fst (snd (fc_Destroy good_host ''sb-1'' (f1, ()))) = demo_fc"
proof -
  obtain sb f1 where c: "fc_Create good_host (DefaultConfig ''u'' ''/tmp'') demo_opts (demo_fc, ()) = (Inr sb, (f1, ()))"
    and k: "gm_keys (vms f1) = {''sb-1''}"
    using good_fc_Create by (elim exE conjE) (rule that)
  obtain e f2 w3 where d: "fc_Destroy good_host ''sb-1'' (f1, ()) = (e, (f2, w3))" by (metis surj_pair)
  have l: "vms demo_fc = []" by (simp add: demo_fc_def NewFirecracker_def Let_def)
  have n: "co_ID demo_opts \<notin> fc_live (demo_fc, ())" by (simp add: fc_live_def l)
  have i: "co_ID demo_opts = ''sb-1''" by (simp add: demo_opts_def)
  have f: "f1 \<noteq> demo_fc"
  proof
    assume "f1 = demo_fc"
    with k l show False by simp
  qed
  have "f2 = demo_fc" using fc_Create_Destroy_restores [OF demo_fc_ok n c, of good_host "()" e f2 w3] d i by simp
  with c d f show ?thesis by (intro exI [of _ sb] exI [of _ f1]) simp
qed

text \<open>
  Pausing and resuming a microVM only relabels it: no call is made to the host, so nothing is
  paused there; the label of that sandbox changes and nothing else does.
\<close>
theorem fc_Pause_only_relabels:
  assumes "fc_ok mx (f, w)" and "fc_Pause i (f, w) = (None, (f', w'))"
  shows "w' = w \<and> netPool f' = netPool f
    \<and> (\<forall>k. gm_get (vms f') k = (if k = i then map_option (set_sb_state ''paused'') (gm_get (vms f) i) else gm_get (vms f) k))
    \<and> (\<exists>info. gm_get (vms f') i = Some info \<and> sb_State (vi_sb info) = ''paused'' \<and> vm_State (vi_vm info) = VMStateRunning)"
proof -
  obtain info where g: "gm_get (vms f) i = Some info"
    using assms(2) by (cases "gm_get (vms f) i") (auto simp: fc_Pause_def)
  then have "info_ok i info" using assms(1) by (auto simp: fc_ok_def dest!: map_of_SomeD)
  then show ?thesis
    using assms(2) g by (auto simp: fc_Pause_def set_sb_state_def info_ok_def)
qed

lemma fc_Pause_only_relabels_witness:
  "\<exists>f f'. fc_Pause ''sb-1'' (f, ()) = (None, (f', ()))
     \<and> (\<exists>info. gm_get (vms f') ''sb-1'' = Some info \<and> vm_State (vi_vm info) = VMStateRunning)"
proof -
  obtain sb f where c: "fc_Create good_host (DefaultConfig ''u'' ''/tmp'') demo_opts (demo_fc, ()) = (Inr sb, (f, ()))"
    and k: "gm_keys (vms f) = {''sb-1''}"
    using good_fc_Create by (elim exE conjE) (rule that)
  have "co_ID demo_opts \<notin> fc_live (demo_fc, ())"
    by (simp add: fc_live_def demo_fc_def NewFirecracker_def Let_def)
  with c have ok: "fc_ok 2 (f, ())" using fc_Create_ok [OF demo_fc_ok] by blast
  have "''sb-1'' \<in> gm_keys (vms f)" unfolding k by simp
  then obtain info where "gm_get (vms f) ''sb-1'' = Some info" using gm_keys_get by metis
  then obtain f' where p: "fc_Pause ''sb-1'' (f, ()) = (None, (f', ()))"
    by (simp add: fc_Pause_def)
  with fc_Pause_only_relabels [OF ok p] show ?thesis by blast
qed

section \<open>The orchestrator on this backend\<close>

abbreviation fc_slot :: "'w fc orch \<Rightarrow> string \<Rightarrow> slot option" where
  "fc_slot orc i \<equiv> map_option vi_slot (gm_get (vms (fst (backend orc))) i)"

lemma orch_fc_reachable:
  assumes "orch_reachable (firecracker h dflt) (fc_client_of cl) fc_env cfg (NewFirecracker fcfg tmpl, w) orc"
  shows "fc_ok (if fcc_MaxVMs fcfg \<le> 0 then 50 else fcc_MaxVMs fcfg) (backend orc)
    \<and> gm_keys (store orc) = fc_live (backend orc)"
  by (rule fc.reachable_synced [OF assms fc_ok_New]) (simp add: fc_live_def NewFirecracker_def Let_def)

lemma held_ok_distinct:
  assumes "held_ok (slots_of m) u mx" "gm_wf m" "gm_get m i = Some a" "gm_get m j = Some b" "i \<noteq> j"
  shows "slot_ID (vi_slot a) \<noteq> slot_ID (vi_slot b)"
  using assms
proof (induction m arbitrary: u)
  case Nil
  then show ?case by simp
next
  case (Cons kv m)
  obtain k c where kv: "kv = (k, c)" by (cases kv)
  have d: "distinct (map slot_ID (slots_of (kv # m)))" using Cons.prems(1) by (simp add: held_ok_def)
  have in_m: "slot_ID (vi_slot x) \<in> set (map slot_ID (slots_of m))" if "gm_get m y = Some x" for x y
  proof -
    have "vi_slot x \<in> set (slots_of m)" using that by (force simp: slots_of_def dest: map_of_SomeD)
    then show ?thesis by simp
  qed
  have c: "slot_ID (vi_slot c) \<notin> set (map slot_ID (slots_of m))"
    using d unfolding kv slots_of_def list.map prod.case distinct.simps by blast
  show ?case
  proof (cases "k = i \<or> k = j")
    case True
    then show ?thesis
    proof
      assume "k = i"
      with Cons.prems(3-5) have "a = c" "gm_get m j = Some b" by (simp_all add: kv)
      with c in_m [of j b] show ?thesis by metis
    next
      assume "k = j"
      with Cons.prems(3-5) have "b = c" "gm_get m i = Some a" by (simp_all add: kv)
      with c in_m [of i a] show ?thesis by metis
    qed
  next
    case False
    have "held_ok (slots_of m) (slot_ID ` set (slots_of m)) mx"
      using Cons.prems(1) by (auto simp: held_ok_def slots_of_def kv)
    moreover have "gm_wf m" "gm_get m i = Some a" "gm_get m j = Some b"
      using Cons.prems(2-4) False unfolding kv by (auto split: if_splits)
    ultimately show ?thesis using Cons.IH Cons.prems(5) by blast
  qed
qed

text \<open>
  The process of a microVM is started by \<open>exec.CommandContext(ctx, ...)\<close> (\<open>vm.go\<close>, line 153), and
  \<open>ctx\<close> is the context of the request that creates the sandbox: \<open>net/http\<close> cancels it when the
  handler has returned, and \<open>os/exec\<close> then kills the process. \<open>end_of_request\<close> is that kill, for
  the sandbox the request has created (the process of a creation that failed has been stopped
  before).
\<close>

definition vm_process :: "string \<Rightarrow> 'w fc \<Rightarrow> int option" where
  "vm_process i fw = Option.bind (gm_get (vms (fst fw)) i) (\<lambda>info. vm_proc (vi_vm info))"

definition end_of_request :: "'w host \<Rightarrow> string \<Rightarrow> 'w fc \<Rightarrow> 'w fc" where
  "end_of_request h i fw = (case vm_process i fw of None \<Rightarrow> fw | Some pid \<Rightarrow> (fst fw, h_kill h pid (snd fw)))"

definition Create_request ::
  "'w host \<Rightarrow> VMConfig \<Rightarrow> 'w http_client \<Rightarrow> string \<Rightarrow> time \<Rightarrow> CreateRequest \<Rightarrow> 'w fc orch \<Rightarrow> (string + VMInstance) \<times> 'w fc orch" where
  "Create_request h dflt cl uuid now req orc =
     (case Create (firecracker h dflt) (fc_client_of cl) uuid now req orc of
        (Inl e, orc1) \<Rightarrow> (Inl e, orc1)
      | (Inr inst, orc1) \<Rightarrow> (Inr inst, orc1\<lparr>backend := end_of_request h (vi_ID inst) (backend orc1)\<rparr>))"

lemma startProcess_proc: "startProcess h vm s w = (None, vm', w') \<Longrightarrow> \<exists>pid. vm_proc vm' = Some pid"
  by (auto simp: startProcess_def Let_def split: prod.splits option.splits sum.splits)

lemma vm_Start_proc: "vm_Start h vm w = (None, vm', w') \<Longrightarrow> \<exists>pid. vm_proc vm' = Some pid"
  by (auto simp: vm_Start_def Let_def dest!: startProcess_proc split: if_splits prod.splits option.splits)

lemma fc_Create_process:
  assumes "fc_Create h dflt opts fw = (Inr sb, fw')"
  shows "\<exists>pid. vm_process (co_ID opts) fw' = Some pid"
proof -
  obtain f w where "fw = (f, w)" by fastforce
  with assms have "fc_Create h dflt opts (f, w) = (Inr sb, fw')" by simp
  then show ?thesis
    by (cases rule: fc_Create_cases) (auto simp: vm_process_def dest: vm_Start_proc)
qed

lemma fst_initAgent: "fst (initAgent (fc_client_of cl) u vs fw) = fst fw"
  by (auto simp: initAgent_def fc_client_of_def split: prod.splits)

text \<open>
  A creation that succeeds has the process of the new sandbox killed when its request ends; what
  the orchestrator and the backend have recorded does not change with that.
\<close>

lemma Create_request_kills:
  assumes c: "Create_request h dflt cl uuid now req orc = (Inr inst, orc')"
  obtains pid w where "vm_process (vi_ID inst) (backend orc') = Some pid" "snd (backend orc') = h_kill h pid w"
    "Create (firecracker h dflt) (fc_client_of cl) uuid now req orc = (Inr inst, orc'\<lparr>backend := (fst (backend orc'), w)\<rparr>)"
    "store_Get (store orc') (vi_ID inst) = Some inst" "vi_State inst = ''running''"
proof -
  obtain orc1 where c1: "Create (firecracker h dflt) (fc_client_of cl) uuid now req orc = (Inr inst, orc1)"
    and o: "orc' = orc1\<lparr>backend := end_of_request h (vi_ID inst) (backend orc1)\<rparr>"
    using c by (auto simp: Create_request_def split: prod.splits sum.splits)
  from c1 have a: "CreateAdmitted (firecracker h dflt) (fc_client_of cl) uuid now req orc = (Inr inst, orc1)"
    by (cases rule: Create_cases) simp_all
  from a show ?thesis
  proof (cases rule: CreateAdmitted_cases)
    case (created opts sb r1 r2 inst')
    have i: "inst' = inst" "vi_ID inst = co_ID opts" using created by simp_all
    have "fc_Create h dflt opts (backend orc) = (Inr sb, r1)" using created(1) by (simp add: firecracker_def)
    then obtain pid where "vm_process (co_ID opts) r1 = Some pid" using fc_Create_process by blast
    moreover have "fst r2 = fst r1" using created(3) by (simp add: fst_initAgent)
    ultimately have p: "vm_process (vi_ID inst) r2 = Some pid" by (simp add: vm_process_def i)
    have b: "backend orc1 = r2" using created by simp
    have e: "backend orc' = (fst r2, h_kill h pid (snd r2))" by (simp add: o b end_of_request_def p)
    show ?thesis
    proof (rule that [of pid "snd r2"])
      show "vm_process (vi_ID inst) (backend orc') = Some pid" using p by (simp add: e vm_process_def)
      show "snd (backend orc') = h_kill h pid (snd r2)" by (simp add: e)
      show "Create (firecracker h dflt) (fc_client_of cl) uuid now req orc
          = (Inr inst, orc'\<lparr>backend := (fst (backend orc'), snd r2)\<rparr>)"
        using c1 b by (cases orc1) (simp add: o end_of_request_def p)
      show "store_Get (store orc') (vi_ID inst) = Some inst"
        using created i by (simp add: o store_Get_def store_Put_def)
      show "vi_State inst = ''running''" using created i by simp
    qed
  qed simp
qed

text \<open>
  C2. On the Firecracker backend, in every state reachable by requests handled one at a time: the
  sandboxes the orchestrator lists are exactly the entries the backend tracks, each holds a network
  slot, the slots in use are exactly those (so none is leaked), and no two sandboxes share a TAP
  device or an address when the backend allows at most 16384 of them. An entry is not a running
  microVM: when the request of a creation that succeeded has ended, the process of the microVM has
  been killed, while the sandbox stays listed as running and keeps its entry and its slot.
\<close>
theorem sandboxes_isolated:
  assumes "orch_reachable (firecracker h dflt) (fc_client_of cl) fc_env cfg (NewFirecracker fcfg tmpl, w) orc"
    and "fcc_MaxVMs fcfg \<le> 16384"
  shows "gm_keys (store orc) = gm_keys (vms (fst (backend orc)))
    \<and> store_Count (store orc) = int (Count (netPool (fst (backend orc))))
    \<and> (\<forall>i j s t. fc_slot orc i = Some s \<and> fc_slot orc j = Some t \<and> i \<noteq> j \<longrightarrow>
         TAPName s \<noteq> TAPName t \<and> {slot_HostIP s, slot_GuestIP s} \<inter> {slot_HostIP t, slot_GuestIP t} = {})
    \<and> (\<forall>uuid now req inst orc'. Create_request h dflt cl uuid now req orc = (Inr inst, orc') \<longrightarrow>
         (\<exists>pid w. vm_process (vi_ID inst) (backend orc') = Some pid
            \<and> backend orc' = (fst (backend orc'), h_kill h pid w)
            \<and> Create (firecracker h dflt) (fc_client_of cl) uuid now req orc
                = (Inr inst, orc'\<lparr>backend := (fst (backend orc'), w)\<rparr>))
         \<and> store_Get (store orc') (vi_ID inst) = Some inst \<and> vi_State inst = ''running''
         \<and> fc_slot orc' (vi_ID inst) \<noteq> None)"
proof (intro conjI allI impI)
  let ?f = "fst (backend orc)" and ?mx = "if fcc_MaxVMs fcfg \<le> 0 then 50 else fcc_MaxVMs fcfg"
  note r = orch_fc_reachable [OF assms(1)]
  have held: "held_ok (slots_of (vms ?f)) (used_slots (netPool ?f)) ?mx" and wf: "gm_wf (vms ?f)" "gm_wf (store orc)"
    and p: "gm_wf (allocated (netPool ?f))"
    using r orch_reachable_capacity [OF assms(1)]
    by (simp_all add: fc_ok_def within_capacity_def store_ok_def pool_inv_def)
  show k: "gm_keys (store orc) = gm_keys (vms ?f)" using r by (simp add: fc_live_def)
  have "distinct (map slot_ID (slots_of (vms ?f)))" "set (map slot_ID (slots_of (vms ?f))) = gm_keys (allocated (netPool ?f))"
    using held by (simp_all add: held_ok_def used_slots_def)
  then have "length (vms ?f) = length (allocated (netPool ?f))"
    using gm_card [OF p] distinct_card [of "map slot_ID (slots_of (vms ?f))"] by (simp add: slots_of_def)
  then show "store_Count (store orc) = int (Count (netPool ?f))"
    using gm_card [OF wf(1)] gm_card [OF wf(2)] k by (simp add: store_Count_def Count_def)
  fix i j s t
  assume "fc_slot orc i = Some s \<and> fc_slot orc j = Some t \<and> i \<noteq> j"
  then obtain a b where ab: "gm_get (vms ?f) i = Some a" "gm_get (vms ?f) j = Some b" "s = vi_slot a" "t = vi_slot b" "i \<noteq> j"
    by auto
  have "s \<in> set (slots_of (vms ?f))" "t \<in> set (slots_of (vms ?f))"
    using ab by (force simp: slots_of_def dest: map_of_SomeD)+
  with held have "s = NewSlot (slot_ID s) \<and> 0 \<le> slot_ID s \<and> slot_ID s < ?mx" "t = NewSlot (slot_ID t) \<and> 0 \<le> slot_ID t \<and> slot_ID t < ?mx"
    unfolding held_ok_def by blast+
  then obtain m n where mn: "s = NewSlot m" "t = NewSlot n" "0 \<le> m" "m < 16384" "0 \<le> n" "n < 16384"
    using assms(2) by (auto split: if_splits)
  have "slot_ID s \<noteq> slot_ID t" using held_ok_distinct [OF held wf(1) ab(1,2,5)] ab(3,4) by simp
  then have "m \<noteq> n" using mn by auto
  then show "TAPName s \<noteq> TAPName t" "{slot_HostIP s, slot_GuestIP s} \<inter> {slot_HostIP t, slot_GuestIP t} = {}"
    using mn by (simp_all add: NewSlot_TAPName_eq NewSlot_GuestIP_eq NewSlot_HostIP_eq
        NewSlot_host_guest_differ NewSlot_host_guest_differ [symmetric])
next
  fix uuid now req inst orc'
  assume "Create_request h dflt cl uuid now req orc = (Inr inst, orc')"
  then obtain pid w where k: "vm_process (vi_ID inst) (backend orc') = Some pid" "snd (backend orc') = h_kill h pid w"
    "Create (firecracker h dflt) (fc_client_of cl) uuid now req orc = (Inr inst, orc'\<lparr>backend := (fst (backend orc'), w)\<rparr>)"
    "store_Get (store orc') (vi_ID inst) = Some inst" "vi_State inst = ''running''"
    by (rule Create_request_kills)
  then show "\<exists>pid w. vm_process (vi_ID inst) (backend orc') = Some pid
      \<and> backend orc' = (fst (backend orc'), h_kill h pid w)
      \<and> Create (firecracker h dflt) (fc_client_of cl) uuid now req orc
          = (Inr inst, orc'\<lparr>backend := (fst (backend orc'), w)\<rparr>)"
    by (metis prod.collapse)
  show "store_Get (store orc') (vi_ID inst) = Some inst" "vi_State inst = ''running''" using k by simp_all
  show "fc_slot orc' (vi_ID inst) \<noteq> None" using k(1) by (auto simp: vm_process_def bind_eq_Some_conv)
qed

lemma sandboxes_isolated_witness:
  "(\<exists>orc :: unit fc orch. gm_keys (store orc) = {''sb-0a1b2c3d''} \<and> gm_keys (vms (fst (backend orc))) = {''sb-0a1b2c3d''}
     \<and> Count (netPool (fst (backend orc))) = 1)
   \<and> (\<exists>inst orc' pid. Create_request good_host (DefaultConfig ''u'' ''/tmp'') (h_http good_host) ''0a1b2c3d-'' 0 plain_request
          (NewOrch DefaultOrchestratorConfig (demo_fc, ())) = (Inr inst, orc')
        \<and> vm_process (vi_ID inst) (backend orc') = Some pid \<and> store_Get (store orc') (vi_ID inst) = Some inst)"
proof -
  let ?rt = "firecracker good_host (DefaultConfig ''u'' ''/tmp'')" and ?cl = "fc_client_of (h_http good_host)"
  let ?start = "NewOrch DefaultOrchestratorConfig (demo_fc, ())"
  let ?orc = "snd (Create ?rt ?cl ''0a1b2c3d-'' 0 plain_request ?start)"
  let ?opts = "\<lparr>co_ID = ''sb-0a1b2c3d'', co_Template = ''base'', co_VCPUs = 1, co_MemoryMB = 512, co_EnvVars = []\<rparr>"
  let ?cfg = "\<lparr>fcc_DataDir = ''/d'', fcc_FirecrackerBin = ''firecracker'', fcc_HostInterface = ''eth0'', fcc_MaxVMs = 2\<rparr>"
  obtain sb f1 where "fc_Create good_host (DefaultConfig ''u'' ''/tmp'') ?opts (demo_fc, ()) = (Inr sb, (f1, ()))"
    using good_fc_Create_any [of ?opts] by (auto simp del: image_is_empty)
  then have k: "gm_keys (store ?orc) = {''sb-0a1b2c3d''}" "length (store ?orc) = 1" "\<not> isl (fst (Create ?rt ?cl ''0a1b2c3d-'' 0 plain_request ?start))"
    by (simp_all add: Create_def check_capacity_def CreateAdmitted_def firecracker_def NewOrch_def NewVMStore_def store_Count_def
        DefaultOrchestratorConfig_def plain_request_def Let_def sandbox_id_def store_Put_def)
  have r0: "orch_reachable ?rt ?cl fc_env DefaultOrchestratorConfig (NewFirecracker ?cfg ''/t'', ()) ?start"
    unfolding demo_fc_def [symmetric] by (rule rtranclp.rtrancl_refl)
  obtain inst orc' where q: "Create_request good_host (DefaultConfig ''u'' ''/tmp'') (h_http good_host) ''0a1b2c3d-'' 0 plain_request ?start
      = (Inr inst, orc')"
  proof -
    obtain r orc1 where c: "Create ?rt ?cl ''0a1b2c3d-'' 0 plain_request ?start = (r, orc1)" by fastforce
    with k(3) obtain inst where "r = Inr inst" by (cases r) auto
    with c show ?thesis by (intro that) (simp add: Create_request_def)
  qed
  from sandboxes_isolated [OF r0] q
  have e: "\<exists>pid. vm_process (vi_ID inst) (backend orc') = Some pid" "store_Get (store orc') (vi_ID inst) = Some inst"
    by simp_all
  have r: "orch_reachable ?rt ?cl fc_env DefaultOrchestratorConfig (NewFirecracker ?cfg ''/t'', ()) ?orc"
    unfolding demo_fc_def [symmetric]
    by (rule r_into_rtranclp, rule orch_step.create) (simp add: NewOrch_def NewVMStore_def)
  from sandboxes_isolated [OF r] k
  have o: "gm_keys (store ?orc) = {''sb-0a1b2c3d''} \<and> gm_keys (vms (fst (backend ?orc))) = {''sb-0a1b2c3d''}
     \<and> Count (netPool (fst (backend ?orc))) = 1"
    by (simp add: store_Count_def)
  show ?thesis
  proof
    show "\<exists>orc :: unit fc orch. gm_keys (store orc) = {''sb-0a1b2c3d''} \<and> gm_keys (vms (fst (backend orc))) = {''sb-0a1b2c3d''}
     \<and> Count (netPool (fst (backend orc))) = 1" using o by (rule exI)
    from e(1) obtain pid where "vm_process (vi_ID inst) (backend orc') = Some pid" ..
    with q e(2) show "\<exists>inst orc' pid. Create_request good_host (DefaultConfig ''u'' ''/tmp'') (h_http good_host) ''0a1b2c3d-'' 0 plain_request
          (NewOrch DefaultOrchestratorConfig (demo_fc, ())) = (Inr inst, orc')
        \<and> vm_process (vi_ID inst) (backend orc') = Some pid \<and> store_Get (store orc') (vi_ID inst) = Some inst"
      by (intro exI conjI)
  qed
qed

end
