(* ===== verification/Docker_Runtime.thy ===== *)
theory Docker_Runtime
  imports Orchestrator Go_Host
begin

text \<open>
  The Docker backend (\<open>docker.go\<close>): every sandbox is a container. The backend keeps no state of its
  own; its state is the host. The Docker daemon is reached through the \<open>docker\<close> command line,
  whose output is what the call collects (standard output, or both streams for
  \<open>CombinedOutput\<close>). The methods of the \<open>runtime\<close> interface are collected in \<open>docker\<close>.
\<close>

record docker_runtime =
  dk_AgentBinaryPath :: string
  dk_DefaultImage :: string
  dk_Network :: string

definition NewDocker :: "string \<Rightarrow> string \<Rightarrow> string \<Rightarrow> docker_runtime" where
  "NewDocker agentBinaryPath defaultImage network =
     \<lparr>dk_AgentBinaryPath = agentBinaryPath,
      dk_DefaultImage = (if defaultImage = '''' then ''ubuntu:22.04'' else defaultImage),
      dk_Network = (if network = '''' then ''bridge'' else network)\<rparr>"

definition container_name :: "string \<Rightarrow> string" where
  "container_name i = ''gitvm-'' @ i"

definition snap_image :: "string \<Rightarrow> string" where
  "snap_image snapshotID = ''gitvm-snap-'' @ snapshotID"

definition agent_port :: int where
  "agent_port = 49983"

section \<open>Finding the agent\<close>

definition first_line_of :: "string \<Rightarrow> string" where
  "first_line_of line = (case index_byte line (CHR 0x0A) of Some idx \<Rightarrow> take idx line | None \<Rightarrow> line)"

definition getHostPort :: "'w host \<Rightarrow> string \<Rightarrow> 'w \<Rightarrow> (string + string) \<times> 'w" where
  "getHostPort h name w =
     (case h_sh h [''docker'', ''port'', name, dec agent_port @ ''/tcp''] w of
        ((Some e, out), w1) \<Rightarrow> (Inl e, w1)
      | ((None, out), w1) \<Rightarrow>
          let line = first_line_of (trim_space out)
          in case last_index_byte line CHR '':'' of
               Some idx \<Rightarrow> (Inr (drop (idx + 1) line), w1)
             | None \<Rightarrow> (Inl (''unexpected docker port output: '' @ line), w1))"

definition getContainerIP :: "'w host \<Rightarrow> string \<Rightarrow> 'w \<Rightarrow> (string + string) \<times> 'w" where
  "getContainerIP h name w =
     (case h_sh h [''docker'', ''inspect'', name, ''--format'',
                   ''{{range .NetworkSettings.Networks}}{{.IPAddress}}{{end}}''] w of
        ((Some e, out), w1) \<Rightarrow> (Inl e, w1)
      | ((None, out), w1) \<Rightarrow>
          let ip = trim_space out
          in if ip = '''' then (Inl (''no IP for container '' @ name), w1) else (Inr ip, w1))"

text \<open>The URL of the agent and the address.\<close>

definition resolveAgentURL :: "'w host \<Rightarrow> string \<Rightarrow> 'w \<Rightarrow> (string + string \<times> string) \<times> 'w" where
  "resolveAgentURL h name w =
     (let (hostPort, w1) = getHostPort h name w;
          fallback = (case getContainerIP h name w1 of
             (Inl e, w2) \<Rightarrow> (Inl (''cannot resolve agent URL: no published port and no container IP: '' @ e), w2)
           | (Inr ip, w2) \<Rightarrow> (Inr (''http://'' @ ip @ '':'' @ dec agent_port, ip), w2))
      in case hostPort of
           Inl e \<Rightarrow> fallback
         | Inr p \<Rightarrow> if p \<noteq> '''' then (Inr (''http://127.0.0.1:'' @ p, ''127.0.0.1''), w1) else fallback)"

text \<open>A value and its error: on an error the zero values.\<close>

definition resolve_or_empty :: "'w host \<Rightarrow> string \<Rightarrow> 'w \<Rightarrow> (string \<times> string) \<times> 'w" where
  "resolve_or_empty h name w =
     (case resolveAgentURL h name w of
        (Inl e, w1) \<Rightarrow> (('''', ''''), w1)
      | (Inr u, w1) \<Rightarrow> (u, w1))"

definition dk_probe :: "'w host \<Rightarrow> string \<Rightarrow> 'w \<Rightarrow> bool \<times> 'w" where
  "dk_probe h url w =
     (case h_http h \<lparr>oq_method = ''GET'', oq_url = url, oq_headers = [], oq_body = BEmpty\<rparr> w of
        (Inl e, w1) \<Rightarrow> (False, w1)
      | (Inr resp, w1) \<Rightarrow> (status resp = 200, w1))"

definition dk_waitForAgent :: "'w host \<Rightarrow> string \<Rightarrow> 'w \<Rightarrow> string option \<times> 'w" where
  "dk_waitForAgent h agentURL w =
     (case poll 30 (dk_probe h (agentURL @ ''/health'')) (h_sleep h 500) w of
        (True, w1) \<Rightarrow> (None, w1)
      | (False, w1) \<Rightarrow> (Some (''agent at '' @ agentURL @ '' did not become healthy after 15s''), w1))"

section \<open>The life cycle of a container\<close>

definition agent_start :: "string list" where
  "agent_start = [''/bin/sh'', ''-c'', ''/usr/local/bin/gitvm agent start --port '' @ dec agent_port]"

definition mount_args :: "docker_runtime \<Rightarrow> string list" where
  "mount_args d =
     (if dk_AgentBinaryPath d \<noteq> '''' then [''-v'', dk_AgentBinaryPath d @ '':/usr/local/bin/gitvm:ro''] else [])"

definition run_args :: "docker_runtime \<Rightarrow> string \<Rightarrow> string list" where
  "run_args d i =
     [''docker'', ''run'', ''-d'', ''--name'', container_name i, ''--hostname'', i, ''--network'', dk_Network d,
      ''-p'', dec agent_port, ''--label'', ''gitvm=sandbox'', ''--label'', ''gitvm.id='' @ i]"

definition create_args :: "docker_runtime \<Rightarrow> create_opts \<Rightarrow> string list" where
  "create_args d opts =
     run_args d (co_ID opts)
     @ (if co_VCPUs opts > 0 then [''--cpus'', dec (co_VCPUs opts)] else [])
     @ (if co_MemoryMB opts > 0 then [''--memory'', dec (co_MemoryMB opts) @ ''m''] else [])
     @ concat (map (\<lambda>(k, v). [''-e'', k @ ''='' @ v]) (co_EnvVars opts))
     @ mount_args d
     @ [if co_Template opts = '''' then dk_DefaultImage d else co_Template opts] @ agent_start"

text \<open>
  What \<open>Create\<close> and \<open>Restore\<close> do with the command line they built; an agent that does not answer
  is only logged.
\<close>

definition run_container :: "'w host \<Rightarrow> string \<Rightarrow> string list \<Rightarrow> string \<Rightarrow> 'w \<Rightarrow> (string + sandbox) \<times> 'w" where
  "run_container h i cmd what w =
     (case h_sh h cmd w of
        ((Some e, out), w1) \<Rightarrow> (Inl (what @ '': '' @ e @ '': '' @ out), w1)
      | ((None, out), w1) \<Rightarrow>
     (case resolveAgentURL h (container_name i) w1 of
        (Inl e, w2) \<Rightarrow>
          let w3 = sh_ignore (h_sh h) [''docker'', ''rm'', ''-f'', container_name i] w2
          in (Inl (''resolve agent URL: '' @ e), w3)
      | (Inr (agentURL, ip), w2) \<Rightarrow>
          let (_, w3) = dk_waitForAgent h agentURL w2
          in (Inr \<lparr>sb_ID = i, sb_State = ''running'', sb_Runtime = ''docker'', sb_IP = ip, sb_AgentURL = agentURL\<rparr>, w3)))"

definition dk_Create :: "'w host \<Rightarrow> docker_runtime \<Rightarrow> create_opts \<Rightarrow> 'w \<Rightarrow> (string + sandbox) \<times> 'w" where
  "dk_Create h d opts w = run_container h (co_ID opts) (create_args d opts) ''docker run'' w"

definition dk_Start :: "'w host \<Rightarrow> string \<Rightarrow> 'w \<Rightarrow> string option \<times> 'w" where
  "dk_Start h i w = sh_err (h_sh h) [''docker'', ''start'', container_name i] w"

definition dk_Stop :: "'w host \<Rightarrow> string \<Rightarrow> 'w \<Rightarrow> string option \<times> 'w" where
  "dk_Stop h i w = sh_err (h_sh h) [''docker'', ''stop'', container_name i] w"

definition dk_Destroy :: "'w host \<Rightarrow> string \<Rightarrow> 'w \<Rightarrow> string option \<times> 'w" where
  "dk_Destroy h i w = sh_err (h_sh h) [''docker'', ''rm'', ''-f'', container_name i] w"

definition dk_Pause :: "'w host \<Rightarrow> string \<Rightarrow> 'w \<Rightarrow> string option \<times> 'w" where
  "dk_Pause h i w = sh_err (h_sh h) [''docker'', ''pause'', container_name i] w"

definition dk_Resume :: "'w host \<Rightarrow> string \<Rightarrow> 'w \<Rightarrow> string option \<times> 'w" where
  "dk_Resume h i w = sh_err (h_sh h) [''docker'', ''unpause'', container_name i] w"

definition docker_state :: "string \<Rightarrow> string" where
  "docker_state st =
     (if st = ''running'' then ''running'' else if st = ''paused'' then ''paused''
      else if st = ''exited'' then ''stopped'' else if st = ''created'' then ''creating'' else st)"

definition dk_Get :: "'w host \<Rightarrow> string \<Rightarrow> 'w \<Rightarrow> (string + sandbox) \<times> 'w" where
  "dk_Get h i w =
     (case h_sh h [''docker'', ''inspect'', container_name i, ''--format'', ''{{.State.Status}}''] w of
        ((Some e, out), w1) \<Rightarrow> (Inl (''sandbox '' @ i @ '' not found''), w1)
      | ((None, out), w1) \<Rightarrow>
          let ((agentURL, ip), w2) = resolve_or_empty h (container_name i) w1
          in (Inr \<lparr>sb_ID = i, sb_State = docker_state (trim_space out), sb_Runtime = ''docker'', sb_IP = ip,
                   sb_AgentURL = agentURL\<rparr>, w2))"

fun list_containers :: "'w host \<Rightarrow> string list \<Rightarrow> 'w \<Rightarrow> sandbox list \<times> 'w" where
  "list_containers h [] w = ([], w)"
| "list_containers h (line # lines) w =
     (if line = '''' then list_containers h lines w
      else case split_n 3 (CHR 0x09) line of
             name # state # _ \<Rightarrow>
               let ((agentURL, ip), w1) = resolve_or_empty h name w;
                   (sbs, w2) = list_containers h lines w1
               in (\<lparr>sb_ID = trim_prefix name ''gitvm-'', sb_State = state, sb_Runtime = ''docker'', sb_IP = ip,
                    sb_AgentURL = agentURL\<rparr> # sbs, w2)
           | _ \<Rightarrow> list_containers h lines w)"

definition dk_List :: "'w host \<Rightarrow> 'w \<Rightarrow> (string + sandbox list) \<times> 'w" where
  "dk_List h w =
     (case h_sh h [''docker'', ''ps'', ''-a'', ''--filter'', ''label=gitvm=sandbox'', ''--format'',
                   ''{{.Names}}'' @ [CHR 0x09] @ ''{{.State}}'' @ [CHR 0x09] @ ''{{.ID}}''] w of
        ((Some e, out), w1) \<Rightarrow> (Inl (''docker ps: '' @ e), w1)
      | ((None, out), w1) \<Rightarrow>
          let (sbs, w2) = list_containers h (split_byte (CHR 0x0A) (trim_space out)) w1 in (Inr sbs, w2))"

definition dk_AgentURL :: "'w host \<Rightarrow> string \<Rightarrow> 'w \<Rightarrow> (string + string) \<times> 'w" where
  "dk_AgentURL h i w =
     (case resolveAgentURL h (container_name i) w of
        (Inl e, w1) \<Rightarrow> (Inl e, w1)
      | (Inr (agentURL, ip), w1) \<Rightarrow> (Inr agentURL, w1))"

section \<open>Snapshots\<close>

text \<open>The deferred \<open>unpause\<close> runs on every path.\<close>

definition dk_Snapshot :: "'w host \<Rightarrow> string \<Rightarrow> string \<Rightarrow> 'w \<Rightarrow> string option \<times> 'w" where
  "dk_Snapshot h i snapshotID w =
     (let w1 = sh_ignore (h_sh h) [''docker'', ''pause'', container_name i] w;
          defer_unpause = (\<lambda>w. sh_ignore (h_sh h) [''docker'', ''unpause'', container_name i] w)
      in case h_sh h [''docker'', ''commit'', ''--message'', ''snapshot of '' @ i, container_name i,
                      snap_image snapshotID] w1 of
           ((Some e, out), w2) \<Rightarrow> (Some (''docker commit: '' @ e @ '': '' @ out), defer_unpause w2)
         | ((None, out), w2) \<Rightarrow> (None, defer_unpause w2))"

definition restore_args :: "docker_runtime \<Rightarrow> string \<Rightarrow> string \<Rightarrow> string list" where
  "restore_args d snapshotID newID =
     run_args d newID @ [''--label'', ''gitvm.snapshot='' @ snapshotID] @ mount_args d
     @ [snap_image snapshotID] @ agent_start"

definition dk_Restore :: "'w host \<Rightarrow> docker_runtime \<Rightarrow> string \<Rightarrow> string \<Rightarrow> 'w \<Rightarrow> (string + sandbox) \<times> 'w" where
  "dk_Restore h d snapshotID newID w =
     run_container h newID (restore_args d snapshotID newID) ''docker run from snapshot'' w"

definition dk_DeleteSnapshot :: "'w host \<Rightarrow> string \<Rightarrow> 'w \<Rightarrow> string option \<times> 'w" where
  "dk_DeleteSnapshot h snapshotID w =
     (case h_sh h [''docker'', ''rmi'', snap_image snapshotID] w of
        ((Some e, out), w1) \<Rightarrow> (Some (''docker rmi: '' @ e @ '': '' @ out), w1)
      | ((None, out), w1) \<Rightarrow> (None, w1))"

text \<open>
  The error of the label lookup is dropped. A snapshot of another sandbox is skipped when a filter
  is given and the snapshot's origin is known.
\<close>

fun list_snapshots :: "'w host \<Rightarrow> string \<Rightarrow> string list \<Rightarrow> 'w \<Rightarrow> snapshot_info list \<times> 'w" where
  "list_snapshots h i [] w = ([], w)"
| "list_snapshots h i (line # lines) w =
     (if line = '''' then list_snapshots h i lines w
      else let parts = split_n 3 (CHR 0x09) line;
               snapID = trim_prefix (hd parts) ''gitvm-snap-'';
               ((_, labelOut), w1) = h_sh h [''docker'', ''inspect'', hd parts @ '':latest'', ''--format'',
                  ''{{index .Config.Labels '' @ quote ''gitvm.id'' @ ''}}''] w;
               originID = trim_space labelOut;
               (infos, w2) = list_snapshots h i lines w1
           in if i \<noteq> '''' \<and> originID \<noteq> '''' \<and> originID \<noteq> i then (infos, w2)
              else (\<lparr>si_ID = snapID, si_SandboxID = originID,
                     si_CreatedAt = (if length parts \<ge> 2 then parts ! 1 else ''''), si_SizeMB = 0\<rparr> # infos, w2))"

definition dk_ListSnapshots :: "'w host \<Rightarrow> string \<Rightarrow> 'w \<Rightarrow> (string + snapshot_info list) \<times> 'w" where
  "dk_ListSnapshots h i w =
     (case h_sh h [''docker'', ''images'', ''--filter'', ''reference=gitvm-snap-*'', ''--format'',
                   ''{{.Repository}}'' @ [CHR 0x09] @ ''{{.CreatedAt}}'' @ [CHR 0x09] @ ''{{.Size}}''] w of
        ((Some e, out), w1) \<Rightarrow> (Inl (''docker images: '' @ e), w1)
      | ((None, out), w1) \<Rightarrow>
          let (infos, w2) = list_snapshots h i (split_byte (CHR 0x0A) (trim_space out)) w1 in (Inr infos, w2))"

definition docker :: "'w host \<Rightarrow> docker_runtime \<Rightarrow> 'w runtime" where
  "docker h d =
     \<lparr>rt_Name = ''docker'', rt_Create = dk_Create h d, rt_Start = dk_Start h, rt_Stop = dk_Stop h,
      rt_Destroy = dk_Destroy h, rt_Pause = dk_Pause h, rt_Resume = dk_Resume h, rt_Get = dk_Get h,
      rt_List = dk_List h, rt_AgentURL = dk_AgentURL h, rt_Snapshot = dk_Snapshot h, rt_Restore = dk_Restore h d,
      rt_DeleteSnapshot = dk_DeleteSnapshot h, rt_ListSnapshots = dk_ListSnapshots h\<rparr>"

text \<open>Building an image with the agent inside is not implemented: its Dockerfile is written and dropped.\<close>

definition BuildAgentImage :: "string \<Rightarrow> string \<Rightarrow> string option" where
  "BuildAgentImage agentBinaryPath imageName = Some ''not implemented: use volume mount or pre-built image instead''"

section \<open>The backend implements the interface\<close>

lemma run_container_sandbox:
  "run_container h i cmd what w = (Inr sb, w') \<Longrightarrow> sb_ID sb = i \<and> sb_State sb = ''running'' \<and> sb_Runtime sb = ''docker''"
  by (auto simp: run_container_def Let_def split: prod.splits option.splits sum.splits)

interpretation dk: runtime_backend "docker h d" for h :: "'w host" and d
proof
  fix opts and r r' :: 'w and sb
  assume "rt_Create (docker h d) opts r = (Inr sb, r')"
  then have c: "run_container h (co_ID opts) (create_args d opts) ''docker run'' r = (Inr sb, r')"
    by (simp add: docker_def dk_Create_def)
  show "sb_ID sb = co_ID opts \<and> sb_State sb = ''running'' \<and> sb_Runtime sb = rt_Name (docker h d)"
    using run_container_sandbox [OF c] by (simp add: docker_def)
next
  fix snap newID and r r' :: 'w and sb
  assume "rt_Restore (docker h d) snap newID r = (Inr sb, r')"
  then have c: "run_container h newID (restore_args d snap newID) ''docker run from snapshot'' r = (Inr sb, r')"
    by (simp add: docker_def dk_Restore_def)
  show "sb_ID sb = newID \<and> sb_State sb = ''running'' \<and> sb_Runtime sb = rt_Name (docker h d)"
    using run_container_sandbox [OF c] by (simp add: docker_def)
qed

section \<open>What the backend guarantees\<close>

lemma trim_space_front: "x \<noteq> '''' \<Longrightarrow> \<not> is_space (hd x) \<Longrightarrow> \<not> is_space (last x) \<Longrightarrow>
    trim_space (x @ rest) = x @ rev (dropWhile is_space (rev rest))"
proof -
  assume x: "x \<noteq> ''''" "\<not> is_space (hd x)" "\<not> is_space (last x)"
  have 1: "dropWhile is_space (x @ rest) = x @ rest" using x(1,2) by (cases x) simp_all
  have "dropWhile is_space (rev rest @ rev x) = dropWhile is_space (rev rest) @ rev x"
  proof (cases "\<forall>c \<in> set rest. is_space c")
    case True
    then have "dropWhile is_space (rev rest @ rev x) = dropWhile is_space (rev x)"
      by (intro dropWhile_append2) auto
    moreover have "dropWhile is_space (rev x) = rev x"
      using x(1,3) by (cases x rule: rev_cases) simp_all
    moreover have "dropWhile is_space (rev rest) = []" using True by simp
    ultimately show ?thesis by simp
  next
    case False
    then show ?thesis by (metis dropWhile_append1 set_rev)
  qed
  then show "trim_space (x @ rest) = x @ rev (dropWhile is_space (rev rest))"
    by (simp add: trim_space_def 1)
qed

definition plain_text :: "string \<Rightarrow> bool" where
  "plain_text s \<longleftrightarrow> s \<noteq> '''' \<and> (\<forall>c \<in> set s. \<not> is_space c)"

lemma newline_space: "is_space (CHR 0x0A)"
  by (simp add: is_space_def)

lemma first_line:
  assumes x: "plain_text x" and r: "rest = '''' \<or> hd rest = CHR 0x0A"
  shows "first_line_of (trim_space (x @ rest)) = x"
proof -
  let ?r = "rev (dropWhile is_space (rev rest))"
  have t: "trim_space (x @ rest) = x @ ?r"
    using x by (intro trim_space_front) (auto simp: plain_text_def)
  have n: "CHR 0x0A \<notin> set x" using x newline_space by (auto simp: plain_text_def)
  show ?thesis
  proof (cases ?r)
    case Nil
    with t have "trim_space (x @ rest) = x" by (simp only: append_Nil2)
    with n show ?thesis by (simp add: first_line_of_def index_byte_None [THEN iffD2])
  next
    case (Cons c cs)
    obtain zs where "rev rest = zs @ dropWhile is_space (rev rest)" by (metis takeWhile_dropWhile_id)
    then have "rest = ?r @ rev zs" by (metis rev_append rev_rev_ident)
    then have "rest = (c # cs) @ rev zs" by (simp only: Cons)
    then have "c = CHR 0x0A" using r by simp
    with Cons n show ?thesis by (simp add: first_line_of_def t index_byte_append)
  qed
qed

text \<open>
  C35. Docker's answer to a port query, one or several lines of an IPv4 or IPv6 address, a colon and
  a port, gives the port of the first line, and then the agent is reached at that port of the
  local host, without asking for the container's own address.
\<close>
theorem published_port_is_used:
  assumes "h_sh h [''docker'', ''port'', name, ''49983/tcp''] w = ((None, addr @ '':'' @ p @ rest), w1)"
    and "plain_text addr" and "plain_text p" and "CHR '':'' \<notin> set p"
    and "rest = '''' \<or> hd rest = CHR 0x0A"
  shows "getHostPort h name w = (Inr p, w1)
    \<and> resolveAgentURL h name w = (Inr (''http://127.0.0.1:'' @ p, ''127.0.0.1''), w1)"
proof -
  have d: "dec agent_port @ ''/tcp'' = ''49983/tcp''"
    by (simp add: agent_port_def dec_def dec_nat.simps digit_def char_of_def bit_0)
  have x: "plain_text (addr @ '':'' @ p)" using assms(2,3) by (auto simp: plain_text_def is_space_def)
  have "last_index_byte (addr @ '':'' @ p) CHR '':'' = Some (length addr)"
    using last_index_byte_append [OF assms(4), of addr] by simp
  moreover have "first_line_of (trim_space (addr @ '':'' @ p @ rest)) = addr @ '':'' @ p"
    using first_line [OF x assms(5)] by simp
  ultimately have g: "getHostPort h name w = (Inr p, w1)"
    unfolding getHostPort_def d assms(1) by (simp add: Let_def)
  moreover have "p \<noteq> ''''" using assms(3) by (simp add: plain_text_def)
  ultimately show ?thesis
    by (simp add: resolveAgentURL_def Let_def)
qed

definition port_host :: "unit host" where
  "port_host = good_host\<lparr>h_sh := (\<lambda>cmd w. ((None, ''[::]:51830'' @ [CHR 0x0A] @ ''0.0.0.0:51830'' @ [CHR 0x0A]), w))\<rparr>"

lemma published_port_is_used_witness: "getHostPort port_host ''gitvm-sb-1'' () = (Inr ''51830'', ())"
  using published_port_is_used [of port_host "''gitvm-sb-1''" "()" "''[::]''" "''51830''"
      "[CHR 0x0A] @ ''0.0.0.0:51830'' @ [CHR 0x0A]" "()"]
  by (simp add: port_host_def plain_text_def is_space_def)

text \<open>
  A container that was started but whose agent cannot be located is removed again: when the
  creation fails after a successful run, removing the container is the last call.
\<close>
theorem dk_Create_failure_removes_container:
  assumes "dk_Create (logging h) d opts (w, []) = (Inl e, (w', log))"
    and "Ran (create_args d opts) True \<in> set log"
  shows "\<exists>b. hd log = Ran [''docker'', ''rm'', ''-f'', ''gitvm-'' @ co_ID opts] b"
proof -
  obtain x out w1 where 1: "h_sh h (create_args d opts) w = ((x, out), w1)" by (metis surj_pair)
  then have l: "h_sh (logging h) (create_args d opts) (w, []) = ((x, out), (w1, [Ran (create_args d opts) (x = None)]))"
    by (simp add: logging_sel noting_pair)
  obtain u w2 l2 where 2: "resolveAgentURL (logging h) (container_name (co_ID opts)) (w1, [Ran (create_args d opts) True]) = (u, (w2, l2))"
    by (metis surj_pair)
  have s: "sh_ignore (h_sh (logging h)) cmd (w, l) = (snd (sh_err (h_sh h) cmd w), Ran cmd (fst (sh_err (h_sh h) cmd w) = None) # l)" for cmd w l
    by (auto simp: sh_err_def sh_ignore_def logging_sel noting_def split: prod.splits)
  show ?thesis
  proof (cases x)
    case (Some m)
    with assms l show ?thesis by (auto simp: dk_Create_def run_container_def)
  next
    case None
    with assms(1) l 2 show ?thesis
      by (cases u) (auto simp: dk_Create_def run_container_def s container_name_def Let_def split: prod.splits)
  qed
qed

text \<open>A daemon that starts containers and then answers nothing.\<close>

definition mute_host :: "unit host" where
  "mute_host = good_host\<lparr>h_sh := (\<lambda>cmd w. (if cmd ! 1 = ''run'' then (None, ''id'') else (Some ''exit status 1'', ''''), w))\<rparr>"

lemma dk_Create_failure_removes_container_witness:
  "\<exists>e log b. dk_Create (logging mute_host) (NewDocker '''' '''' '''')
       \<lparr>co_ID = ''sb-1'', co_Template = '''', co_VCPUs = 1, co_MemoryMB = 512, co_EnvVars = []\<rparr> ((), []) = (Inl e, ((), log))
     \<and> hd log = Ran [''docker'', ''rm'', ''-f'', ''gitvm-sb-1''] b"
proof -
  let ?o = "\<lparr>co_ID = ''sb-1'', co_Template = '''', co_VCPUs = 1, co_MemoryMB = 512, co_EnvVars = []\<rparr>"
  let ?d = "NewDocker '''' '''' ''''"
  have r: "create_args ?d ?o ! 1 = ''run''" by (simp add: create_args_def run_args_def)
  obtain e log where c: "dk_Create (logging mute_host) ?d ?o ((), []) = (Inl e, ((), log))"
    and l: "Ran (create_args ?d ?o) True \<in> set log"
    using r by (simp add: dk_Create_def run_container_def resolveAgentURL_def getHostPort_def getContainerIP_def
        logging_sel noting_pair mute_host_def sh_ignore_def Let_def)
  from dk_Create_failure_removes_container [OF c l] c show ?thesis by auto
qed

text \<open>
  A snapshot of a paused sandbox leaves it listed as paused while its container was told to
  run again: the last call is always to unpause it, also when the commit failed.
\<close>
theorem snapshot_resumes_paused_container:
  assumes "orch_Get orc i = Some inst" and "vi_State inst = ''paused''" and "backend orc = (w, [])"
    and "Snapshot (docker (logging h) d) i snap orc = (e, orc')"
  shows "orch_Get orc' i = Some inst
    \<and> map (\<lambda>ev. case ev of Ran cmd b \<Rightarrow> take 2 cmd | _ \<Rightarrow> []) (rev (snd (backend orc')))
        = [[''docker'', ''pause''], [''docker'', ''commit''], [''docker'', ''unpause'']]
    \<and> (\<exists>b. hd (snd (backend orc')) = Ran [''docker'', ''unpause'', ''gitvm-'' @ i] b)"
proof -
  have s: "sh_ignore (h_sh (logging h)) cmd (w, l) = (snd (sh_err (h_sh h) cmd w), Ran cmd (fst (sh_err (h_sh h) cmd w) = None) # l)" for cmd w l
    by (auto simp: sh_err_def sh_ignore_def logging_sel noting_def split: prod.splits)
  obtain e' r where d: "dk_Snapshot (logging h) i snap (w, []) = (e', r)" by (metis surj_pair)
  have "map (\<lambda>ev. case ev of Ran cmd b \<Rightarrow> take 2 cmd | _ \<Rightarrow> []) (rev (snd r))
      = [[''docker'', ''pause''], [''docker'', ''commit''], [''docker'', ''unpause'']]
    \<and> (\<exists>b. hd (snd r) = Ran [''docker'', ''unpause'', ''gitvm-'' @ i] b)"
    using d by (auto simp: dk_Snapshot_def s logging_sel noting_eq container_name_def Let_def split: prod.splits option.splits)
  moreover have "orc' = orc\<lparr>backend := r\<rparr>"
    using assms d by (auto simp: Snapshot_def orch_Get_def docker_def)
  ultimately show ?thesis using assms(1) by (simp add: orch_Get_def)
qed

lemma snapshot_resumes_paused_container_witness:
  "\<exists>orc' b. (Snapshot (docker (logging good_host) (NewDocker '''' '''' '''')) ''sb-1'' ''s1''
        \<lparr>config = DefaultOrchestratorConfig,
         store = store_Put ((created_instance (idle_runtime :: unit runtime) DefaultOrchestratorConfig ''1'' 0 plain_request
            \<lparr>sb_ID = ''sb-1'', sb_State = ''running'', sb_Runtime = ''docker'', sb_IP = '''', sb_AgentURL = ''''\<rparr>)
            \<lparr>vi_State := ''paused''\<rparr>) NewVMStore,
         backend = ((), [])\<rparr>) = (None, orc')
     \<and> hd (snd (backend orc')) = Ran [''docker'', ''unpause'', ''gitvm-sb-1''] b"
proof -
  let ?inst = "(created_instance (idle_runtime :: unit runtime) DefaultOrchestratorConfig ''1'' 0 plain_request
      \<lparr>sb_ID = ''sb-1'', sb_State = ''running'', sb_Runtime = ''docker'', sb_IP = '''', sb_AgentURL = ''''\<rparr>)
      \<lparr>vi_State := ''paused''\<rparr>"
  let ?orc = "\<lparr>config = DefaultOrchestratorConfig, store = store_Put ?inst NewVMStore, backend = ((), [])\<rparr> :: unit logged orch"
  have g: "orch_Get ?orc ''sb-1'' = Some ?inst"
    by (simp add: orch_Get_def store_Get_def store_Put_def NewVMStore_def created_instance_def)
  obtain orc' where s: "Snapshot (docker (logging good_host) (NewDocker '''' '''' '''')) ''sb-1'' ''s1'' ?orc = (None, orc')"
    using g by (simp add: Snapshot_def orch_Get_def docker_def dk_Snapshot_def logging_sel good_host_sel noting_pair
        sh_ignore_def Let_def)
  have p: "vi_State ?inst = ''paused''" by simp
  have b: "backend ?orc = ((), [])" by simp
  from snapshot_resumes_paused_container [OF g p b s] s show ?thesis by auto
qed

end
