(* ===== verification/Go_Router.thy ===== *)
theory Go_Router
  imports Go_Http "HOL-Library.Multiset"
begin

text \<open>
  The request multiplexer of package \<open>net/http\<close>: a table of method, path pattern and handler. A
  pattern is a list of segments, literal or a wildcard that takes one non-empty segment.
  Paths are taken cleaned and unescaped, as the multiplexer hands them on. No two patterns of a
  table of this repository can match the same request (\<open>disjoint_routes\<close>, which the
  registration of the patterns would otherwise refuse), so the order of the table is immaterial.
\<close>

type_synonym 's handler = "request \<Rightarrow> 's \<Rightarrow> response \<times> 's"

datatype segment = Lit string | Wild string

record 's route =
  rt_method :: string
  rt_pattern :: "segment list"
  rt_handler :: "'s handler"

definition route :: "string \<Rightarrow> segment list \<Rightarrow> 's handler \<Rightarrow> 's route" where
  "route m pat h = \<lparr>rt_method = m, rt_pattern = pat, rt_handler = h\<rparr>"

definition path_segments :: "string \<Rightarrow> string list" where
  "path_segments p = tl (split_byte CHR ''/'' p)"

fun match_segments :: "segment list \<Rightarrow> string list \<Rightarrow> (string, string) gomap option" where
  "match_segments [] [] = Some []"
| "match_segments (Lit a # ps) (s # ss) = (if a = s then match_segments ps ss else None)"
| "match_segments (Wild x # ps) (s # ss) =
     (if s = '''' then None else map_option (\<lambda>m. (x, s) # m) (match_segments ps ss))"
| "match_segments _ _ = None"

definition method_matches :: "string \<Rightarrow> string \<Rightarrow> bool" where
  "method_matches pat m \<longleftrightarrow> pat = m \<or> (pat = ''GET'' \<and> m = ''HEAD'')"

definition route_matches :: "request \<Rightarrow> 's route \<Rightarrow> bool" where
  "route_matches rq r \<longleftrightarrow> method_matches (rt_method r) (rq_method rq)
     \<and> match_segments (rt_pattern r) (path_segments (rq_path rq)) \<noteq> None"

text \<open>
  \<open>plain_error\<close> is \<open>http.Error\<close>. A handler that panics makes the server close the connection without
  an answer (\<open>aborted\<close>). \<open>preset_headers\<close>: headers set before the handler ran, which may set them anew.
\<close>

definition aborted :: response where
  "aborted = \<lparr>status = 0, rheaders = [], rbody = BEmpty\<rparr>"

definition preset_headers :: "(string \<times> string) list \<Rightarrow> response \<Rightarrow> response" where
  "preset_headers hs r = r\<lparr>rheaders := filter (\<lambda>(k, v). k \<notin> fst ` set (rheaders r)) hs @ rheaders r\<rparr>"

definition plain_error :: "nat \<Rightarrow> string \<Rightarrow> response" where
  "plain_error st msg = \<lparr>status = st,
     rheaders = [(''Content-Type'', ''text/plain; charset=utf-8''), (''X-Content-Type-Options'', ''nosniff'')],
     rbody = BRaw (msg @ [CHR 0x0A])\<rparr>"

definition serve_mux :: "'s route list \<Rightarrow> 's handler" where
  "serve_mux rs rq s =
     (case find (route_matches rq) rs of
        Some r \<Rightarrow>
          (case match_segments (rt_pattern r) (path_segments (rq_path rq)) of
             Some vars \<Rightarrow> rt_handler r (rq\<lparr>rq_vars := vars\<rparr>) s
           | None \<Rightarrow> (plain_error 404 ''404 page not found'', s))
      | None \<Rightarrow>
          if \<exists>r \<in> set rs. match_segments (rt_pattern r) (path_segments (rq_path rq)) \<noteq> None
          then (plain_error 405 ''Method Not Allowed'', s)
          else (plain_error 404 ''404 page not found'', s))"

text \<open>A request of a method on the path made of the given segments.\<close>

definition on_path :: "string \<Rightarrow> string list \<Rightarrow> request \<Rightarrow> bool" where
  "on_path m ss rq \<longleftrightarrow> rq_method rq = m \<and> path_segments (rq_path rq) = ss"

lemma split_byte_sep: "c \<notin> set xs \<Longrightarrow> split_byte c (xs @ c # ys) = xs # split_byte c ys"
  by (induction xs) auto

lemma split_byte_end: "c \<notin> set xs \<Longrightarrow> split_byte c xs = [xs]"
  by (induction xs) auto

lemma path_segments_join:
  assumes "list_all (\<lambda>s. CHR ''/'' \<notin> set s) ss" and "ss \<noteq> []"
  shows "path_segments (concat (map (\<lambda>s. ''/'' @ s) ss)) = ss"
proof -
  have "split_byte CHR ''/'' (xs @ concat (map (\<lambda>s. ''/'' @ s) ss)) = xs # ss" if "CHR ''/'' \<notin> set xs" for xs
    using assms(1) that
  proof (induction ss arbitrary: xs)
    case (Cons s ss)
    then show ?case using split_byte_sep [of "CHR ''/''" xs "s @ concat (map (\<lambda>s. ''/'' @ s) ss)"] by simp
  qed (simp add: split_byte_end)
  from this [of "[]"] show ?thesis by (simp add: path_segments_def)
qed

section \<open>The order of the table\<close>

fun unifiable :: "segment list \<Rightarrow> segment list \<Rightarrow> bool" where
  "unifiable [] [] \<longleftrightarrow> True"
| "unifiable (Lit a # ps) (Lit b # qs) \<longleftrightarrow> a = b \<and> unifiable ps qs"
| "unifiable (Lit a # ps) (Wild y # qs) \<longleftrightarrow> unifiable ps qs"
| "unifiable (Wild x # ps) (Lit b # qs) \<longleftrightarrow> unifiable ps qs"
| "unifiable (Wild x # ps) (Wild y # qs) \<longleftrightarrow> unifiable ps qs"
| "unifiable _ _ \<longleftrightarrow> False"

definition conflicting :: "'s route \<Rightarrow> 's route \<Rightarrow> bool" where
  "conflicting r q \<longleftrightarrow> (method_matches (rt_method r) (rt_method q) \<or> method_matches (rt_method q) (rt_method r))
     \<and> unifiable (rt_pattern r) (rt_pattern q)"

fun disjoint_routes :: "'s route list \<Rightarrow> bool" where
  "disjoint_routes [] \<longleftrightarrow> True"
| "disjoint_routes (r # rs) \<longleftrightarrow> list_all (\<lambda>q. \<not> conflicting r q) rs \<and> disjoint_routes rs"

lemma route_sel [simp]:
  "rt_method (route m pat h) = m" "rt_pattern (route m pat h) = pat" "rt_handler (route m pat h) = h"
  by (simp_all add: route_def)

lemma match_unifiable:
  "match_segments ps ss \<noteq> None \<Longrightarrow> match_segments qs ss \<noteq> None \<Longrightarrow> unifiable ps qs"
proof (induction ps ss arbitrary: qs rule: match_segments.induct)
  case 1
  then show ?case by (cases qs) auto
next
  case (2 a ps s ss)
  then show ?case by (cases qs; cases "hd qs") (auto split: if_splits)
next
  case (3 x ps s ss)
  then show ?case by (cases qs; cases "hd qs") (auto split: if_splits)
qed auto

lemma matches_conflicting: "route_matches rq r \<Longrightarrow> route_matches rq q \<Longrightarrow> conflicting r q"
  using match_unifiable [of "rt_pattern r" "path_segments (rq_path rq)" "rt_pattern q"]
  by (auto simp: route_matches_def conflicting_def method_matches_def)

lemma conflicting_sym: "conflicting r q \<longleftrightarrow> conflicting q r"
proof -
  have "unifiable ps qs \<Longrightarrow> unifiable qs ps" for ps qs
    by (induction ps qs rule: unifiable.induct) auto
  then show ?thesis by (auto simp: conflicting_def)
qed

lemma disjoint_routes_at_most_one:
  "disjoint_routes rs \<Longrightarrow> length (filter (route_matches rq) rs) \<le> 1"
proof (induction rs)
  case (Cons r rs)
  show ?case
  proof (cases "route_matches rq r")
    case True
    then have "filter (route_matches rq) rs = []"
      using Cons.prems matches_conflicting [OF True] by (auto simp: filter_empty_conv list_all_iff)
    then show ?thesis using True by simp
  qed (use Cons in simp)
qed simp

lemma find_filter: "find P xs = (case filter P xs of [] \<Rightarrow> None | x # _ \<Rightarrow> Some x)"
  by (induction xs) auto

lemma find_permuted:
  assumes "mset xs = mset ys" and "length (filter P xs) \<le> 1"
  shows "find P xs = find P ys"
proof -
  have m: "mset (filter P xs) = mset (filter P ys)" using assms(1) by simp
  have "filter P xs = filter P ys"
  proof (cases "filter P xs")
    case Nil
    with m show ?thesis by (metis mset_zero_iff)
  next
    case (Cons a as)
    then have "as = []" using assms(2) by simp
    then show ?thesis using m Cons by (metis mset_single_iff_right mset.simps(1,2))
  qed
  then show ?thesis by (simp add: find_filter)
qed

lemma serve_mux_permuted:
  assumes "disjoint_routes rs" and "mset rs' = mset rs"
  shows "serve_mux rs' rq s = serve_mux rs rq s"
proof -
  have "find (route_matches rq) rs' = find (route_matches rq) rs"
    using find_permuted [of rs rs' "route_matches rq"] disjoint_routes_at_most_one [OF assms(1)] assms(2) by simp
  moreover have "set rs' = set rs" using mset_eq_setD [OF assms(2)] .
  ultimately show ?thesis unfolding serve_mux_def by (simp only:)
qed

text \<open>A handler of the table runs, or the state does not change.\<close>

lemma serve_mux_cases:
  obtains (handled) r vars where "r \<in> set rs" "serve_mux rs rq s = rt_handler r (rq\<lparr>rq_vars := vars\<rparr>) s"
  | (refused) e where "serve_mux rs rq s = (e, s)"
proof (cases "find (route_matches rq) rs")
  case None
  then have "serve_mux rs rq s = (fst (serve_mux rs rq s), s)" by (simp add: serve_mux_def)
  then show ?thesis by (rule refused)
next
  case (Some r)
  then have r: "r \<in> set rs" by (auto simp: find_Some_iff)
  show ?thesis
  proof (cases "match_segments (rt_pattern r) (path_segments (rq_path rq))")
    case None
    with Some have "serve_mux rs rq s = (fst (serve_mux rs rq s), s)" by (simp add: serve_mux_def)
    then show ?thesis by (rule refused)
  next
    case (Some vars)
    with \<open>find (route_matches rq) rs = Some r\<close>
    have "serve_mux rs rq s = rt_handler r (rq\<lparr>rq_vars := vars\<rparr>) s" by (simp add: serve_mux_def)
    with r show ?thesis by (rule handled)
  qed
qed

lemma serve_mux_invariant:
  assumes "\<And>r rq. r \<in> set rs \<Longrightarrow> P s (snd (rt_handler r rq s))" and "P s s"
  shows "P s (snd (serve_mux rs rq s))"
  using assms by (cases rule: serve_mux_cases [of rs rq s]) auto


text \<open>What a pattern that matches says of the path, and the route that serves a request.\<close>

lemma match_segments_Some:
  "match_segments [] ss = Some m \<longleftrightarrow> ss = [] \<and> m = []"
  "match_segments (Lit a # ps) ss = Some m \<longleftrightarrow> (\<exists>t. ss = a # t \<and> match_segments ps t = Some m)"
  "match_segments (Wild x # ps) ss = Some m \<longleftrightarrow>
     (\<exists>s t m'. ss = s # t \<and> s \<noteq> '''' \<and> match_segments ps t = Some m' \<and> m = (x, s) # m')"
  by (cases ss; auto)+

lemma serve_mux_matched:
  obtains (handled) r vars where "r \<in> set rs" "method_matches (rt_method r) (rq_method rq)"
      "match_segments (rt_pattern r) (path_segments (rq_path rq)) = Some vars"
      "serve_mux rs rq s = rt_handler r (rq\<lparr>rq_vars := vars\<rparr>) s"
  | (refused) e where "serve_mux rs rq s = (e, s)"
proof (cases "find (route_matches rq) rs")
  case None
  then show ?thesis by (intro refused [of "fst (serve_mux rs rq s)"]) (simp add: serve_mux_def)
next
  case (Some r)
  then have r: "r \<in> set rs" "route_matches rq r" by (auto simp: find_Some_iff)
  then obtain vars where "match_segments (rt_pattern r) (path_segments (rq_path rq)) = Some vars"
    by (auto simp: route_matches_def)
  with r Some show ?thesis by (intro handled [of r vars]) (simp_all add: serve_mux_def route_matches_def)
qed

end
