(* ===== verification/Node_Server.thy ===== *)
theory Node_Server
  imports Go_Router Orchestrator
begin

text \<open>
  Package \<open>node\<close>: the HTTP server of one agent node, in front of an orchestrator, and its client
  side, which registers the node with the control plane and sends heartbeats. A handler is a
  function of the request and the node; the backend's methods \<open>rt\<close>, the HTTP client \<open>cl\<close>, the
  generated identifier and the clock are arguments. JSON objects built from Go maps are written
  with their keys sorted, as the encoder does. A proxied request is built from an agent URL and
  the query of a request that the server has parsed, so building it does not fail.
\<close>

section \<open>The server\<close>

record node_config =
  nc_Port :: int
  nc_ControlPlaneURL :: string
  nc_NodeKey :: string
  nc_Name :: string
  nc_DataDir :: string
  nc_FirecrackerBin :: string
  nc_HostInterface :: string
  nc_MaxSandboxes :: int

record 'r node =
  nd_config :: node_config
  nd_orch :: "'r orch"
  nd_id :: string

definition NewNodeServer :: "node_config \<Rightarrow> 'r orch \<Rightarrow> 'r node" where
  "NewNodeServer cfg orc = \<lparr>nd_config = cfg, nd_orch = orc, nd_id = ''''\<rparr>"

definition node_writeJSON :: "nat \<Rightarrow> (string \<times> json) list \<Rightarrow> response" where
  "node_writeJSON st kvs = json_response st (JObj kvs)"

definition node_writeErr :: "nat \<Rightarrow> string \<Rightarrow> response" where
  "node_writeErr st msg = json_response st (JObj [(''error'', JStr msg)])"

section \<open>Sandbox life cycle\<close>

text \<open>The fields of the body of a creation; \<open>sandboxId\<close> is decoded and never used.\<close>

definition decode_create :: "json \<Rightarrow> string + CreateRequest" where
  "decode_create j =
     bind_res (dec_string ''sandboxId'' j) (\<lambda>_.
     bind_res (dec_string ''template'' j) (\<lambda>template.
     bind_res (dec_int ''vcpus'' j) (\<lambda>vcpus.
     bind_res (dec_int ''memoryMB'' j) (\<lambda>memoryMB.
     bind_res (dec_int ''timeout'' j) (\<lambda>timeout.
     bind_res (dec_map ''envVars'' j) (\<lambda>envVars.
       Inr \<lparr>cr_Template = template, cr_VCPUs = vcpus, cr_MemoryMB = memoryMB, cr_Timeout = timeout,
            cr_Metadata = [], cr_EnvVars = (case envVars of None \<Rightarrow> [] | Some m \<Rightarrow> m)\<rparr>))))))"

definition handleCreate :: "'r runtime \<Rightarrow> 'r http_client \<Rightarrow> string \<Rightarrow> time \<Rightarrow> 'r node handler" where
  "handleCreate rt cl uuid now rq nd =
     (case bind_res (dec_object (rq_json rq)) decode_create of
        Inl e \<Rightarrow> (node_writeErr http_bad_request e, nd)
      | Inr req \<Rightarrow>
     (case Create rt cl uuid now req (nd_orch nd) of
        (Inl e, orc1) \<Rightarrow> (node_writeErr http_internal e, nd\<lparr>nd_orch := orc1\<rparr>)
      | (Inr instance, orc1) \<Rightarrow>
          (node_writeJSON http_created
             [(''hostIp'', JStr (vi_GuestIP instance)), (''sandboxId'', JStr (vi_ID instance)),
              (''status'', JStr (vi_State instance))], nd\<lparr>nd_orch := orc1\<rparr>)))"

definition list_entry :: "VMInstance \<Rightarrow> json" where
  "list_entry inst = JObj
     [(''memoryMB'', JInt (vi_MemoryMB inst)), (''sandboxId'', JStr (vi_ID inst)), (''status'', JStr (vi_State inst)),
      (''template'', JStr (vi_Template inst)), (''vcpus'', JInt (vi_VCPUs inst))]"

definition handleList :: "'r node handler" where
  "handleList rq nd =
     (node_writeJSON http_ok [(''sandboxes'', JArr (map list_entry (orch_List (nd_orch nd))))], nd)"

definition handleGet :: "'r node handler" where
  "handleGet rq nd =
     (let i = get_or_empty (rq_vars rq) ''id''
      in case orch_Get (nd_orch nd) i of
           None \<Rightarrow> (node_writeErr http_not_found (not_found i), nd)
         | Some inst \<Rightarrow>
             (node_writeJSON http_ok [(''sandboxId'', JStr (vi_ID inst)), (''status'', JStr (vi_State inst)),
                (''template'', JStr (vi_Template inst))], nd))"

definition handleDelete :: "'r runtime \<Rightarrow> 'r node handler" where
  "handleDelete rt rq nd =
     (case Delete rt (get_or_empty (rq_vars rq) ''id'') (nd_orch nd) of
        (Some e, orc1) \<Rightarrow> (node_writeErr http_not_found e, nd\<lparr>nd_orch := orc1\<rparr>)
      | (None, orc1) \<Rightarrow> (node_writeJSON http_ok [(''status'', JStr ''deleted'')], nd\<lparr>nd_orch := orc1\<rparr>))"

text \<open>
  Pausing and resuming write the state of the stored instance, through the pointer \<open>Get\<close> returned;
  the orchestrator's own \<open>Pause\<close> and \<open>Resume\<close>, and so the backend, are not called.
\<close>

definition set_state :: "VMInstance \<Rightarrow> string \<Rightarrow> 'r node \<Rightarrow> 'r node" where
  "set_state inst st nd =
     nd\<lparr>nd_orch := (nd_orch nd)\<lparr>store := store_Put (inst\<lparr>vi_State := st\<rparr>) (store (nd_orch nd))\<rparr>\<rparr>"

definition handlePause :: "'r node handler" where
  "handlePause rq nd =
     (let i = get_or_empty (rq_vars rq) ''id''
      in case orch_Get (nd_orch nd) i of
           None \<Rightarrow> (node_writeErr http_not_found (not_found i), nd)
         | Some inst \<Rightarrow>
             if vi_State inst \<noteq> ''running''
             then (node_writeErr http_conflict (''sandbox '' @ i @ '' is not running (status: '' @ vi_State inst @ '')''), nd)
             else (node_writeJSON http_ok [(''status'', JStr ''paused'')], set_state inst ''paused'' nd))"

definition handleResume :: "'r node handler" where
  "handleResume rq nd =
     (let i = get_or_empty (rq_vars rq) ''id''
      in case orch_Get (nd_orch nd) i of
           None \<Rightarrow> (node_writeErr http_not_found (not_found i), nd)
         | Some inst \<Rightarrow>
             if vi_State inst \<noteq> ''paused''
             then (node_writeErr http_conflict (''sandbox '' @ i @ '' is not paused (status: '' @ vi_State inst @ '')''), nd)
             else (node_writeJSON http_ok [(''status'', JStr ''running'')], set_state inst ''running'' nd))"

section \<open>Snapshots\<close>

definition handleSnapshot :: "'r runtime \<Rightarrow> time \<Rightarrow> 'r node handler" where
  "handleSnapshot rt now rq nd =
     (let i = get_or_empty (rq_vars rq) ''id''
      in case bind_res (dec_object (rq_json rq)) (dec_string ''snapshotId'') of
           Inl e \<Rightarrow> (node_writeErr http_bad_request e, nd)
         | Inr given \<Rightarrow>
             let snapshotID = (if given = '''' then ''snap-'' @ i @ ''-'' @ dec (now div second) else given)
             in case Snapshot rt i snapshotID (nd_orch nd) of
                  (Some e, orc1) \<Rightarrow> (node_writeErr http_internal e, nd\<lparr>nd_orch := orc1\<rparr>)
                | (None, orc1) \<Rightarrow>
                    (node_writeJSON http_created
                       [(''sandboxId'', JStr i), (''snapshotId'', JStr snapshotID), (''status'', JStr ''created'')],
                     nd\<lparr>nd_orch := orc1\<rparr>))"

text \<open>The decoder's error is dropped: the timeout then keeps its zero value.\<close>

definition handleRestore :: "'r runtime \<Rightarrow> string \<Rightarrow> time \<Rightarrow> 'r node handler" where
  "handleRestore rt uuid now rq nd =
     (let snapshotID = get_or_empty (rq_vars rq) ''snapshotId'';
          timeout = (case bind_res (dec_object (rq_json rq)) (dec_int ''timeout'') of Inl e \<Rightarrow> 0 | Inr t \<Rightarrow> t)
      in case Restore rt uuid now snapshotID timeout (nd_orch nd) of
           (Inl e, orc1) \<Rightarrow> (node_writeErr http_internal e, nd\<lparr>nd_orch := orc1\<rparr>)
         | (Inr instance, orc1) \<Rightarrow>
             (node_writeJSON http_created
                [(''hostIp'', JStr (vi_GuestIP instance)), (''sandboxId'', JStr (vi_ID instance)),
                 (''snapshotId'', JStr snapshotID), (''status'', JStr (vi_State instance))],
              nd\<lparr>nd_orch := orc1\<rparr>))"

definition handleDeleteSnapshot :: "'r runtime \<Rightarrow> 'r node handler" where
  "handleDeleteSnapshot rt rq nd =
     (case DeleteSnapshot rt (get_or_empty (rq_vars rq) ''snapshotId'') (nd_orch nd) of
        (Some e, orc1) \<Rightarrow> (node_writeErr http_internal e, nd\<lparr>nd_orch := orc1\<rparr>)
      | (None, orc1) \<Rightarrow> (node_writeJSON http_ok [(''status'', JStr ''deleted'')], nd\<lparr>nd_orch := orc1\<rparr>))"

text \<open>A backend gives a nil slice when it has no snapshot, which is written as \<open>null\<close>.\<close>

definition snapshot_json :: "snapshot_info \<Rightarrow> json" where
  "snapshot_json s = JObj
     ([(''id'', JStr (si_ID s)), (''sandboxId'', JStr (si_SandboxID s)), (''createdAt'', JStr (si_CreatedAt s))]
      @ (if si_SizeMB s = 0 then [] else [(''sizeMB'', JInt (si_SizeMB s))]))"

definition handleListSnapshots :: "'r runtime \<Rightarrow> 'r node handler" where
  "handleListSnapshots rt rq nd =
     (case ListSnapshots rt (get_or_empty (rq_params rq) ''sandboxId'') (nd_orch nd) of
        (Inl e, orc1) \<Rightarrow> (node_writeErr http_internal e, nd\<lparr>nd_orch := orc1\<rparr>)
      | (Inr infos, orc1) \<Rightarrow>
          (node_writeJSON http_ok [(''snapshots'', if infos = [] then JNull else JArr (map snapshot_json infos))],
           nd\<lparr>nd_orch := orc1\<rparr>))"

section \<open>Proxy to the guest agent\<close>

definition with_query :: "string \<Rightarrow> string \<Rightarrow> string" where
  "with_query url q = (if q \<noteq> '''' then url @ ''?'' @ q else url)"

definition proxyToAgent :: "'r http_client \<Rightarrow> string \<Rightarrow> string \<Rightarrow> 'r node handler" where
  "proxyToAgent cl meth path rq nd =
     (let i = get_or_empty (rq_vars rq) ''id''
      in case orch_Get (nd_orch nd) i of
           None \<Rightarrow> (node_writeErr http_not_found (not_found i), nd)
         | Some inst \<Rightarrow>
             if vi_State inst \<noteq> ''running''
             then (node_writeErr http_conflict
                     (''exec: sandbox '' @ i @ '' is not running (status: '' @ vi_State inst @ '')''), nd)
             else
               let proxyReq = \<lparr>oq_method = meth, oq_url = with_query (vi_AgentURL inst @ path) (rq_query rq),
                               oq_headers = [(''Content-Type'', get_or_empty (rq_header rq) ''Content-Type'')],
                               oq_body = BRaw (rq_raw rq)\<rparr>;
                   (res, r1) = cl proxyReq (backend (nd_orch nd));
                   nd1 = nd\<lparr>nd_orch := (nd_orch nd)\<lparr>backend := r1\<rparr>\<rparr>
               in case res of
                    Inl e \<Rightarrow> (node_writeErr http_bad_gateway (''agent unreachable: '' @ e), nd1)
                  | Inr resp \<Rightarrow>
                      (\<lparr>status = status resp, rheaders = set_headers (rheaders resp), rbody = rbody resp\<rparr>, nd1))"

definition handleExec :: "'r http_client \<Rightarrow> 'r node handler" where
  "handleExec cl = proxyToAgent cl ''POST'' ''/exec''"

definition handleExecStream :: "'r http_client \<Rightarrow> 'r node handler" where
  "handleExecStream cl = proxyToAgent cl ''POST'' ''/exec/stream''"

definition handleReadFile :: "'r http_client \<Rightarrow> 'r node handler" where
  "handleReadFile cl = proxyToAgent cl ''GET'' ''/files''"

definition handleWriteFile :: "'r http_client \<Rightarrow> 'r node handler" where
  "handleWriteFile cl = proxyToAgent cl ''PUT'' ''/files''"

definition handleListFiles :: "'r http_client \<Rightarrow> 'r node handler" where
  "handleListFiles cl = proxyToAgent cl ''GET'' ''/files/list''"

definition handleHealth :: "'r node handler" where
  "handleHealth rq nd =
     (node_writeJSON http_ok
        [(''maxSandboxes'', JInt (nc_MaxSandboxes (nd_config nd))), (''name'', JStr (nc_Name (nd_config nd))),
         (''sandboxes'', JInt (int (length (orch_List (nd_orch nd))))), (''status'', JStr ''ok'')], nd)"

section \<open>Routes\<close>

definition node_routes :: "'r runtime \<Rightarrow> 'r http_client \<Rightarrow> string \<Rightarrow> time \<Rightarrow> 'r node route list" where
  "node_routes rt cl uuid now =
     [route ''POST'' [Lit ''sandboxes''] (handleCreate rt cl uuid now),
      route ''GET'' [Lit ''sandboxes''] handleList,
      route ''GET'' [Lit ''sandboxes'', Wild ''id''] handleGet,
      route ''DELETE'' [Lit ''sandboxes'', Wild ''id''] (handleDelete rt),
      route ''POST'' [Lit ''sandboxes'', Wild ''id'', Lit ''pause''] handlePause,
      route ''POST'' [Lit ''sandboxes'', Wild ''id'', Lit ''resume''] handleResume,
      route ''POST'' [Lit ''sandboxes'', Wild ''id'', Lit ''snapshot''] (handleSnapshot rt now),
      route ''POST'' [Lit ''snapshots'', Wild ''snapshotId'', Lit ''restore''] (handleRestore rt uuid now),
      route ''DELETE'' [Lit ''snapshots'', Wild ''snapshotId''] (handleDeleteSnapshot rt),
      route ''GET'' [Lit ''snapshots''] (handleListSnapshots rt),
      route ''POST'' [Lit ''sandboxes'', Wild ''id'', Lit ''exec''] (handleExec cl),
      route ''POST'' [Lit ''sandboxes'', Wild ''id'', Lit ''exec'', Lit ''stream''] (handleExecStream cl),
      route ''GET'' [Lit ''sandboxes'', Wild ''id'', Lit ''files''] (handleReadFile cl),
      route ''PUT'' [Lit ''sandboxes'', Wild ''id'', Lit ''files''] (handleWriteFile cl),
      route ''GET'' [Lit ''sandboxes'', Wild ''id'', Lit ''files'', Lit ''list''] (handleListFiles cl),
      route ''GET'' [Lit ''health''] handleHealth]"

definition node_Handler :: "'r runtime \<Rightarrow> 'r http_client \<Rightarrow> string \<Rightarrow> time \<Rightarrow> 'r node handler" where
  "node_Handler rt cl uuid now = serve_mux (node_routes rt cl uuid now)"

section \<open>Control plane communication\<close>

text \<open>\<open>result["nodeId"]\<close> of the decoded response; a body that does not decode leaves it empty.\<close>

definition result_string :: "string \<Rightarrow> body \<Rightarrow> string" where
  "result_string k b =
     (case b of BJson j \<Rightarrow> (case jfield k j of Some (JStr s) \<Rightarrow> s | _ \<Rightarrow> '''') | _ \<Rightarrow> '''')"

definition register_request :: "node_config \<Rightarrow> out_request" where
  "register_request cfg =
     \<lparr>oq_method = ''POST'', oq_url = nc_ControlPlaneURL cfg @ ''/internal/nodes/register'',
      oq_headers = [(''Content-Type'', ''application/json''), (''X-Node-Key'', nc_NodeKey cfg)],
      oq_body = BJson (JObj
        [(''address'', JStr (''http://0.0.0.0:'' @ dec (nc_Port cfg))), (''maxSandboxes'', JInt (nc_MaxSandboxes cfg)),
         (''name'', JStr (nc_Name cfg)), (''nodeKey'', JStr (nc_NodeKey cfg))])\<rparr>"

text \<open>
  The control plane's URL is taken to parse. For one that does not, the error of \<open>NewRequest\<close> is
  dropped and setting a header of the nil request panics.
\<close>

definition register :: "'r http_client \<Rightarrow> 'r node \<Rightarrow> string option \<times> 'r node" where
  "register cl nd =
     (let (res, r1) = cl (register_request (nd_config nd)) (backend (nd_orch nd));
          nd1 = nd\<lparr>nd_orch := (nd_orch nd)\<lparr>backend := r1\<rparr>\<rparr>
      in case res of
           Inl e \<Rightarrow> (Some e, nd1)
         | Inr resp \<Rightarrow>
             if status resp \<ge> 400
             then (Some (''register failed ('' @ dec (int (status resp)) @ ''): '' @ body_text (rbody resp)), nd1)
             else (None, nd1\<lparr>nd_id := result_string ''nodeId'' (rbody resp)\<rparr>))"

definition heartbeat_request :: "'r node \<Rightarrow> out_request" where
  "heartbeat_request nd =
     \<lparr>oq_method = ''POST'', oq_url = nc_ControlPlaneURL (nd_config nd) @ ''/internal/nodes/'' @ nd_id nd @ ''/heartbeat'',
      oq_headers = [(''Content-Type'', ''application/json''), (''X-Node-Key'', nc_NodeKey (nd_config nd))],
      oq_body = BJson (JObj [(''runningSandboxes'', JInt (int (length (orch_List (nd_orch nd)))))])\<rparr>"

definition sendHeartbeat :: "'r http_client \<Rightarrow> 'r node \<Rightarrow> 'r node" where
  "sendHeartbeat cl nd =
     (if nd_id nd = '''' then nd
      else nd\<lparr>nd_orch := (nd_orch nd)\<lparr>backend := snd (cl (heartbeat_request nd) (backend (nd_orch nd)))\<rparr>\<rparr>)"

text \<open>The ticks of the heartbeat goroutine until its context is cancelled.\<close>

fun heartbeatLoop :: "'r http_client \<Rightarrow> nat \<Rightarrow> 'r node \<Rightarrow> 'r node" where
  "heartbeatLoop cl 0 nd = nd"
| "heartbeatLoop cl (Suc n) nd = heartbeatLoop cl n (sendHeartbeat cl nd)"

text \<open>What \<open>Start\<close> does before it serves: a failed registration is only logged.\<close>

definition node_Start :: "'r http_client \<Rightarrow> 'r node \<Rightarrow> 'r node" where
  "node_Start cl nd = (if nc_ControlPlaneURL (nd_config nd) \<noteq> '''' then snd (register cl nd) else nd)"

section \<open>A node is an orchestrator\<close>

text \<open>
  What can happen on a node: a request is served, the node starts or sends a heartbeat, the
  cleanup runs, the node shuts down, or the world changes.
\<close>

inductive node_step ::
  "'r runtime \<Rightarrow> 'r http_client \<Rightarrow> ('r \<Rightarrow> 'r \<Rightarrow> bool) \<Rightarrow> 'r node \<Rightarrow> 'r node \<Rightarrow> bool"
  for rt :: "'r runtime" and cl :: "'r http_client" and env :: "'r \<Rightarrow> 'r \<Rightarrow> bool" where
  serve: "sandbox_id uuid \<notin> gm_keys (store (nd_orch nd)) \<Longrightarrow>
    node_step rt cl env nd (snd (node_Handler rt cl uuid now rq nd))"
| start: "node_step rt cl env nd (node_Start cl nd)"
| heartbeat: "node_step rt cl env nd (sendHeartbeat cl nd)"
| cleanup: "node_step rt cl env nd (nd\<lparr>nd_orch := cleanupExpired rt now (nd_orch nd)\<rparr>)"
| shutdown: "node_step rt cl env nd (nd\<lparr>nd_orch := Shutdown rt (nd_orch nd)\<rparr>)"
| world: "env (backend (nd_orch nd)) r \<Longrightarrow> node_step rt cl env nd (nd\<lparr>nd_orch := (nd_orch nd)\<lparr>backend := r\<rparr>\<rparr>)"

abbreviation node_reachable ::
  "'r runtime \<Rightarrow> 'r http_client \<Rightarrow> ('r \<Rightarrow> 'r \<Rightarrow> bool) \<Rightarrow> node_config \<Rightarrow> orch_config \<Rightarrow> 'r \<Rightarrow> 'r node \<Rightarrow> bool" where
  "node_reachable rt cl env ncfg cfg r nd \<equiv> (node_step rt cl env)\<^sup>*\<^sup>* (NewNodeServer ncfg (NewOrch cfg r)) nd"

text \<open>A handler of the node makes at most one step of \<open>orch_step\<close>, the label it writes included.\<close>

definition simulates :: "'r runtime \<Rightarrow> 'r http_client \<Rightarrow> ('r \<Rightarrow> 'r \<Rightarrow> bool) \<Rightarrow> 'r node \<Rightarrow> 'r node \<Rightarrow> bool" where
  "simulates rt cl env nd nd' \<longleftrightarrow> nd_orch nd' = nd_orch nd \<or> orch_step rt cl env (nd_orch nd) (nd_orch nd')"

named_theorems node_sim \<open>handlers make at most one step of the relation\<close>

lemma simulates_same [simp]: "simulates rt cl env nd nd"
  by (simp add: simulates_def)

lemma simulates_step: "orch_step rt cl env (nd_orch nd) orc \<Longrightarrow> simulates rt cl env nd (nd\<lparr>nd_orch := orc\<rparr>)"
  by (simp add: simulates_def)


text \<open>Each handler, by cases on what its operation returned.\<close>

lemma sim_op:
  assumes "orch_step rt cl env (nd_orch nd) (snd p)"
    and "\<And>x orc. p = (x, orc) \<Longrightarrow> snd (f x orc) = nd\<lparr>nd_orch := orc\<rparr>"
  shows "simulates rt cl env nd (snd (case p of (x, orc) \<Rightarrow> f x orc))"
  using assms by (cases p) (auto intro: simulates_step)

lemma sim_client:
  assumes "\<And>q r resp r'. cl q r = (resp, r') \<Longrightarrow> env r r'"
  shows "simulates rt cl env nd (nd\<lparr>nd_orch := (nd_orch nd)\<lparr>backend := snd (cl q (backend (nd_orch nd)))\<rparr>\<rparr>)"
  by (rule simulates_step, rule orch_step.world) (metis assms prod.collapse)

lemma sim_Create [node_sim]:
  assumes "sandbox_id uuid \<notin> gm_keys (store (nd_orch nd))"
  shows "simulates rt cl env nd (snd (handleCreate rt cl uuid now rq nd))"
  unfolding handleCreate_def
  by (auto intro!: sim_op orch_step.create [OF assms] split: sum.split)

lemma sim_Restore [node_sim]:
  assumes "sandbox_id uuid \<notin> gm_keys (store (nd_orch nd))"
  shows "simulates rt cl env nd (snd (handleRestore rt uuid now rq nd))"
  unfolding handleRestore_def Let_def
  by (auto intro!: sim_op orch_step.restore [OF assms] split: sum.split)

lemma sim_backend_ops [node_sim]:
  "simulates rt cl env nd (snd (handleDelete rt rq nd))"
  "simulates rt cl env nd (snd (handleSnapshot rt now rq nd))"
  "simulates rt cl env nd (snd (handleDeleteSnapshot rt rq nd))"
  "simulates rt cl env nd (snd (handleListSnapshots rt rq nd))"
  unfolding handleDelete_def handleSnapshot_def handleDeleteSnapshot_def handleListSnapshots_def Let_def
  by (auto intro!: sim_op orch_step.delete orch_step.snapshot orch_step.delete_snapshot orch_step.list_snapshots
      split: sum.split option.split)

lemma sim_set_state:
  assumes "orch_Get (nd_orch nd) i = Some inst" and "st \<in> {''running'', ''paused''}"
  shows "simulates rt cl env nd (set_state inst st nd)"
  unfolding set_state_def by (rule simulates_step, rule orch_step.relabel [OF assms])

lemma sim_relabel [node_sim]:
  "simulates rt cl env nd (snd (handlePause rq nd))" "simulates rt cl env nd (snd (handleResume rq nd))"
  by (auto simp: handlePause_def handleResume_def Let_def split: option.split intro: sim_set_state)

lemma sim_readers [node_sim]:
  "snd (handleList rq nd) = nd" "snd (handleGet rq nd) = nd" "snd (handleHealth rq nd) = nd"
  by (auto simp: handleList_def handleGet_def handleHealth_def Let_def split: option.split)

lemma sim_proxy:
  assumes "\<And>q r resp r'. cl q r = (resp, r') \<Longrightarrow> env r r'"
  shows "simulates rt cl env nd (snd (proxyToAgent cl meth path rq nd))"
  using sim_client [of cl env rt nd, OF assms]
  by (auto simp: proxyToAgent_def Let_def case_prod_unfold split: option.split sum.split)

lemmas sim_proxies = handleExec_def handleExecStream_def handleReadFile_def handleWriteFile_def handleListFiles_def

lemma node_Handler_simulates:
  assumes "sandbox_id uuid \<notin> gm_keys (store (nd_orch nd))" and "\<And>q r resp r'. cl q r = (resp, r') \<Longrightarrow> env r r'"
  shows "simulates rt cl env nd (snd (node_Handler rt cl uuid now rq nd))"
  unfolding node_Handler_def
proof (rule serve_mux_invariant [where P = "simulates rt cl env"])
  fix r rq
  assume "r \<in> set (node_routes rt cl uuid now)"
  then show "simulates rt cl env nd (snd (rt_handler r rq nd))"
    unfolding node_routes_def
    by (auto simp: node_sim assms sim_proxies intro: sim_proxy [of cl env, OF assms(2)])
qed simp

lemma node_step_simulates:
  assumes "node_step rt cl env nd nd'" and "\<And>q r resp r'. cl q r = (resp, r') \<Longrightarrow> env r r'"
  shows "simulates rt cl env nd nd'"
  using assms(1)
proof cases
  case (serve uuid now rq)
  then show ?thesis using node_Handler_simulates assms(2) by blast
next
  case start
  have "simulates rt cl env nd (snd (register cl nd))"
    using sim_client [of cl env rt nd, OF assms(2)]
    by (auto simp: register_def simulates_def Let_def case_prod_unfold split: sum.split)
  then show ?thesis by (simp add: start node_Start_def)
next
  case heartbeat
  then show ?thesis using sim_client [of cl env rt nd, OF assms(2)] by (simp add: sendHeartbeat_def)
qed (auto intro: simulates_step orch_step.intros)

lemma node_reachable_orch:
  assumes "node_reachable rt cl env ncfg cfg r nd" and "\<And>q r resp r'. cl q r = (resp, r') \<Longrightarrow> env r r'"
  shows "orch_reachable rt cl env cfg r (nd_orch nd)"
  using assms(1)
proof (induction rule: rtranclp_induct)
  case base
  then show ?case by (simp add: NewNodeServer_def)
next
  case (step y z)
  then have "nd_orch z = nd_orch y \<or> orch_step rt cl env (nd_orch y) (nd_orch z)"
    using node_step_simulates [of rt cl env y z, OF _ assms(2)] by (simp add: simulates_def)
  with step.IH show ?case by (metis rtranclp.rtrancl_into_rtrancl)
qed

section \<open>Requests\<close>

lemmas route_search = node_routes_def route_matches_def method_matches_def on_path_def

lemma node_dispatches:
  "on_path ''POST'' [''sandboxes''] rq \<Longrightarrow> node_Handler rt cl uuid now rq nd
      = handleCreate rt cl uuid now (rq\<lparr>rq_vars := []\<rparr>) nd"
  "on_path ''POST'' [''sandboxes'', i, ''pause''] rq \<Longrightarrow> i \<noteq> '''' \<Longrightarrow> node_Handler rt cl uuid now rq nd
      = handlePause (rq\<lparr>rq_vars := [(''id'', i)]\<rparr>) nd"
  "on_path ''POST'' [''sandboxes'', i, ''resume''] rq \<Longrightarrow> i \<noteq> '''' \<Longrightarrow> node_Handler rt cl uuid now rq nd
      = handleResume (rq\<lparr>rq_vars := [(''id'', i)]\<rparr>) nd"
  "on_path ''POST'' [''sandboxes'', i, ''exec''] rq \<Longrightarrow> i \<noteq> '''' \<Longrightarrow> node_Handler rt cl uuid now rq nd
      = handleExec cl (rq\<lparr>rq_vars := [(''id'', i)]\<rparr>) nd"
  "on_path ''DELETE'' [''sandboxes'', i] rq \<Longrightarrow> i \<noteq> '''' \<Longrightarrow> node_Handler rt cl uuid now rq nd
      = handleDelete rt (rq\<lparr>rq_vars := [(''id'', i)]\<rparr>) nd"
  "on_path ''GET'' [''sandboxes'', i] rq \<Longrightarrow> i \<noteq> '''' \<Longrightarrow> node_Handler rt cl uuid now rq nd
      = handleGet (rq\<lparr>rq_vars := [(''id'', i)]\<rparr>) nd"
  by (simp_all add: node_Handler_def serve_mux_def route_search)

lemma disjoint_node_routes: "disjoint_routes (node_routes rt cl uuid now)"
  by (simp add: node_routes_def conflicting_def method_matches_def)

definition demo_node :: "string \<Rightarrow> 'r \<Rightarrow> 'r node" where
  "demo_node cpURL r = NewNodeServer \<lparr>nc_Port = 9090, nc_ControlPlaneURL = cpURL, nc_NodeKey = ''k'', nc_Name = ''n1'', nc_DataDir = '''',
        nc_FirecrackerBin = '''', nc_HostInterface = '''', nc_MaxSandboxes = 50\<rparr> (NewOrch small_config r)"

section \<open>What the node guarantees\<close>

text \<open>
  The routes of the node are pairwise disjoint: registered in any order, they give the same
  server.
\<close>
theorem node_routes_order_irrelevant:
  assumes "mset rs = mset (node_routes rt cl uuid now)"
  shows "serve_mux rs rq nd = node_Handler rt cl uuid now rq nd"
  unfolding node_Handler_def by (rule serve_mux_permuted [OF disjoint_node_routes assms])

lemma node_routes_order_irrelevant_witness:
  "serve_mux (rev (node_routes idle_runtime no_client ''0a1b2c3d'' 0)) empty_request (demo_node '''' ())
   = (plain_error 404 ''404 page not found'', demo_node '''' ())"
proof -
  have "mset (rev (node_routes idle_runtime no_client ''0a1b2c3d'' 0)) = mset (node_routes idle_runtime no_client ''0a1b2c3d'' 0)"
    by (rule mset_rev)
  from node_routes_order_irrelevant [OF this, of empty_request "demo_node '''' ()"] show ?thesis
    by (simp only:) (simp add: empty_request_def node_Handler_def serve_mux_def route_search path_segments_def)
qed

section \<open>What a request does to the orchestrator\<close>

lemma node_dispatches_snapshots:
  "on_path ''POST'' [''sandboxes'', i, ''snapshot''] rq \<Longrightarrow> i \<noteq> '''' \<Longrightarrow> node_Handler rt cl uuid now rq nd
      = handleSnapshot rt now (rq\<lparr>rq_vars := [(''id'', i)]\<rparr>) nd"
  "on_path ''POST'' [''snapshots'', k, ''restore''] rq \<Longrightarrow> k \<noteq> '''' \<Longrightarrow> node_Handler rt cl uuid now rq nd
      = handleRestore rt uuid now (rq\<lparr>rq_vars := [(''snapshotId'', k)]\<rparr>) nd"
  "on_path ''DELETE'' [''snapshots'', k] rq \<Longrightarrow> k \<noteq> '''' \<Longrightarrow> node_Handler rt cl uuid now rq nd
      = handleDeleteSnapshot rt (rq\<lparr>rq_vars := [(''snapshotId'', k)]\<rparr>) nd"
  "on_path ''GET'' [''snapshots''] rq \<Longrightarrow> node_Handler rt cl uuid now rq nd = handleListSnapshots rt (rq\<lparr>rq_vars := []\<rparr>) nd"
  "on_path ''HEAD'' [''snapshots''] rq \<Longrightarrow> node_Handler rt cl uuid now rq nd = handleListSnapshots rt (rq\<lparr>rq_vars := []\<rparr>) nd"
  by (simp_all add: node_Handler_def serve_mux_def route_search)

text \<open>The state label of a stored sandbox, written when it is \<open>old\<close>; the backend is not told.\<close>

definition label_as :: "string \<Rightarrow> string \<Rightarrow> string \<Rightarrow> 'r orch \<Rightarrow> 'r orch" where
  "label_as i old new orc =
     (case orch_Get orc i of
        None \<Rightarrow> orc
      | Some inst \<Rightarrow> if vi_State inst = old then orc\<lparr>store := store_Put (inst\<lparr>vi_State := new\<rparr>) (store orc)\<rparr> else orc)"

text \<open>One call to the agent of the running sandbox that the path names.\<close>

definition node_agent_call :: "'r http_client \<Rightarrow> request \<Rightarrow> 'r orch \<Rightarrow> 'r orch \<Rightarrow> bool" where
  "node_agent_call cl rq orc orc' \<longleftrightarrow> (\<exists>i rest inst q p.
     path_segments (rq_path rq) = ''sandboxes'' # i # rest \<and> rest \<noteq> [] \<and> orch_Get orc i = Some inst
     \<and> vi_State inst = ''running'' \<and> oq_url q = vi_AgentURL inst @ p
     \<and> orc' = orc\<lparr>backend := snd (cl q (backend orc))\<rparr>)"

definition changing_request :: "request \<Rightarrow> bool" where
  "changing_request rq \<longleftrightarrow> on_path ''POST'' [''sandboxes''] rq
     \<or> (\<exists>i. i \<noteq> '''' \<and> (on_path ''DELETE'' [''sandboxes'', i] rq \<or> on_path ''POST'' [''sandboxes'', i, ''pause''] rq
          \<or> on_path ''POST'' [''sandboxes'', i, ''resume''] rq \<or> on_path ''POST'' [''sandboxes'', i, ''snapshot''] rq
          \<or> on_path ''POST'' [''snapshots'', i, ''restore''] rq \<or> on_path ''DELETE'' [''snapshots'', i] rq))
     \<or> on_path ''GET'' [''snapshots''] rq \<or> on_path ''HEAD'' [''snapshots''] rq"

text \<open>The routes of the node in terms of the orchestrator alone.\<close>

definition node_effect ::
  "'r runtime \<Rightarrow> 'r http_client \<Rightarrow> string \<Rightarrow> time \<Rightarrow> request \<Rightarrow> 'r orch \<Rightarrow> 'r orch \<Rightarrow> bool" where
  "node_effect rt cl uuid now rq orc orc' \<longleftrightarrow>
     (on_path ''POST'' [''sandboxes''] rq \<longrightarrow>
        orc' = (case bind_res (dec_object (rq_json rq)) decode_create of
                  Inl e \<Rightarrow> orc | Inr req \<Rightarrow> snd (Create rt cl uuid now req orc)))
     \<and> (\<forall>i. i \<noteq> '''' \<longrightarrow>
          (on_path ''DELETE'' [''sandboxes'', i] rq \<longrightarrow> orc' = snd (Delete rt i orc))
        \<and> (on_path ''POST'' [''sandboxes'', i, ''pause''] rq \<longrightarrow> orc' = label_as i ''running'' ''paused'' orc)
        \<and> (on_path ''POST'' [''sandboxes'', i, ''resume''] rq \<longrightarrow> orc' = label_as i ''paused'' ''running'' orc)
        \<and> (on_path ''POST'' [''sandboxes'', i, ''snapshot''] rq \<longrightarrow>
             orc' = (case bind_res (dec_object (rq_json rq)) (dec_string ''snapshotId'') of
                       Inl e \<Rightarrow> orc
                     | Inr k \<Rightarrow> snd (Snapshot rt i (if k = '''' then ''snap-'' @ i @ ''-'' @ dec (now div second) else k) orc)))
        \<and> (on_path ''POST'' [''snapshots'', i, ''restore''] rq \<longrightarrow>
             orc' = snd (Restore rt uuid now i
               (case bind_res (dec_object (rq_json rq)) (dec_int ''timeout'') of Inl e \<Rightarrow> 0 | Inr t \<Rightarrow> t) orc))
        \<and> (on_path ''DELETE'' [''snapshots'', i] rq \<longrightarrow> orc' = snd (DeleteSnapshot rt i orc)))
     \<and> (on_path ''GET'' [''snapshots''] rq \<or> on_path ''HEAD'' [''snapshots''] rq \<longrightarrow>
          orc' = snd (ListSnapshots rt (get_or_empty (rq_params rq) ''sandboxId'') orc))
     \<and> (\<not> changing_request rq \<longrightarrow> orc' = orc \<or> node_agent_call cl rq orc orc')"

lemma with_query_prefix: "\<exists>p. with_query (url @ path) q = url @ p"
  by (simp add: with_query_def)

lemma proxyToAgent_effect:
  assumes "get_or_empty (rq_vars rq) ''id'' = i" and "path_segments (rq_path rq) = ''sandboxes'' # i # rest" and "rest \<noteq> []"
  shows "nd_orch (snd (proxyToAgent cl m path rq nd)) = nd_orch nd
    \<or> node_agent_call cl rq (nd_orch nd) (nd_orch (snd (proxyToAgent cl m path rq nd)))"
proof (cases "orch_Get (nd_orch nd) i")
  case (Some inst)
  obtain p where p: "with_query (vi_AgentURL inst @ path) (rq_query rq) = vi_AgentURL inst @ p"
    using with_query_prefix by blast
  show ?thesis
  proof (cases "vi_State inst = ''running''")
    case True
    let ?q = "\<lparr>oq_method = m, oq_url = vi_AgentURL inst @ p,
      oq_headers = [(''Content-Type'', get_or_empty (rq_header rq) ''Content-Type'')], oq_body = BRaw (rq_raw rq)\<rparr>"
    have "nd_orch (snd (proxyToAgent cl m path rq nd)) = (nd_orch nd)\<lparr>backend := snd (cl ?q (backend (nd_orch nd)))\<rparr>"
      using Some True assms(1) p by (simp add: proxyToAgent_def Let_def case_prod_unfold split: sum.split)
    moreover have "oq_url ?q = vi_AgentURL inst @ p" by simp
    ultimately show ?thesis using Some True assms(2,3) unfolding node_agent_call_def by blast
  qed (use Some assms(1) in \<open>simp add: proxyToAgent_def\<close>)
qed (use assms(1) in \<open>simp add: proxyToAgent_def\<close>)

lemma changing_routes:
  assumes "(meth, pat) \<in> {(''POST'', [Lit ''sandboxes'']), (''DELETE'', [Lit ''sandboxes'', Wild ''id'']),
      (''POST'', [Lit ''sandboxes'', Wild ''id'', Lit ''pause'']), (''POST'', [Lit ''sandboxes'', Wild ''id'', Lit ''resume'']),
      (''POST'', [Lit ''sandboxes'', Wild ''id'', Lit ''snapshot'']), (''POST'', [Lit ''snapshots'', Wild ''snapshotId'', Lit ''restore'']),
      (''DELETE'', [Lit ''snapshots'', Wild ''snapshotId'']), (''GET'', [Lit ''snapshots''])}"
    and "method_matches meth (rq_method rq)" and "match_segments pat (path_segments (rq_path rq)) = Some m"
  shows "changing_request rq"
  using assms by (elim insertE emptyE; force simp: changing_request_def on_path_def method_matches_def match_segments_Some)

lemma node_route_cases:
  assumes "r \<in> set (node_routes rt cl uuid now)"
  obtains (changing) "(rt_method r, rt_pattern r) \<in> {(''POST'', [Lit ''sandboxes'']), (''DELETE'', [Lit ''sandboxes'', Wild ''id'']),
      (''POST'', [Lit ''sandboxes'', Wild ''id'', Lit ''pause'']), (''POST'', [Lit ''sandboxes'', Wild ''id'', Lit ''resume'']),
      (''POST'', [Lit ''sandboxes'', Wild ''id'', Lit ''snapshot'']), (''POST'', [Lit ''snapshots'', Wild ''snapshotId'', Lit ''restore'']),
      (''DELETE'', [Lit ''snapshots'', Wild ''snapshotId'']), (''GET'', [Lit ''snapshots''])}"
  | (reader) "rt_handler r \<in> {handleList, handleGet, handleHealth}"
  | (agent) m path rest where "rt_pattern r = Lit ''sandboxes'' # Wild ''id'' # rest" "rest \<noteq> []"
      "rt_handler r = proxyToAgent cl m path"
  using assms unfolding node_routes_def by (auto simp: sim_proxies)

lemma node_other_requests:
  assumes "\<not> changing_request rq"
  shows "nd_orch (snd (node_Handler rt cl uuid now rq nd)) = nd_orch nd
    \<or> node_agent_call cl rq (nd_orch nd) (nd_orch (snd (node_Handler rt cl uuid now rq nd)))"
  unfolding node_Handler_def
proof (cases rule: serve_mux_matched [of "node_routes rt cl uuid now" rq nd])
  case (handled r vars)
  from handled(1) show "nd_orch (snd (serve_mux (node_routes rt cl uuid now) rq nd)) = nd_orch nd
    \<or> node_agent_call cl rq (nd_orch nd) (nd_orch (snd (serve_mux (node_routes rt cl uuid now) rq nd)))"
  proof (cases rule: node_route_cases)
    case changing
    from changing_routes [OF changing handled(2,3)] assms show ?thesis by contradiction
  next
    case reader
    with handled(4) show ?thesis by (auto simp: sim_readers)
  next
    case (agent m path rest)
    from handled(3) agent(1) obtain i t v where p: "path_segments (rq_path rq) = ''sandboxes'' # i # t"
      and v: "vars = (''id'', i) # v" and t: "match_segments rest t = Some v"
      by (auto simp: match_segments_Some)
    have "t \<noteq> []" using t agent(2) by (cases rest; cases "hd rest") auto
    with proxyToAgent_effect [of "rq\<lparr>rq_vars := vars\<rparr>" i t cl m path nd] p v handled(4) agent(3) show ?thesis
      by (simp add: get_or_empty_def node_agent_call_def)
  qed
qed simp

lemma node_Handler_effect:
  "node_effect rt cl uuid now rq (nd_orch nd) (nd_orch (snd (node_Handler rt cl uuid now rq nd)))"
proof -
  have create: "nd_orch (snd (handleCreate rt cl uuid now rq' nd)) =
      (case bind_res (dec_object (rq_json rq')) decode_create of
         Inl e \<Rightarrow> nd_orch nd | Inr req \<Rightarrow> snd (Create rt cl uuid now req (nd_orch nd)))" for rq'
    by (simp add: handleCreate_def case_prod_unfold split: sum.split)
  have delete: "nd_orch (snd (handleDelete rt rq' nd)) = snd (Delete rt (get_or_empty (rq_vars rq') ''id'') (nd_orch nd))" for rq'
    by (simp add: handleDelete_def case_prod_unfold split: option.split)
  have labels: "nd_orch (snd (handlePause rq' nd)) = label_as (get_or_empty (rq_vars rq') ''id'') ''running'' ''paused'' (nd_orch nd)"
    "nd_orch (snd (handleResume rq' nd)) = label_as (get_or_empty (rq_vars rq') ''id'') ''paused'' ''running'' (nd_orch nd)" for rq'
    by (simp_all add: handlePause_def handleResume_def label_as_def set_state_def Let_def split: option.split)
  have snapshot: "nd_orch (snd (handleSnapshot rt now rq' nd)) =
      (case bind_res (dec_object (rq_json rq')) (dec_string ''snapshotId'') of
         Inl e \<Rightarrow> nd_orch nd
       | Inr k \<Rightarrow> snd (Snapshot rt (get_or_empty (rq_vars rq') ''id'')
           (if k = '''' then ''snap-'' @ get_or_empty (rq_vars rq') ''id'' @ ''-'' @ dec (now div second) else k) (nd_orch nd)))" for rq'
    by (simp add: handleSnapshot_def Let_def case_prod_unfold split: sum.split option.split)
  have restore: "nd_orch (snd (handleRestore rt uuid now rq' nd)) =
      snd (Restore rt uuid now (get_or_empty (rq_vars rq') ''snapshotId'')
        (case bind_res (dec_object (rq_json rq')) (dec_int ''timeout'') of Inl e \<Rightarrow> 0 | Inr t \<Rightarrow> t) (nd_orch nd))" for rq'
    by (simp add: handleRestore_def Let_def case_prod_unfold split: sum.split)
  have del_snap: "nd_orch (snd (handleDeleteSnapshot rt rq' nd)) =
      snd (DeleteSnapshot rt (get_or_empty (rq_vars rq') ''snapshotId'') (nd_orch nd))" for rq'
    by (simp add: handleDeleteSnapshot_def case_prod_unfold split: option.split)
  have list_snap: "nd_orch (snd (handleListSnapshots rt rq' nd)) =
      snd (ListSnapshots rt (get_or_empty (rq_params rq') ''sandboxId'') (nd_orch nd))" for rq'
    by (simp add: handleListSnapshots_def case_prod_unfold split: sum.split)
  show ?thesis
    unfolding node_effect_def
  proof (intro conjI allI impI)
    assume "\<not> changing_request rq"
    then show "nd_orch (snd (node_Handler rt cl uuid now rq nd)) = nd_orch nd
        \<or> node_agent_call cl rq (nd_orch nd) (nd_orch (snd (node_Handler rt cl uuid now rq nd)))"
      by (rule node_other_requests)
  next
    assume "on_path ''GET'' [''snapshots''] rq \<or> on_path ''HEAD'' [''snapshots''] rq"
    then have "node_Handler rt cl uuid now rq nd = handleListSnapshots rt (rq\<lparr>rq_vars := []\<rparr>) nd"
      using node_dispatches_snapshots(4,5) by blast
    then show "nd_orch (snd (node_Handler rt cl uuid now rq nd))
        = snd (ListSnapshots rt (get_or_empty (rq_params rq) ''sandboxId'') (nd_orch nd))"
      by (simp add: list_snap)
  qed (simp_all add: node_dispatches node_dispatches_snapshots create delete labels snapshot restore del_snap list_snap
      get_or_empty_def split: sum.split)
qed

lemma node_Handler_keeps:
  "nd_config (snd (node_Handler rt cl uuid now rq nd)) = nd_config nd \<and> nd_id (snd (node_Handler rt cl uuid now rq nd)) = nd_id nd"
  unfolding node_Handler_def
proof (rule serve_mux_invariant [where P = "\<lambda>nd nd'. nd_config nd' = nd_config nd \<and> nd_id nd' = nd_id nd"])
  fix r rq
  assume "r \<in> set (node_routes rt cl uuid now)"
  then show "nd_config (snd (rt_handler r rq nd)) = nd_config nd \<and> nd_id (snd (rt_handler r rq nd)) = nd_id nd"
    unfolding node_routes_def
    by (auto simp: handleCreate_def handleDelete_def handlePause_def handleResume_def handleSnapshot_def handleRestore_def
        handleDeleteSnapshot_def handleListSnapshots_def set_state_def sim_readers sim_proxies proxyToAgent_def Let_def
        case_prod_unfold split: sum.split option.split)
qed simp

text \<open>
  C4. What a request does to a node's orchestrator, route by route and exactly (\<open>node_effect\<close>):
  creations, deletions, snapshots and restorations are one call of the orchestrator's operation
  with the decoded arguments; pausing and resuming write the state label of the stored sandbox
  past the orchestrator's own \<open>Pause\<close> and \<open>Resume\<close> (server.go:174-200), from running to paused and
  back, and nothing else, so the backend is never told; every other request changes at most what
  one call to the agent of the running sandbox named in its path changes outside. A request keeps the
  node's settings and identifier; starting and heartbeats change only what their one call
  changes outside. A node that takes these steps one after the other never holds more sandboxes
  than its orchestrator allows, each under its own identifier, running or paused.
\<close>
theorem node_refines_orchestrator:
  assumes "node_reachable rt cl env ncfg cfg r nd" and "\<And>q r resp r'. cl q r = (resp, r') \<Longrightarrow> env r r'"
    and "node_Handler rt cl uuid now rq nd = (resp, nd')"
  shows "node_effect rt cl uuid now rq (nd_orch nd) (nd_orch nd')
    \<and> nd_config nd' = nd_config nd \<and> nd_id nd' = nd_id nd
    \<and> (\<exists>b. nd_orch (node_Start cl nd) = (nd_orch nd)\<lparr>backend := b\<rparr>)
    \<and> (\<exists>b. sendHeartbeat cl nd = nd\<lparr>nd_orch := (nd_orch nd)\<lparr>backend := b\<rparr>\<rparr>)
    \<and> store_Count (store (nd_orch nd)) \<le> max 0 (cf_MaxVMs cfg) \<and> distinct (map vi_ID (orch_List (nd_orch nd)))
    \<and> vi_State ` set (orch_List (nd_orch nd)) \<subseteq> {''running'', ''paused''}"
proof -
  have o: "orch_reachable rt cl env cfg r (nd_orch nd)"
    by (rule node_reachable_orch [of rt cl env, OF assms(1)]) (rule assms(2))
  have w: "within_capacity (nd_orch nd)" "config (nd_orch nd) = cfg"
    using orch_reachable_capacity [OF o] orch_reachable_config [OF o] by simp_all
  have nd': "nd' = snd (node_Handler rt cl uuid now rq nd)" using assms(3) by simp
  have start: "\<exists>b. nd_orch (node_Start cl nd) = (nd_orch nd)\<lparr>backend := b\<rparr>"
  proof (cases "nc_ControlPlaneURL (nd_config nd) = ''''")
    case True
    then show ?thesis by (intro exI [of _ "backend (nd_orch nd)"]) (simp add: node_Start_def)
  next
    case False
    then show ?thesis
      by (intro exI [of _ "snd (cl (register_request (nd_config nd)) (backend (nd_orch nd)))"])
         (simp add: node_Start_def register_def Let_def case_prod_unfold split: sum.split)
  qed
  have beat: "\<exists>b. sendHeartbeat cl nd = nd\<lparr>nd_orch := (nd_orch nd)\<lparr>backend := b\<rparr>\<rparr>"
    by (cases "nd_id nd = ''''")
       (auto simp: sendHeartbeat_def intro: exI [of _ "backend (nd_orch nd)"] exI [of _ "snd (cl q (backend (nd_orch nd)))" for q])
  have "store_ok (store (nd_orch nd))" using w(1) by (simp add: within_capacity_def)
  note listed = store_ok_listed [OF this]
  from listed node_Handler_effect [of rt cl uuid now rq nd] node_Handler_keeps [of rt cl uuid now rq nd] start beat w show ?thesis
    by (simp add: nd' within_capacity_def)
qed

definition create_rq :: request where
  "create_rq = empty_request\<lparr>rq_method := ''POST'', rq_path := ''/sandboxes'', rq_json := Inr (JObj [])\<rparr>"

definition busy_node :: "'r \<Rightarrow> 'r node" where
  "busy_node r = snd (node_Handler idle_runtime no_client ''0a1b2c3d-'' 0 create_rq (demo_node '''' r))"

lemma busy_node: "nd_orch (busy_node r) = snd (Create idle_runtime no_client ''0a1b2c3d-'' 0 plain_request (NewOrch small_config r))"
proof -
  have p: "on_path ''POST'' [''sandboxes''] create_rq" by (simp add: on_path_def create_rq_def path_segments_def)
  have d: "decode_create (JObj []) = Inr plain_request"
    by (simp add: decode_create_def dec_string_def dec_int_def dec_map_def jfield_def plain_request_def)
  show ?thesis
    unfolding busy_node_def node_dispatches(1) [OF p]
    by (auto simp: handleCreate_def create_rq_def dec_object_def d demo_node_def NewNodeServer_def
        split: sum.splits prod.splits)
qed

lemma node_refines_orchestrator_witness:
  "store_Count (store (nd_orch (busy_node ()))) \<le> 1
    \<and> node_effect idle_runtime no_client ''4e5f6a7b-'' 0 create_rq (nd_orch (busy_node ()))
        (nd_orch (snd (node_Handler idle_runtime no_client ''4e5f6a7b-'' 0 create_rq (busy_node ()))))"
proof -
  have f: "sandbox_id ''0a1b2c3d-'' \<notin> gm_keys (store (nd_orch (demo_node '''' ())))"
    by (simp add: demo_node_def NewNodeServer_def NewOrch_def NewVMStore_def)
  have n: "node_reachable idle_runtime no_client (\<lambda>r r'. True) (nd_config (demo_node '''' ())) small_config () (busy_node ())"
    using node_step.serve [OF f, of idle_runtime no_client "\<lambda>r r'. True" 0 create_rq]
    by (simp add: busy_node_def demo_node_def NewNodeServer_def r_into_rtranclp)
  obtain resp nd' where h: "node_Handler idle_runtime no_client ''4e5f6a7b-'' 0 create_rq (busy_node ()) = (resp, nd')"
    by (metis surj_pair)
  from node_refines_orchestrator [OF n _ h] show ?thesis by (simp add: small_config_def h)
qed

lemma gm_put_back: "gm_get m k = Some v \<Longrightarrow> gm_put k v (gm_put k v' m) = m"
  by (induction m) (auto split: if_splits)

lemma set_state_back:
  assumes "orch_Get (nd_orch nd) i = Some inst" and "vi_ID inst = i" and "vi_State inst = st"
  shows "set_state (inst\<lparr>vi_State := st'\<rparr>) st (set_state inst st' nd) = nd"
proof -
  have "inst\<lparr>vi_State := st\<rparr> = inst" using assms(3) by simp
  then have "store_Put (inst\<lparr>vi_State := st\<rparr>) (store_Put (inst\<lparr>vi_State := st'\<rparr>) (store (nd_orch nd))) = store (nd_orch nd)"
    using assms(1,2) gm_put_back [of "store (nd_orch nd)" i inst "inst\<lparr>vi_State := st'\<rparr>"]
    by (simp add: store_Put_def orch_Get_def store_Get_def)
  with \<open>inst\<lparr>vi_State := st\<rparr> = inst\<close> show ?thesis by (simp add: set_state_def)
qed

text \<open>
  Pausing a running sandbox of a node is only a label: the backend is not called, so the
  sandbox keeps running; commands for it are then refused without contacting the agent; and
  resuming gives back the node as it was, again without a call.
\<close>
theorem node_pause_only_relabels:
  assumes "orch_Get (nd_orch nd) i = Some inst" and "vi_ID inst = i" and "vi_State inst = ''running''" and "i \<noteq> ''''"
    and "on_path ''POST'' [''sandboxes'', i, ''pause''] p" and "on_path ''POST'' [''sandboxes'', i, ''exec''] x"
    and "on_path ''POST'' [''sandboxes'', i, ''resume''] q"
    and "node_Handler rt cl uuid now p nd = (resp, nd')"
  shows "status resp = 200 \<and> backend (nd_orch nd') = backend (nd_orch nd)
    \<and> orch_Get (nd_orch nd') i = Some (inst\<lparr>vi_State := ''paused''\<rparr>)
    \<and> status (fst (node_Handler rt cl uuid now x nd')) = 409 \<and> snd (node_Handler rt cl uuid now x nd') = nd'
    \<and> node_Handler rt cl uuid now q nd' = (node_writeJSON 200 [(''status'', JStr ''running'')], nd)"
proof -
  have r: "resp = node_writeJSON 200 [(''status'', JStr ''paused'')]" and n: "nd' = set_state inst ''paused'' nd"
    using assms(8) assms(1,3) by (simp_all add: node_dispatches(2) [OF assms(5,4)] handlePause_def get_or_empty_def)
  have g: "orch_Get (nd_orch nd') i = Some (inst\<lparr>vi_State := ''paused''\<rparr>)"
    using assms(2) by (simp add: n set_state_def orch_Get_def store_Get_def store_Put_def)
  moreover have "backend (nd_orch nd') = backend (nd_orch nd)" by (simp add: n set_state_def)
  moreover have "status (fst (node_Handler rt cl uuid now x nd')) = 409 \<and> snd (node_Handler rt cl uuid now x nd') = nd'"
    using g by (simp add: node_dispatches(4) [OF assms(6,4)] handleExec_def proxyToAgent_def get_or_empty_def node_writeErr_def)
  moreover have "node_Handler rt cl uuid now q nd' = (node_writeJSON 200 [(''status'', JStr ''running'')], nd)"
    using g set_state_back [OF assms(1,2,3), of "''paused''"]
    by (simp add: node_dispatches(3) [OF assms(7,4)] handleResume_def get_or_empty_def n)
  ultimately show ?thesis by (simp add: r node_writeJSON_def)
qed

definition sb_rq :: "string \<Rightarrow> request" where
  "sb_rq verb = empty_request\<lparr>rq_method := ''POST'', rq_path := ''/sandboxes/sb-0a1b2c3d/'' @ verb\<rparr>"

definition plain_verb :: "string \<Rightarrow> bool" where
  "plain_verb v \<longleftrightarrow> v \<in> {''pause'', ''resume'', ''exec''}"

lemma sb_rq_path: "plain_verb v \<Longrightarrow> on_path ''POST'' [''sandboxes'', ''sb-0a1b2c3d'', v] (sb_rq v)"
  by (auto simp: on_path_def sb_rq_def path_segments_def plain_verb_def)

lemma busy_node_Get:
  obtains inst where "orch_Get (nd_orch (busy_node r)) ''sb-0a1b2c3d'' = Some inst" "vi_ID inst = ''sb-0a1b2c3d''"
    "vi_State inst = ''running''" "vi_AgentURL inst = ''''" "store (nd_orch (busy_node r)) = [(''sb-0a1b2c3d'', inst)]"
  by (simp add: busy_node Create_def check_capacity_def CreateAdmitted_def idle_runtime_def NewOrch_def NewVMStore_def sandbox_id_def
      orch_Get_def store_Get_def store_Count_def store_Put_def small_config_def DefaultOrchestratorConfig_def
      plain_request_def Let_def)

lemma node_pause_only_relabels_witness:
  "\<exists>nd'. snd (node_Handler idle_runtime no_client '''' 0 (sb_rq ''pause'') (busy_node ())) = nd'
    \<and> status (fst (node_Handler idle_runtime no_client '''' 0 (sb_rq ''exec'') nd')) = 409
    \<and> snd (node_Handler idle_runtime no_client '''' 0 (sb_rq ''resume'') nd') = busy_node ()"
proof -
  obtain inst where i: "orch_Get (nd_orch (busy_node ())) ''sb-0a1b2c3d'' = Some inst" "vi_ID inst = ''sb-0a1b2c3d''"
    "vi_State inst = ''running''" by (rule busy_node_Get [of "()"])
  obtain resp nd' where p: "node_Handler idle_runtime no_client '''' 0 (sb_rq ''pause'') (busy_node ()) = (resp, nd')"
    by (metis surj_pair)
  show ?thesis
    using node_pause_only_relabels [OF i _ sb_rq_path sb_rq_path sb_rq_path p] p by (simp add: plain_verb_def)
qed

text \<open>
  C17. A command for a sandbox reaches the agent exactly when the sandbox exists and is running:
  then one request goes out, to the agent's address with the query and body of the request, and
  the answer is the agent's, or 502 when the agent cannot be reached. Otherwise nothing is sent
  and the answer is 404 or 409. The store never changes.
\<close>
theorem exec_reaches_running_agent:
  assumes "on_path ''POST'' [''sandboxes'', i, ''exec''] rq" and "i \<noteq> ''''"
    and "node_Handler rt (recording cl) uuid now rq nd = (resp, nd')"
  shows "store (nd_orch nd') = store (nd_orch nd)
    \<and> (case orch_Get (nd_orch nd) i of
         None \<Rightarrow> status resp = 404 \<and> nd' = nd
       | Some inst \<Rightarrow>
           if vi_State inst = ''running'' then
             (\<exists>q r1 res. q = \<lparr>oq_method = ''POST'', oq_url = with_query (vi_AgentURL inst @ ''/exec'') (rq_query rq),
                oq_headers = [(''Content-Type'', get_or_empty (rq_header rq) ''Content-Type'')], oq_body = BRaw (rq_raw rq)\<rparr>
              \<and> cl q (fst (backend (nd_orch nd))) = (res, r1)
              \<and> backend (nd_orch nd') = (r1, q # snd (backend (nd_orch nd)))
              \<and> (case res of Inl e \<Rightarrow> status resp = 502
                   | Inr a \<Rightarrow> status resp = status a \<and> rbody resp = rbody a))
           else status resp = 409 \<and> nd' = nd)"
proof (cases "orch_Get (nd_orch nd) i")
  case None
  with assms(3) show ?thesis
    by (auto simp: node_dispatches(4) [OF assms(1,2)] handleExec_def proxyToAgent_def get_or_empty_def node_writeErr_def)
next
  case (Some inst)
  let ?q = "\<lparr>oq_method = ''POST'', oq_url = with_query (vi_AgentURL inst @ ''/exec'') (rq_query rq),
      oq_headers = [(''Content-Type'', get_or_empty (rq_header rq) ''Content-Type'')], oq_body = BRaw (rq_raw rq)\<rparr>"
  obtain res r1 where c: "cl ?q (fst (backend (nd_orch nd))) = (res, r1)" by (metis surj_pair)
  have r: "recording cl ?q (backend (nd_orch nd)) = (res, (r1, ?q # snd (backend (nd_orch nd))))"
    by (simp add: recording_def c)
  show ?thesis
  proof (cases "vi_State inst = ''running''")
    case True
    have "proxyToAgent (recording cl) ''POST'' ''/exec'' (rq\<lparr>rq_vars := [(''id'', i)]\<rparr>) nd = (resp, nd')"
      using assms(3) by (simp only: node_dispatches(4) [OF assms(1,2)] handleExec_def)
    then have "store (nd_orch nd') = store (nd_orch nd) \<and> backend (nd_orch nd') = (r1, ?q # snd (backend (nd_orch nd)))
        \<and> (case res of Inl e \<Rightarrow> status resp = 502 | Inr a \<Rightarrow> status resp = status a \<and> rbody resp = rbody a)"
      using Some True by (cases res) (auto simp: proxyToAgent_def get_or_empty_def [of "[(''id'', i)]"] r node_writeErr_def)
    with c Some True show ?thesis by auto
  next
    case False
    with Some assms(3) show ?thesis
      by (auto simp: node_dispatches(4) [OF assms(1,2)] handleExec_def proxyToAgent_def get_or_empty_def node_writeErr_def)
  qed
qed

definition ok_client :: "'r http_client" where
  "ok_client q r = (Inr \<lparr>status = 200, rheaders = [], rbody = BEmpty\<rparr>, r)"

lemma exec_reaches_running_agent_witness:
  "\<exists>resp nd' q. node_Handler idle_runtime (recording ok_client) '''' 0 (sb_rq ''exec'')
       (busy_node ((), [])) = (resp, nd') \<and> status resp = 200 \<and> backend (nd_orch nd') = ((), [q])
     \<and> oq_url q = ''/exec''"
proof -
  let ?nd = "busy_node ((), [] :: out_request list)"
  obtain resp nd' where x: "node_Handler idle_runtime (recording ok_client) '''' 0 (sb_rq ''exec'') ?nd = (resp, nd')"
    by (metis surj_pair)
  obtain inst where i: "orch_Get (nd_orch ?nd) ''sb-0a1b2c3d'' = Some inst" "vi_State inst = ''running''"
    "vi_AgentURL inst = ''''" by (rule busy_node_Get [of "((), [] :: out_request list)"])
  have b: "backend (nd_orch ?nd) = ((), [])"
    by (simp add: busy_node Create_def check_capacity_def CreateAdmitted_def idle_runtime_def NewOrch_def store_Count_def NewVMStore_def
        small_config_def DefaultOrchestratorConfig_def plain_request_def Let_def)
  have p: "on_path ''POST'' [''sandboxes'', ''sb-0a1b2c3d'', ''exec''] (sb_rq ''exec'')"
    by (rule sb_rq_path) (simp add: plain_verb_def)
  have q: "rq_query (sb_rq ''exec'') = ''''" by (simp add: sb_rq_def empty_request_def)
  from exec_reaches_running_agent [OF p _ x] i b q
  have "status resp = 200 \<and> (\<exists>q. backend (nd_orch nd') = ((), [q]) \<and> oq_url q = ''/exec'')"
    by (auto simp: ok_client_def with_query_def)
  with x show ?thesis by blast
qed

text \<open>
  C33. A node talks to its control plane exactly as its registration went: when it was accepted
  (with a status below 400 and a node identifier), every tick sends one heartbeat, to that
  identifier's URL and with the node key; otherwise, because the registration is never repeated,
  no heartbeat is ever sent.
\<close>
theorem heartbeats_follow_registration:
  assumes "nd_id nd = ''''" and "nc_ControlPlaneURL (nd_config nd) \<noteq> ''''"
    and "cl (register_request (nd_config nd)) (fst (backend (nd_orch nd))) = (res, r1)"
    and "nd_id' = (case res of Inl e \<Rightarrow> '''' | Inr resp \<Rightarrow>
           if status resp \<ge> 400 then '''' else result_string ''nodeId'' (rbody resp))"
    and "nd' = heartbeatLoop (recording cl) n (node_Start (recording cl) nd)"
  shows "nd_id nd' = nd_id' \<and> store (nd_orch nd') = store (nd_orch nd)
    \<and> snd (backend (nd_orch nd')) =
        (if nd_id' = '''' then [] else replicate n (heartbeat_request (nd\<lparr>nd_id := nd_id'\<rparr>)))
        @ register_request (nd_config nd) # snd (backend (nd_orch nd))"
proof -
  let ?nd1 = "node_Start (recording cl) nd"
  have s: "nd_id ?nd1 = nd_id'" "nd_config ?nd1 = nd_config nd" "store (nd_orch ?nd1) = store (nd_orch nd)"
    "snd (backend (nd_orch ?nd1)) = register_request (nd_config nd) # snd (backend (nd_orch nd))"
    using assms(1-3) by (auto simp: assms(4) node_Start_def register_def recording_eq Let_def split: sum.splits)
  have loop: "nd_id (heartbeatLoop (recording cl) n m) = nd_id m
      \<and> store (nd_orch (heartbeatLoop (recording cl) n m)) = store (nd_orch m)
      \<and> snd (backend (nd_orch (heartbeatLoop (recording cl) n m)))
        = (if nd_id m = '''' then [] else replicate n (heartbeat_request m)) @ snd (backend (nd_orch m))" for m
  proof (induction n arbitrary: m)
    case (Suc n)
    have "heartbeat_request (sendHeartbeat (recording cl) m) = heartbeat_request m"
      "nd_id (sendHeartbeat (recording cl) m) = nd_id m"
      "store (nd_orch (sendHeartbeat (recording cl) m)) = store (nd_orch m)"
      "snd (backend (nd_orch (sendHeartbeat (recording cl) m)))
        = (if nd_id m = '''' then [] else [heartbeat_request m]) @ snd (backend (nd_orch m))"
      by (simp_all add: heartbeat_request_def sendHeartbeat_def orch_List_def recording_eq)
    with Suc [of "sendHeartbeat (recording cl) m"] show ?case
      by (simp add: replicate_app_Cons_same)
  qed simp
  have "heartbeat_request ?nd1 = heartbeat_request (nd\<lparr>nd_id := nd_id'\<rparr>)"
    using s by (simp add: heartbeat_request_def orch_List_def)
  then show ?thesis using loop [of ?nd1] s by (simp add: assms(5))
qed

lemma heartbeats_follow_registration_witness:
  "\<exists>nd'. nd' = heartbeatLoop (recording no_client) 7 (node_Start (recording no_client) (demo_node ''http://cp'' ((), [])))
     \<and> nd_id nd' = '''' \<and> length (snd (backend (nd_orch nd'))) = 1"
proof -
  let ?nd = "demo_node ''http://cp'' ((), [] :: out_request list)"
  have i: "nd_id ?nd = ''''" "nc_ControlPlaneURL (nd_config ?nd) \<noteq> ''''" "snd (backend (nd_orch ?nd)) = []"
    by (simp_all add: demo_node_def NewNodeServer_def NewOrch_def)
  have c: "no_client (register_request (nd_config ?nd)) (fst (backend (nd_orch ?nd))) = (Inl ''refused'', fst (backend (nd_orch ?nd)))"
    by (simp add: no_client_def)
  from heartbeats_follow_registration [of ?nd no_client, OF i(1,2) c, of "''''" _ 7] i show ?thesis by simp
qed

end
