(* ===== verification/ControlPlane_DB.thy ===== *)
theory ControlPlane_DB
  imports Go_Http
begin

text \<open>
  The control plane's domain types (\<open>types.go\<close>) and its database (\<open>db.go\<close>): the five tables of the
  schema as lists of rows in insertion order, and one definition per statement. A time is stored
  as RFC 3339 text, so a row keeps it in whole seconds (\<open>stored_time\<close>). Rows with equal keys of
  an ORDER BY come in insertion order here; SQLite leaves their order open. A statement fails on a
  constraint of the schema, or, with \<open>down\<close>, because the database does not answer; foreign keys are
  not enforced, which is SQLite's default. \<open>CloudPool.Runtime\<close> has no column.
\<close>

section \<open>Types\<close>

record cp_node =
  n_ID :: string
  n_Name :: string
  n_Address :: string
  n_PublicIP :: string
  n_Provider :: string
  n_ProviderID :: string
  n_Region :: string
  n_InstanceType :: string
  n_Status :: string
  n_MaxSandboxes :: int
  n_Running :: int
  n_LastSeen :: time
  n_CreatedAt :: time

record cp_sandbox =
  s_ID :: string
  s_ProjectID :: string
  s_NodeID :: string
  s_Template :: string
  s_Status :: string
  s_VCPUs :: int
  s_MemoryMB :: int
  s_HostIP :: string
  s_TimeoutSec :: int
  s_Metadata :: "(string, string) gomap"
  s_CreatedAt :: time
  s_ExpiresAt :: time

record project =
  p_ID :: string
  p_Name :: string
  p_APIKey :: string
  p_OwnerID :: string
  p_CreatedAt :: time

record user =
  u_ID :: string
  u_Email :: string
  u_PasswordHash :: string
  u_CreatedAt :: time

record cloud_pool =
  cp_ID :: string
  cp_Name :: string
  cp_Provider :: string
  cp_Region :: string
  cp_InstanceType :: string
  cp_Runtime :: string
  cp_MinNodes :: int
  cp_MaxNodes :: int
  cp_CurrentNodes :: int

record db =
  t_users :: "user list"
  t_projects :: "project list"
  t_nodes :: "cp_node list"
  t_sandboxes :: "cp_sandbox list"
  t_pools :: "cloud_pool list"
  down :: "string option"

datatype db_error = NoRows | DBFailure string

fun db_message :: "db_error \<Rightarrow> string" where
  "db_message NoRows = ''sql: no rows in result set''"
| "db_message (DBFailure e) = e"

text \<open>A new database file. An existing one is any state its statements have left.\<close>

definition OpenDB :: db where
  "OpenDB = \<lparr>t_users = [], t_projects = [], t_nodes = [], t_sandboxes = [], t_pools = [], down = None\<rparr>"

text \<open>One statement that reads, and one that writes: either fails when the database does not answer.\<close>

definition db_query :: "db \<Rightarrow> 'a \<Rightarrow> db_error + 'a" where
  "db_query db x = (case down db of Some e \<Rightarrow> Inl (DBFailure e) | None \<Rightarrow> Inr x)"

definition db_row :: "db \<Rightarrow> 'a option \<Rightarrow> db_error + 'a" where
  "db_row db r =
     (case down db of Some e \<Rightarrow> Inl (DBFailure e)
      | None \<Rightarrow> (case r of None \<Rightarrow> Inl NoRows | Some x \<Rightarrow> Inr x))"

definition db_exec :: "db \<Rightarrow> string option \<times> db \<Rightarrow> string option \<times> db" where
  "db_exec db r = (case down db of Some e \<Rightarrow> (Some e, db) | None \<Rightarrow> r)"

definition unique_failed :: "string \<Rightarrow> string option" where
  "unique_failed col = Some (''constraint failed: UNIQUE constraint failed: '' @ col)"

definition stored_time :: "time \<Rightarrow> time" where
  "stored_time t = parse_rfc3339 (rfc3339 t)"

section \<open>Users and projects\<close>

definition CreateUser :: "string \<Rightarrow> string \<Rightarrow> string \<Rightarrow> time \<Rightarrow> db \<Rightarrow> string option \<times> db" where
  "CreateUser i email passwordHash now db = db_exec db
     (if \<exists>u \<in> set (t_users db). u_ID u = i then (unique_failed ''users.id'', db)
      else if \<exists>u \<in> set (t_users db). u_Email u = email then (unique_failed ''users.email'', db)
      else (None, db\<lparr>t_users := t_users db @
              [\<lparr>u_ID = i, u_Email = email, u_PasswordHash = passwordHash, u_CreatedAt = stored_time now\<rparr>]\<rparr>))"

definition GetUserByEmail :: "string \<Rightarrow> db \<Rightarrow> db_error + user" where
  "GetUserByEmail email db = db_row db (find (\<lambda>u. u_Email u = email) (t_users db))"

definition GetUser :: "string \<Rightarrow> db \<Rightarrow> db_error + user" where
  "GetUser i db = db_row db (find (\<lambda>u. u_ID u = i) (t_users db))"

text \<open>The generated key is returned also when the insertion failed.\<close>

definition CreateProject ::
  "string \<Rightarrow> string \<Rightarrow> string \<Rightarrow> string \<Rightarrow> time \<Rightarrow> db \<Rightarrow> (string \<times> string option) \<times> db" where
  "CreateProject apiKey i name ownerID now db =
     (let (err, db1) = db_exec db
        (if \<exists>p \<in> set (t_projects db). p_ID p = i then (unique_failed ''projects.id'', db)
         else if \<exists>p \<in> set (t_projects db). p_APIKey p = apiKey then (unique_failed ''projects.api_key'', db)
         else (None, db\<lparr>t_projects := t_projects db @
                 [\<lparr>p_ID = i, p_Name = name, p_APIKey = apiKey, p_OwnerID = ownerID, p_CreatedAt = stored_time now\<rparr>]\<rparr>))
      in ((apiKey, err), db1))"

definition GetProjectByAPIKey :: "string \<Rightarrow> db \<Rightarrow> db_error + project" where
  "GetProjectByAPIKey apiKey db = db_row db (find (\<lambda>p. p_APIKey p = apiKey) (t_projects db))"

definition ListProjects :: "string \<Rightarrow> db \<Rightarrow> db_error + project list" where
  "ListProjects ownerID db = db_query db (filter (\<lambda>p. p_OwnerID p = ownerID) (t_projects db))"

section \<open>Nodes\<close>

text \<open>\<open>ON CONFLICT(id) DO UPDATE\<close>: only four columns of an existing row change.\<close>

definition UpsertNode :: "cp_node \<Rightarrow> db \<Rightarrow> string option \<times> db" where
  "UpsertNode n db = db_exec db
     (None, db\<lparr>t_nodes :=
        (if \<exists>m \<in> set (t_nodes db). n_ID m = n_ID n
         then map (\<lambda>m. if n_ID m = n_ID n
                  then m\<lparr>n_Address := n_Address n, n_Status := n_Status n, n_Running := n_Running n,
                         n_LastSeen := stored_time (n_LastSeen n)\<rparr> else m) (t_nodes db)
         else t_nodes db @ [n\<lparr>n_LastSeen := stored_time (n_LastSeen n), n_CreatedAt := stored_time (n_CreatedAt n)\<rparr>])\<rparr>)"

definition GetNode :: "string \<Rightarrow> db \<Rightarrow> db_error + cp_node" where
  "GetNode i db = db_row db (find (\<lambda>n. n_ID n = i) (t_nodes db))"

definition ListNodes :: "db \<Rightarrow> db_error + cp_node list" where
  "ListNodes db = db_query db (sort_key (\<lambda>n. - n_CreatedAt n) (t_nodes db))"

definition ListOnlineNodes :: "db \<Rightarrow> db_error + cp_node list" where
  "ListOnlineNodes db = db_query db (sort_key n_Running (filter (\<lambda>n. n_Status n = ''online'') (t_nodes db)))"

definition UpdateNodeStatus :: "string \<Rightarrow> string \<Rightarrow> db \<Rightarrow> string option \<times> db" where
  "UpdateNodeStatus i st db = db_exec db
     (None, db\<lparr>t_nodes := map (\<lambda>n. if n_ID n = i then n\<lparr>n_Status := st\<rparr> else n) (t_nodes db)\<rparr>)"

definition UpdateNodeHeartbeat :: "string \<Rightarrow> int \<Rightarrow> time \<Rightarrow> db \<Rightarrow> string option \<times> db" where
  "UpdateNodeHeartbeat i running now db = db_exec db
     (None, db\<lparr>t_nodes := map (\<lambda>n. if n_ID n = i
        then n\<lparr>n_Running := running, n_LastSeen := stored_time now, n_Status := ''online''\<rparr> else n) (t_nodes db)\<rparr>)"

definition DeleteNode :: "string \<Rightarrow> db \<Rightarrow> string option \<times> db" where
  "DeleteNode i db = db_exec db (None, db\<lparr>t_nodes := filter (\<lambda>n. n_ID n \<noteq> i) (t_nodes db)\<rparr>)"

section \<open>Sandboxes\<close>

text \<open>The metadata column is written as \<open>'{}'\<close> and never read.\<close>

definition CreateSandbox :: "cp_sandbox \<Rightarrow> db \<Rightarrow> string option \<times> db" where
  "CreateSandbox s db = db_exec db
     (if \<exists>t \<in> set (t_sandboxes db). s_ID t = s_ID s then (unique_failed ''sandboxes.id'', db)
      else (None, db\<lparr>t_sandboxes := t_sandboxes db @
              [s\<lparr>s_Metadata := [], s_CreatedAt := stored_time (s_CreatedAt s), s_ExpiresAt := stored_time (s_ExpiresAt s)\<rparr>]\<rparr>))"

definition GetSandbox :: "string \<Rightarrow> db \<Rightarrow> db_error + cp_sandbox" where
  "GetSandbox i db = db_row db (find (\<lambda>s. s_ID s = i) (t_sandboxes db))"

definition ListSandboxes :: "string \<Rightarrow> db \<Rightarrow> db_error + cp_sandbox list" where
  "ListSandboxes projectID db =
     db_query db (sort_key (\<lambda>s. - s_CreatedAt s) (filter (\<lambda>s. s_ProjectID s = projectID) (t_sandboxes db)))"

definition ListAllSandboxes :: "db \<Rightarrow> db_error + cp_sandbox list" where
  "ListAllSandboxes db = db_query db (sort_key (\<lambda>s. - s_CreatedAt s) (t_sandboxes db))"

definition UpdateSandboxStatus :: "string \<Rightarrow> string \<Rightarrow> db \<Rightarrow> string option \<times> db" where
  "UpdateSandboxStatus i st db = db_exec db
     (None, db\<lparr>t_sandboxes := map (\<lambda>s. if s_ID s = i then s\<lparr>s_Status := st\<rparr> else s) (t_sandboxes db)\<rparr>)"

definition db_DeleteSandbox :: "string \<Rightarrow> db \<Rightarrow> string option \<times> db" where
  "db_DeleteSandbox i db = db_exec db (None, db\<lparr>t_sandboxes := filter (\<lambda>s. s_ID s \<noteq> i) (t_sandboxes db)\<rparr>)"

section \<open>Cloud pools\<close>

definition UpsertCloudPool :: "cloud_pool \<Rightarrow> db \<Rightarrow> string option \<times> db" where
  "UpsertCloudPool p db = db_exec db
     (None, db\<lparr>t_pools :=
        (if \<exists>q \<in> set (t_pools db). cp_ID q = cp_ID p
         then map (\<lambda>q. if cp_ID q = cp_ID p
                  then q\<lparr>cp_MinNodes := cp_MinNodes p, cp_MaxNodes := cp_MaxNodes p, cp_CurrentNodes := cp_CurrentNodes p\<rparr>
                  else q) (t_pools db)
         else t_pools db @ [p\<lparr>cp_Runtime := ''''\<rparr>])\<rparr>)"

definition ListCloudPools :: "db \<Rightarrow> db_error + cloud_pool list" where
  "ListCloudPools db = db_query db (t_pools db)"

text \<open>The sums are taken to fit 64 bits; SQLite's \<open>SUM\<close> fails beyond.\<close>

definition TotalCapacity :: "db \<Rightarrow> db_error + int \<times> int" where
  "TotalCapacity db =
     (let online = filter (\<lambda>n. n_Status n = ''online'') (t_nodes db)
      in db_query db (sum_list (map n_MaxSandboxes online), sum_list (map n_Running online)))"

definition generateAPIKey :: "string \<Rightarrow> string" where
  "generateAPIKey hex = ''gvm_'' @ hex"

section \<open>Keys\<close>

text \<open>The primary keys and the unique columns of the schema.\<close>

definition db_ok :: "db \<Rightarrow> bool" where
  "db_ok db \<longleftrightarrow> distinct (map u_ID (t_users db)) \<and> distinct (map u_Email (t_users db))
     \<and> distinct (map p_ID (t_projects db)) \<and> distinct (map p_APIKey (t_projects db))
     \<and> distinct (map n_ID (t_nodes db)) \<and> distinct (map s_ID (t_sandboxes db)) \<and> distinct (map cp_ID (t_pools db))"

named_theorems keys_kept \<open>statements keep the keys unique\<close>

lemma db_exec_cases:
  obtains (down) e where "down db = Some e" "db_exec db r = (Some e, db)"
  | (up) "down db = None" "db_exec db r = r"
  by (cases "down db") (auto simp: db_exec_def)

lemma db_exec_ok: "db_ok db \<Longrightarrow> db_ok (snd r) \<Longrightarrow> db_ok (snd (db_exec db r))"
  by (cases rule: db_exec_cases [of db r]) auto

lemma map_if_key: "(\<And>x. k (f x) = k x) \<Longrightarrow> k \<circ> (\<lambda>x. if P x then f x else x) = k"
  by (auto simp: fun_eq_iff)

lemma distinct_filter_key: "distinct (map k xs) \<Longrightarrow> distinct (map k (filter P xs))"
  by (rule distinct_map_filter)

lemma CreateUser_ok [keys_kept]: "db_ok db \<Longrightarrow> db_ok (snd (CreateUser i email hash now db))"
  unfolding CreateUser_def by (rule db_exec_ok) (auto simp: db_ok_def)

lemma CreateProject_ok [keys_kept]: "db_ok db \<Longrightarrow> db_ok (snd (CreateProject key i name own now db))"
proof -
  assume "db_ok db"
  then have "db_ok (snd (db_exec db
        (if \<exists>p \<in> set (t_projects db). p_ID p = i then (unique_failed ''projects.id'', db)
         else if \<exists>p \<in> set (t_projects db). p_APIKey p = key then (unique_failed ''projects.api_key'', db)
         else (None, db\<lparr>t_projects := t_projects db @
                 [\<lparr>p_ID = i, p_Name = name, p_APIKey = key, p_OwnerID = own, p_CreatedAt = stored_time now\<rparr>]\<rparr>))))"
    by (rule db_exec_ok) (use \<open>db_ok db\<close> in \<open>auto simp: db_ok_def\<close>)
  then show ?thesis unfolding CreateProject_def Let_def case_prod_unfold by simp
qed

lemma node_statements_ok [keys_kept]:
  assumes "db_ok db"
  shows "db_ok (snd (UpsertNode n db))" "db_ok (snd (UpdateNodeStatus i st db))"
    "db_ok (snd (UpdateNodeHeartbeat i r now db))" "db_ok (snd (DeleteNode i db))"
  unfolding UpsertNode_def UpdateNodeStatus_def UpdateNodeHeartbeat_def DeleteNode_def
  by (rule db_exec_ok [OF assms]; use assms in \<open>auto simp: db_ok_def map_if_key distinct_filter_key\<close>)+

lemma sandbox_statements_ok [keys_kept]:
  assumes "db_ok db"
  shows "db_ok (snd (CreateSandbox s db))" "db_ok (snd (UpdateSandboxStatus i st db))" "db_ok (snd (db_DeleteSandbox i db))"
  unfolding CreateSandbox_def UpdateSandboxStatus_def db_DeleteSandbox_def
  by (rule db_exec_ok [OF assms]; use assms in \<open>auto simp: db_ok_def map_if_key distinct_filter_key\<close>)+

lemma UpsertCloudPool_ok [keys_kept]: "db_ok db \<Longrightarrow> db_ok (snd (UpsertCloudPool p db))"
  unfolding UpsertCloudPool_def
  by (rule db_exec_ok) (auto simp: db_ok_def map_if_key)

lemma OpenDB_ok: "db_ok OpenDB"
  by (simp add: OpenDB_def db_ok_def)

section \<open>Statements\<close>

text \<open>The statements that write, as data, so that a run of the database is a list.\<close>

datatype statement =
    SCreateUser string string string time
  | SCreateProject string string string string time
  | SUpsertNode cp_node
  | SUpdateNodeStatus string string
  | SUpdateNodeHeartbeat string int time
  | SDeleteNode string
  | SCreateSandbox cp_sandbox
  | SUpdateSandboxStatus string string
  | SDeleteSandbox string
  | SUpsertCloudPool cloud_pool

fun db_run :: "statement \<Rightarrow> db \<Rightarrow> db" where
  "db_run (SCreateUser i e h t) db = snd (CreateUser i e h t db)"
| "db_run (SCreateProject k i n own t) db = snd (CreateProject k i n own t db)"
| "db_run (SUpsertNode n) db = snd (UpsertNode n db)"
| "db_run (SUpdateNodeStatus i st) db = snd (UpdateNodeStatus i st db)"
| "db_run (SUpdateNodeHeartbeat i r t) db = snd (UpdateNodeHeartbeat i r t db)"
| "db_run (SDeleteNode i) db = snd (DeleteNode i db)"
| "db_run (SCreateSandbox s) db = snd (CreateSandbox s db)"
| "db_run (SUpdateSandboxStatus i st) db = snd (UpdateSandboxStatus i st db)"
| "db_run (SDeleteSandbox i) db = snd (db_DeleteSandbox i db)"
| "db_run (SUpsertCloudPool p) db = snd (UpsertCloudPool p db)"

lemma db_run_ok: "db_ok db \<Longrightarrow> db_ok (db_run st db)"
  by (cases st) (simp_all add: keys_kept)

lemma db_runs_ok: "db_ok db \<Longrightarrow> db_ok (fold db_run sts db)"
  by (induction sts arbitrary: db) (simp_all add: db_run_ok)

lemma distinct_index_eq:
  assumes "distinct (map k xs)" and "x \<in> set xs" and "y \<in> set xs" and "k x = k y"
  shows "x = y"
  using assms by (metis distinct_map inj_onD)

lemma db_row_Inr: "db_row db r = Inr x \<longleftrightarrow> down db = None \<and> r = Some x"
  by (auto simp: db_row_def split: option.splits)

lemma find_key_iff:
  assumes "distinct (map k xs)"
  shows "find (\<lambda>x. k x = i) xs = Some y \<longleftrightarrow> y \<in> set xs \<and> k y = i"
proof
  assume "find (\<lambda>x. k x = i) xs = Some y"
  then show "y \<in> set xs \<and> k y = i" by (auto simp: find_Some_iff)
next
  assume y: "y \<in> set xs \<and> k y = i"
  then have "find (\<lambda>x. k x = i) xs \<noteq> None" by (auto simp: find_None_iff)
  then obtain z where z: "find (\<lambda>x. k x = i) xs = Some z" by blast
  then have "z \<in> set xs" "k z = i" by (auto simp: find_Some_iff)
  with y distinct_index_eq [OF assms, of z y] z show "find (\<lambda>x. k x = i) xs = Some y" by simp
qed

text \<open>
  C30. Whatever statements ran on a fresh database, in any order and with any failures, the keys of
  the schema are unique, so each lookup by key finds the one row that has it, if there is one.
\<close>
theorem lookups_are_unique:
  assumes "db = fold db_run sts OpenDB" and "down db = None"
  shows "(GetUser i db = Inr u \<longleftrightarrow> u \<in> set (t_users db) \<and> u_ID u = i)
    \<and> (GetUserByEmail e db = Inr u \<longleftrightarrow> u \<in> set (t_users db) \<and> u_Email u = e)
    \<and> (GetProjectByAPIKey k db = Inr p \<longleftrightarrow> p \<in> set (t_projects db) \<and> p_APIKey p = k)
    \<and> (GetNode i db = Inr n \<longleftrightarrow> n \<in> set (t_nodes db) \<and> n_ID n = i)
    \<and> (GetSandbox i db = Inr s \<longleftrightarrow> s \<in> set (t_sandboxes db) \<and> s_ID s = i)"
proof -
  have "db_ok db" unfolding assms(1) by (rule db_runs_ok [OF OpenDB_ok])
  then show ?thesis
    by (simp add: db_ok_def GetUser_def GetUserByEmail_def GetProjectByAPIKey_def GetNode_def GetSandbox_def
        db_row_Inr assms(2) find_key_iff)
qed

definition demo_cp_node :: "string \<Rightarrow> cp_node" where
  "demo_cp_node i = \<lparr>n_ID = i, n_Name = ''node-1'', n_Address = ''http://1.2.3.4:9090'', n_PublicIP = ''1.2.3.4'',
     n_Provider = ''custom'', n_ProviderID = '''', n_Region = '''', n_InstanceType = '''', n_Status = ''online'',
     n_MaxSandboxes = 50, n_Running = 3, n_LastSeen = 7 * second + 5, n_CreatedAt = 7 * second + 5\<rparr>"

lemma lookups_are_unique_witness:
  "\<exists>n. GetNode ''n1'' (fold db_run [SUpsertNode (demo_cp_node ''n1''), SUpdateNodeStatus ''n1'' ''draining''] OpenDB) = Inr n
     \<and> n_Status n = ''draining'' \<and> n \<in> set (t_nodes (fold db_run [SUpsertNode (demo_cp_node ''n1''), SUpdateNodeStatus ''n1'' ''draining''] OpenDB))"
proof -
  let ?sts = "[SUpsertNode (demo_cp_node ''n1''), SUpdateNodeStatus ''n1'' ''draining'']"
  have d: "down (fold db_run ?sts OpenDB) = None"
    by (simp add: UpsertNode_def UpdateNodeStatus_def db_exec_def OpenDB_def)
  obtain n where g: "GetNode ''n1'' (fold db_run ?sts OpenDB) = Inr n" "n_Status n = ''draining''"
    by (simp add: UpsertNode_def UpdateNodeStatus_def db_exec_def OpenDB_def GetNode_def db_row_def demo_cp_node_def)
  with lookups_are_unique [OF refl d, of "''n1''"] show ?thesis by blast
qed

lemma find_map_if:
  assumes "\<And>x. k (f x) = k x"
  shows "find (\<lambda>x. k x = i) (map (\<lambda>x. if k x = j then f x else x) xs)
    = map_option (\<lambda>x. if k x = j then f x else x) (find (\<lambda>x. k x = i) xs)"
  using assms by (induction xs) auto

lemma find_append: "find P (xs @ ys) = (case find P xs of None \<Rightarrow> find P ys | Some x \<Rightarrow> Some x)"
  by (induction xs) auto

lemma found: "find P xs = Some x \<Longrightarrow> P x \<and> x \<in> set xs"
  by (induction xs) (auto split: if_splits)

lemma GetNode_upserted:
  assumes "down db = None"
  shows "GetNode i (snd (UpsertNode n db)) =
     (if i \<noteq> n_ID n then GetNode i db
      else Inr (case GetNode i db of
        Inl _ \<Rightarrow> n\<lparr>n_LastSeen := stored_time (n_LastSeen n), n_CreatedAt := stored_time (n_CreatedAt n)\<rparr>
      | Inr m \<Rightarrow> m\<lparr>n_Address := n_Address n, n_Status := n_Status n, n_Running := n_Running n,
                   n_LastSeen := stored_time (n_LastSeen n)\<rparr>))"
proof -
  have get: "GetNode j d = (case find (\<lambda>n. n_ID n = j) (t_nodes d) of None \<Rightarrow> Inl NoRows | Some x \<Rightarrow> Inr x)"
    if "down d = None" for j d
    using that by (simp add: GetNode_def db_row_def)
  show ?thesis
  proof (cases "find (\<lambda>m. n_ID m = n_ID n) (t_nodes db)")
    case None
    then have "\<not> (\<exists>m \<in> set (t_nodes db). n_ID m = n_ID n)" by (simp add: find_None_iff)
    then have "t_nodes (snd (UpsertNode n db)) = t_nodes db @
        [n\<lparr>n_LastSeen := stored_time (n_LastSeen n), n_CreatedAt := stored_time (n_CreatedAt n)\<rparr>]"
      "down (snd (UpsertNode n db)) = None"
      using assms by (simp_all add: UpsertNode_def db_exec_def)
    then show ?thesis
      using None assms by (cases "i = n_ID n") (simp_all add: get find_append split: option.split)
  next
    case (Some m)
    let ?f = "\<lambda>m. m\<lparr>n_Address := n_Address n, n_Status := n_Status n, n_Running := n_Running n, n_LastSeen := stored_time (n_LastSeen n)\<rparr>"
    have m: "m \<in> set (t_nodes db)" "n_ID m = n_ID n" using found [OF Some] by simp_all
    then have "\<exists>m \<in> set (t_nodes db). n_ID m = n_ID n" by blast
    then have t: "t_nodes (snd (UpsertNode n db)) = map (\<lambda>m. if n_ID m = n_ID n then ?f m else m) (t_nodes db)"
      "down (snd (UpsertNode n db)) = None"
      using assms by (simp_all add: UpsertNode_def db_exec_def)
    have upd: "find (\<lambda>m. n_ID m = i) (map (\<lambda>m. if n_ID m = n_ID n then ?f m else m) (t_nodes db))
        = map_option (\<lambda>m. if n_ID m = n_ID n then ?f m else m) (find (\<lambda>m. n_ID m = i) (t_nodes db))"
      by (rule find_map_if) simp
    show ?thesis
    proof (cases "i = n_ID n")
      case True
      then show ?thesis using upd Some m(2) by (simp add: get [OF t(2)] get [OF assms] t(1))
    next
      case False
      have "map_option (\<lambda>m. if n_ID m = n_ID n then ?f m else m) (find (\<lambda>m. n_ID m = i) (t_nodes db))
          = find (\<lambda>m. n_ID m = i) (t_nodes db)"
        using found [of "\<lambda>m. n_ID m = i" "t_nodes db"] False
        by (cases "find (\<lambda>m. n_ID m = i) (t_nodes db)") auto
      then show ?thesis using upd False by (simp only: get [OF t(2)] get [OF assms] t(1)) simp
    qed
  qed
qed

text \<open>
  A node written to the database and read back: a new node comes back as it was, its times cut
  to whole seconds; of a node that exists only the address, the status, the number of running
  sandboxes and the time it was seen are replaced, and its name, provider, capacity and creation
  time stay. Other nodes are not touched.
\<close>
theorem UpsertNode_GetNode:
  assumes "UpsertNode n db = (e, db')" and "down db = None"
  shows "e = None
    \<and> (GetNode (n_ID n) db = Inl NoRows \<longrightarrow> (\<exists>m. GetNode (n_ID n) db' = Inr m
         \<and> m\<lparr>n_LastSeen := n_LastSeen n, n_CreatedAt := n_CreatedAt n\<rparr> = n
         \<and> n_LastSeen n - second < n_LastSeen m \<and> n_LastSeen m \<le> n_LastSeen n))
    \<and> (\<forall>m. GetNode (n_ID n) db = Inr m \<longrightarrow> (\<exists>m'. GetNode (n_ID n) db' = Inr m'
         \<and> n_Address m' = n_Address n \<and> n_Status m' = n_Status n \<and> n_Running m' = n_Running n
         \<and> n_Name m' = n_Name m \<and> n_Provider m' = n_Provider m \<and> n_ProviderID m' = n_ProviderID m
         \<and> n_MaxSandboxes m' = n_MaxSandboxes m \<and> n_CreatedAt m' = n_CreatedAt m))
    \<and> (\<forall>j. j \<noteq> n_ID n \<longrightarrow> GetNode j db' = GetNode j db)"
proof -
  have db': "db' = snd (UpsertNode n db)" and e: "e = None"
    using assms by (auto simp: UpsertNode_def db_exec_def)
  have t: "n_LastSeen n - second < stored_time (n_LastSeen n)" "stored_time (n_LastSeen n) \<le> n_LastSeen n"
    using rfc3339_roundtrip [of "n_LastSeen n"] by (simp_all add: stored_time_def)
  show ?thesis
  proof (intro conjI allI impI)
    show "e = None" by (rule e)
  next
    assume "GetNode (n_ID n) db = Inl NoRows"
    then show "\<exists>m. GetNode (n_ID n) db' = Inr m \<and> m\<lparr>n_LastSeen := n_LastSeen n, n_CreatedAt := n_CreatedAt n\<rparr> = n
         \<and> n_LastSeen n - second < n_LastSeen m \<and> n_LastSeen m \<le> n_LastSeen n"
      using t by (simp add: db' GetNode_upserted [OF assms(2)])
  next
    fix m assume "GetNode (n_ID n) db = Inr m"
    then show "\<exists>m'. GetNode (n_ID n) db' = Inr m'
         \<and> n_Address m' = n_Address n \<and> n_Status m' = n_Status n \<and> n_Running m' = n_Running n
         \<and> n_Name m' = n_Name m \<and> n_Provider m' = n_Provider m \<and> n_ProviderID m' = n_ProviderID m
         \<and> n_MaxSandboxes m' = n_MaxSandboxes m \<and> n_CreatedAt m' = n_CreatedAt m"
      by (simp add: db' GetNode_upserted [OF assms(2)])
  next
    fix j assume "j \<noteq> n_ID n"
    then show "GetNode j db' = GetNode j db" by (simp add: db' GetNode_upserted [OF assms(2)])
  qed
qed

lemma UpsertNode_GetNode_witness:
  "\<exists>db' m. UpsertNode ((demo_cp_node ''n1'')\<lparr>n_Name := ''other'', n_Status := ''offline''\<rparr>)
       (snd (UpsertNode (demo_cp_node ''n1'') OpenDB)) = (None, db')
     \<and> GetNode ''n1'' db' = Inr m \<and> n_Status m = ''offline'' \<and> n_Name m = ''node-1''"
proof -
  let ?n = "(demo_cp_node ''n1'')\<lparr>n_Name := ''other'', n_Status := ''offline''\<rparr>"
  let ?db = "snd (UpsertNode (demo_cp_node ''n1'') OpenDB)"
  obtain db' where u: "UpsertNode ?n ?db = (None, db')"
    by (simp add: UpsertNode_def db_exec_def OpenDB_def)
  have d: "down ?db = None" by (simp add: UpsertNode_def db_exec_def OpenDB_def)
  obtain m where "GetNode ''n1'' ?db = Inr m" "n_Name m = ''node-1''"
    by (simp add: UpsertNode_def db_exec_def OpenDB_def GetNode_def db_row_def demo_cp_node_def)
  with UpsertNode_GetNode [OF u d] u show ?thesis by (auto simp: demo_cp_node_def)
qed

end
