(* ===== verification/ControlPlane_Cloud.thy ===== *)
theory ControlPlane_Cloud
  imports Go_Http
begin

text \<open>
  The cloud side of the control plane: the provider interface, its registry and the start script of
  a node (\<open>cloud.go\<close>), and the three providers (\<open>cloud_aws.go\<close>, \<open>cloud_gcp.go\<close>, \<open>cloud_azure.go\<close>).
  A provider works through the command line of its cloud: \<open>cli\<close> runs a program with an environment
  (empty for the inherited one) and arguments and gives its error and the output collected;
  \<open>parse\<close> is the JSON parser applied to that output. The contract a caller relies on is the locale
  \<open>cloud_provider\<close>.
\<close>

type_synonym 'w cli = "string list \<Rightarrow> string list \<Rightarrow> 'w \<Rightarrow> (string option \<times> string) \<times> 'w"

section \<open>The provider interface\<close>

record provision_opts =
  po_Name :: string
  po_Region :: string
  po_InstanceType :: string
  po_Runtime :: string
  po_UserData :: string
  po_Tags :: "(string, string) gomap"

record provision_result =
  pr_ProviderID :: string
  pr_PublicIP :: string
  pr_PrivateIP :: string
  pr_Region :: string
  pr_InstanceType :: string

record 'w provider =
  pv_Name :: string
  pv_ProvisionNode :: "provision_opts \<Rightarrow> 'w \<Rightarrow> (string + provision_result) \<times> 'w"
  pv_TerminateNode :: "string \<Rightarrow> 'w \<Rightarrow> string option \<times> 'w"
  pv_ListNodes :: "'w \<Rightarrow> (string + provision_result list) \<times> 'w"

text \<open>A new machine has the requested type and region, and non-empty defaults otherwise.\<close>

locale cloud_provider =
  fixes pv :: "'w provider" and default_type :: "string \<Rightarrow> string" and default_region :: "'w \<Rightarrow> string"
  assumes provisioned: "pv_ProvisionNode pv opts w = (Inr res, w') \<Longrightarrow>
      pr_InstanceType res = (if po_InstanceType opts = '''' then default_type (po_Runtime opts) else po_InstanceType opts)
      \<and> pr_Region res = (if po_Region opts = '''' then default_region w else po_Region opts)"
    and default_type_nonempty: "default_type runtime \<noteq> ''''"
begin

lemma instance_type_nonempty: "pv_ProvisionNode pv opts w = (Inr res, w') \<Longrightarrow> pr_InstanceType res \<noteq> ''''"
  using provisioned [of opts w res w'] default_type_nonempty by (auto split: if_splits)

end

section \<open>The registry\<close>

type_synonym 'w registry = "(string, 'w provider) gomap"

definition NewCloudProviderRegistry :: "'w registry" where
  "NewCloudProviderRegistry = []"

definition reg_Register :: "'w provider \<Rightarrow> 'w registry \<Rightarrow> 'w registry" where
  "reg_Register p r = gm_put (pv_Name p) p r"

definition reg_Get :: "'w registry \<Rightarrow> string \<Rightarrow> string + 'w provider" where
  "reg_Get r name =
     (case gm_get r name of None \<Rightarrow> Inl (''cloud provider '' @ quote name @ '' not registered'') | Some p \<Rightarrow> Inr p)"

definition reg_List :: "'w registry \<Rightarrow> string list" where
  "reg_List r = map fst r"

section \<open>The start script of a node\<close>

definition script_lines :: "string list \<Rightarrow> string" where
  "script_lines ls = concat (map (\<lambda>l. l @ [CHR 0x0A]) ls)"

definition continued :: "string \<Rightarrow> string" where
  "continued l = l @ '' '' @ [CHR 0x5C]"

definition fc_setup :: string where
  "fc_setup = script_lines
     ['''', ''# Enable KVM'', ''modprobe kvm_intel || modprobe kvm_amd || true'', ''chmod 666 /dev/kvm'', '''',
      ''# Hugepages (allocate 60% of RAM)'',
      ''TOTAL_MEM_KB=$(grep MemTotal /proc/meminfo | awk '{print $2}')'',
      ''HUGEPAGES=$((TOTAL_MEM_KB * 60 / 100 / 2048))'', ''echo $HUGEPAGES > /proc/sys/vm/nr_hugepages'', '''',
      ''# System limits'', ''sysctl -w vm.max_map_count=1048576'', ''sysctl -w net.core.somaxconn=65535'',
      ''ulimit -n 1048576'']"

definition docker_setup :: string where
  "docker_setup = script_lines
     ['''', ''# Install Docker'', ''curl -fsSL https://get.docker.com | bash'',
      ''systemctl enable docker && systemctl start docker'']"

definition NodeUserData :: "string \<Rightarrow> string \<Rightarrow> string \<Rightarrow> string \<Rightarrow> string" where
  "NodeUserData controlPlaneURL nodeKey nodeName rt =
     (let runtime = (if rt = '''' then ''firecracker'' else rt);
          fcSetup = (if runtime = ''firecracker'' then fc_setup else '''');
          dockerSetup = (if runtime = ''docker'' then docker_setup else '''')
      in script_lines
           [''#!/bin/bash'', ''set -ex'', '''', fcSetup @ dockerSetup, '''',
            ''# Install Go 1.24 (apt has older version)'', ''apt-get update -y && apt-get install -y git curl'',
            ''curl -fsSL https://go.dev/dl/go1.24.1.linux-amd64.tar.gz | tar -C /usr/local -xzf -'',
            ''export PATH=/usr/local/go/bin:$PATH'', ''export GOPATH=/usr/local/gopath'',
            ''export PATH=$PATH:$GOPATH/bin'', '''',
            ''# Install gitvm from GitHub'',
            ''go install github.com/open-gitagent/gitvm/cmd/gitvm-node@latest'',
            ''go install github.com/open-gitagent/gitvm/cmd/gitvm@latest'', '''',
            ''# Start gitvm-node'',
            continued (''GITVM_RUNTIME='' @ runtime @ '' exec $GOPATH/bin/gitvm-node''),
            continued (''  --control-plane '' @ controlPlaneURL),
            continued (''  --node-key '' @ nodeKey),
            ''  --name '' @ nodeName])"

section \<open>AWS\<close>

text \<open>
  \<open>sync.Once\<close>: \<open>aws_once\<close> is \<open>None\<close> until the bootstrap ran, then its error. The provider changes
  while it works, so it is part of the state.
\<close>

record aws_provider =
  aws_AccessKeyID :: string
  aws_SecretAccessKey :: string
  aws_DefaultRegion :: string
  aws_SecurityGroupID :: string
  aws_SubnetID :: string
  aws_KeyName :: string
  aws_AMI :: string
  aws_once :: "string option option"

definition aws_env :: "aws_provider \<Rightarrow> string list" where
  "aws_env p = [''AWS_ACCESS_KEY_ID='' @ aws_AccessKeyID p, ''AWS_SECRET_ACCESS_KEY='' @ aws_SecretAccessKey p,
     ''AWS_DEFAULT_REGION='' @ aws_DefaultRegion p]"

definition dec_groups :: "json \<Rightarrow> string + string list" where
  "dec_groups j = bind_res (dec_object (Inr j)) (\<lambda>o1. bind_res (dec_objects ''SecurityGroups'' o1) (traverse (dec_string ''GroupId'')))"

definition authorize_port :: "'w cli \<Rightarrow> aws_provider \<Rightarrow> string \<Rightarrow> string \<Rightarrow> string \<Rightarrow> 'w \<Rightarrow> 'w" where
  "authorize_port cli p region groupID port w =
     snd (cli (aws_env p) [''aws'', ''ec2'', ''authorize-security-group-ingress'', ''--group-id'', groupID,
       ''--protocol'', ''tcp'', ''--port'', port, ''--cidr'', ''0.0.0.0/0'', ''--region'', region] w)"

definition ensureSecurityGroup ::
  "'w cli \<Rightarrow> (string \<Rightarrow> string + json) \<Rightarrow> aws_provider \<Rightarrow> string \<Rightarrow> 'w \<Rightarrow> (string + string) \<times> 'w" where
  "ensureSecurityGroup cli parse p region w =
     (let ((err, out), w1) = cli (aws_env p) [''aws'', ''ec2'', ''describe-security-groups'',
            ''--filters'', ''Name=group-name,Values=gitvm-node'', ''--region'', region, ''--output'', ''json''] w;
          found = (if err = None
                   then (case bind_res (parse out) dec_groups of Inr (g # gs) \<Rightarrow> Some g | _ \<Rightarrow> None)
                   else None)
      in case found of
           Some g \<Rightarrow> (Inr g, w1)
         | None \<Rightarrow>
             let ((err, out), w2) = cli (aws_env p) [''aws'', ''ec2'', ''create-security-group'',
                   ''--group-name'', ''gitvm-node'', ''--description'', ''gitvm node - SSH, node API, and agent ports'',
                   ''--region'', region, ''--output'', ''json''] w1
             in case err of
                  Some e \<Rightarrow> (Inl (''create security group: '' @ e), w2)
                | None \<Rightarrow>
                    (case bind_res (bind_res (parse out) (\<lambda>j. dec_object (Inr j))) (dec_string ''GroupId'') of
                       Inl e \<Rightarrow> (Inl e, w2)
                     | Inr groupID \<Rightarrow>
                         (Inr groupID, fold (authorize_port cli p region groupID) [''22'', ''9090''] w2)))"

definition resolveUbuntuAMI :: "'w cli \<Rightarrow> aws_provider \<Rightarrow> string \<Rightarrow> 'w \<Rightarrow> (string + string) \<times> 'w" where
  "resolveUbuntuAMI cli p region w =
     (case cli (aws_env p) [''aws'', ''ec2'', ''describe-images'', ''--region'', region, ''--owners'', ''099720109477'',
             ''--filters'', ''Name=name,Values=ubuntu/images/hvm-ssd-gp3/ubuntu-noble-24.04-amd64-server-*'',
             ''Name=state,Values=available'', ''--query'', ''sort_by(Images, &CreationDate)[-1].ImageId'',
             ''--output'', ''text''] w of
        ((Some e, out), w1) \<Rightarrow> (Inl (''resolve AMI: '' @ e), w1)
      | ((None, out), w1) \<Rightarrow>
          let ami = trim_space out
          in if ami = '''' \<or> ami = ''None'' then (Inl (''no Ubuntu 24.04 AMI found in '' @ region), w1) else (Inr ami, w1))"

definition doBootstrap ::
  "'w cli \<Rightarrow> (string \<Rightarrow> string + json) \<Rightarrow> string \<Rightarrow> aws_provider \<times> 'w \<Rightarrow> string option \<times> (aws_provider \<times> 'w)" where
  "doBootstrap cli parse region pw =
     (let (p, w) = pw;
          (group, w1) = (if aws_SecurityGroupID p = '''' then ensureSecurityGroup cli parse p region w
                         else (Inr (aws_SecurityGroupID p), w))
      in case group of
           Inl e \<Rightarrow> (Some (''auto-create security group: '' @ e), (p, w1))
         | Inr sgID \<Rightarrow>
             let p1 = p\<lparr>aws_SecurityGroupID := sgID\<rparr>;
                 (image, w2) = (if aws_AMI p1 = '''' then resolveUbuntuAMI cli p1 region w1 else (Inr (aws_AMI p1), w1))
             in case image of
                  Inl e \<Rightarrow> (Some (''auto-resolve AMI: '' @ e), (p1, w2))
                | Inr ami \<Rightarrow> (None, (p1\<lparr>aws_AMI := ami\<rparr>, w2)))"

definition bootstrap ::
  "'w cli \<Rightarrow> (string \<Rightarrow> string + json) \<Rightarrow> string \<Rightarrow> aws_provider \<times> 'w \<Rightarrow> string option \<times> (aws_provider \<times> 'w)" where
  "bootstrap cli parse region pw =
     (case aws_once (fst pw) of
        Some err \<Rightarrow> (err, pw)
      | None \<Rightarrow>
          let (err, (p1, w1)) = doBootstrap cli parse region pw in (err, (p1\<lparr>aws_once := Some err\<rparr>, w1)))"

definition waitForPublicIP :: "'w cli \<Rightarrow> aws_provider \<Rightarrow> string \<Rightarrow> string \<Rightarrow> 'w \<Rightarrow> (string + string) \<times> 'w" where
  "waitForPublicIP cli p instanceID region w =
     (let (_, w1) = cli (aws_env p) [''aws'', ''ec2'', ''wait'', ''instance-running'', ''--instance-ids'', instanceID,
            ''--region'', region] w
      in case cli (aws_env p) [''aws'', ''ec2'', ''describe-instances'', ''--instance-ids'', instanceID,
             ''--region'', region, ''--query'', ''Reservations[0].Instances[0].PublicIpAddress'', ''--output'', ''text''] w1 of
           ((Some e, out), w2) \<Rightarrow> (Inl e, w2)
         | ((None, out), w2) \<Rightarrow>
             let ip = trim_space out
             in if ip = '''' \<or> ip = ''None'' then (Inl ''no public IP assigned'', w2) else (Inr ip, w2))"

definition aws_default_type :: "string \<Rightarrow> string" where
  "aws_default_type runtime = (if runtime = ''docker'' then ''t3.medium'' else ''c8i.xlarge'')"

definition aws_run_args :: "aws_provider \<Rightarrow> string \<Rightarrow> string \<Rightarrow> provision_opts \<Rightarrow> string list" where
  "aws_run_args p region instanceType opts =
     [''aws'', ''ec2'', ''run-instances'', ''--region'', region, ''--instance-type'', instanceType,
      ''--image-id'', aws_AMI p, ''--count'', ''1'',
      ''--tag-specifications'', ''ResourceType=instance,Tags=[{Key=Name,Value='' @ po_Name opts @ ''},{Key=gitvm,Value=node}]'',
      ''--user-data'', po_UserData opts, ''--output'', ''json'', ''--associate-public-ip-address'']
     @ (if aws_SecurityGroupID p \<noteq> '''' then [''--security-group-ids'', aws_SecurityGroupID p] else [])
     @ (if aws_SubnetID p \<noteq> '''' then [''--subnet-id'', aws_SubnetID p] else [])
     @ (if aws_KeyName p \<noteq> '''' then [''--key-name'', aws_KeyName p] else [])"

definition dec_instance :: "json \<Rightarrow> string + string \<times> string \<times> string" where
  "dec_instance j =
     bind_res (dec_string ''InstanceId'' j) (\<lambda>i.
     bind_res (dec_string ''PublicIpAddress'' j) (\<lambda>pub.
     bind_res (dec_string ''PrivateIpAddress'' j) (\<lambda>priv. Inr (i, pub, priv))))"

definition dec_instances :: "json \<Rightarrow> string + (string \<times> string \<times> string) list" where
  "dec_instances j =
     bind_res (dec_object (Inr j)) (\<lambda>o1. bind_res (dec_objects ''Instances'' o1) (traverse dec_instance))"

definition aws_ProvisionNode ::
  "'w cli \<Rightarrow> (string \<Rightarrow> string + json) \<Rightarrow> provision_opts \<Rightarrow> aws_provider \<times> 'w \<Rightarrow> (string + provision_result) \<times> (aws_provider \<times> 'w)" where
  "aws_ProvisionNode cli parse opts pw =
     (let region = (if po_Region opts = '''' then aws_DefaultRegion (fst pw) else po_Region opts)
      in case bootstrap cli parse region pw of
           (Some e, pw1) \<Rightarrow> (Inl (''bootstrap: '' @ e), pw1)
         | (None, (p, w1)) \<Rightarrow>
             let instanceType = (if po_InstanceType opts = '''' then aws_default_type (po_Runtime opts) else po_InstanceType opts)
             in case cli (aws_env p) (aws_run_args p region instanceType opts) w1 of
                  ((Some e, out), w2) \<Rightarrow> (Inl (''aws ec2 run-instances: '' @ e @ '': '' @ out), (p, w2))
                | ((None, out), w2) \<Rightarrow>
                    (case bind_res (parse out) dec_instances of
                       Inl e \<Rightarrow> (Inl (''parse aws response: '' @ e), (p, w2))
                     | Inr [] \<Rightarrow> (Inl ''no instances created'', (p, w2))
                     | Inr ((i, pub, priv) # _) \<Rightarrow>
                         let (ip, w3) = (if pub = '''' then waitForPublicIP cli p i region w2 else (Inr pub, w2))
                         in (Inr \<lparr>pr_ProviderID = i, pr_PublicIP = (case ip of Inl e \<Rightarrow> pub | Inr a \<Rightarrow> a),
                                  pr_PrivateIP = priv, pr_Region = region, pr_InstanceType = instanceType\<rparr>, (p, w3))))"

definition aws_TerminateNode :: "'w cli \<Rightarrow> string \<Rightarrow> aws_provider \<times> 'w \<Rightarrow> string option \<times> (aws_provider \<times> 'w)" where
  "aws_TerminateNode cli providerID pw =
     (let (p, w) = pw;
          ((err, out), w1) = cli (aws_env p) [''aws'', ''ec2'', ''terminate-instances'', ''--instance-ids'', providerID,
            ''--region'', aws_DefaultRegion p] w
      in (err, (p, w1)))"

text \<open>\<open>strings.TrimRight(zone, "abcdef")\<close>\<close>

definition zone_region :: "string \<Rightarrow> string" where
  "zone_region zone = rev (dropWhile (\<lambda>c. c \<in> set ''abcdef'') (rev zone))"

definition dec_listed :: "json \<Rightarrow> string + provision_result" where
  "dec_listed j =
     bind_res (dec_instance j) (\<lambda>(i, pub, priv).
     bind_res (dec_string ''InstanceType'' j) (\<lambda>ty.
     bind_res (bind_res (dec_sub ''Placement'' j) (dec_string ''AvailabilityZone'')) (\<lambda>zone.
       Inr \<lparr>pr_ProviderID = i, pr_PublicIP = pub, pr_PrivateIP = priv, pr_Region = zone_region zone, pr_InstanceType = ty\<rparr>)))"

definition aws_ListNodes ::
  "'w cli \<Rightarrow> (string \<Rightarrow> string + json) \<Rightarrow> aws_provider \<times> 'w \<Rightarrow> (string + provision_result list) \<times> (aws_provider \<times> 'w)" where
  "aws_ListNodes cli parse pw =
     (let (p, w) = pw
      in case cli (aws_env p) [''aws'', ''ec2'', ''describe-instances'',
             ''--filters'', ''Name=tag:gitvm,Values=node'', ''Name=instance-state-name,Values=running'',
             ''--region'', aws_DefaultRegion p, ''--output'', ''json''] w of
           ((Some e, out), w1) \<Rightarrow> (Inl (''aws describe-instances: '' @ e), (p, w1))
         | ((None, out), w1) \<Rightarrow>
             (bind_res (parse out) (\<lambda>j. bind_res (dec_object (Inr j)) (\<lambda>o1.
                bind_res (dec_objects ''Reservations'' o1) (\<lambda>rs.
                bind_res (traverse (\<lambda>r. bind_res (dec_objects ''Instances'' r) (traverse dec_listed)) rs)
                  (\<lambda>ls. Inr (concat ls))))), (p, w1)))"

definition aws :: "'w cli \<Rightarrow> (string \<Rightarrow> string + json) \<Rightarrow> (aws_provider \<times> 'w) provider" where
  "aws cli parse = \<lparr>pv_Name = ''aws'', pv_ProvisionNode = aws_ProvisionNode cli parse,
     pv_TerminateNode = aws_TerminateNode cli, pv_ListNodes = aws_ListNodes cli parse\<rparr>"

section \<open>GCP\<close>

record gcp_provider =
  gcp_ProjectID :: string
  gcp_Zone :: string
  gcp_Network :: string
  gcp_Subnet :: string
  gcp_MachineImage :: string

definition gcp_default_type :: "string \<Rightarrow> string" where
  "gcp_default_type runtime = (if runtime \<noteq> ''docker'' then ''n2-standard-16'' else ''e2-standard-4'')"

definition gcp_create_args :: "gcp_provider \<Rightarrow> string \<Rightarrow> string \<Rightarrow> provision_opts \<Rightarrow> string list" where
  "gcp_create_args p zone machineType opts =
     [''gcloud'', ''compute'', ''instances'', ''create'', po_Name opts, ''--project'', gcp_ProjectID p, ''--zone'', zone,
      ''--machine-type'', machineType, ''--image'', gcp_MachineImage p,
      ''--metadata'', ''startup-script='' @ po_UserData opts, ''--labels'', ''gitvm=node'', ''--format'', ''json'']
     @ (if po_Runtime opts \<noteq> ''docker''
        then [''--min-cpu-platform'', ''Intel Cascade Lake'', ''--enable-nested-virtualization''] else [])
     @ (if gcp_Network p \<noteq> '''' then [''--network'', gcp_Network p] else [])
     @ (if gcp_Subnet p \<noteq> '''' then [''--subnet'', gcp_Subnet p] else [])"

text \<open>The addresses of the first network interface: its own and the one of its first access configuration.\<close>

definition dec_interface :: "json \<Rightarrow> string + string \<times> string list" where
  "dec_interface j =
     bind_res (dec_string ''networkIP'' j) (\<lambda>ip.
     bind_res (dec_objects ''accessConfigs'' j) (\<lambda>acs.
     bind_res (traverse (dec_string ''natIP'') acs) (\<lambda>nats. Inr (ip, nats))))"

definition first_addresses :: "(string \<times> string list) list \<Rightarrow> string \<times> string" where
  "first_addresses ifs =
     (case ifs of
        [] \<Rightarrow> ('''', '''')
      | (ip, nats) # _ \<Rightarrow> (ip, case nats of [] \<Rightarrow> '''' | n # _ \<Rightarrow> n))"

definition dec_gcp_created :: "json \<Rightarrow> string + string \<times> (string \<times> string list) list" where
  "dec_gcp_created j =
     bind_res (dec_string ''name'' j) (\<lambda>name.
     bind_res (dec_objects ''networkInterfaces'' j) (\<lambda>is.
     bind_res (traverse dec_interface is) (\<lambda>ifs. Inr (name, ifs))))"

definition gcp_ProvisionNode ::
  "'w cli \<Rightarrow> (string \<Rightarrow> string + json) \<Rightarrow> gcp_provider \<Rightarrow> provision_opts \<Rightarrow> 'w \<Rightarrow> (string + provision_result) \<times> 'w" where
  "gcp_ProvisionNode cli parse p opts w =
     (let zone = (if po_Region opts = '''' then gcp_Zone p else po_Region opts);
          machineType = (if po_InstanceType opts = '''' then gcp_default_type (po_Runtime opts) else po_InstanceType opts)
      in case cli [] (gcp_create_args p zone machineType opts) w of
           ((Some e, out), w1) \<Rightarrow> (Inl (''gcloud compute instances create: '' @ e), w1)
         | ((None, out), w1) \<Rightarrow>
             (case bind_res (parse out) (\<lambda>j. bind_res (dec_top_list j) (traverse dec_gcp_created)) of
                Inl e \<Rightarrow> (Inl (''parse gcloud response: '' @ e), w1)
              | Inr [] \<Rightarrow> (Inl ''no instances created'', w1)
              | Inr ((name, ifs) # _) \<Rightarrow>
                  let (privateIP, publicIP) = first_addresses ifs
                  in (Inr \<lparr>pr_ProviderID = name, pr_PublicIP = publicIP, pr_PrivateIP = privateIP,
                           pr_Region = zone, pr_InstanceType = machineType\<rparr>, w1)))"

definition gcp_TerminateNode :: "'w cli \<Rightarrow> gcp_provider \<Rightarrow> string \<Rightarrow> 'w \<Rightarrow> string option \<times> 'w" where
  "gcp_TerminateNode cli p providerID w =
     (let ((err, out), w1) = cli [] [''gcloud'', ''compute'', ''instances'', ''delete'', providerID,
            ''--project'', gcp_ProjectID p, ''--zone'', gcp_Zone p, ''--quiet''] w
      in (err, w1))"

definition dec_gcp_listed :: "json \<Rightarrow> string + provision_result" where
  "dec_gcp_listed j =
     bind_res (dec_gcp_created j) (\<lambda>(name, ifs).
     bind_res (dec_string ''machineType'' j) (\<lambda>ty.
     bind_res (dec_string ''zone'' j) (\<lambda>zone.
       let (privateIP, publicIP) = first_addresses ifs
       in Inr \<lparr>pr_ProviderID = name, pr_PublicIP = publicIP, pr_PrivateIP = privateIP, pr_Region = zone,
               pr_InstanceType = ty\<rparr>)))"

definition gcp_ListNodes ::
  "'w cli \<Rightarrow> (string \<Rightarrow> string + json) \<Rightarrow> gcp_provider \<Rightarrow> 'w \<Rightarrow> (string + provision_result list) \<times> 'w" where
  "gcp_ListNodes cli parse p w =
     (case cli [] [''gcloud'', ''compute'', ''instances'', ''list'', ''--project'', gcp_ProjectID p,
             ''--filter'', ''labels.gitvm=node AND status=RUNNING'', ''--format'', ''json''] w of
        ((Some e, out), w1) \<Rightarrow> (Inl (''gcloud list: '' @ e), w1)
      | ((None, out), w1) \<Rightarrow>
          (bind_res (parse out) (\<lambda>j. bind_res (dec_top_list j) (traverse dec_gcp_listed)), w1))"

definition gcp :: "'w cli \<Rightarrow> (string \<Rightarrow> string + json) \<Rightarrow> gcp_provider \<Rightarrow> 'w provider" where
  "gcp cli parse p = \<lparr>pv_Name = ''gcp'', pv_ProvisionNode = gcp_ProvisionNode cli parse p,
     pv_TerminateNode = gcp_TerminateNode cli p, pv_ListNodes = gcp_ListNodes cli parse p\<rparr>"

section \<open>Azure\<close>

record azure_provider =
  az_SubscriptionID :: string
  az_ResourceGroup :: string
  az_Location :: string
  az_Image :: string
  az_VNet :: string
  az_Subnet :: string

definition az_default_type :: "string \<Rightarrow> string" where
  "az_default_type runtime = (if runtime = ''docker'' then ''Standard_B4ms'' else ''Standard_D16s_v5'')"

definition az_create_args :: "azure_provider \<Rightarrow> string \<Rightarrow> string \<Rightarrow> provision_opts \<Rightarrow> string list" where
  "az_create_args p location vmSize opts =
     [''az'', ''vm'', ''create'', ''--resource-group'', az_ResourceGroup p, ''--name'', po_Name opts,
      ''--location'', location, ''--size'', vmSize, ''--image'', az_Image p, ''--custom-data'', po_UserData opts,
      ''--tags'', ''gitvm=node'', ''--output'', ''json'']
     @ (if az_VNet p \<noteq> '''' then [''--vnet-name'', az_VNet p] else [])
     @ (if az_Subnet p \<noteq> '''' then [''--subnet'', az_Subnet p] else [])"

definition dec_az_created :: "json \<Rightarrow> string + string \<times> string" where
  "dec_az_created j =
     bind_res (dec_object (Inr j)) (\<lambda>o1.
     bind_res (dec_string ''id'' o1) (\<lambda>_.
     bind_res (dec_string ''publicIpAddress'' o1) (\<lambda>pub.
     bind_res (dec_string ''privateIpAddress'' o1) (\<lambda>priv. Inr (pub, priv)))))"

definition az_ProvisionNode ::
  "'w cli \<Rightarrow> (string \<Rightarrow> string + json) \<Rightarrow> azure_provider \<Rightarrow> provision_opts \<Rightarrow> 'w \<Rightarrow> (string + provision_result) \<times> 'w" where
  "az_ProvisionNode cli parse p opts w =
     (let location = (if po_Region opts = '''' then az_Location p else po_Region opts);
          vmSize = (if po_InstanceType opts = '''' then az_default_type (po_Runtime opts) else po_InstanceType opts)
      in case cli [] (az_create_args p location vmSize opts) w of
           ((Some e, out), w1) \<Rightarrow> (Inl (''az vm create: '' @ e), w1)
         | ((None, out), w1) \<Rightarrow>
             (case bind_res (parse out) dec_az_created of
                Inl e \<Rightarrow> (Inl (''parse az response: '' @ e), w1)
              | Inr (pub, priv) \<Rightarrow>
                  (Inr \<lparr>pr_ProviderID = po_Name opts, pr_PublicIP = pub, pr_PrivateIP = priv,
                        pr_Region = location, pr_InstanceType = vmSize\<rparr>, w1)))"

definition az_TerminateNode :: "'w cli \<Rightarrow> azure_provider \<Rightarrow> string \<Rightarrow> 'w \<Rightarrow> string option \<times> 'w" where
  "az_TerminateNode cli p providerID w =
     (let ((err, out), w1) = cli [] [''az'', ''vm'', ''delete'', ''--resource-group'', az_ResourceGroup p,
            ''--name'', providerID, ''--yes''] w
      in (err, w1))"

definition dec_az_listed :: "json \<Rightarrow> string + provision_result" where
  "dec_az_listed j =
     bind_res (dec_string ''name'' j) (\<lambda>name.
     bind_res (dec_string ''publicIps'' j) (\<lambda>pub.
     bind_res (dec_string ''privateIps'' j) (\<lambda>priv.
     bind_res (bind_res (dec_sub ''hardwareProfile'' j) (dec_string ''vmSize'')) (\<lambda>size.
     bind_res (dec_string ''location'' j) (\<lambda>location.
       Inr \<lparr>pr_ProviderID = name, pr_PublicIP = pub, pr_PrivateIP = priv, pr_Region = location, pr_InstanceType = size\<rparr>)))))"

definition az_ListNodes ::
  "'w cli \<Rightarrow> (string \<Rightarrow> string + json) \<Rightarrow> azure_provider \<Rightarrow> 'w \<Rightarrow> (string + provision_result list) \<times> 'w" where
  "az_ListNodes cli parse p w =
     (case cli [] [''az'', ''vm'', ''list'', ''--resource-group'', az_ResourceGroup p,
             ''--query'', ''[?tags.gitvm=='' @ [CHR 0x27] @ ''node'' @ [CHR 0x27] @ '']'',
             ''--show-details'', ''--output'', ''json''] w of
        ((Some e, out), w1) \<Rightarrow> (Inl (''az vm list: '' @ e), w1)
      | ((None, out), w1) \<Rightarrow>
          (bind_res (parse out) (\<lambda>j. bind_res (dec_top_list j) (traverse dec_az_listed)), w1))"

definition azure :: "'w cli \<Rightarrow> (string \<Rightarrow> string + json) \<Rightarrow> azure_provider \<Rightarrow> 'w provider" where
  "azure cli parse p = \<lparr>pv_Name = ''azure'', pv_ProvisionNode = az_ProvisionNode cli parse p,
     pv_TerminateNode = az_TerminateNode cli p, pv_ListNodes = az_ListNodes cli parse p\<rparr>"

section \<open>The providers keep the contract\<close>

lemma bootstrap_keeps: "bootstrap cli parse region pw = (err, (p', w')) \<Longrightarrow>
    aws_DefaultRegion p' = aws_DefaultRegion (fst pw)"
  by (cases pw) (auto simp: bootstrap_def doBootstrap_def Let_def split: prod.splits sum.splits option.splits)

interpretation aws: cloud_provider "aws cli parse" aws_default_type "\<lambda>pw. aws_DefaultRegion (fst pw)" for cli parse
proof
  fix opts and pw pw' :: "aws_provider \<times> 'a" and res
  assume "pv_ProvisionNode (aws cli parse) opts pw = (Inr res, pw')"
  then have "aws_ProvisionNode cli parse opts pw = (Inr res, pw')" by (simp add: aws_def)
  then show "pr_InstanceType res = (if po_InstanceType opts = '''' then aws_default_type (po_Runtime opts) else po_InstanceType opts)
      \<and> pr_Region res = (if po_Region opts = '''' then aws_DefaultRegion (fst pw) else po_Region opts)"
    unfolding aws_ProvisionNode_def Let_def
    by (auto split: prod.splits option.splits sum.splits list.splits)
qed (simp add: aws_default_type_def)

interpretation gcp: cloud_provider "gcp cli parse p" gcp_default_type "\<lambda>w. gcp_Zone p" for cli parse p
proof
  fix opts and w w' :: 'a and res
  assume "pv_ProvisionNode (gcp cli parse p) opts w = (Inr res, w')"
  then have "gcp_ProvisionNode cli parse p opts w = (Inr res, w')" by (simp add: gcp_def)
  then show "pr_InstanceType res = (if po_InstanceType opts = '''' then gcp_default_type (po_Runtime opts) else po_InstanceType opts)
      \<and> pr_Region res = (if po_Region opts = '''' then gcp_Zone p else po_Region opts)"
    unfolding gcp_ProvisionNode_def Let_def
    by (auto split: prod.splits option.splits sum.splits list.splits)
qed (simp add: gcp_default_type_def)

interpretation azure: cloud_provider "azure cli parse p" az_default_type "\<lambda>w. az_Location p" for cli parse p
proof
  fix opts and w w' :: 'a and res
  assume "pv_ProvisionNode (azure cli parse p) opts w = (Inr res, w')"
  then have "az_ProvisionNode cli parse p opts w = (Inr res, w')" by (simp add: azure_def)
  then show "pr_InstanceType res = (if po_InstanceType opts = '''' then az_default_type (po_Runtime opts) else po_InstanceType opts)
      \<and> pr_Region res = (if po_Region opts = '''' then az_Location p else po_Region opts)"
    unfolding az_ProvisionNode_def Let_def
    by (auto split: prod.splits option.splits sum.splits list.splits)
qed (simp add: az_default_type_def)

section \<open>The AWS bootstrap runs once\<close>

lemma bootstrap_result:
  assumes "bootstrap cli parse region pw = (err, (p, w))"
  shows "aws_once p = Some err"
    and "err = None \<Longrightarrow> aws_once (fst pw) = None \<Longrightarrow> aws_AMI p \<noteq> '''' "
proof -
  show "aws_once p = Some err"
    using assms by (auto simp: bootstrap_def Let_def split: option.splits prod.splits)
  show "aws_AMI p \<noteq> ''''" if "err = None" "aws_once (fst pw) = None"
    using assms that
    by (cases pw) (auto simp: bootstrap_def doBootstrap_def resolveUbuntuAMI_def Let_def
        split: option.splits prod.splits sum.splits if_splits)
qed

lemma bootstrap_again: "aws_once (fst pw) = Some err \<Longrightarrow> bootstrap cli parse region pw = (err, pw)"
  by (simp add: bootstrap_def)

lemma ProvisionNode_once:
  assumes "aws_ProvisionNode cli parse opts pw = (res, (p, w))"
  obtains err where "aws_once p = Some err" "\<And>e. err = Some e \<Longrightarrow> res = Inl (''bootstrap: '' @ e)"
    "aws_once (fst pw) = None \<Longrightarrow> err = None \<Longrightarrow> aws_AMI p \<noteq> ''''"
proof -
  let ?region = "if po_Region opts = '''' then aws_DefaultRegion (fst pw) else po_Region opts"
  obtain err p1 w1 where b: "bootstrap cli parse ?region pw = (err, (p1, w1))" by (metis surj_pair)
  have "p1 = p \<and> (\<forall>e. err = Some e \<longrightarrow> res = Inl (''bootstrap: '' @ e))"
    using assms b unfolding aws_ProvisionNode_def Let_def
    by (auto split: prod.splits option.splits sum.splits list.splits)
  with bootstrap_result [OF b] show ?thesis by (intro that [of err]) auto
qed

text \<open>
  The security group and the machine image are looked up once per control plane: after the
  first provisioning, whatever its outcome, every later one uses the same two, also in another
  region; and when the first lookup failed, every later provisioning fails with that error
  without a call to the cloud.
\<close>
theorem aws_bootstrap_runs_once:
  assumes "aws_ProvisionNode cli parse opts pw = (res, (p, w))" and "aws_once (fst pw) = None"
    and "aws_ProvisionNode cli parse opts' (p, w') = (res', (p', w''))"
  shows "p' = p
    \<and> (if \<exists>e. res = Inl (''bootstrap: '' @ e)
         then res' = res \<and> w'' = w'
         else aws_AMI p \<noteq> ''''
           \<and> (\<exists>err out v region ty. cli (aws_env p) (aws_run_args p region ty opts') w' = ((err, out), v)
                \<and> (po_Region opts' \<noteq> '''' \<longrightarrow> region = po_Region opts')
                \<and> (err \<noteq> None \<longrightarrow> w'' = v \<and> (\<exists>e. res' = Inl e))))"
proof -
  obtain err where o: "aws_once p = Some err" "\<And>e. err = Some e \<Longrightarrow> res = Inl (''bootstrap: '' @ e)"
    "err = None \<Longrightarrow> aws_AMI p \<noteq> ''''"
    using ProvisionNode_once [OF assms(1)] assms(2) by metis
  let ?region = "if po_Region opts' = '''' then aws_DefaultRegion p else po_Region opts'"
  let ?ty = "if po_InstanceType opts' = '''' then aws_default_type (po_Runtime opts') else po_InstanceType opts'"
  obtain x out v where c: "cli (aws_env p) (aws_run_args p ?region ?ty opts') w' = ((x, out), v)" by (metis surj_pair)
  have b: "bootstrap cli parse ?region (p, w') = (err, (p, w'))" by (rule bootstrap_again) (simp add: o(1))
  have r: "aws_ProvisionNode cli parse opts' (p, w') = (res', (p', w''))" by (rule assms(3))
  show ?thesis
  proof (cases err)
    case (Some e)
    have "(res', (p', w'')) = (Inl (''bootstrap: '' @ e), (p, w'))"
      unfolding r [symmetric] unfolding aws_ProvisionNode_def Let_def fst_conv b [unfolded Some] by simp
    with o(2) [OF Some] show ?thesis by auto
  next
    case None
    have nb: "\<not> (\<exists>e. res = Inl (''bootstrap: '' @ e))"
    proof
      assume "\<exists>e. res = Inl (''bootstrap: '' @ e)"
      then obtain e where e: "res = Inl (''bootstrap: '' @ e)" by blast
      let ?reg = "if po_Region opts = '''' then aws_DefaultRegion (fst pw) else po_Region opts"
      obtain err1 p1 w1 where b1: "bootstrap cli parse ?reg pw = (err1, (p1, w1))" by (metis surj_pair)
      have "p1 = p"
        using assms(1) b1 unfolding aws_ProvisionNode_def Let_def
        by (auto split: prod.splits option.splits sum.splits list.splits)
      then have "err1 = None" using bootstrap_result(1) [OF b1] o(1) None by simp
      with assms(1) b1 e show False
        unfolding aws_ProvisionNode_def Let_def
        by (auto split: prod.splits option.splits sum.splits list.splits)
    qed
    have "p' = p" and fl: "x \<noteq> None \<Longrightarrow> w'' = v \<and> (\<exists>e. res' = Inl e)"
      using r unfolding aws_ProvisionNode_def Let_def fst_conv b [unfolded None] option.case prod.case c
      by (auto split: prod.splits option.splits sum.splits list.splits)
    have "\<exists>err out v region ty. cli (aws_env p) (aws_run_args p region ty opts') w' = ((err, out), v)
        \<and> (po_Region opts' \<noteq> '''' \<longrightarrow> region = po_Region opts') \<and> (err \<noteq> None \<longrightarrow> w'' = v \<and> (\<exists>e. res' = Inl e))"
      by (intro exI conjI, rule c) (auto simp: fl)
    then show ?thesis unfolding if_not_P [OF nb] using \<open>p' = p\<close> o(3) [OF None] by (intro conjI)
  qed
qed

definition fresh_aws :: aws_provider where
  "fresh_aws = \<lparr>aws_AccessKeyID = ''a'', aws_SecretAccessKey = ''s'', aws_DefaultRegion = ''us-east-1'',
     aws_SecurityGroupID = '''', aws_SubnetID = '''', aws_KeyName = '''', aws_AMI = '''', aws_once = None\<rparr>"

definition plain_opts :: provision_opts where
  "plain_opts = \<lparr>po_Name = ''n'', po_Region = '''', po_InstanceType = '''', po_Runtime = ''docker'', po_UserData = '''', po_Tags = []\<rparr>"

text \<open>A command line that fails on its first two calls only.\<close>

definition late_cli :: "nat cli" where
  "late_cli env args n = ((if n < 2 then Some ''exit status 1'' else None, ''ami-1''), Suc n)"

lemma aws_bootstrap_runs_once_witness:
  "\<exists>e p n. aws_ProvisionNode late_cli (\<lambda>s. Inl s) plain_opts (fresh_aws, 0) = (Inl (''bootstrap: '' @ e), (p, n))
     \<and> fst (aws_ProvisionNode late_cli (\<lambda>s. Inl s) plain_opts (p, 7)) = Inl (''bootstrap: '' @ e)"
proof -
  obtain e p n where a: "aws_ProvisionNode late_cli (\<lambda>s. Inl s) plain_opts (fresh_aws, 0) = (Inl (''bootstrap: '' @ e), (p, n))"
    by (simp add: aws_ProvisionNode_def bootstrap_def doBootstrap_def ensureSecurityGroup_def late_cli_def fresh_aws_def Let_def)
  obtain res' p' w'' where b: "aws_ProvisionNode late_cli (\<lambda>s. Inl s) plain_opts (p, 7) = (res', (p', w''))"
    by (metis surj_pair)
  have f: "aws_once (fst (fresh_aws, 0 :: nat)) = None" by (simp add: fresh_aws_def)
  from aws_bootstrap_runs_once [OF a f b] a b show ?thesis by auto
qed

end
