(* ===== verification/ControlPlane_Auth.thy ===== *)
theory ControlPlane_Auth
  imports ControlPlane_DB ControlPlane_Cloud Go_Router
begin

text \<open>
  The control plane's server state (\<open>server.go\<close>) and its authentication (\<open>auth.go\<close>): sessions,
  registration, login and logout, and the middleware in front of every route. The values a handler
  draws (identifiers, random bytes, the time), the hash function and the HTTP client are the
  record \<open>cp_env\<close>; what the middleware puts into the request's context is the record \<open>cp_ctx\<close>.
\<close>

section \<open>The server\<close>

record server_config =
  sc_Port :: int
  sc_DataDir :: string
  sc_DBPath :: string
  sc_NodeKey :: string
  sc_CPURL :: string

type_synonym session_store = "(string, string) gomap"

record 'w cpserver =
  sv_config :: server_config
  sv_db :: db
  sv_sessions :: session_store
  sv_providers :: "'w registry"
  sv_world :: 'w

text \<open>
  \<open>e_uuid\<close> gives the identifiers drawn while one request is handled, in order; \<open>e_key\<close> and
  \<open>e_token\<close> are the hexadecimal texts of 24 and 32 random bytes; \<open>e_sha256\<close> is the hexadecimal
  digest of a text; \<open>e_new_request\<close> gives the error of \<open>http.NewRequest\<close> for a URL, if any.
\<close>

record 'w cp_env =
  e_client :: "'w http_client"
  e_new_request :: "string \<Rightarrow> string option"
  e_sha256 :: "string \<Rightarrow> string"
  e_now :: time
  e_uuid :: "nat \<Rightarrow> string"
  e_key :: string
  e_token :: string

record cp_ctx =
  cx_project :: "project option"
  cx_user :: "user option"

definition background :: cp_ctx where
  "background = \<lparr>cx_project = None, cx_user = None\<rparr>"

definition cp_NewServer :: "server_config \<Rightarrow> db \<Rightarrow> 'w \<Rightarrow> 'w cpserver" where
  "cp_NewServer cfg d w = \<lparr>sv_config = cfg, sv_db = d, sv_sessions = [], sv_providers = NewCloudProviderRegistry, sv_world = w\<rparr>"

definition RegisterProvider :: "'w provider \<Rightarrow> 'w cpserver \<Rightarrow> 'w cpserver" where
  "RegisterProvider p s = s\<lparr>sv_providers := reg_Register p (sv_providers s)\<rparr>"

section \<open>Helpers\<close>

definition cp_writeOK :: "json \<Rightarrow> response" where
  "cp_writeOK j = json_response http_ok j"

definition cp_writeErr :: "nat \<Rightarrow> string \<Rightarrow> string \<Rightarrow> response" where
  "cp_writeErr st code message = json_response st (JObj [(''code'', JStr code), (''message'', JStr message)])"

definition extractIP :: "string \<Rightarrow> string" where
  "extractIP address =
     (let addr = trim_prefix (trim_prefix address ''http://'') ''https://''
      in case index_byte addr CHR '':'' of
           Some idx \<Rightarrow> if idx > 0 then take idx addr else addr
         | None \<Rightarrow> addr)"

section \<open>Sessions\<close>

definition NewSessionStore :: session_store where
  "NewSessionStore = []"

definition session_Create :: "string \<Rightarrow> string \<Rightarrow> session_store \<Rightarrow> session_store" where
  "session_Create token userID ss = gm_put token userID ss"

definition session_Get :: "session_store \<Rightarrow> string \<Rightarrow> string option" where
  "session_Get ss token = gm_get ss token"

definition session_Delete :: "string \<Rightarrow> session_store \<Rightarrow> session_store" where
  "session_Delete token ss = gm_del token ss"

section \<open>The middleware\<close>

definition isPublicPath :: "string \<Rightarrow> bool" where
  "isPublicPath path \<longleftrightarrow> path \<in> set [''/health'', ''/auth/login'', ''/auth/register'', ''/auth/logout'']"

definition unauthorized :: "string \<Rightarrow> response" where
  "unauthorized msg = cp_writeErr http_unauthorized ''unauthorized'' msg"

definition session_user :: "request \<Rightarrow> 'w cpserver \<Rightarrow> user option" where
  "session_user rq s =
     (case gm_get (rq_cookie rq) ''session'' of
        None \<Rightarrow> None
      | Some token \<Rightarrow>
          if token = '''' then None
          else (case session_Get (sv_sessions s) token of
                  None \<Rightarrow> None
                | Some userID \<Rightarrow> (case GetUser userID (sv_db s) of Inl e \<Rightarrow> None | Inr user \<Rightarrow> Some user)))"

definition AuthMiddleware :: "(cp_ctx \<Rightarrow> 'w cpserver handler) \<Rightarrow> 'w cpserver handler" where
  "AuthMiddleware next rq s =
     (let path = rq_path rq;
          nodeKey = get_or_empty (rq_header rq) ''X-Node-Key'';
          apiKey = get_or_empty (rq_header rq) ''X-API-Key''
      in if isPublicPath path then next background rq s
         else if nodeKey \<noteq> '''' \<and> nodeKey = sc_NodeKey (sv_config s) then next background rq s
         else if has_prefix path ''/internal/'' then
           (if nodeKey = '''' \<or> nodeKey \<noteq> sc_NodeKey (sv_config s) then (unauthorized ''invalid node key'', s)
            else next background rq s)
         else if apiKey \<noteq> '''' then
           (case GetProjectByAPIKey apiKey (sv_db s) of
              Inl e \<Rightarrow> (unauthorized ''invalid API key'', s)
            | Inr project \<Rightarrow> next (background\<lparr>cx_project := Some project\<rparr>) rq s)
         else
           (case session_user rq s of
              Some user \<Rightarrow> next (background\<lparr>cx_user := Some user\<rparr>) rq s
            | None \<Rightarrow> (unauthorized ''authentication required'', s)))"

section \<open>Registration, login and logout\<close>

definition hashPassword :: "'w cp_env \<Rightarrow> string \<Rightarrow> string" where
  "hashPassword e password = e_sha256 e password"

definition session_cookie :: "string \<Rightarrow> string" where
  "session_cookie token = ''session='' @ token @ ''; Path=/; Max-Age=2592000; HttpOnly; SameSite=Lax''"

definition expired_cookie :: string where
  "expired_cookie = ''session=; Path=/; Expires=Thu, 01 Jan 1970 00:00:00 GMT; Max-Age=0; HttpOnly''"

definition with_cookie :: "string \<Rightarrow> response \<Rightarrow> response" where
  "with_cookie c r = r\<lparr>rheaders := (''Set-Cookie'', c) # rheaders r\<rparr>"

definition decode_credentials :: "request \<Rightarrow> string + string \<times> string" where
  "decode_credentials rq =
     bind_res (dec_object (rq_json rq)) (\<lambda>j.
     bind_res (dec_string ''email'' j) (\<lambda>email.
     bind_res (dec_string ''password'' j) (\<lambda>password. Inr (email, password))))"

text \<open>
  The check for an existing user passes when the lookup fails for any reason; a failure to create
  the default project is only logged.
\<close>

definition handleRegister :: "'w cp_env \<Rightarrow> 'w cpserver handler" where
  "handleRegister e rq s =
     (case decode_credentials rq of
        Inl err \<Rightarrow> (cp_writeErr http_bad_request ''bad_request'' err, s)
      | Inr (email, password) \<Rightarrow>
          if email = '''' \<or> password = '''' then (cp_writeErr http_bad_request ''bad_request'' ''email and password required'', s)
          else (case GetUserByEmail email (sv_db s) of
            Inr u \<Rightarrow> (cp_writeErr http_conflict ''conflict'' ''email already registered'', s)
          | Inl _ \<Rightarrow>
              let userID = e_uuid e 0 in
              (case CreateUser userID email (hashPassword e password) (e_now e) (sv_db s) of
                 (Some err, db1) \<Rightarrow> (cp_writeErr http_internal ''internal'' err, s\<lparr>sv_db := db1\<rparr>)
               | (None, db1) \<Rightarrow>
                   let projectID = e_uuid e 1;
                       ((apiKey, _), db2) = CreateProject (generateAPIKey (e_key e)) projectID ''Default'' userID (e_now e) db1;
                       s1 = s\<lparr>sv_db := db2, sv_sessions := session_Create (e_token e) userID (sv_sessions s)\<rparr>
                   in (with_cookie (session_cookie (e_token e))
                         (cp_writeOK (JObj [(''apiKey'', JStr apiKey), (''projectId'', JStr projectID), (''userId'', JStr userID)])),
                       s1))))"

definition handleLogin :: "'w cp_env \<Rightarrow> 'w cpserver handler" where
  "handleLogin e rq s =
     (case decode_credentials rq of
        Inl err \<Rightarrow> (cp_writeErr http_bad_request ''bad_request'' err, s)
      | Inr (email, password) \<Rightarrow>
          (case GetUserByEmail email (sv_db s) of
             Inl NoRows \<Rightarrow> (unauthorized ''invalid credentials'', s)
           | Inl err \<Rightarrow> (cp_writeErr http_internal ''internal'' (db_message err), s)
           | Inr user \<Rightarrow>
               if hashPassword e password \<noteq> u_PasswordHash user then (unauthorized ''invalid credentials'', s)
               else (with_cookie (session_cookie (e_token e)) (cp_writeOK (JObj [(''userId'', JStr (u_ID user))])),
                     s\<lparr>sv_sessions := session_Create (e_token e) (u_ID user) (sv_sessions s)\<rparr>)))"

definition handleLogout :: "'w cpserver handler" where
  "handleLogout rq s =
     (let s1 = (case gm_get (rq_cookie rq) ''session'' of
                  None \<Rightarrow> s
                | Some token \<Rightarrow> s\<lparr>sv_sessions := session_Delete token (sv_sessions s)\<rparr>)
      in (with_cookie expired_cookie (cp_writeOK (JObj [(''status'', JStr ''ok'')])), s1))"

section \<open>Who is let in\<close>

definition valid_node_key :: "'w cpserver \<Rightarrow> request \<Rightarrow> bool" where
  "valid_node_key s rq \<longleftrightarrow> gm_get (rq_header rq) ''X-Node-Key'' = Some (sc_NodeKey (sv_config s)) \<and> sc_NodeKey (sv_config s) \<noteq> ''''"

text \<open>
  The credentials the server accepts, stated on the tables themselves: a public path, the node key,
  the API key of a project (outside \<open>/internal/\<close>), or, without an API key, a session of a user.
\<close>

inductive admits :: "'w cpserver \<Rightarrow> request \<Rightarrow> cp_ctx \<Rightarrow> bool" for s :: "'w cpserver" and rq :: request where
  public: "isPublicPath (rq_path rq) \<Longrightarrow> admits s rq background"
| node: "valid_node_key s rq \<Longrightarrow> admits s rq background"
| project: "\<not> isPublicPath (rq_path rq) \<Longrightarrow> \<not> valid_node_key s rq \<Longrightarrow> \<not> has_prefix (rq_path rq) ''/internal/'' \<Longrightarrow>
    gm_get (rq_header rq) ''X-API-Key'' = Some (p_APIKey p) \<Longrightarrow> p_APIKey p \<noteq> '''' \<Longrightarrow>
    p \<in> set (t_projects (sv_db s)) \<Longrightarrow> down (sv_db s) = None \<Longrightarrow> admits s rq (background\<lparr>cx_project := Some p\<rparr>)"
| user: "\<not> isPublicPath (rq_path rq) \<Longrightarrow> \<not> valid_node_key s rq \<Longrightarrow> \<not> has_prefix (rq_path rq) ''/internal/'' \<Longrightarrow>
    get_or_empty (rq_header rq) ''X-API-Key'' = '''' \<Longrightarrow>
    gm_get (rq_cookie rq) ''session'' = Some token \<Longrightarrow> token \<noteq> '''' \<Longrightarrow>
    gm_get (sv_sessions s) token = Some (u_ID u) \<Longrightarrow> u \<in> set (t_users (sv_db s)) \<Longrightarrow> down (sv_db s) = None \<Longrightarrow>
    admits s rq (background\<lparr>cx_user := Some u\<rparr>)"

lemma valid_node_key_header:
  "valid_node_key s rq \<longleftrightarrow> get_or_empty (rq_header rq) ''X-Node-Key'' \<noteq> ''''
     \<and> get_or_empty (rq_header rq) ''X-Node-Key'' = sc_NodeKey (sv_config s)"
  by (auto simp: valid_node_key_def get_or_empty_def split: option.splits)

lemma session_user_iff:
  assumes "db_ok (sv_db s)"
  shows "session_user rq s = Some u \<longleftrightarrow> (\<exists>token. gm_get (rq_cookie rq) ''session'' = Some token \<and> token \<noteq> ''''
      \<and> gm_get (sv_sessions s) token = Some (u_ID u) \<and> u \<in> set (t_users (sv_db s)) \<and> down (sv_db s) = None)"
proof -
  have g: "GetUser i (sv_db s) = Inr u \<longleftrightarrow> down (sv_db s) = None \<and> u \<in> set (t_users (sv_db s)) \<and> u_ID u = i" for i u
    using assms by (simp add: GetUser_def db_row_Inr db_ok_def find_key_iff)
  show ?thesis
  proof
    assume "session_user rq s = Some u"
    then obtain token i where t: "gm_get (rq_cookie rq) ''session'' = Some token" "token \<noteq> ''''"
      "gm_get (sv_sessions s) token = Some i" "GetUser i (sv_db s) = Inr u"
      by (auto simp: session_user_def session_Get_def split: option.splits sum.splits if_splits)
    with g show "\<exists>token. gm_get (rq_cookie rq) ''session'' = Some token \<and> token \<noteq> ''''
      \<and> gm_get (sv_sessions s) token = Some (u_ID u) \<and> u \<in> set (t_users (sv_db s)) \<and> down (sv_db s) = None" by auto
  next
    assume "\<exists>token. gm_get (rq_cookie rq) ''session'' = Some token \<and> token \<noteq> ''''
      \<and> gm_get (sv_sessions s) token = Some (u_ID u) \<and> u \<in> set (t_users (sv_db s)) \<and> down (sv_db s) = None"
    then obtain token where t: "gm_get (rq_cookie rq) ''session'' = Some token" "token \<noteq> ''''"
      "gm_get (sv_sessions s) token = Some (u_ID u)" "GetUser (u_ID u) (sv_db s) = Inr u"
      using g by blast
    then show "session_user rq s = Some u" by (simp add: session_user_def session_Get_def)
  qed
qed

lemma public_not_internal: "isPublicPath p \<Longrightarrow> \<not> has_prefix p ''/internal/''"
  by (auto simp: isPublicPath_def has_prefix_def)

lemma project_key_iff:
  "db_ok d \<Longrightarrow> GetProjectByAPIKey k d = Inr p \<longleftrightarrow> down d = None \<and> p \<in> set (t_projects d) \<and> p_APIKey p = k"
  by (simp add: GetProjectByAPIKey_def db_row_Inr db_ok_def find_key_iff)

lemma AuthMiddleware_lets_in:
  assumes "db_ok (sv_db s)" and "admits s rq cx"
  shows "AuthMiddleware nxt rq s = nxt cx rq s"
  using assms(2)
proof cases
  case public
  then show ?thesis by (simp add: AuthMiddleware_def Let_def)
next
  case node
  then show ?thesis by (auto simp: AuthMiddleware_def Let_def valid_node_key_header)
next
  case (project p)
  then have "GetProjectByAPIKey (p_APIKey p) (sv_db s) = Inr p" using project_key_iff [OF assms(1)] by blast
  with project show ?thesis
    by (auto simp: AuthMiddleware_def Let_def valid_node_key_header get_or_empty_def [of _ "''X-API-Key''"])
next
  case (user token u)
  then have "session_user rq s = Some u" using session_user_iff [OF assms(1)] by blast
  with user show ?thesis by (auto simp: AuthMiddleware_def Let_def valid_node_key_header)
qed

lemma AuthMiddleware_turns_away:
  assumes "db_ok (sv_db s)" and n: "\<nexists>cx. admits s rq cx"
  shows "status (fst (AuthMiddleware nxt rq s)) = 401 \<and> snd (AuthMiddleware nxt rq s) = s"
proof -
  from n have p: "\<not> isPublicPath (rq_path rq)" "\<not> valid_node_key s rq" by (blast intro: admits.intros)+
  let ?k = "get_or_empty (rq_header rq) ''X-API-Key''"
  show ?thesis
  proof (cases "has_prefix (rq_path rq) ''/internal/''")
    case True
    with p show ?thesis
      by (auto simp: AuthMiddleware_def Let_def valid_node_key_header unauthorized_def cp_writeErr_def)
  next
    case False
    have key: "\<exists>e. GetProjectByAPIKey ?k (sv_db s) = Inl e" if "?k \<noteq> ''''"
    proof (cases "GetProjectByAPIKey ?k (sv_db s)")
      case (Inr pr)
      then have "down (sv_db s) = None" "pr \<in> set (t_projects (sv_db s))" "p_APIKey pr = ?k"
        using project_key_iff [OF assms(1)] by blast+
      moreover have "gm_get (rq_header rq) ''X-API-Key'' = Some ?k"
        using that by (auto simp: get_or_empty_def split: option.splits)
      ultimately have "admits s rq (background\<lparr>cx_project := Some pr\<rparr>)"
        using that by (intro admits.project [OF p False]) simp_all
      then show ?thesis using n by blast
    qed simp
    have sess: "session_user rq s = None" if "?k = ''''"
    proof (cases "session_user rq s")
      case (Some u)
      then obtain token where "gm_get (rq_cookie rq) ''session'' = Some token" "token \<noteq> ''''"
        "gm_get (sv_sessions s) token = Some (u_ID u)" "u \<in> set (t_users (sv_db s))" "down (sv_db s) = None"
        using session_user_iff [OF assms(1)] by blast
      then have "admits s rq (background\<lparr>cx_user := Some u\<rparr>)" by (rule admits.user [OF p False that])
      then show ?thesis using n by blast
    qed simp
    show ?thesis
      using p False key sess
      by (cases "?k = ''''") (auto simp: AuthMiddleware_def Let_def valid_node_key_header unauthorized_def cp_writeErr_def)
  qed
qed

text \<open>
  C6. The middleware lets a request through exactly when it carries an accepted credential, and
  then the handler runs with that credential's project or user; otherwise the answer is 401 and
  nothing changes. So an internal path needs the node key, whatever else the request carries. The
  credential is not tied to the group of routes: where the comment of the route table says that the
  admin routes, the list of the nodes and their provisioning, require a session (server.go:75), the
  key of any project is accepted there, and so is the node key.
\<close>
theorem AuthMiddleware_admits:
  assumes "db_ok (sv_db s)"
  shows "(\<forall>cx. admits s rq cx \<longrightarrow> AuthMiddleware nxt rq s = nxt cx rq s)
    \<and> ((\<nexists>cx. admits s rq cx) \<longrightarrow> status (fst (AuthMiddleware nxt rq s)) = 401 \<and> snd (AuthMiddleware nxt rq s) = s)
    \<and> (has_prefix (rq_path rq) ''/internal/'' \<and> admits s rq cx \<longrightarrow> valid_node_key s rq)
    \<and> (rq_path rq \<in> {''/v1/nodes'', ''/v1/nodes/provision''} \<longrightarrow>
        (valid_node_key s rq \<longrightarrow> AuthMiddleware nxt rq s = nxt background rq s)
        \<and> (\<forall>p. \<not> valid_node_key s rq \<longrightarrow> GetProjectByAPIKey (p_APIKey p) (sv_db s) = Inr p \<longrightarrow> p_APIKey p \<noteq> '''' \<longrightarrow>
             gm_get (rq_header rq) ''X-API-Key'' = Some (p_APIKey p) \<longrightarrow>
             AuthMiddleware nxt rq s = nxt (background\<lparr>cx_project := Some p\<rparr>) rq s))"
proof (intro conjI allI impI)
  fix cx assume "admits s rq cx"
  then show "AuthMiddleware nxt rq s = nxt cx rq s" by (rule AuthMiddleware_lets_in [OF assms])
next
  assume "\<nexists>cx. admits s rq cx"
  from AuthMiddleware_turns_away [OF assms this]
  show "status (fst (AuthMiddleware nxt rq s)) = 401" "snd (AuthMiddleware nxt rq s) = s" by simp_all
next
  assume "has_prefix (rq_path rq) ''/internal/'' \<and> admits s rq cx"
  then have i: "has_prefix (rq_path rq) ''/internal/''" and a: "admits s rq cx" by simp_all
  from a show "valid_node_key s rq"
  proof cases
    case public
    with i public_not_internal show ?thesis by blast
  qed (use i in simp_all)
next
  assume "valid_node_key s rq"
  then show "AuthMiddleware nxt rq s = nxt background rq s"
    by (intro AuthMiddleware_lets_in [OF assms] admits.node)
next
  fix p
  assume path: "rq_path rq \<in> {''/v1/nodes'', ''/v1/nodes/provision''}" and n: "\<not> valid_node_key s rq"
    and p: "GetProjectByAPIKey (p_APIKey p) (sv_db s) = Inr p" "p_APIKey p \<noteq> ''''"
      "gm_get (rq_header rq) ''X-API-Key'' = Some (p_APIKey p)"
  have "\<not> isPublicPath (rq_path rq)" "\<not> has_prefix (rq_path rq) ''/internal/''"
    using path by (auto simp: isPublicPath_def has_prefix_def)
  with n p project_key_iff [OF assms] show "AuthMiddleware nxt rq s = nxt (background\<lparr>cx_project := Some p\<rparr>) rq s"
    by (intro AuthMiddleware_lets_in [OF assms] admits.project) blast+
qed

definition demo_config :: server_config where
  "demo_config = \<lparr>sc_Port = 8080, sc_DataDir = '''', sc_DBPath = '''', sc_NodeKey = ''nk'', sc_CPURL = ''http://cp''\<rparr>"

lemma AuthMiddleware_admits_witness:
  "\<exists>r s. s = cp_NewServer demo_config OpenDB () \<and> status r = 401
     \<and> AuthMiddleware (\<lambda>cx rq s. (cp_writeOK JNull, s)) (empty_request\<lparr>rq_path := ''/internal/nodes/register''\<rparr>) s = (r, s)"
proof -
  let ?s = "cp_NewServer demo_config OpenDB ()" and ?rq = "empty_request\<lparr>rq_path := ''/internal/nodes/register''\<rparr>"
  have ok: "db_ok (sv_db ?s)" by (simp add: cp_NewServer_def OpenDB_ok)
  have v: "\<not> valid_node_key ?s ?rq" by (simp add: valid_node_key_def empty_request_def)
  have i: "has_prefix (rq_path ?rq) ''/internal/''" by (simp add: has_prefix_def)
  have n: "\<nexists>cx. admits ?s ?rq cx"
    using v AuthMiddleware_admits [OF ok, of ?rq] i by blast
  show ?thesis
    using AuthMiddleware_admits [OF ok, of ?rq "\<lambda>cx rq s. (cp_writeOK JNull, s)"] n
    by (intro exI [of _ "fst (AuthMiddleware (\<lambda>cx rq s. (cp_writeOK JNull, s)) ?rq ?s)"] exI [of _ ?s])
      (metis prod.collapse)
qed

section \<open>An account from registration to logout\<close>

lemma CreateUser_None:
  assumes "CreateUser i email hash now d = (None, d')"
  shows "down d = None" "down d' = None" "t_projects d' = t_projects d"
    "t_users d' = t_users d @ [\<lparr>u_ID = i, u_Email = email, u_PasswordHash = hash, u_CreatedAt = stored_time now\<rparr>]"
  using assms by (auto simp: CreateUser_def db_exec_def unique_failed_def split: option.splits if_splits)

lemma CreateProject_new:
  assumes "down d = None" and "i \<notin> p_ID ` set (t_projects d)" and "key \<notin> p_APIKey ` set (t_projects d)"
  shows "t_projects (snd (CreateProject key i name own now d)) = t_projects d @
      [\<lparr>p_ID = i, p_Name = name, p_APIKey = key, p_OwnerID = own, p_CreatedAt = stored_time now\<rparr>]"
proof -
  have "\<not> (\<exists>p \<in> set (t_projects d). p_ID p = i)" "\<not> (\<exists>p \<in> set (t_projects d). p_APIKey p = key)"
    using assms(2,3) by auto
  then show ?thesis using assms(1) by (simp add: CreateProject_def db_exec_def)
qed

lemma CreateProject_users: "t_users (snd (CreateProject key i name own now d)) = t_users d"
    "down (snd (CreateProject key i name own now d)) = down d" "fst (fst (CreateProject key i name own now d)) = key"
  by (auto simp: CreateProject_def db_exec_def Let_def split: option.split)

lemma Register_ok:
  assumes "decode_credentials rq = Inr (email, pw)" and "handleRegister e rq s = (resp, s')" and "status resp = 200"
  obtains d1 where "CreateUser (e_uuid e 0) email (hashPassword e pw) (e_now e) (sv_db s) = (None, d1)"
    "sv_db s' = snd (CreateProject (generateAPIKey (e_key e)) (e_uuid e 1) ''Default'' (e_uuid e 0) (e_now e) d1)"
    "sv_sessions s' = session_Create (e_token e) (e_uuid e 0) (sv_sessions s)" "sv_config s' = sv_config s"
    "rheaders resp = (''Set-Cookie'', session_cookie (e_token e)) # rheaders (cp_writeOK JNull)"
    "rbody resp = BJson (JObj [(''apiKey'', JStr (generateAPIKey (e_key e))), (''projectId'', JStr (e_uuid e 1)), (''userId'', JStr (e_uuid e 0))])"
proof -
  obtain x d1 where c: "CreateUser (e_uuid e 0) email (hashPassword e pw) (e_now e) (sv_db s) = (x, d1)" by (metis surj_pair)
  have x: "x = None"
    using assms c
    by (cases x) (auto simp: handleRegister_def cp_writeErr_def Let_def split: if_splits sum.splits)
  have k: "fst (fst (CreateProject (generateAPIKey (e_key e)) (e_uuid e 1) ''Default'' (e_uuid e 0) (e_now e) d1))
      = generateAPIKey (e_key e)" by (rule CreateProject_users)
  show ?thesis
    using assms c x k
    by (intro that [of d1])
      (auto simp: handleRegister_def cp_writeErr_def cp_writeOK_def json_response_def with_cookie_def Let_def case_prod_unfold split: if_splits sum.splits)
qed

text \<open>The user whose session a cookie of the given value names, for every request that sends it.\<close>

definition cookie_opens :: "string \<Rightarrow> user \<Rightarrow> 'w cpserver \<Rightarrow> bool" where
  "cookie_opens token u s \<longleftrightarrow> (\<forall>rq. gm_get (rq_cookie rq) ''session'' = Some token \<longrightarrow> session_user rq s = Some u
     \<and> (\<not> isPublicPath (rq_path rq) \<and> \<not> valid_node_key s rq \<and> \<not> has_prefix (rq_path rq) ''/internal/''
          \<and> get_or_empty (rq_header rq) ''X-API-Key'' = '''' \<longrightarrow>
          (\<forall>nxt. AuthMiddleware nxt rq s = nxt (background\<lparr>cx_user := Some u\<rparr>) rq s)))"

lemma cookie_opens_session:
  assumes "db_ok (sv_db s)" and "session_Get (sv_sessions s) token = Some (u_ID u)" and "GetUser (u_ID u) (sv_db s) = Inr u"
    and "token \<noteq> ''''"
  shows "cookie_opens token u s"
proof -
  have "session_user rq s = Some u" if "gm_get (rq_cookie rq) ''session'' = Some token" for rq
    using that assms(2-4) by (simp add: session_user_def)
  then show ?thesis
    by (auto simp: cookie_opens_def AuthMiddleware_def Let_def valid_node_key_header)
qed

text \<open>
  C29. An account works after its registration. The answer to the registration sets a session
  cookie, and so does the answer to a login with the e-mail address and a password of the same
  digest; a request that sends the value of either cookie back is recognised as the new user's and let
  in as such. Any other password is refused and changes nothing. The API key that was handed
  out, when it and the project's identifier are new, is admitted as a project the user owns. The
  tokens, 32 random bytes in hexadecimal, are not empty.
\<close>
theorem register_then_login:
  assumes "decode_credentials rq = Inr (email, pw)" and "handleRegister e rq s = (resp, s')" and "status resp = 200"
    and "db_ok (sv_db s)" and "decode_credentials rq' = Inr (email, pw')" and "e_sha256 e' = e_sha256 e"
    and "handleLogin e' rq' s' = (resp', s'')" and "e_token e \<noteq> ''''" and "e_token e' \<noteq> ''''"
  shows "(\<exists>u. u_ID u = e_uuid e 0 \<and> u_Email u = email
        \<and> (\<exists>token. filter (\<lambda>(k, v). k = ''Set-Cookie'') (rheaders resp) = [(''Set-Cookie'', session_cookie token)]
             \<and> cookie_opens token u s')
        \<and> (if e_sha256 e pw' = e_sha256 e pw
           then status resp' = 200
             \<and> (\<exists>token. filter (\<lambda>(k, v). k = ''Set-Cookie'') (rheaders resp') = [(''Set-Cookie'', session_cookie token)]
                  \<and> cookie_opens token u s'')
           else status resp' = 401 \<and> s'' = s'))
    \<and> (generateAPIKey (e_key e) \<notin> p_APIKey ` set (t_projects (sv_db s)) \<and> e_uuid e 1 \<notin> p_ID ` set (t_projects (sv_db s))
        \<longrightarrow> (\<exists>p. GetProjectByAPIKey (generateAPIKey (e_key e)) (sv_db s') = Inr p \<and> p_OwnerID p = e_uuid e 0 \<and> p_ID p = e_uuid e 1))"
proof -
  obtain d1 where c: "CreateUser (e_uuid e 0) email (hashPassword e pw) (e_now e) (sv_db s) = (None, d1)"
    and d: "sv_db s' = snd (CreateProject (generateAPIKey (e_key e)) (e_uuid e 1) ''Default'' (e_uuid e 0) (e_now e) d1)"
    and ses: "sv_sessions s' = session_Create (e_token e) (e_uuid e 0) (sv_sessions s)"
    and hd: "rheaders resp = (''Set-Cookie'', session_cookie (e_token e)) # rheaders (cp_writeOK JNull)"
    using Register_ok [OF assms(1-3)] by blast
  note d1 = CreateUser_None [OF c]
  have ok: "db_ok (sv_db s')"
    using CreateUser_ok [OF assms(4), of "e_uuid e 0" email "hashPassword e pw" "e_now e"] c
    by (simp add: d CreateProject_ok)
  let ?u = "\<lparr>u_ID = e_uuid e 0, u_Email = email, u_PasswordHash = hashPassword e pw, u_CreatedAt = stored_time (e_now e)\<rparr>"
  have up: "down (sv_db s') = None" and u: "?u \<in> set (t_users (sv_db s'))"
    using d1 by (simp_all add: d CreateProject_users)
  have mail: "GetUserByEmail email (sv_db s') = Inr ?u" and id: "GetUser (e_uuid e 0) (sv_db s') = Inr ?u"
    using ok up u by (simp_all add: GetUserByEmail_def GetUser_def db_row_Inr db_ok_def find_key_iff)
  have cookie: "filter (\<lambda>(k, v). k = ''Set-Cookie'') ((''Set-Cookie'', session_cookie tok) # rheaders (cp_writeOK j))
      = [(''Set-Cookie'', session_cookie tok)]" for tok j
    by (simp add: cp_writeOK_def json_response_def)
  have reg: "cookie_opens (e_token e) ?u s'"
    using ok id assms(8) by (intro cookie_opens_session) (simp_all add: ses session_Get_def session_Create_def)
  have login: "if e_sha256 e pw' = e_sha256 e pw
        then status resp' = 200 \<and> rheaders resp' = (''Set-Cookie'', session_cookie (e_token e')) # rheaders (cp_writeOK JNull)
          \<and> cookie_opens (e_token e') ?u s''
        else status resp' = 401 \<and> s'' = s'"
  proof (cases "e_sha256 e pw' = e_sha256 e pw")
    case True
    then have "s'' = s'\<lparr>sv_sessions := session_Create (e_token e') (e_uuid e 0) (sv_sessions s')\<rparr>"
      and r: "status resp' = 200" "rheaders resp' = (''Set-Cookie'', session_cookie (e_token e')) # rheaders (cp_writeOK JNull)"
      using assms(7)
      by (auto simp: handleLogin_def assms(5,6) mail hashPassword_def with_cookie_def cp_writeOK_def json_response_def)
    then have "cookie_opens (e_token e') ?u s''"
      using ok id assms(9) by (intro cookie_opens_session) (simp_all add: session_Get_def session_Create_def)
    with True r show ?thesis by simp
  next
    case False
    then show ?thesis
      using assms(7) by (auto simp: handleLogin_def assms(5,6) mail hashPassword_def unauthorized_def cp_writeErr_def)
  qed
  have "\<exists>p. GetProjectByAPIKey (generateAPIKey (e_key e)) (sv_db s') = Inr p \<and> p_OwnerID p = e_uuid e 0 \<and> p_ID p = e_uuid e 1"
    if "generateAPIKey (e_key e) \<notin> p_APIKey ` set (t_projects (sv_db s))" "e_uuid e 1 \<notin> p_ID ` set (t_projects (sv_db s))"
    using that d1 CreateProject_new [of d1 "e_uuid e 1" "generateAPIKey (e_key e)"] up
    by (simp add: project_key_iff [OF ok]) (auto simp: d)
  moreover have "u_ID ?u = e_uuid e 0 \<and> u_Email ?u = email" by simp
  ultimately show ?thesis
    using reg login hd cookie [of _ JNull] by (intro conjI exI [of _ ?u]) (auto split: if_splits)
qed

text \<open>A toy digest, and a server right after its start.\<close>

definition demo_env :: "'w http_client \<Rightarrow> 'w cp_env" where
  "demo_env cl = \<lparr>e_client = cl, e_new_request = (\<lambda>url. None), e_sha256 = (\<lambda>p. ''h:'' @ p), e_now = 5 * second,
     e_uuid = (\<lambda>k. if k = 0 then ''11111111-u'' else ''22222222-u''), e_key = ''abcd'', e_token = ''t0''\<rparr>"

definition credentials_rq :: "string \<Rightarrow> request" where
  "credentials_rq pw = empty_request\<lparr>rq_json := Inr (JObj [(''email'', JStr ''a@b.c''), (''password'', JStr pw)])\<rparr>"

lemma decode_credentials_rq: "decode_credentials (credentials_rq pw) = Inr (''a@b.c'', pw)"
  by (simp add: decode_credentials_def credentials_rq_def dec_object_def dec_string_def jfield_def)

definition demo_server :: "unit cpserver" where
  "demo_server = snd (handleRegister (demo_env (\<lambda>q w. (Inl ''refused'', w))) (credentials_rq ''pw'') (cp_NewServer demo_config OpenDB ()))"

lemma register_then_login_witness:
  "\<exists>resp s''. handleLogin (demo_env (\<lambda>q w. (Inl ''refused'', w))) (credentials_rq ''pw'') demo_server = (resp, s'') \<and> status resp = 200
     \<and> status (fst (handleLogin (demo_env (\<lambda>q w. (Inl ''refused'', w))) (credentials_rq ''PW'') demo_server)) = 401"
proof -
  let ?e = "demo_env (\<lambda>q w. (Inl ''refused'', w)) :: unit cp_env" and ?s = "cp_NewServer demo_config OpenDB ()"
  obtain resp where r: "handleRegister ?e (credentials_rq ''pw'') ?s = (resp, demo_server)" "status resp = 200"
    by (simp add: demo_server_def handleRegister_def decode_credentials_rq cp_NewServer_def OpenDB_def GetUserByEmail_def
        db_row_def CreateUser_def db_exec_def Let_def with_cookie_def cp_writeOK_def case_prod_unfold)
  have ok: "db_ok (sv_db ?s)" by (simp add: cp_NewServer_def OpenDB_ok)
  obtain r1 s1 where l1: "handleLogin ?e (credentials_rq ''pw'') demo_server = (r1, s1)" by (metis surj_pair)
  obtain r2 s2 where l2: "handleLogin ?e (credentials_rq ''PW'') demo_server = (r2, s2)" by (metis surj_pair)
  have "status r1 = 200"
    using register_then_login [OF decode_credentials_rq r ok decode_credentials_rq refl l1] by (auto simp: demo_env_def)
  moreover have "status r2 = 401"
    using register_then_login [OF decode_credentials_rq r ok decode_credentials_rq refl l2] by (auto simp: demo_env_def)
  ultimately show ?thesis using l1 l2 by simp
qed

end
