(* ===== verification/ControlPlane_Handlers.thy ===== *)
theory ControlPlane_Handlers
  imports ControlPlane_Auth
begin

text \<open>
  The HTTP API of the control plane (\<open>handlers.go\<close>, \<open>server.go\<close>): sandboxes placed on nodes, the
  proxy to the nodes, provisioning, and the nodes' own calls. Objects written from Go maps have
  their keys sorted, structs keep the order of their fields.
\<close>

section \<open>Calls to a node\<close>

text \<open>The error, or nothing: the decoded answer is never used.\<close>

definition forwardToNode ::
  "'w cp_env \<Rightarrow> cp_node \<Rightarrow> string \<Rightarrow> string \<Rightarrow> json option \<Rightarrow> 'w cpserver \<Rightarrow> string option \<times> 'w cpserver" where
  "forwardToNode e node meth path body s =
     (let targetURL = n_Address node @ path
      in case e_new_request e targetURL of
           Some err \<Rightarrow> (Some err, s)
         | None \<Rightarrow>
             let req = \<lparr>oq_method = meth, oq_url = targetURL,
                        oq_headers = (if body \<noteq> None then [(''Content-Type'', ''application/json'')] else []),
                        oq_body = (case body of None \<Rightarrow> BEmpty | Some j \<Rightarrow> BJson j)\<rparr>;
                 (res, w1) = e_client e req (sv_world s);
                 s1 = s\<lparr>sv_world := w1\<rparr>
             in case res of
                  Inl err \<Rightarrow> (Some (''node '' @ n_Name node @ '' unreachable: '' @ err), s1)
                | Inr resp \<Rightarrow>
                    if status resp \<ge> 400
                    then (Some (''node returned '' @ dec (int (status resp)) @ '': '' @ body_text (rbody resp)), s1)
                    else (None, s1))"

text \<open>
  What the server answers for a sandbox it cannot look up, and the sandbox with its node. A
  request whose URL cannot be built makes the proxy dereference a nil request: the server recovers
  the panic and closes the connection without an answer (\<open>aborted\<close>).
\<close>

definition lookup_error :: "string \<Rightarrow> db_error \<Rightarrow> response" where
  "lookup_error i err =
     (case err of
        NoRows \<Rightarrow> cp_writeErr http_not_found ''not_found'' (''sandbox not found: '' @ i)
      | DBFailure m \<Rightarrow> cp_writeErr http_internal ''internal'' m)"

definition sandbox_and_node :: "string \<Rightarrow> string \<Rightarrow> db \<Rightarrow> response + cp_sandbox \<times> cp_node" where
  "sandbox_and_node missing i d =
     (case GetSandbox i d of
        Inl err \<Rightarrow> Inl (lookup_error i err)
      | Inr sandbox \<Rightarrow>
          (case GetNode (s_NodeID sandbox) d of
             Inl _ \<Rightarrow> Inl (cp_writeErr http_internal ''internal'' missing)
           | Inr node \<Rightarrow> Inr (sandbox, node)))"

definition proxySandboxToNode :: "'w cp_env \<Rightarrow> string \<Rightarrow> string \<Rightarrow> 'w cpserver handler" where
  "proxySandboxToNode e meth subpath rq s =
     (let i = get_or_empty (rq_vars rq) ''id''
      in case sandbox_and_node ''node not found for sandbox'' i (sv_db s) of
           Inl resp \<Rightarrow> (resp, s)
         | Inr (_, node) \<Rightarrow>
             let base = n_Address node @ ''/sandboxes/'' @ i @ subpath;
                 targetURL = (if rq_query rq \<noteq> '''' then base @ ''?'' @ rq_query rq else base)
             in if e_new_request e targetURL \<noteq> None then (aborted, s)
                else
                  let proxyReq = \<lparr>oq_method = meth, oq_url = targetURL,
                                  oq_headers = [(''Content-Type'', get_or_empty (rq_header rq) ''Content-Type'')],
                                  oq_body = BRaw (rq_raw rq)\<rparr>;
                      (res, w1) = e_client e proxyReq (sv_world s);
                      s1 = s\<lparr>sv_world := w1\<rparr>
                  in case res of
                       Inl err \<Rightarrow> (cp_writeErr http_bad_gateway ''node_unreachable'' (''node unreachable: '' @ err), s1)
                     | Inr resp \<Rightarrow>
                         (\<lparr>status = status resp, rheaders = set_headers (rheaders resp), rbody = rbody resp\<rparr>, s1))"

section \<open>Sandboxes\<close>

record create_sandbox_request =
  cs_Template :: string
  cs_VCPUs :: int
  cs_MemoryMB :: int
  cs_Timeout :: int
  cs_Metadata :: "(string, string) gomap"
  cs_EnvVars :: "(string, string) gomap option"

definition decode_create_sandbox :: "json \<Rightarrow> string + create_sandbox_request" where
  "decode_create_sandbox j =
     bind_res (dec_string ''template'' j) (\<lambda>template.
     bind_res (dec_int ''vcpus'' j) (\<lambda>vcpus.
     bind_res (dec_int ''memoryMB'' j) (\<lambda>memoryMB.
     bind_res (dec_int ''timeout'' j) (\<lambda>timeout.
     bind_res (dec_map ''metadata'' j) (\<lambda>metadata.
     bind_res (dec_map ''envVars'' j) (\<lambda>envVars.
       Inr \<lparr>cs_Template = template, cs_VCPUs = vcpus, cs_MemoryMB = memoryMB, cs_Timeout = timeout,
            cs_Metadata = (case metadata of None \<Rightarrow> [] | Some m \<Rightarrow> m), cs_EnvVars = envVars\<rparr>))))))"

text \<open>What the node is asked for; a nil map is written as \<open>null\<close>.\<close>

definition node_request_body :: "string \<Rightarrow> create_sandbox_request \<Rightarrow> json" where
  "node_request_body sandboxID req = JObj
     [(''envVars'', case cs_EnvVars req of None \<Rightarrow> JNull | Some m \<Rightarrow> jstr_map m), (''memoryMB'', JInt (cs_MemoryMB req)),
      (''sandboxId'', JStr sandboxID), (''template'', JStr (cs_Template req)), (''timeout'', JInt (cs_Timeout req)),
      (''vcpus'', JInt (cs_VCPUs req))]"

text \<open>The row that is recorded.\<close>

definition sandbox_row :: "'w cp_env \<Rightarrow> string \<Rightarrow> project \<Rightarrow> cp_node \<Rightarrow> create_sandbox_request \<Rightarrow> cp_sandbox" where
  "sandbox_row e sandboxID project node req =
     (let timeout = (if cs_Timeout req > 0 then cs_Timeout req else 300)
      in \<lparr>s_ID = sandboxID, s_ProjectID = p_ID project, s_NodeID = n_ID node,
          s_Template = (if cs_Template req \<noteq> '''' then cs_Template req else ''base''), s_Status = ''running'',
          s_VCPUs = (if cs_VCPUs req > 0 then cs_VCPUs req else 1),
          s_MemoryMB = (if cs_MemoryMB req > 0 then cs_MemoryMB req else 512),
          s_HostIP = n_PublicIP node, s_TimeoutSec = timeout, s_Metadata = cs_Metadata req,
          s_CreatedAt = e_now e, s_ExpiresAt = e_now e + duration_seconds timeout\<rparr>)"

definition new_sandbox_id :: "string \<Rightarrow> string" where
  "new_sandbox_id uuid = ''sb-'' @ take 8 uuid"

definition has_room :: "cp_node \<Rightarrow> bool" where
  "has_room n \<longleftrightarrow> n_Running n < n_MaxSandboxes n"

definition handleCreateSandbox :: "'w cp_env \<Rightarrow> cp_ctx \<Rightarrow> 'w cpserver handler" where
  "handleCreateSandbox e cx rq s =
     (case cx_project cx of
        None \<Rightarrow> (cp_writeErr http_unauthorized ''unauthorized'' ''no project context'', s)
      | Some project \<Rightarrow>
     (case bind_res (dec_object (rq_json rq)) decode_create_sandbox of
        Inl err \<Rightarrow> (cp_writeErr http_bad_request ''bad_request'' err, s)
      | Inr req \<Rightarrow>
     (case ListOnlineNodes (sv_db s) of
        Inl _ \<Rightarrow> (cp_writeErr http_unavailable ''no_capacity'' ''no nodes available'', s)
      | Inr [] \<Rightarrow> (cp_writeErr http_unavailable ''no_capacity'' ''no nodes available'', s)
      | Inr nodes \<Rightarrow>
     (case find has_room nodes of
        None \<Rightarrow> (cp_writeErr http_unavailable ''no_capacity'' ''all nodes at capacity'', s)
      | Some target \<Rightarrow>
          let sandboxID = new_sandbox_id (e_uuid e 0)
          in case forwardToNode e target ''POST'' ''/sandboxes'' (Some (node_request_body sandboxID req)) s of
               (Some err, s1) \<Rightarrow> (cp_writeErr http_bad_gateway ''node_error'' (''failed to create sandbox: '' @ err), s1)
             | (None, s1) \<Rightarrow>
                 let (_, db1) = CreateSandbox (sandbox_row e sandboxID project target req) (sv_db s1);
                     (_, db2) = UpdateNodeHeartbeat (n_ID target) (n_Running target + 1) (e_now e) db1
                 in (cp_writeOK (JObj [(''sandboxId'', JStr sandboxID), (''status'', JStr ''running''),
                       (''hostIp'', JStr (n_PublicIP target))]), s1\<lparr>sv_db := db2\<rparr>)))))"

definition sandbox_json :: "cp_sandbox \<Rightarrow> json" where
  "sandbox_json s = JObj
     ([(''sandboxId'', JStr (s_ID s)), (''projectId'', JStr (s_ProjectID s)), (''nodeId'', JStr (s_NodeID s)),
       (''template'', JStr (s_Template s)), (''status'', JStr (s_Status s)), (''vcpus'', JInt (s_VCPUs s)),
       (''memoryMB'', JInt (s_MemoryMB s)), (''hostIp'', JStr (s_HostIP s)), (''timeoutSec'', JInt (s_TimeoutSec s))]
      @ (if s_Metadata s = [] then [] else [(''metadata'', jstr_map (s_Metadata s))])
      @ [(''createdAt'', JStr (time_text (s_CreatedAt s))), (''expiresAt'', JStr (time_text (s_ExpiresAt s)))])"

definition handleListSandboxes :: "cp_ctx \<Rightarrow> 'w cpserver handler" where
  "handleListSandboxes cx rq s =
     (case cx_project cx of
        None \<Rightarrow> (cp_writeErr http_unauthorized ''unauthorized'' ''no project context'', s)
      | Some project \<Rightarrow>
          (case ListSandboxes (p_ID project) (sv_db s) of
             Inl err \<Rightarrow> (cp_writeErr http_internal ''internal'' (db_message err), s)
           | Inr sandboxes \<Rightarrow> (cp_writeOK (JObj [(''sandboxes'', JArr (map sandbox_json sandboxes))]), s)))"

definition handleGetSandbox :: "'w cpserver handler" where
  "handleGetSandbox rq s =
     (let i = get_or_empty (rq_vars rq) ''id''
      in case GetSandbox i (sv_db s) of
           Inl err \<Rightarrow> (lookup_error i err, s)
         | Inr sandbox \<Rightarrow> (cp_writeOK (sandbox_json sandbox), s))"

text \<open>The sandbox is removed from the database also when the node refused to delete it.\<close>

definition handleDeleteSandbox :: "'w cp_env \<Rightarrow> 'w cpserver handler" where
  "handleDeleteSandbox e rq s =
     (let i = get_or_empty (rq_vars rq) ''id''
      in case sandbox_and_node ''node not found for sandbox'' i (sv_db s) of
           Inl resp \<Rightarrow> (resp, s)
         | Inr (_, node) \<Rightarrow>
             let (_, s1) = forwardToNode e node ''DELETE'' (''/sandboxes/'' @ i) None s;
                 (_, db1) = db_DeleteSandbox i (sv_db s1)
             in (cp_writeOK (JObj [(''status'', JStr ''deleted'')]), s1\<lparr>sv_db := db1\<rparr>))"

definition set_status_on_node :: "'w cp_env \<Rightarrow> string \<Rightarrow> string \<Rightarrow> 'w cpserver handler" where
  "set_status_on_node e verb st rq s =
     (let i = get_or_empty (rq_vars rq) ''id''
      in case sandbox_and_node ''node not found'' i (sv_db s) of
           Inl resp \<Rightarrow> (resp, s)
         | Inr (_, node) \<Rightarrow>
             (case forwardToNode e node ''POST'' (''/sandboxes/'' @ i @ ''/'' @ verb) None s of
                (Some err, s1) \<Rightarrow> (cp_writeErr http_bad_gateway ''node_error'' err, s1)
              | (None, s1) \<Rightarrow>
                  let (_, db1) = UpdateSandboxStatus i st (sv_db s1)
                  in (cp_writeOK (JObj [(''status'', JStr st)]), s1\<lparr>sv_db := db1\<rparr>)))"

definition handlePauseSandbox :: "'w cp_env \<Rightarrow> 'w cpserver handler" where
  "handlePauseSandbox e = set_status_on_node e ''pause'' ''paused''"

definition handleResumeSandbox :: "'w cp_env \<Rightarrow> 'w cpserver handler" where
  "handleResumeSandbox e = set_status_on_node e ''resume'' ''running''"

definition handleExecSandbox :: "'w cp_env \<Rightarrow> 'w cpserver handler" where
  "handleExecSandbox e = proxySandboxToNode e ''POST'' ''/exec''"

definition handleExecStreamSandbox :: "'w cp_env \<Rightarrow> 'w cpserver handler" where
  "handleExecStreamSandbox e = proxySandboxToNode e ''POST'' ''/exec/stream''"

definition cp_handleReadFile :: "'w cp_env \<Rightarrow> 'w cpserver handler" where
  "cp_handleReadFile e = proxySandboxToNode e ''GET'' ''/files''"

definition cp_handleWriteFile :: "'w cp_env \<Rightarrow> 'w cpserver handler" where
  "cp_handleWriteFile e = proxySandboxToNode e ''PUT'' ''/files''"

definition cp_handleListFiles :: "'w cp_env \<Rightarrow> 'w cpserver handler" where
  "cp_handleListFiles e = proxySandboxToNode e ''GET'' ''/files/list''"

section \<open>Nodes\<close>

text \<open>The row of a machine that was just provisioned, by a request or by the scaler.\<close>

definition provisioned_node :: "string \<Rightarrow> string \<Rightarrow> string \<Rightarrow> time \<Rightarrow> provision_result \<Rightarrow> cp_node" where
  "provisioned_node i name provider now res =
     \<lparr>n_ID = i, n_Name = name, n_Address = ''http://'' @ pr_PublicIP res @ '':9090'', n_PublicIP = pr_PublicIP res,
      n_Provider = provider, n_ProviderID = pr_ProviderID res, n_Region = pr_Region res,
      n_InstanceType = pr_InstanceType res, n_Status = ''provisioning'', n_MaxSandboxes = 50, n_Running = 0,
      n_LastSeen = now, n_CreatedAt = now\<rparr>"

definition node_name :: "string \<Rightarrow> string" where
  "node_name uuid = ''gitvm-node-'' @ take 8 uuid"

record provision_node_request =
  pn_Provider :: string
  pn_Region :: string
  pn_InstanceType :: string
  pn_Runtime :: string
  pn_Name :: string

definition decode_provision :: "json \<Rightarrow> string + provision_node_request" where
  "decode_provision j =
     bind_res (dec_string ''provider'' j) (\<lambda>provider.
     bind_res (dec_string ''region'' j) (\<lambda>region.
     bind_res (dec_string ''instanceType'' j) (\<lambda>instanceType.
     bind_res (dec_string ''runtime'' j) (\<lambda>runtime.
     bind_res (dec_string ''name'' j) (\<lambda>name.
       Inr \<lparr>pn_Provider = provider, pn_Region = region, pn_InstanceType = instanceType, pn_Runtime = runtime, pn_Name = name\<rparr>)))))"

definition handleProvisionNode :: "'w cp_env \<Rightarrow> 'w cpserver handler" where
  "handleProvisionNode e rq s =
     (case bind_res (dec_object (rq_json rq)) decode_provision of
        Inl err \<Rightarrow> (cp_writeErr http_bad_request ''bad_request'' err, s)
      | Inr req \<Rightarrow>
          let provider = (if pn_Provider req = '''' then ''aws'' else pn_Provider req);
              runtime = (if pn_Runtime req = '''' then ''docker'' else pn_Runtime req);
              name = (if pn_Name req = '''' then node_name (e_uuid e 0) else pn_Name req);
              nodeID = e_uuid e (if pn_Name req = '''' then 1 else 0)
          in case reg_Get (sv_providers s) provider of
               Inl _ \<Rightarrow> (cp_writeErr http_bad_request ''provider_not_found''
                   (''provider '' @ quote provider @ '' not registered. Set env vars (e.g. AWS_ACCESS_KEY_ID) and restart.''), s)
             | Inr pv \<Rightarrow>
                 (case pv_ProvisionNode pv
                         \<lparr>po_Name = name, po_Region = pn_Region req, po_InstanceType = pn_InstanceType req, po_Runtime = runtime,
                          po_UserData = NodeUserData (sc_CPURL (sv_config s)) (sc_NodeKey (sv_config s)) name runtime,
                          po_Tags = [(''gitvm'', ''node''), (''runtime'', runtime)]\<rparr> (sv_world s) of
                    (Inl err, w1) \<Rightarrow> (cp_writeErr http_internal ''provision_failed'' err, s\<lparr>sv_world := w1\<rparr>)
                  | (Inr res, w1) \<Rightarrow>
                      let node = provisioned_node nodeID name provider (e_now e) res;
                          (_, db1) = UpsertNode node (sv_db s)
                      in (cp_writeOK (JObj [(''instanceType'', JStr (pr_InstanceType res)), (''name'', JStr name),
                            (''nodeId'', JStr nodeID), (''providerId'', JStr (pr_ProviderID res)),
                            (''publicIp'', JStr (pr_PublicIP res)), (''region'', JStr (pr_Region res)),
                            (''status'', JStr ''provisioning'')]),
                          s\<lparr>sv_world := w1, sv_db := db1\<rparr>)))"

text \<open>A node that registers always gets a new identifier and the provider \<open>custom\<close>.\<close>

definition decode_register :: "json \<Rightarrow> string + (string \<times> string \<times> int \<times> string)" where
  "decode_register j =
     bind_res (dec_string ''name'' j) (\<lambda>name.
     bind_res (dec_string ''address'' j) (\<lambda>address.
     bind_res (dec_int ''maxSandboxes'' j) (\<lambda>maxSandboxes.
     bind_res (dec_string ''region'' j) (\<lambda>region.
     bind_res (dec_string ''nodeKey'' j) (\<lambda>nodeKey. Inr (name, address, maxSandboxes, region))))))"

definition registered_node :: "string \<Rightarrow> time \<Rightarrow> string \<times> string \<times> int \<times> string \<Rightarrow> cp_node" where
  "registered_node i now req =
     (case req of (name, address, maxSandboxes, region) \<Rightarrow>
       \<lparr>n_ID = i, n_Name = name, n_Address = address, n_PublicIP = extractIP address, n_Provider = ''custom'',
        n_ProviderID = '''', n_Region = region, n_InstanceType = '''', n_Status = ''online'',
        n_MaxSandboxes = maxSandboxes, n_Running = 0, n_LastSeen = now, n_CreatedAt = now\<rparr>)"

definition handleNodeRegister :: "'w cp_env \<Rightarrow> 'w cpserver handler" where
  "handleNodeRegister e rq s =
     (case bind_res (dec_object (rq_json rq)) decode_register of
        Inl err \<Rightarrow> (cp_writeErr http_bad_request ''bad_request'' err, s)
      | Inr req \<Rightarrow>
          let node = registered_node (e_uuid e 0) (e_now e) req
          in case UpsertNode node (sv_db s) of
               (Some err, db1) \<Rightarrow> (cp_writeErr http_internal ''internal'' err, s\<lparr>sv_db := db1\<rparr>)
             | (None, db1) \<Rightarrow>
                 (cp_writeOK (JObj [(''nodeId'', JStr (n_ID node)), (''status'', JStr ''registered'')]), s\<lparr>sv_db := db1\<rparr>))"

definition handleNodeHeartbeat :: "'w cp_env \<Rightarrow> 'w cpserver handler" where
  "handleNodeHeartbeat e rq s =
     (let nodeID = get_or_empty (rq_vars rq) ''id''
      in case bind_res (dec_object (rq_json rq)) (dec_int ''runningSandboxes'') of
           Inl err \<Rightarrow> (cp_writeErr http_bad_request ''bad_request'' err, s)
         | Inr running \<Rightarrow>
             (case UpdateNodeHeartbeat nodeID running (e_now e) (sv_db s) of
                (Some err, db1) \<Rightarrow> (cp_writeErr http_internal ''internal'' err, s\<lparr>sv_db := db1\<rparr>)
              | (None, db1) \<Rightarrow> (cp_writeOK (JObj [(''status'', JStr ''ok'')]), s\<lparr>sv_db := db1\<rparr>)))"

definition node_json :: "cp_node \<Rightarrow> json" where
  "node_json n = JObj
     [(''id'', JStr (n_ID n)), (''name'', JStr (n_Name n)), (''address'', JStr (n_Address n)), (''publicIp'', JStr (n_PublicIP n)),
      (''provider'', JStr (n_Provider n)), (''providerId'', JStr (n_ProviderID n)), (''region'', JStr (n_Region n)),
      (''instanceType'', JStr (n_InstanceType n)), (''status'', JStr (n_Status n)), (''maxSandboxes'', JInt (n_MaxSandboxes n)),
      (''runningSandboxes'', JInt (n_Running n)), (''lastSeen'', JStr (time_text (n_LastSeen n))),
      (''createdAt'', JStr (time_text (n_CreatedAt n)))]"

definition handleListNodes :: "'w cpserver handler" where
  "handleListNodes rq s =
     (case ListNodes (sv_db s) of
        Inl err \<Rightarrow> (cp_writeErr http_internal ''internal'' (db_message err), s)
      | Inr nodes \<Rightarrow> (cp_writeOK (JArr (map node_json nodes)), s))"

definition cp_handleHealth :: "'w cpserver handler" where
  "cp_handleHealth rq s =
     (let used = (case TotalCapacity (sv_db s) of Inl _ \<Rightarrow> 0 | Inr (cap, u) \<Rightarrow> u);
          nodeCount = (case ListNodes (sv_db s) of Inl _ \<Rightarrow> 0 | Inr nodes \<Rightarrow> int (length nodes))
      in (cp_writeOK (JObj [(''status'', JStr ''ok''), (''nodes'', JInt nodeCount), (''vms'', JInt used)]), s))"

section \<open>Routes and middleware\<close>

definition cp_routes :: "'w cp_env \<Rightarrow> cp_ctx \<Rightarrow> 'w cpserver route list" where
  "cp_routes e cx =
     [route ''GET'' [Lit ''health''] cp_handleHealth,
      route ''POST'' [Lit ''auth'', Lit ''register''] (handleRegister e),
      route ''POST'' [Lit ''auth'', Lit ''login''] (handleLogin e),
      route ''POST'' [Lit ''auth'', Lit ''logout''] handleLogout,
      route ''POST'' [Lit ''v1'', Lit ''sandboxes''] (handleCreateSandbox e cx),
      route ''GET'' [Lit ''v1'', Lit ''sandboxes''] (handleListSandboxes cx),
      route ''GET'' [Lit ''v1'', Lit ''sandboxes'', Wild ''id''] handleGetSandbox,
      route ''DELETE'' [Lit ''v1'', Lit ''sandboxes'', Wild ''id''] (handleDeleteSandbox e),
      route ''POST'' [Lit ''v1'', Lit ''sandboxes'', Wild ''id'', Lit ''pause''] (handlePauseSandbox e),
      route ''POST'' [Lit ''v1'', Lit ''sandboxes'', Wild ''id'', Lit ''resume''] (handleResumeSandbox e),
      route ''POST'' [Lit ''v1'', Lit ''sandboxes'', Wild ''id'', Lit ''exec''] (handleExecSandbox e),
      route ''POST'' [Lit ''v1'', Lit ''sandboxes'', Wild ''id'', Lit ''exec'', Lit ''stream''] (handleExecStreamSandbox e),
      route ''GET'' [Lit ''v1'', Lit ''sandboxes'', Wild ''id'', Lit ''files''] (cp_handleReadFile e),
      route ''PUT'' [Lit ''v1'', Lit ''sandboxes'', Wild ''id'', Lit ''files''] (cp_handleWriteFile e),
      route ''GET'' [Lit ''v1'', Lit ''sandboxes'', Wild ''id'', Lit ''files'', Lit ''list''] (cp_handleListFiles e),
      route ''GET'' [Lit ''v1'', Lit ''nodes''] handleListNodes,
      route ''POST'' [Lit ''v1'', Lit ''nodes'', Lit ''provision''] (handleProvisionNode e),
      route ''POST'' [Lit ''internal'', Lit ''nodes'', Lit ''register''] (handleNodeRegister e),
      route ''POST'' [Lit ''internal'', Lit ''nodes'', Wild ''id'', Lit ''heartbeat''] (handleNodeHeartbeat e)]"

definition cors_headers :: "(string \<times> string) list" where
  "cors_headers =
     [(''Access-Control-Allow-Origin'', ''*''), (''Access-Control-Allow-Methods'', ''GET, POST, PUT, DELETE, OPTIONS''),
      (''Access-Control-Allow-Headers'', ''Content-Type, X-API-Key, X-Node-Key'')]"

definition corsMiddleware :: "'s handler \<Rightarrow> 's handler" where
  "corsMiddleware next rq s =
     (if rq_method rq = ''OPTIONS'' then (\<lparr>status = http_no_content, rheaders = cors_headers, rbody = BEmpty\<rparr>, s)
      else let (resp, s1) = next rq s in (preset_headers cors_headers resp, s1))"

definition cp_Handler :: "'w cp_env \<Rightarrow> 'w cpserver handler" where
  "cp_Handler e = corsMiddleware (AuthMiddleware (\<lambda>cx. serve_mux (cp_routes e cx)))"

section \<open>Placing a sandbox\<close>

lemma find_sorted_min:
  assumes "find P (sort_key k xs) = Some t"
  shows "t \<in> set xs \<and> P t \<and> (\<forall>m \<in> set xs. P m \<longrightarrow> k t \<le> k m)"
proof -
  obtain i where i: "i < length xs" "P (sort_key k xs ! i)" "t = sort_key k xs ! i" "\<forall>j<i. \<not> P (sort_key k xs ! j)"
    using assms by (auto simp: find_Some_iff)
  have "k t \<le> k m" if m: "m \<in> set xs" "P m" for m
  proof -
    have "m \<in> set (sort_key k xs)" using m by simp
    then obtain j where j: "j < length xs" "sort_key k xs ! j = m" by (metis in_set_conv_nth length_sort)
    then have "i \<le> j" using i(4) m(2) by (metis not_le_imp_less)
    then have "map k (sort_key k xs) ! i \<le> map k (sort_key k xs) ! j"
      using j(1) by (intro sorted_nth_mono sorted_sort_key) simp_all
    then show ?thesis using i j by simp
  qed
  moreover have "t \<in> set xs" using i nth_mem [of i "sort_key k xs"] by simp
  ultimately show ?thesis using i by blast
qed

lemma find_sorted_None: "find P (sort_key k xs) = None \<longleftrightarrow> (\<forall>x \<in> set xs. \<not> P x)"
  by (auto simp: find_None_iff)

lemma GetNode_heartbeat:
  assumes "down d = None"
  shows "GetNode i (snd (UpdateNodeHeartbeat j r now d)) =
     (case GetNode i d of Inl e \<Rightarrow> Inl e
      | Inr n \<Rightarrow> Inr (if n_ID n = j then n\<lparr>n_Running := r, n_LastSeen := stored_time now, n_Status := ''online''\<rparr> else n))"
proof -
  have "find (\<lambda>n. n_ID n = i) (map (\<lambda>n. if n_ID n = j then n\<lparr>n_Running := r, n_LastSeen := stored_time now, n_Status := ''online''\<rparr> else n) (t_nodes d))
     = map_option (\<lambda>n. if n_ID n = j then n\<lparr>n_Running := r, n_LastSeen := stored_time now, n_Status := ''online''\<rparr> else n)
         (find (\<lambda>n. n_ID n = i) (t_nodes d))"
    by (rule find_map_if) simp
  then show ?thesis
    using assms by (simp add: UpdateNodeHeartbeat_def db_exec_def GetNode_def db_row_def split: option.split)
qed

lemma CreateSandbox_other: "down (snd (CreateSandbox r d)) = down d" "t_nodes (snd (CreateSandbox r d)) = t_nodes d"
  by (auto simp: CreateSandbox_def db_exec_def split: option.split)

lemma GetSandbox_created:
  assumes "down d = None" and "\<forall>t \<in> set (t_sandboxes d). s_ID t \<noteq> s_ID r"
  shows "GetSandbox (s_ID r) (snd (CreateSandbox r d)) =
     Inr (r\<lparr>s_Metadata := [], s_CreatedAt := stored_time (s_CreatedAt r), s_ExpiresAt := stored_time (s_ExpiresAt r)\<rparr>)"
proof -
  have "\<not> (\<exists>t \<in> set (t_sandboxes d). s_ID t = s_ID r)" using assms(2) by blast
  moreover have "find (\<lambda>t. s_ID t = s_ID r) (t_sandboxes d) = None" using assms(2) by (simp add: find_None_iff)
  ultimately show ?thesis
    using assms(1) by (simp add: CreateSandbox_def db_exec_def GetSandbox_def db_row_def find_append)
qed

lemma GetSandbox_heartbeat: "GetSandbox i (snd (UpdateNodeHeartbeat j r now d)) = GetSandbox i d"
  by (auto simp: UpdateNodeHeartbeat_def db_exec_def GetSandbox_def db_row_def split: option.splits)

lemma forwardToNode_db: "sv_db (snd (forwardToNode e n m p b s)) = sv_db s"
    "sv_config (snd (forwardToNode e n m p b s)) = sv_config s" "sv_sessions (snd (forwardToNode e n m p b s)) = sv_sessions s"
  by (auto simp: forwardToNode_def Let_def split: option.split sum.split prod.split)

lemma forwardToNode_sent:
  assumes "forwardToNode e n m p b s = (None, s1)"
  obtains q resp where "oq_method q = m" "oq_url q = n_Address n @ p" "e_client e q (sv_world s) = (Inr resp, sv_world s1)"
    "status resp < 400" "oq_body q = (case b of None \<Rightarrow> BEmpty | Some j \<Rightarrow> BJson j)"
proof -
  let ?q = "\<lparr>oq_method = m, oq_url = n_Address n @ p,
      oq_headers = (if b \<noteq> None then [(''Content-Type'', ''application/json'')] else []),
      oq_body = (case b of None \<Rightarrow> BEmpty | Some j \<Rightarrow> BJson j)\<rparr>"
  obtain res w1 where c: "e_client e ?q (sv_world s) = (res, w1)" by (metis surj_pair)
  show ?thesis
    using assms c
    by (cases res) (auto simp: forwardToNode_def Let_def not_le intro: that [of ?q] split: option.splits if_splits)
qed

text \<open>The online nodes that have room, as a set.\<close>

definition candidates :: "db \<Rightarrow> cp_node set" where
  "candidates d = {n \<in> set (t_nodes d). n_Status n = ''online'' \<and> has_room n}"

lemma place_cases:
  assumes "down d = None"
  shows "(candidates d = {} \<longrightarrow> (\<exists>nodes. ListOnlineNodes d = Inr nodes \<and> find has_room nodes = None))
    \<and> (candidates d \<noteq> {} \<longrightarrow> (\<exists>nodes t. ListOnlineNodes d = Inr nodes \<and> nodes \<noteq> [] \<and> find has_room nodes = Some t
         \<and> t \<in> candidates d \<and> (\<forall>n \<in> candidates d. n_Running t \<le> n_Running n)))"
proof (intro conjI impI)
  let ?on = "filter (\<lambda>n. n_Status n = ''online'') (t_nodes d)"
  have l: "ListOnlineNodes d = Inr (sort_key n_Running ?on)" using assms by (simp add: ListOnlineNodes_def db_query_def)
  { assume "candidates d = {}"
    then have "find has_room (sort_key n_Running ?on) = None" by (auto simp: find_sorted_None candidates_def)
    with l show "\<exists>nodes. ListOnlineNodes d = Inr nodes \<and> find has_room nodes = None" by blast }
  assume "candidates d \<noteq> {}"
  then have "find has_room (sort_key n_Running ?on) \<noteq> None" by (auto simp: find_sorted_None candidates_def simp del: not_None_eq)
  then obtain t where t: "find has_room (sort_key n_Running ?on) = Some t" by blast
  then have "sort_key n_Running ?on \<noteq> []" by auto
  with l t find_sorted_min [OF t]
  show "\<exists>nodes t. ListOnlineNodes d = Inr nodes \<and> nodes \<noteq> [] \<and> find has_room nodes = Some t
         \<and> t \<in> candidates d \<and> (\<forall>n \<in> candidates d. n_Running t \<le> n_Running n)"
    by (auto simp: candidates_def)
qed

lemma create_cases:
  assumes "handleCreateSandbox e cx rq s = (resp, s')" and "cx_project cx = Some project"
    and "bind_res (dec_object (rq_json rq)) decode_create_sandbox = Inr req"
    and "down (sv_db s) = None" and "sid = new_sandbox_id (e_uuid e 0)"
  obtains (refused) "candidates (sv_db s) = {}" "status resp = 503" "s' = s"
  | (failed) "candidates (sv_db s) \<noteq> {}" "status resp = 502"
  | (placed) t s1 where "t \<in> candidates (sv_db s)" "\<forall>n \<in> candidates (sv_db s). n_Running t \<le> n_Running n"
      "forwardToNode e t ''POST'' ''/sandboxes'' (Some (node_request_body sid req)) s = (None, s1)"
      "resp = cp_writeOK (JObj [(''sandboxId'', JStr sid), (''status'', JStr ''running''), (''hostIp'', JStr (n_PublicIP t))])"
      "s' = s1\<lparr>sv_db := snd (UpdateNodeHeartbeat (n_ID t) (n_Running t + 1) (e_now e)
         (snd (CreateSandbox (sandbox_row e sid project t req) (sv_db s))))\<rparr>"
proof (cases "candidates (sv_db s) = {}")
  case True
  then obtain nodes where "ListOnlineNodes (sv_db s) = Inr nodes" "find has_room nodes = None"
    using place_cases [OF assms(4)] by blast
  then have "resp = cp_writeErr http_unavailable ''no_capacity'' (if nodes = [] then ''no nodes available'' else ''all nodes at capacity'')"
    and "s' = s"
    using assms(1-3) by (cases nodes; simp add: handleCreateSandbox_def)+
  then show ?thesis using True by (intro refused) (simp_all add: cp_writeErr_def)
next
  case False
  then obtain nodes t where n: "ListOnlineNodes (sv_db s) = Inr nodes" "nodes \<noteq> []" "find has_room nodes = Some t"
    and t: "t \<in> candidates (sv_db s)" "\<forall>n \<in> candidates (sv_db s). n_Running t \<le> n_Running n"
    using place_cases [OF assms(4)] by blast
  obtain x s1 where f: "forwardToNode e t ''POST'' ''/sandboxes'' (Some (node_request_body sid req)) s = (x, s1)"
    by (metis surj_pair)
  have db1: "sv_db s1 = sv_db s" using forwardToNode_db(1) [of e t "''POST''" "''/sandboxes''" "Some (node_request_body sid req)" s] f by simp
  have code: "handleCreateSandbox e cx rq s =
      (case (x, s1) of
         (Some err, s1) \<Rightarrow> (cp_writeErr http_bad_gateway ''node_error'' (''failed to create sandbox: '' @ err), s1)
       | (None, s1) \<Rightarrow>
           let (_, db1) = CreateSandbox (sandbox_row e sid project t req) (sv_db s1);
               (_, db2) = UpdateNodeHeartbeat (n_ID t) (n_Running t + 1) (e_now e) db1
           in (cp_writeOK (JObj [(''sandboxId'', JStr sid), (''status'', JStr ''running''), (''hostIp'', JStr (n_PublicIP t))]),
               s1\<lparr>sv_db := db2\<rparr>))"
    using n unfolding handleCreateSandbox_def assms(2,3,5) f [unfolded assms(5), symmetric]
    by (cases nodes) (simp_all add: Let_def)
  show ?thesis
  proof (cases x)
    case (Some err)
    then show ?thesis using code assms(1) False by (intro failed) (simp_all add: cp_writeErr_def)
  next
    case None
    then show ?thesis using code assms(1) db1 f t by (intro placed [of t s1]) (simp_all add: case_prod_unfold Let_def)
  qed
qed

lemma placed_rows:
  assumes "t \<in> candidates d" and "db_ok d" and "down d = None" and "\<forall>t \<in> set (t_sandboxes d). s_ID t \<noteq> sid"
    and "d' = snd (UpdateNodeHeartbeat (n_ID t) r now (snd (CreateSandbox (sandbox_row e sid project t req) d)))"
  shows "\<exists>row. GetSandbox sid d' = Inr row \<and> s_ProjectID row = p_ID project \<and> s_NodeID row = n_ID t"
    "GetNode (n_ID t) d' = Inr (t\<lparr>n_Running := r, n_LastSeen := stored_time now\<rparr>)"
    "j \<noteq> n_ID t \<Longrightarrow> GetNode j d' = GetNode j d"
proof -
  let ?row = "sandbox_row e sid project t req"
  let ?d1 = "snd (CreateSandbox ?row d)"
  have sid: "s_ID ?row = sid" "s_ProjectID ?row = p_ID project" "s_NodeID ?row = n_ID t"
    by (simp_all add: sandbox_row_def Let_def)
  then show "\<exists>row. GetSandbox sid d' = Inr row \<and> s_ProjectID row = p_ID project \<and> s_NodeID row = n_ID t"
    using GetSandbox_created [OF assms(3), of ?row] assms(4) by (simp add: assms(5) GetSandbox_heartbeat)
  have up: "down ?d1 = None" using assms(3) by (simp add: CreateSandbox_other)
  have get: "GetNode j ?d1 = GetNode j d" for j
    by (simp add: GetNode_def db_row_def CreateSandbox_other)
  have "GetNode (n_ID t) d = Inr t"
    using assms(1-3) by (simp add: GetNode_def db_row_Inr db_ok_def find_key_iff candidates_def)
  moreover have "n_Status t = ''online''" using assms(1) by (simp add: candidates_def)
  ultimately show "GetNode (n_ID t) d' = Inr (t\<lparr>n_Running := r, n_LastSeen := stored_time now\<rparr>)"
    by (simp add: assms(5) GetNode_heartbeat [OF up] get)
  assume j: "j \<noteq> n_ID t"
  have "n_ID n = j" if "GetNode j d = Inr n" for n
    using found [of "\<lambda>n. n_ID n = j" "t_nodes d" n] that by (simp add: GetNode_def db_row_Inr)
  with j show "GetNode j d' = GetNode j d" by (simp add: assms(5) GetNode_heartbeat [OF up] get split: sum.split)
qed

text \<open>
  C8. A well-formed creation goes to a least loaded node among the online nodes that have room:
  one call, to that node; if the node accepts, the sandbox is recorded under the caller's project
  and that node, its node counts one sandbox more and no other node changes. It is refused with
  503, and nothing happens, exactly when no online node has room.
\<close>
theorem create_on_least_loaded_node:
  assumes "handleCreateSandbox e cx rq s = (resp, s')" and "cx_project cx = Some project"
    and "bind_res (dec_object (rq_json rq)) decode_create_sandbox = Inr req"
    and "db_ok (sv_db s)" and "down (sv_db s) = None"
    and "sid = new_sandbox_id (e_uuid e 0)" and "\<forall>t \<in> set (t_sandboxes (sv_db s)). s_ID t \<noteq> sid"
  shows "(candidates (sv_db s) = {} \<longleftrightarrow> status resp = 503) \<and> (status resp = 503 \<longrightarrow> s' = s)
    \<and> (status resp = 200 \<longrightarrow>
        (\<exists>t q a row. t \<in> candidates (sv_db s) \<and> (\<forall>n \<in> candidates (sv_db s). n_Running t \<le> n_Running n)
          \<and> oq_method q = ''POST'' \<and> oq_url q = n_Address t @ ''/sandboxes''
          \<and> e_client e q (sv_world s) = (Inr a, sv_world s') \<and> status a < 400
          \<and> GetSandbox sid (sv_db s') = Inr row \<and> s_ProjectID row = p_ID project \<and> s_NodeID row = n_ID t
          \<and> GetNode (n_ID t) (sv_db s') = Inr (t\<lparr>n_Running := n_Running t + 1, n_LastSeen := stored_time (e_now e)\<rparr>)
          \<and> (\<forall>j. j \<noteq> n_ID t \<longrightarrow> GetNode j (sv_db s') = GetNode j (sv_db s))))"
  using assms(1-3,5,6)
proof (cases rule: create_cases)
  case (placed t s1)
  obtain q a where q: "oq_method q = ''POST''" "oq_url q = n_Address t @ ''/sandboxes''"
    "e_client e q (sv_world s) = (Inr a, sv_world s1)" "status a < 400"
    using forwardToNode_sent [OF placed(3)] by blast
  have d: "sv_db s' = snd (UpdateNodeHeartbeat (n_ID t) (n_Running t + 1) (e_now e)
      (snd (CreateSandbox (sandbox_row e sid project t req) (sv_db s))))" and w: "sv_world s' = sv_world s1"
    by (simp_all add: placed(5))
  note rows = placed_rows [OF placed(1) assms(4,5,7) d]
  obtain row where row: "GetSandbox sid (sv_db s') = Inr row" "s_ProjectID row = p_ID project" "s_NodeID row = n_ID t"
    using rows(1) by blast
  have "\<exists>t q a row. t \<in> candidates (sv_db s) \<and> (\<forall>n \<in> candidates (sv_db s). n_Running t \<le> n_Running n)
        \<and> oq_method q = ''POST'' \<and> oq_url q = n_Address t @ ''/sandboxes''
        \<and> e_client e q (sv_world s) = (Inr a, sv_world s') \<and> status a < 400
        \<and> GetSandbox sid (sv_db s') = Inr row \<and> s_ProjectID row = p_ID project \<and> s_NodeID row = n_ID t
        \<and> GetNode (n_ID t) (sv_db s') = Inr (t\<lparr>n_Running := n_Running t + 1, n_LastSeen := stored_time (e_now e)\<rparr>)
        \<and> (\<forall>j. j \<noteq> n_ID t \<longrightarrow> GetNode j (sv_db s') = GetNode j (sv_db s))"
    using placed(1,2) q row rows(2,3) unfolding w
    by (intro exI [of _ t] exI [of _ q] exI [of _ a] exI [of _ row]) simp
  then show ?thesis using placed(1,4) by (auto simp: cp_writeOK_def)
qed simp_all

definition accepting :: "'w http_client" where
  "accepting q w = (Inr \<lparr>status = 201, rheaders = [], rbody = BEmpty\<rparr>, w)"

definition demo_project :: project where
  "demo_project = \<lparr>p_ID = ''p1'', p_Name = ''Default'', p_APIKey = ''gvm_1'', p_OwnerID = ''u1'', p_CreatedAt = 0\<rparr>"

definition one_node_server :: "unit cpserver" where
  "one_node_server = cp_NewServer demo_config (snd (UpsertNode (demo_cp_node ''n1'') OpenDB)) ()"

lemma one_node_nodes: "t_nodes (sv_db one_node_server) =
    [(demo_cp_node ''n1'')\<lparr>n_LastSeen := stored_time (7 * second + 5), n_CreatedAt := stored_time (7 * second + 5)\<rparr>]"
    "down (sv_db one_node_server) = None" "t_sandboxes (sv_db one_node_server) = []"
  by (simp_all add: one_node_server_def cp_NewServer_def UpsertNode_def db_exec_def OpenDB_def demo_cp_node_def)

lemma one_node_ok: "db_ok (sv_db one_node_server)"
  by (simp add: one_node_server_def cp_NewServer_def keys_kept OpenDB_ok)

definition create_cp_rq :: request where
  "create_cp_rq = empty_request\<lparr>rq_json := Inr (JObj [(''template'', JStr ''python'')])\<rparr>"

lemma create_cp_rq_decodes:
  "bind_res (dec_object (rq_json create_cp_rq)) decode_create_sandbox
   = Inr \<lparr>cs_Template = ''python'', cs_VCPUs = 0, cs_MemoryMB = 0, cs_Timeout = 0, cs_Metadata = [], cs_EnvVars = None\<rparr>"
  by (simp add: create_cp_rq_def dec_object_def decode_create_sandbox_def dec_string_def dec_int_def dec_map_def jfield_def)

lemma create_on_least_loaded_node_witness:
  "\<exists>resp s' n. handleCreateSandbox (demo_env accepting) (background\<lparr>cx_project := Some demo_project\<rparr>) create_cp_rq one_node_server = (resp, s')
     \<and> status resp = 200 \<and> GetNode ''n1'' (sv_db s') = Inr n \<and> n_Running n = 4"
proof -
  let ?cx = "background\<lparr>cx_project := Some demo_project\<rparr>"
  obtain resp s' where h: "handleCreateSandbox (demo_env accepting) ?cx create_cp_rq one_node_server = (resp, s')" "status resp = 200"
    by (simp add: handleCreateSandbox_def create_cp_rq_decodes ListOnlineNodes_def db_query_def one_node_nodes demo_cp_node_def
        has_room_def forwardToNode_def demo_env_def accepting_def Let_def cp_writeOK_def case_prod_unfold)
  have p: "cx_project ?cx = Some demo_project" by simp
  have f: "\<forall>t \<in> set (t_sandboxes (sv_db one_node_server)). s_ID t \<noteq> new_sandbox_id (e_uuid (demo_env accepting) 0)"
    by (simp add: one_node_nodes)
  from create_on_least_loaded_node [OF h(1) p create_cp_rq_decodes one_node_ok one_node_nodes(2) refl f] h
  show ?thesis by (auto simp: candidates_def one_node_nodes demo_cp_node_def)
qed

section \<open>Requests through the whole server\<close>

lemma disjoint_cp_routes: "disjoint_routes (cp_routes e cx)"
  by (simp add: cp_routes_def conflicting_def method_matches_def)

lemmas cp_route_search = cp_routes_def route_matches_def method_matches_def

definition cp_on_path :: "string \<Rightarrow> string list \<Rightarrow> request \<Rightarrow> bool" where
  "cp_on_path m ss rq \<longleftrightarrow> rq_method rq = m \<and> path_segments (rq_path rq) = ss"

lemma cp_dispatches:
  "cp_on_path ''GET'' [''v1'', ''sandboxes'', i] rq \<Longrightarrow> i \<noteq> '''' \<Longrightarrow>
     serve_mux (cp_routes e cx) rq s = handleGetSandbox (rq\<lparr>rq_vars := [(''id'', i)]\<rparr>) s"
  "cp_on_path ''DELETE'' [''v1'', ''sandboxes'', i] rq \<Longrightarrow> i \<noteq> '''' \<Longrightarrow>
     serve_mux (cp_routes e cx) rq s = handleDeleteSandbox e (rq\<lparr>rq_vars := [(''id'', i)]\<rparr>) s"
  "cp_on_path ''POST'' [''v1'', ''sandboxes''] rq \<Longrightarrow>
     serve_mux (cp_routes e cx) rq s = handleCreateSandbox e cx (rq\<lparr>rq_vars := []\<rparr>) s"
  "cp_on_path ''GET'' [''v1'', ''sandboxes''] rq \<Longrightarrow>
     serve_mux (cp_routes e cx) rq s = handleListSandboxes cx (rq\<lparr>rq_vars := []\<rparr>) s"
  "cp_on_path ''POST'' [''internal'', ''nodes'', ''register''] rq \<Longrightarrow>
     serve_mux (cp_routes e cx) rq s = handleNodeRegister e (rq\<lparr>rq_vars := []\<rparr>) s"
  "cp_on_path ''POST'' [''internal'', ''nodes'', i, ''heartbeat''] rq \<Longrightarrow> i \<noteq> '''' \<Longrightarrow>
     serve_mux (cp_routes e cx) rq s = handleNodeHeartbeat e (rq\<lparr>rq_vars := [(''id'', i)]\<rparr>) s"
  by (simp_all add: serve_mux_def cp_route_search cp_on_path_def)

lemma path_of_segments:
  assumes "path_segments p = s1 # ss" and "s1 \<notin> {''health'', ''auth'', ''internal''}"
  shows "\<not> isPublicPath p" "\<not> has_prefix p ''/internal/''"
proof -
  show "\<not> isPublicPath p" using assms by (auto simp: isPublicPath_def path_segments_def)
  show "\<not> has_prefix p ''/internal/''"
  proof
    assume "has_prefix p ''/internal/''"
    then obtain r where "p = ''/internal/'' @ r" unfolding has_prefix_def by (metis append_take_drop_id)
    then have "path_segments p = ''internal'' # split_byte CHR ''/'' r" by (simp add: path_segments_def)
    with assms show False by simp
  qed
qed

text \<open>
  The API key of any project reads any sandbox: a request for one sandbox is answered from the
  whole table, also when the sandbox belongs to another project, although the listing of the same
  project does not show it.
\<close>
theorem get_crosses_projects:
  assumes "db_ok (sv_db s)" and "down (sv_db s) = None"
    and "p \<in> set (t_projects (sv_db s))" and "p_APIKey p \<noteq> ''''" and "gm_get (rq_header rq) ''X-API-Key'' = Some (p_APIKey p)"
    and "\<not> valid_node_key s rq"
    and "sb \<in> set (t_sandboxes (sv_db s))" and "s_ProjectID sb \<noteq> p_ID p" and "s_ID sb \<noteq> ''''"
    and "cp_on_path ''GET'' [''v1'', ''sandboxes'', s_ID sb] rq"
    and "rq' = rq\<lparr>rq_path := ''/v1/sandboxes''\<rparr>"
  shows "cp_Handler e rq s = (preset_headers cors_headers (cp_writeOK (sandbox_json sb)), s)
    \<and> (\<exists>sbs. cp_Handler e rq' s = (preset_headers cors_headers (cp_writeOK (JObj [(''sandboxes'', JArr (map sandbox_json sbs))])), s)
         \<and> sb \<notin> set sbs \<and> (\<forall>x \<in> set sbs. s_ProjectID x = p_ID p))"
proof -
  let ?cx = "background\<lparr>cx_project := Some p\<rparr>"
  have m: "rq_method rq = ''GET''" "path_segments (rq_path rq) = [''v1'', ''sandboxes'', s_ID sb]"
    using assms(10) by (simp_all add: cp_on_path_def)
  have m': "rq_method rq' = ''GET''" "path_segments (rq_path rq') = [''v1'', ''sandboxes'']"
    using m(1) assms(11) by (simp_all add: path_segments_def)
  have a: "admits s rq ?cx"
    using path_of_segments [OF m(2)] by (intro admits.project assms) simp_all
  have a': "admits s rq' ?cx"
    using path_of_segments [OF m'(2)] assms(3-6)
    by (intro admits.project) (simp_all add: assms(2,11) valid_node_key_def)
  have auth: "AuthMiddleware nx rq s = nx ?cx rq s" "AuthMiddleware nx rq' s = nx ?cx rq' s" for nx
    using AuthMiddleware_lets_in [OF assms(1) a] AuthMiddleware_lets_in [OF assms(1) a'] by simp_all
  have get: "GetSandbox (s_ID sb) (sv_db s) = Inr sb"
    using assms(1,2,7) by (simp add: GetSandbox_def db_row_Inr db_ok_def find_key_iff)
  let ?sbs = "sort_key (\<lambda>s. - s_CreatedAt s) (filter (\<lambda>x. s_ProjectID x = p_ID p) (t_sandboxes (sv_db s)))"
  have list: "ListSandboxes (p_ID p) (sv_db s) = Inr ?sbs" using assms(2) by (simp add: ListSandboxes_def db_query_def)
  have "cp_Handler e rq s = (preset_headers cors_headers (cp_writeOK (sandbox_json sb)), s)"
    using m(1) by (simp add: cp_Handler_def corsMiddleware_def auth cp_dispatches(1) [OF assms(10,9)] handleGetSandbox_def
        get_or_empty_def get)
  moreover have "cp_Handler e rq' s = (preset_headers cors_headers (cp_writeOK (JObj [(''sandboxes'', JArr (map sandbox_json ?sbs))])), s)"
    using m' by (simp add: cp_Handler_def corsMiddleware_def auth cp_dispatches(4) cp_on_path_def handleListSandboxes_def list)
  ultimately show ?thesis using assms(8) by auto
qed

definition foreign_row :: cp_sandbox where
  "foreign_row = \<lparr>s_ID = ''sb-9'', s_ProjectID = ''p2'', s_NodeID = ''n1'', s_Template = ''base'', s_Status = ''running'',
     s_VCPUs = 1, s_MemoryMB = 512, s_HostIP = '''', s_TimeoutSec = 300, s_Metadata = [], s_CreatedAt = 0, s_ExpiresAt = 300 * second\<rparr>"

definition two_project_server :: "unit cpserver" where
  "two_project_server = cp_NewServer demo_config (OpenDB\<lparr>t_projects := [demo_project], t_sandboxes := [foreign_row]\<rparr>) ()"

lemma get_crosses_projects_witness:
  "\<exists>rq. gm_get (rq_header rq) ''X-API-Key'' = Some ''gvm_1''
     \<and> cp_Handler (demo_env accepting) rq two_project_server
       = (preset_headers cors_headers (cp_writeOK (sandbox_json foreign_row)), two_project_server)"
proof -
  let ?rq = "empty_request\<lparr>rq_path := ''/v1/sandboxes/sb-9'', rq_header := [(''X-API-Key'', ''gvm_1'')]\<rparr>"
  have "db_ok (sv_db two_project_server)" "down (sv_db two_project_server) = None"
    "demo_project \<in> set (t_projects (sv_db two_project_server))" "foreign_row \<in> set (t_sandboxes (sv_db two_project_server))"
    by (simp_all add: two_project_server_def cp_NewServer_def OpenDB_def db_ok_def)
  moreover have "p_APIKey demo_project \<noteq> ''''" "gm_get (rq_header ?rq) ''X-API-Key'' = Some (p_APIKey demo_project)"
    "\<not> valid_node_key two_project_server ?rq"
    by (simp_all add: demo_project_def valid_node_key_def)
  moreover have "s_ProjectID foreign_row \<noteq> p_ID demo_project" "s_ID foreign_row \<noteq> ''''"
    "cp_on_path ''GET'' [''v1'', ''sandboxes'', s_ID foreign_row] ?rq"
    by (simp_all add: foreign_row_def demo_project_def cp_on_path_def path_segments_def empty_request_def)
  ultimately have "cp_Handler (demo_env accepting) ?rq two_project_server
      = (preset_headers cors_headers (cp_writeOK (sandbox_json foreign_row)), two_project_server)"
    using get_crosses_projects [of two_project_server demo_project ?rq foreign_row] by blast
  then show ?thesis by (intro exI [of _ ?rq]) simp
qed

end
