(* ===== verification/ControlPlane_Scaler.thy ===== *)
theory ControlPlane_Scaler
  imports ControlPlane_Handlers
begin

text \<open>
  The auto-scaler (\<open>scaler.go\<close>): one evaluation per tick, which looks at every pool and then marks
  silent nodes as offline. The scaler shares the database and the providers of the server, so it
  works on the same state. Utilisations are compared as fractions: for totals below \<open>2^50\<close> the
  comparison of the rounded 64-bit quotient with 0.8 or 0.3 is the comparison of the fractions.
\<close>

section \<open>Scaling a pool\<close>

definition scaleUp :: "'w cp_env \<Rightarrow> cloud_pool \<Rightarrow> 'w cpserver \<Rightarrow> 'w cpserver" where
  "scaleUp e pool s =
     (case reg_Get (sv_providers s) (cp_Provider pool) of
        Inl _ \<Rightarrow> s
      | Inr pv \<Rightarrow>
          let nodeName = node_name (e_uuid e 0);
              runtime = (if cp_Runtime pool = '''' then ''firecracker'' else cp_Runtime pool)
          in case pv_ProvisionNode pv
                    \<lparr>po_Name = nodeName, po_Region = cp_Region pool, po_InstanceType = cp_InstanceType pool, po_Runtime = runtime,
                     po_UserData = NodeUserData (sc_CPURL (sv_config s)) (sc_NodeKey (sv_config s)) nodeName runtime,
                     po_Tags = [(''gitvm'', ''node''), (''pool'', cp_ID pool), (''runtime'', runtime)]\<rparr> (sv_world s) of
               (Inl _, w1) \<Rightarrow> s\<lparr>sv_world := w1\<rparr>
             | (Inr res, w1) \<Rightarrow>
                 (case UpsertNode (provisioned_node (e_uuid e 1) nodeName (cp_Provider pool) (e_now e) res) (sv_db s) of
                    (Some _, db1) \<Rightarrow> s\<lparr>sv_world := w1, sv_db := db1\<rparr>
                  | (None, db1) \<Rightarrow>
                      let pool1 = pool\<lparr>cp_CurrentNodes := cp_CurrentNodes pool + 1\<rparr>;
                          (_, db2) = UpsertCloudPool pool1 db1
                      in s\<lparr>sv_world := w1, sv_db := db2\<rparr>))"

definition terminateNode :: "cloud_pool \<Rightarrow> cp_node \<Rightarrow> 'w cpserver \<Rightarrow> 'w cpserver" where
  "terminateNode pool node s =
     (case reg_Get (sv_providers s) (n_Provider node) of
        Inl _ \<Rightarrow> s
      | Inr pv \<Rightarrow>
          let (_, db1) = UpdateNodeStatus (n_ID node) ''terminating'' (sv_db s)
          in case pv_TerminateNode pv (n_ProviderID node) (sv_world s) of
               (Some _, w1) \<Rightarrow> s\<lparr>sv_db := db1, sv_world := w1\<rparr>
             | (None, w1) \<Rightarrow>
                 let (_, db2) = DeleteNode (n_ID node) db1;
                     n = cp_CurrentNodes pool - 1;
                     pool1 = pool\<lparr>cp_CurrentNodes := (if n < 0 then 0 else n)\<rparr>;
                     (_, db3) = UpsertCloudPool pool1 db2
                 in s\<lparr>sv_db := db3, sv_world := w1\<rparr>)"

text \<open>The node to remove: an empty one of the provider if there is one, else the least loaded one.\<close>

definition drain_target :: "cloud_pool \<Rightarrow> cp_node list \<Rightarrow> cp_node option" where
  "drain_target pool nodes =
     (case find (\<lambda>n. n_Provider n = cp_Provider pool \<and> n_Running n = 0) nodes of
        Some n \<Rightarrow> Some n
      | None \<Rightarrow> find (\<lambda>n. n_Provider n = cp_Provider pool) nodes)"

definition scaleDown :: "cloud_pool \<Rightarrow> 'w cpserver \<Rightarrow> 'w cpserver" where
  "scaleDown pool s =
     (case ListOnlineNodes (sv_db s) of
        Inl _ \<Rightarrow> s
      | Inr nodes \<Rightarrow>
          (case drain_target pool nodes of
             None \<Rightarrow> s
           | Some target \<Rightarrow>
               let (_, db1) = UpdateNodeStatus (n_ID target) ''draining'' (sv_db s);
                   s1 = s\<lparr>sv_db := db1\<rparr>
               in if n_Running target = 0 then terminateNode pool target s1 else s1))"

definition over_utilised :: "int \<Rightarrow> int \<Rightarrow> bool" where
  "over_utilised cap used \<longleftrightarrow> cap > 0 \<and> 10 * used > 8 * cap"

definition under_utilised :: "int \<Rightarrow> int \<Rightarrow> bool" where
  "under_utilised cap used \<longleftrightarrow> (if cap > 0 then 10 * used < 3 * cap else True)"

definition evaluatePool :: "'w cp_env \<Rightarrow> cloud_pool \<Rightarrow> 'w cpserver \<Rightarrow> 'w cpserver" where
  "evaluatePool e pool s =
     (case TotalCapacity (sv_db s) of
        Inl _ \<Rightarrow> s
      | Inr (cap, used) \<Rightarrow>
          if over_utilised cap used \<and> cp_CurrentNodes pool < cp_MaxNodes pool then scaleUp e pool s
          else if under_utilised cap used \<and> cp_CurrentNodes pool > cp_MinNodes pool then scaleDown pool s
          else s)"

section \<open>Silent nodes\<close>

definition threshold :: "time \<Rightarrow> time" where
  "threshold now = now - 120 * second"

fun mark_offline :: "time \<Rightarrow> cp_node list \<Rightarrow> db \<Rightarrow> db" where
  "mark_offline now [] d = d"
| "mark_offline now (n # ns) d =
     mark_offline now ns
       (if n_Status n = ''online'' \<and> n_LastSeen n < threshold now then snd (UpdateNodeStatus (n_ID n) ''offline'' d) else d)"

definition detectOfflineNodes :: "time \<Rightarrow> db \<Rightarrow> db" where
  "detectOfflineNodes now d = mark_offline now (case ListNodes d of Inl _ \<Rightarrow> [] | Inr nodes \<Rightarrow> nodes) d"

section \<open>One evaluation\<close>

text \<open>
  The pools are read once, at the start; each pool draws its own values. When the pools cannot be
  read, the evaluation ends there, before the silent nodes are looked for.
\<close>

fun evaluate_pools :: "'w cp_env \<Rightarrow> cloud_pool list \<Rightarrow> 'w cpserver \<Rightarrow> 'w cpserver" where
  "evaluate_pools e [] s = s"
| "evaluate_pools e (pool # pools) s =
     evaluate_pools (e\<lparr>e_uuid := (\<lambda>k. e_uuid e (k + 2))\<rparr>) pools (evaluatePool e pool s)"

definition evaluate :: "'w cp_env \<Rightarrow> 'w cpserver \<Rightarrow> 'w cpserver" where
  "evaluate e s =
     (case ListCloudPools (sv_db s) of
        Inl _ \<Rightarrow> s
      | Inr pools \<Rightarrow>
          let s1 = evaluate_pools e pools s in s1\<lparr>sv_db := detectOfflineNodes (e_now e) (sv_db s1)\<rparr>)"

definition scaler_interval :: "int \<Rightarrow> int" where
  "scaler_interval interval = (if interval \<le> 0 then 30 * second else interval)"

text \<open>The scaler goroutine: one evaluation per tick until its context is cancelled.\<close>

fun scaler_loop :: "'w cp_env list \<Rightarrow> 'w cpserver \<Rightarrow> 'w cpserver" where
  "scaler_loop [] s = s"
| "scaler_loop (e # ticks) s = scaler_loop ticks (evaluate e s)"

section \<open>What an evaluation does to the pools\<close>

text \<open>The number of nodes of a pool is within its limits.\<close>

definition pool_ok :: "cloud_pool \<Rightarrow> bool" where
  "pool_ok p \<longleftrightarrow> 0 \<le> cp_MinNodes p \<and> cp_MinNodes p \<le> cp_CurrentNodes p \<and> cp_CurrentNodes p \<le> cp_MaxNodes p"

lemma pools_of_node_statements [simp]:
  "t_pools (snd (UpsertNode n d)) = t_pools d" "t_pools (snd (UpdateNodeStatus i st d)) = t_pools d"
  "t_pools (snd (DeleteNode i d)) = t_pools d"
  by (auto simp: UpsertNode_def UpdateNodeStatus_def DeleteNode_def db_exec_def split: option.split)

lemma down_kept [simp]:
  "down (snd (UpsertNode n d)) = down d" "down (snd (UpdateNodeStatus i st d)) = down d"
  "down (snd (DeleteNode i d)) = down d" "down (snd (UpsertCloudPool p d)) = down d"
  by (auto simp: UpsertNode_def UpdateNodeStatus_def DeleteNode_def UpsertCloudPool_def db_exec_def split: option.split)

lemma pools_upserted:
  assumes "p \<in> set (t_pools d)" and "cp_ID p' = cp_ID p" and "down d = None"
  shows "t_pools (snd (UpsertCloudPool p' d)) = map (\<lambda>q. if cp_ID q = cp_ID p
      then q\<lparr>cp_MinNodes := cp_MinNodes p', cp_MaxNodes := cp_MaxNodes p', cp_CurrentNodes := cp_CurrentNodes p'\<rparr> else q) (t_pools d)"
proof -
  have "\<exists>q \<in> set (t_pools d). cp_ID q = cp_ID p'" using assms(1,2) by auto
  then show ?thesis using assms(2,3) by (simp add: UpsertCloudPool_def db_exec_def)
qed

text \<open>The pools after \<open>pool\<close> was given \<open>n\<close> nodes.\<close>

definition with_nodes :: "cloud_pool \<Rightarrow> int \<Rightarrow> cloud_pool list \<Rightarrow> cloud_pool list" where
  "with_nodes pool n ps = map (\<lambda>q. if cp_ID q = cp_ID pool
      then q\<lparr>cp_MinNodes := cp_MinNodes pool, cp_MaxNodes := cp_MaxNodes pool, cp_CurrentNodes := n\<rparr> else q) ps"

lemma scaleUp_pools:
  assumes "pool \<in> set (t_pools (sv_db s))" and "down (sv_db s) = None"
  shows "down (sv_db (scaleUp e pool s)) = None"
    "t_pools (sv_db (scaleUp e pool s)) \<in> {t_pools (sv_db s), with_nodes pool (cp_CurrentNodes pool + 1) (t_pools (sv_db s))}"
proof -
  have up: "t_pools (snd (UpsertCloudPool (pool\<lparr>cp_CurrentNodes := n\<rparr>) d)) = with_nodes pool n (t_pools (sv_db s))"
    if "t_pools d = t_pools (sv_db s)" "down d = None" for d n
    using pools_upserted [of pool d "pool\<lparr>cp_CurrentNodes := n\<rparr>"] assms(1) that by (simp add: with_nodes_def)
  have none: "fst (UpsertNode n (sv_db s)) = None" for n
    using assms(2) by (simp add: UpsertNode_def db_exec_def)
  then have "UpsertNode n (sv_db s) = (None, snd (UpsertNode n (sv_db s)))" for n by (metis prod.collapse)
  then have u: "UpsertNode n (sv_db s) = (x, d) \<longleftrightarrow> x = None \<and> d = snd (UpsertNode n (sv_db s))" for n x d by (metis Pair_inject)
  show "down (sv_db (scaleUp e pool s)) = None"
    using assms(2) by (auto simp: scaleUp_def Let_def u case_prod_unfold split: sum.split prod.split option.split)
  show "t_pools (sv_db (scaleUp e pool s)) \<in> {t_pools (sv_db s), with_nodes pool (cp_CurrentNodes pool + 1) (t_pools (sv_db s))}"
    using assms(2) by (auto simp: scaleUp_def Let_def u up case_prod_unfold split: sum.split prod.split option.split)
qed

lemma terminateNode_pools:
  assumes "pool \<in> set (t_pools (sv_db s))" and "down (sv_db s) = None"
  shows "down (sv_db (terminateNode pool node s)) = None"
    "t_pools (sv_db (terminateNode pool node s)) \<in> {t_pools (sv_db s), with_nodes pool (max 0 (cp_CurrentNodes pool - 1)) (t_pools (sv_db s))}"
proof -
  have up: "t_pools (snd (UpsertCloudPool (pool\<lparr>cp_CurrentNodes := n\<rparr>) d)) = with_nodes pool n (t_pools (sv_db s))"
    if "t_pools d = t_pools (sv_db s)" "down d = None" for d n
    using pools_upserted [of pool d "pool\<lparr>cp_CurrentNodes := n\<rparr>"] assms(1) that by (simp add: with_nodes_def)
  have mx: "(if cp_CurrentNodes pool - 1 < 0 then 0 else cp_CurrentNodes pool - 1) = max 0 (cp_CurrentNodes pool - 1)" by simp
  show "down (sv_db (terminateNode pool node s)) = None"
    using assms(2) by (auto simp: terminateNode_def Let_def case_prod_unfold split: sum.split option.split)
  show "t_pools (sv_db (terminateNode pool node s)) \<in> {t_pools (sv_db s), with_nodes pool (max 0 (cp_CurrentNodes pool - 1)) (t_pools (sv_db s))}"
    unfolding terminateNode_def Let_def mx
    using assms(2) by (auto simp: up case_prod_unfold split: sum.split option.split)
qed

lemma scaleDown_pools:
  assumes "pool \<in> set (t_pools (sv_db s))" and "down (sv_db s) = None"
  shows "down (sv_db (scaleDown pool s)) = None"
    "t_pools (sv_db (scaleDown pool s)) \<in> {t_pools (sv_db s), with_nodes pool (max 0 (cp_CurrentNodes pool - 1)) (t_pools (sv_db s))}"
proof -
  let ?s1 = "\<lambda>i. s\<lparr>sv_db := snd (UpdateNodeStatus i ''draining'' (sv_db s))\<rparr>"
  have t: "down (sv_db (terminateNode pool node (?s1 i))) = None"
    "t_pools (sv_db (terminateNode pool node (?s1 i))) \<in> {t_pools (sv_db s), with_nodes pool (max 0 (cp_CurrentNodes pool - 1)) (t_pools (sv_db s))}" for node i
    using terminateNode_pools [of pool "?s1 i" node] assms by simp_all
  show "down (sv_db (scaleDown pool s)) = None"
    using assms(2) t(1) by (auto simp: scaleDown_def Let_def case_prod_unfold split: sum.split option.split)
  show "t_pools (sv_db (scaleDown pool s)) \<in> {t_pools (sv_db s), with_nodes pool (max 0 (cp_CurrentNodes pool - 1)) (t_pools (sv_db s))}"
    using assms(2) t(2) by (auto simp: scaleDown_def Let_def case_prod_unfold split: sum.split option.split)
qed

text \<open>One pool: its own count moves by at most one, inside the limits it was read with.\<close>

lemma evaluatePool_pools:
  assumes "pool \<in> set (t_pools (sv_db s))" and "down (sv_db s) = None" and "pool_ok pool"
  shows "down (sv_db (evaluatePool e pool s)) = None"
    "\<exists>n. (n = cp_CurrentNodes pool \<or> n = cp_CurrentNodes pool + 1 \<or> n = cp_CurrentNodes pool - 1)
       \<and> cp_MinNodes pool \<le> n \<and> n \<le> cp_MaxNodes pool
       \<and> t_pools (sv_db (evaluatePool e pool s)) \<in> {t_pools (sv_db s), with_nodes pool n (t_pools (sv_db s))}"
proof -
  obtain cap used where c: "TotalCapacity (sv_db s) = Inr (cap, used)"
    using assms(2) by (simp add: TotalCapacity_def db_query_def Let_def)
  show "down (sv_db (evaluatePool e pool s)) = None"
    using assms(2) scaleUp_pools(1) [OF assms(1,2)] scaleDown_pools(1) [OF assms(1,2)] by (simp add: evaluatePool_def c)
  consider (up) "over_utilised cap used" "cp_CurrentNodes pool < cp_MaxNodes pool"
    | (dn) "\<not> (over_utilised cap used \<and> cp_CurrentNodes pool < cp_MaxNodes pool)" "under_utilised cap used" "cp_CurrentNodes pool > cp_MinNodes pool"
    | (same) "\<not> (over_utilised cap used \<and> cp_CurrentNodes pool < cp_MaxNodes pool)" "\<not> (under_utilised cap used \<and> cp_CurrentNodes pool > cp_MinNodes pool)"
    by blast
  then show "\<exists>n. (n = cp_CurrentNodes pool \<or> n = cp_CurrentNodes pool + 1 \<or> n = cp_CurrentNodes pool - 1)
       \<and> cp_MinNodes pool \<le> n \<and> n \<le> cp_MaxNodes pool
       \<and> t_pools (sv_db (evaluatePool e pool s)) \<in> {t_pools (sv_db s), with_nodes pool n (t_pools (sv_db s))}"
  proof cases
    case up
    then show ?thesis using assms(3) scaleUp_pools(2) [OF assms(1,2), of e]
      by (intro exI [of _ "cp_CurrentNodes pool + 1"]) (simp add: evaluatePool_def c pool_ok_def)
  next
    case dn
    then have "max 0 (cp_CurrentNodes pool - 1) = cp_CurrentNodes pool - 1" using assms(3) by (simp add: pool_ok_def)
    with dn show ?thesis using assms(3) scaleDown_pools(2) [OF assms(1,2)]
      by (intro exI [of _ "cp_CurrentNodes pool - 1"]) (auto simp: evaluatePool_def c pool_ok_def)
  next
    case same
    then have "evaluatePool e pool s = s"
      by (simp only: evaluatePool_def c sum.case prod.case if_not_P if_False)
    then show ?thesis using assms(3) by (intro exI [of _ "cp_CurrentNodes pool"]) (simp add: pool_ok_def)
  qed
qed

text \<open>A row before and after an evaluation of the given pools.\<close>

definition stepped :: "cloud_pool list \<Rightarrow> cloud_pool \<Rightarrow> cloud_pool \<Rightarrow> bool" where
  "stepped pools p q \<longleftrightarrow> q = p\<lparr>cp_CurrentNodes := cp_CurrentNodes q\<rparr> \<and> (pool_ok p \<longrightarrow> pool_ok q)
     \<and> \<bar>cp_CurrentNodes q - cp_CurrentNodes p\<bar> \<le> 1 \<and> (p \<notin> set pools \<longrightarrow> q = p)"

lemma with_nodes_row:
  assumes "distinct (map cp_ID ps)" and "pool \<in> set ps" and "p \<in> set ps"
  shows "(if cp_ID p = cp_ID pool
      then p\<lparr>cp_MinNodes := cp_MinNodes pool, cp_MaxNodes := cp_MaxNodes pool, cp_CurrentNodes := n\<rparr> else p)
    = (if p = pool then pool\<lparr>cp_CurrentNodes := n\<rparr> else p)"
  using distinct_index_eq [OF assms(1), of p pool] assms(2,3) by auto

lemma evaluate_pools_rows:
  assumes "set pools \<subseteq> set (t_pools (sv_db s))" and "distinct (map cp_ID (t_pools (sv_db s)))"
    and "distinct (map cp_ID pools)" and "down (sv_db s) = None" and "\<forall>p \<in> set (t_pools (sv_db s)). pool_ok p"
  shows "down (sv_db (evaluate_pools e pools s)) = None
    \<and> list_all2 (stepped pools) (t_pools (sv_db s)) (t_pools (sv_db (evaluate_pools e pools s)))"
  using assms
proof (induction pools arbitrary: e s)
  case Nil
  then show ?case by (simp add: stepped_def list.rel_refl)
next
  case (Cons pool pools)
  let ?s1 = "evaluatePool e pool s" and ?ps = "t_pools (sv_db s)"
  have p: "pool \<in> set ?ps" "pool_ok pool" using Cons.prems by auto
  obtain n where n: "n = cp_CurrentNodes pool \<or> n = cp_CurrentNodes pool + 1 \<or> n = cp_CurrentNodes pool - 1"
    "cp_MinNodes pool \<le> n" "n \<le> cp_MaxNodes pool" "t_pools (sv_db ?s1) \<in> {?ps, with_nodes pool n ?ps}"
    using evaluatePool_pools(2) [OF p(1) Cons.prems(4) p(2)] by blast
  define f where "f = (if t_pools (sv_db ?s1) = ?ps then id else (\<lambda>p. if p = pool then pool\<lparr>cp_CurrentNodes := n\<rparr> else p))"
  have rows: "t_pools (sv_db ?s1) = map f ?ps"
  proof (cases "t_pools (sv_db ?s1) = ?ps")
    case False
    then have "t_pools (sv_db ?s1) = with_nodes pool n ?ps" using n(4) by blast
    also have "\<dots> = map f ?ps"
      using False with_nodes_row [OF Cons.prems(2) p(1)] by (auto simp: with_nodes_def f_def)
    finally show ?thesis .
  qed (simp add: f_def)
  have f: "cp_ID (f p) = cp_ID p" "pool_ok p \<Longrightarrow> pool_ok (f p)" "f p = p\<lparr>cp_CurrentNodes := cp_CurrentNodes (f p)\<rparr>"
    "\<bar>cp_CurrentNodes (f p) - cp_CurrentNodes p\<bar> \<le> 1" "p \<noteq> pool \<Longrightarrow> f p = p" for p
    using n(1-3) by (auto simp: f_def pool_ok_def)
  have notin: "q \<notin> set pools" if "cp_ID q = cp_ID pool" for q
  proof
    assume "q \<in> set pools"
    then have "cp_ID pool \<in> cp_ID ` set pools" using that by (metis imageI)
    then show False using Cons.prems(3) by simp
  qed
  have sub: "set pools \<subseteq> set (t_pools (sv_db ?s1))"
  proof
    fix q assume q: "q \<in> set pools"
    then have "q \<noteq> pool" using notin [of pool] by auto
    then have "f q = q" by (rule f(5))
    moreover have "q \<in> set ?ps" using q Cons.prems(1) by auto
    ultimately show "q \<in> set (t_pools (sv_db ?s1))" by (metis image_eqI image_set rows)
  qed
  have ids: "distinct (map cp_ID (t_pools (sv_db ?s1)))" using Cons.prems(2) by (simp add: rows comp_def f(1))
  have "down (sv_db ?s1) = None" by (rule evaluatePool_pools(1) [OF p(1) Cons.prems(4) p(2)])
  moreover have "\<forall>p \<in> set (t_pools (sv_db ?s1)). pool_ok p" using Cons.prems(5) f(2) by (auto simp: rows)
  ultimately have IH: "down (sv_db (evaluate_pools (e\<lparr>e_uuid := (\<lambda>k. e_uuid e (k + 2))\<rparr>) pools ?s1)) = None"
    "list_all2 (stepped pools) (map f ?ps) (t_pools (sv_db (evaluate_pools (e\<lparr>e_uuid := (\<lambda>k. e_uuid e (k + 2))\<rparr>) pools ?s1)))"
    using Cons.IH [OF sub ids, of "e\<lparr>e_uuid := (\<lambda>k. e_uuid e (k + 2))\<rparr>"] Cons.prems(3) by (simp_all add: rows)
  have "stepped (pool # pools) p q" if "stepped pools (f p) q" for p q
  proof (cases "p = pool")
    case True
    then have "q = f p" using that notin [of "f p"] f(1) [of p] by (simp add: stepped_def)
    then show ?thesis using f(2-4) [of p] True by (simp add: stepped_def)
  next
    case False
    then show ?thesis using that f(5) by (simp add: stepped_def)
  qed
  then have "list_all2 (stepped (pool # pools)) ?ps (t_pools (sv_db (evaluate_pools (e\<lparr>e_uuid := (\<lambda>k. e_uuid e (k + 2))\<rparr>) pools ?s1)))"
    using IH(2) by (simp add: list_all2_map1 list_all2_mono)
  then show ?case using IH(1) by simp
qed

section \<open>Silent nodes\<close>

lemma mark_offline_nodes:
  assumes "down d = None"
  shows "t_nodes (mark_offline now ns d) = map (\<lambda>n. if \<exists>m \<in> set ns. n_ID m = n_ID n \<and> n_Status m = ''online'' \<and> n_LastSeen m < threshold now
        then n\<lparr>n_Status := ''offline''\<rparr> else n) (t_nodes d)
    \<and> down (mark_offline now ns d) = None \<and> t_pools (mark_offline now ns d) = t_pools d
    \<and> t_sandboxes (mark_offline now ns d) = t_sandboxes d"
  using assms
proof (induction ns arbitrary: d)
  case (Cons n ns)
  let ?d = "if n_Status n = ''online'' \<and> n_LastSeen n < threshold now then snd (UpdateNodeStatus (n_ID n) ''offline'' d) else d"
  have d: "down ?d = None" "t_pools ?d = t_pools d" "t_sandboxes ?d = t_sandboxes d"
    "t_nodes ?d = map (\<lambda>m. if n_ID m = n_ID n \<and> n_Status n = ''online'' \<and> n_LastSeen n < threshold now
       then m\<lparr>n_Status := ''offline''\<rparr> else m) (t_nodes d)"
    using Cons.prems by (auto simp: UpdateNodeStatus_def db_exec_def intro: map_cong)
  let ?g = "\<lambda>ns m. if \<exists>x \<in> set ns. n_ID x = n_ID m \<and> n_Status x = ''online'' \<and> n_LastSeen x < threshold now
      then m\<lparr>n_Status := ''offline''\<rparr> else m"
  have g: "?g ns (if n_ID m = n_ID n \<and> n_Status n = ''online'' \<and> n_LastSeen n < threshold now then m\<lparr>n_Status := ''offline''\<rparr> else m)
      = ?g (n # ns) m" for m
    by auto
  have "t_nodes (mark_offline now ns ?d) = map (?g (n # ns)) (t_nodes d)"
    using Cons.IH [OF d(1)] unfolding d(4) map_map comp_def g by blast
  then show ?case using Cons.IH [OF d(1)] d(2,3) by (simp only: mark_offline.simps simp_thms)
qed simp

lemma detectOffline_nodes:
  assumes "db_ok d" and "down d = None"
  shows "t_nodes (detectOfflineNodes now d) = map (\<lambda>n. if n_Status n = ''online'' \<and> n_LastSeen n < threshold now
      then n\<lparr>n_Status := ''offline''\<rparr> else n) (t_nodes d)"
proof -
  let ?ns = "sort_key (\<lambda>n. - n_CreatedAt n) (t_nodes d)"
  have l: "ListNodes d = Inr ?ns" using assms(2) by (simp add: ListNodes_def db_query_def)
  have "(\<exists>m \<in> set ?ns. n_ID m = n_ID n \<and> n_Status m = ''online'' \<and> n_LastSeen m < threshold now)
      \<longleftrightarrow> n_Status n = ''online'' \<and> n_LastSeen n < threshold now" if "n \<in> set (t_nodes d)" for n
    using that assms(1) distinct_index_eq [of n_ID "t_nodes d"] by (auto simp: db_ok_def)
  then show ?thesis
    using mark_offline_nodes [OF assms(2), of now ?ns] by (simp add: detectOfflineNodes_def l cong: map_cong)
qed

text \<open>
  C11. One evaluation keeps every pool within its limits: it changes the node count of each pool by
  at most one and never beyond the pool's own minimum and maximum, whatever the providers answer.
\<close>
theorem evaluate_keeps_pool_limits:
  assumes "db_ok (sv_db s)" and "down (sv_db s) = None" and "\<forall>p \<in> set (t_pools (sv_db s)). pool_ok p"
  shows "list_all2 (\<lambda>p q. q = p\<lparr>cp_CurrentNodes := cp_CurrentNodes q\<rparr> \<and> \<bar>cp_CurrentNodes q - cp_CurrentNodes p\<bar> \<le> 1
       \<and> cp_MinNodes p \<le> cp_CurrentNodes q \<and> cp_CurrentNodes q \<le> cp_MaxNodes p)
     (t_pools (sv_db s)) (t_pools (sv_db (evaluate e s)))"
proof -
  let ?ps = "t_pools (sv_db s)" and ?s1 = "evaluate_pools e (t_pools (sv_db s)) s"
  have r: "down (sv_db ?s1) = None" "list_all2 (stepped ?ps) ?ps (t_pools (sv_db ?s1))"
    using evaluate_pools_rows [of ?ps s e] assms by (simp_all add: db_ok_def)
  have e: "t_pools (sv_db (evaluate e s)) = t_pools (sv_db ?s1)"
    using assms(2) mark_offline_nodes [OF r(1)]
    by (simp add: evaluate_def ListCloudPools_def db_query_def Let_def detectOfflineNodes_def)
  have "stepped ?ps p q \<Longrightarrow> p \<in> set ?ps \<Longrightarrow> q = p\<lparr>cp_CurrentNodes := cp_CurrentNodes q\<rparr> \<and> \<bar>cp_CurrentNodes q - cp_CurrentNodes p\<bar> \<le> 1
       \<and> cp_MinNodes p \<le> cp_CurrentNodes q \<and> cp_CurrentNodes q \<le> cp_MaxNodes p" for p q
    using assms(3) unfolding stepped_def pool_ok_def by (metis (no_types, lifting) cloud_pool.select_convs(7,8) cloud_pool.surjective cloud_pool.update_convs(9))
  then show ?thesis
    unfolding e using r(2) by (auto simp: list_all2_conv_all_nth)
qed

definition demo_pool :: cloud_pool where
  "demo_pool = \<lparr>cp_ID = ''pool-1'', cp_Name = ''p'', cp_Provider = ''azure'', cp_Region = '''', cp_InstanceType = '''',
     cp_Runtime = '''', cp_MinNodes = 0, cp_MaxNodes = 1, cp_CurrentNodes = 1\<rparr>"

definition pool_server :: "unit cpserver" where
  "pool_server = one_node_server\<lparr>sv_db := (sv_db one_node_server)\<lparr>t_pools := [demo_pool]\<rparr>\<rparr>"

lemma pool_server_facts: "db_ok (sv_db pool_server)" "down (sv_db pool_server) = None" "t_pools (sv_db pool_server) = [demo_pool]"
    "t_nodes (sv_db pool_server) = t_nodes (sv_db one_node_server)"
  using one_node_ok one_node_nodes by (simp_all add: pool_server_def db_ok_def)

lemma evaluate_keeps_pool_limits_witness:
  "\<exists>q. t_pools (sv_db (evaluate (demo_env accepting) pool_server)) = [q] \<and> 0 \<le> cp_CurrentNodes q \<and> cp_CurrentNodes q \<le> 1"
proof -
  have p: "\<forall>p \<in> set (t_pools (sv_db pool_server)). pool_ok p"
    by (simp add: pool_server_facts pool_ok_def demo_pool_def)
  from evaluate_keeps_pool_limits [OF pool_server_facts(1,2) p, of "demo_env accepting"]
  show ?thesis by (auto simp: pool_server_facts list_all2_Cons1 demo_pool_def)
qed

text \<open>
  The scaler marks a node as offline exactly when it was online and not seen for more than two
  minutes; nothing else in the database changes, and nothing at all when it does not answer.
\<close>
theorem detectOfflineNodes_exact:
  assumes "db_ok d"
  shows "detectOfflineNodes now d = (if down d = None
      then d\<lparr>t_nodes := map (\<lambda>n. if n_Status n = ''online'' \<and> n_LastSeen n < now - 120 * second
                     then n\<lparr>n_Status := ''offline''\<rparr> else n) (t_nodes d)\<rparr>
      else d)"
proof (cases "down d")
  case None
  have rest: "down d = None \<Longrightarrow> mark_offline now ns d = d\<lparr>t_nodes := t_nodes (mark_offline now ns d)\<rparr>" for ns d
  proof (induction ns arbitrary: d)
    case (Cons n ns)
    let ?d = "if n_Status n = ''online'' \<and> n_LastSeen n < threshold now then snd (UpdateNodeStatus (n_ID n) ''offline'' d) else d"
    have d: "down ?d = None" "?d\<lparr>t_nodes := x\<rparr> = d\<lparr>t_nodes := x\<rparr>" for x
      using Cons.prems by (auto simp: UpdateNodeStatus_def db_exec_def)
    show ?case using Cons.IH [OF d(1)] unfolding mark_offline.simps d(2) .
  qed simp
  have "detectOfflineNodes now d = d\<lparr>t_nodes := t_nodes (detectOfflineNodes now d)\<rparr>"
  proof (cases "ListNodes d")
    case (Inr ns)
    then show ?thesis by (simp add: detectOfflineNodes_def flip: rest [OF None])
  qed (simp add: detectOfflineNodes_def)
  then show ?thesis
    using None by (simp add: detectOffline_nodes [OF assms None] threshold_def)
qed (simp add: detectOfflineNodes_def ListNodes_def db_query_def)

lemma detectOfflineNodes_exact_witness:
  "\<exists>d. db_ok d \<and> map n_Status (t_nodes (detectOfflineNodes (200 * second) d)) = [''offline'']
     \<and> map n_Status (t_nodes (detectOfflineNodes (127 * second) d)) = [''online'']"
proof -
  have "stored_time (7 * second + 5) = 7 * second" by (simp add: stored_time_def rfc3339_def parse_rfc3339_def second_def)
  then show ?thesis
    using detectOfflineNodes_exact [OF one_node_ok, of "200 * second"] detectOfflineNodes_exact [OF one_node_ok, of "127 * second"] one_node_ok
    by (intro exI [of _ "sv_db one_node_server"]) (simp add: one_node_nodes demo_cp_node_def second_def)
qed

section \<open>Removing a node\<close>

lemma find_conj_None: "find (\<lambda>x. P x \<and> Q x) xs = None \<Longrightarrow> find P xs = Some t \<Longrightarrow> \<not> Q t"
  by (auto simp: find_None_iff find_Some_iff)

lemma drain_target_min:
  assumes "\<forall>n \<in> set ns. 0 \<le> n_Running n" and "drain_target pool (sort_key n_Running ns) = Some t"
  shows "t \<in> set ns \<and> n_Provider t = cp_Provider pool
    \<and> (\<forall>n \<in> set ns. n_Provider n = cp_Provider pool \<longrightarrow> n_Running t \<le> n_Running n)"
proof (cases "find (\<lambda>n. n_Provider n = cp_Provider pool \<and> n_Running n = 0) (sort_key n_Running ns)")
  case None
  with assms(2) have "find (\<lambda>n. n_Provider n = cp_Provider pool) (sort_key n_Running ns) = Some t" by (simp add: drain_target_def)
  from find_sorted_min [OF this] show ?thesis by blast
next
  case (Some n)
  with assms(2) have "n = t" by (simp add: drain_target_def)
  with find_sorted_min [OF Some] assms(1) show ?thesis by simp
qed

text \<open>
  C34. Scaling a pool down touches at most one node: an online node of the pool's own provider that
  is least loaded among those. An empty one is terminated at the provider and, if that worked,
  forgotten; one that still runs sandboxes is only marked as draining and no machine is
  terminated. When no online node has the pool's provider, nothing happens.
\<close>
theorem scaleDown_picks_least_loaded:
  assumes "db_ok (sv_db s)" and "down (sv_db s) = None" and "\<forall>n \<in> set (t_nodes (sv_db s)). 0 \<le> n_Running n"
    and "s' = scaleDown pool s"
  shows "if \<forall>n \<in> set (t_nodes (sv_db s)). n_Status n = ''online'' \<longrightarrow> n_Provider n \<noteq> cp_Provider pool then s' = s
    else \<exists>t \<in> set (t_nodes (sv_db s)). n_Status t = ''online'' \<and> n_Provider t = cp_Provider pool
      \<and> (\<forall>n \<in> set (t_nodes (sv_db s)). n_Status n = ''online'' \<and> n_Provider n = cp_Provider pool \<longrightarrow> n_Running t \<le> n_Running n)
      \<and> (0 < n_Running t \<longrightarrow> s' = s\<lparr>sv_db := snd (UpdateNodeStatus (n_ID t) ''draining'' (sv_db s))\<rparr>)
      \<and> (\<forall>pv w1. n_Running t = 0 \<and> reg_Get (sv_providers s) (cp_Provider pool) = Inr pv
            \<and> pv_TerminateNode pv (n_ProviderID t) (sv_world s) = (None, w1) \<longrightarrow>
          sv_world s' = w1 \<and> t_nodes (sv_db s') = filter (\<lambda>n. n_ID n \<noteq> n_ID t) (t_nodes (sv_db s)))"
proof -
  let ?on = "filter (\<lambda>n. n_Status n = ''online'') (t_nodes (sv_db s))"
  have l: "ListOnlineNodes (sv_db s) = Inr (sort_key n_Running ?on)" using assms(2) by (simp add: ListOnlineNodes_def db_query_def)
  show ?thesis
  proof (cases "drain_target pool (sort_key n_Running ?on)")
    case None
    then have "find (\<lambda>n. n_Provider n = cp_Provider pool) (sort_key n_Running ?on) = None"
      by (auto simp: drain_target_def split: option.splits)
    then have "\<forall>n \<in> set (t_nodes (sv_db s)). n_Status n = ''online'' \<longrightarrow> n_Provider n \<noteq> cp_Provider pool"
      by (auto simp: find_None_iff)
    moreover have "s' = s" using None by (simp add: assms(4) scaleDown_def l)
    ultimately show ?thesis by simp
  next
    case (Some t)
    have nn: "\<forall>n \<in> set ?on. 0 \<le> n_Running n" using assms(3) by simp
    have t: "t \<in> set (t_nodes (sv_db s))" "n_Status t = ''online''" "n_Provider t = cp_Provider pool"
      "\<forall>n \<in> set (t_nodes (sv_db s)). n_Status n = ''online'' \<and> n_Provider n = cp_Provider pool \<longrightarrow> n_Running t \<le> n_Running n"
      using drain_target_min [OF nn Some] by auto
    let ?s1 = "s\<lparr>sv_db := snd (UpdateNodeStatus (n_ID t) ''draining'' (sv_db s))\<rparr>"
    have s': "s' = (if n_Running t = 0 then terminateNode pool t ?s1 else ?s1)"
      using Some by (simp add: assms(4) scaleDown_def l Let_def case_prod_unfold)
    have killed: "sv_world s' = w1 \<and> t_nodes (sv_db s') = filter (\<lambda>n. n_ID n \<noteq> n_ID t) (t_nodes (sv_db s))"
      if "n_Running t = 0" "reg_Get (sv_providers s) (cp_Provider pool) = Inr pv"
        "pv_TerminateNode pv (n_ProviderID t) (sv_world s) = (None, w1)" for pv w1
    proof -
      have "filter (\<lambda>n. n_ID n \<noteq> n_ID t) (map (\<lambda>n. if n_ID n = n_ID t then n\<lparr>n_Status := st\<rparr> else n) ns) = filter (\<lambda>n. n_ID n \<noteq> n_ID t) ns" for st ns
        by (induction ns) auto
      from this [of "''terminating''" "map (\<lambda>n. if n_ID n = n_ID t then n\<lparr>n_Status := ''draining''\<rparr> else n) (t_nodes (sv_db s))"]
        this [of "''draining''" "t_nodes (sv_db s)"]
      have "filter (\<lambda>n. n_ID n \<noteq> n_ID t) (map ((\<lambda>n. if n_ID n = n_ID t then n\<lparr>n_Status := ''terminating''\<rparr> else n)
          \<circ> (\<lambda>n. if n_ID n = n_ID t then n\<lparr>n_Status := ''draining''\<rparr> else n)) (t_nodes (sv_db s)))
        = filter (\<lambda>n. n_ID n \<noteq> n_ID t) (t_nodes (sv_db s))" unfolding map_map by (rule trans)
      then show ?thesis
        using that t(3) assms(2)
        by (simp add: s' terminateNode_def case_prod_unfold UpdateNodeStatus_def DeleteNode_def UpsertCloudPool_def db_exec_def Let_def)
    qed
    have "\<not> (\<forall>n \<in> set (t_nodes (sv_db s)). n_Status n = ''online'' \<longrightarrow> n_Provider n \<noteq> cp_Provider pool)"
      using t by blast
    then show ?thesis
      unfolding if_not_P [OF \<open>\<not> (\<forall>n \<in> set (t_nodes (sv_db s)). n_Status n = ''online'' \<longrightarrow> n_Provider n \<noteq> cp_Provider pool)\<close>]
      using t killed s' by (intro bexI [of _ t]) auto
  qed
qed

lemma scaleDown_picks_least_loaded_witness:
  "\<exists>s' :: unit cpserver. s' = scaleDown (demo_pool\<lparr>cp_Provider := ''custom''\<rparr>) pool_server
     \<and> map n_Status (t_nodes (sv_db s')) = [''draining''] \<and> scaleDown demo_pool pool_server = pool_server"
proof -
  have n: "t_nodes (sv_db pool_server) = [(demo_cp_node ''n1'')\<lparr>n_LastSeen := stored_time (7 * second + 5), n_CreatedAt := stored_time (7 * second + 5)\<rparr>]"
    by (simp add: pool_server_facts one_node_nodes)
  have r: "\<forall>n \<in> set (t_nodes (sv_db pool_server)). 0 \<le> n_Running n" by (simp add: n demo_cp_node_def)
  show ?thesis
    using scaleDown_picks_least_loaded [OF pool_server_facts(1,2) r refl, of "demo_pool\<lparr>cp_Provider := ''custom''\<rparr>"]
      scaleDown_picks_least_loaded [OF pool_server_facts(1,2) r refl, of demo_pool]
    by (simp add: n demo_cp_node_def demo_pool_def UpdateNodeStatus_def db_exec_def pool_server_facts(2))
qed

text \<open>
  A heartbeat puts its node back online whatever its status was: also a node that the scaler is
  draining, or has marked as terminating, is offered to new sandboxes again as soon as it
  reports fewer sandboxes than it can hold.
\<close>
theorem heartbeat_undrains:
  assumes "db_ok (sv_db s)" and "down (sv_db s) = None" and "n \<in> set (t_nodes (sv_db s))" and "n_ID n \<noteq> ''''"
    and "valid_node_key s rq" and "cp_on_path ''POST'' [''internal'', ''nodes'', n_ID n, ''heartbeat''] rq"
    and "rq_json rq = Inr (JObj [(''runningSandboxes'', JInt r)])" and "- (2 ^ 63) \<le> r" and "r < 2 ^ 63"
    and "cp_Handler e rq s = (resp, s')"
  shows "status resp = 200
    \<and> (\<exists>m \<in> set (t_nodes (sv_db s')). n_ID m = n_ID n \<and> n_Status m = ''online'' \<and> n_Running m = r
         \<and> (r < n_MaxSandboxes n \<longrightarrow> m \<in> candidates (sv_db s')))"
proof -
  have j: "bind_res (dec_object (rq_json rq)) (dec_int ''runningSandboxes'') = Inr r"
    using assms(7-9) by (simp add: dec_object_def dec_int_def jfield_def)
  have m: "rq_method rq = ''POST''" using assms(6) by (simp add: cp_on_path_def)
  let ?m = "n\<lparr>n_Running := r, n_LastSeen := stored_time (e_now e), n_Status := ''online''\<rparr>"
  have a: "AuthMiddleware nx rq s = nx background rq s" for nx
    using AuthMiddleware_lets_in [OF assms(1) admits.node [OF assms(5)]] .
  obtain d where d: "UpdateNodeHeartbeat (n_ID n) r (e_now e) (sv_db s) = (None, d)"
    "t_nodes d = map (\<lambda>x. if n_ID x = n_ID n then x\<lparr>n_Running := r, n_LastSeen := stored_time (e_now e), n_Status := ''online''\<rparr> else x) (t_nodes (sv_db s))"
    using assms(2) by (simp add: UpdateNodeHeartbeat_def db_exec_def)
  have h: "resp = preset_headers cors_headers (cp_writeOK (JObj [(''status'', JStr ''ok'')]))" "s' = s\<lparr>sv_db := d\<rparr>"
    using assms(10) m by (simp_all add: cp_Handler_def corsMiddleware_def a cp_dispatches(6) [OF assms(6,4)]
        handleNodeHeartbeat_def j d(1) get_or_empty_def)
  have "?m \<in> set (t_nodes d)" using assms(3) by (force simp: d(2))
  then show ?thesis
    by (intro conjI bexI [of _ ?m]) (simp_all add: h preset_headers_def cp_writeOK_def candidates_def has_room_def)
qed

lemma heartbeat_undrains_witness:
  "\<exists>s' m. s' = snd (cp_Handler (demo_env accepting)
       (empty_request\<lparr>rq_method := ''POST'', rq_path := ''/internal/nodes/n1/heartbeat'', rq_header := [(''X-Node-Key'', ''nk'')],
          rq_json := Inr (JObj [(''runningSandboxes'', JInt 2)])\<rparr>)
       (one_node_server\<lparr>sv_db := snd (UpdateNodeStatus ''n1'' ''terminating'' (sv_db one_node_server))\<rparr>))
     \<and> m \<in> candidates (sv_db s') \<and> n_ID m = ''n1''"
proof -
  let ?s = "one_node_server\<lparr>sv_db := snd (UpdateNodeStatus ''n1'' ''terminating'' (sv_db one_node_server))\<rparr>"
  let ?rq = "empty_request\<lparr>rq_method := ''POST'', rq_path := ''/internal/nodes/n1/heartbeat'', rq_header := [(''X-Node-Key'', ''nk'')],
          rq_json := Inr (JObj [(''runningSandboxes'', JInt 2)])\<rparr>"
  obtain n where n: "n \<in> set (t_nodes (sv_db ?s))" "n_ID n = ''n1''" "n_MaxSandboxes n = 50"
    using one_node_nodes by (simp add: UpdateNodeStatus_def db_exec_def demo_cp_node_def)
  have ok: "db_ok (sv_db ?s)" "down (sv_db ?s) = None" using one_node_ok one_node_nodes(2) by (simp_all add: keys_kept)
  have v: "valid_node_key ?s ?rq" by (simp add: valid_node_key_def one_node_server_def cp_NewServer_def demo_config_def)
  have p: "cp_on_path ''POST'' [''internal'', ''nodes'', n_ID n, ''heartbeat''] ?rq"
    by (simp add: n(2) cp_on_path_def path_segments_def)
  obtain resp s' where h: "cp_Handler (demo_env accepting) ?rq ?s = (resp, s')" by (metis surj_pair)
  show ?thesis
    using heartbeat_undrains [OF ok n(1) _ v p _ _ _ h, of 2] n(2,3) by (auto simp: h)
qed

end
