(* ===== verification/Go_Url.thy ===== *)
theory Go_Url
  imports Go_Router
begin

text \<open>
  The query part of package \<open>net/url\<close>: escaping a value, undoing it, and reading the parameters of
  a raw query. \<open>served\<close> turns a request sent by a client into the request the server's handler
  sees, so that the model of a client can be run against the model of a server; a body sent as text
  is decoded by a JSON parser that is an argument.
\<close>

section \<open>Escaping\<close>

definition unreserved :: "char \<Rightarrow> bool" where
  "unreserved c \<longleftrightarrow> (let n = (of_char c :: nat) in
     48 \<le> n \<and> n \<le> 57 \<or> 65 \<le> n \<and> n \<le> 90 \<or> 97 \<le> n \<and> n \<le> 122 \<or> n = 45 \<or> n = 95 \<or> n = 46 \<or> n = 126)"

definition escape_char :: "char \<Rightarrow> string" where
  "escape_char c =
     (if unreserved c then [c] else if c = CHR '' '' then ''+'' else CHR ''%'' # hex2 (of_char c))"

definition query_escape :: "string \<Rightarrow> string" where
  "query_escape s = concat (map escape_char s)"

definition hexval :: "char \<Rightarrow> nat option" where
  "hexval c = (let n = (of_char c :: nat) in
     if 48 \<le> n \<and> n \<le> 57 then Some (n - 48)
     else if 65 \<le> n \<and> n \<le> 70 then Some (n - 55)
     else if 97 \<le> n \<and> n \<le> 102 then Some (n - 87)
     else None)"

text \<open>\<open>None\<close> for an escape that is not two hexadecimal digits.\<close>

fun query_unescape :: "string \<Rightarrow> string option" where
  "query_unescape [] = Some []"
| "query_unescape (c # s) =
     (if c = CHR ''%'' then
        (case s of
           a # b # s' \<Rightarrow>
             (case (hexval a, hexval b) of
                (Some x, Some y) \<Rightarrow> map_option (Cons (char_of (16 * x + y))) (query_unescape s')
              | _ \<Rightarrow> None)
         | _ \<Rightarrow> None)
      else map_option (Cons (if c = CHR ''+'' then CHR '' '' else c)) (query_unescape s))"

section \<open>Parameters\<close>

text \<open>A part with a semicolon, or that does not unescape, is skipped.\<close>

definition query_part :: "string \<Rightarrow> (string \<times> string) list" where
  "query_part part =
     (if part = '''' \<or> CHR '';'' \<in> set part then []
      else
        let (k, v) = (case index_byte part CHR ''='' of
                        None \<Rightarrow> (part, '''') | Some i \<Rightarrow> (take i part, drop (Suc i) part))
        in case (query_unescape k, query_unescape v) of
             (Some k', Some v') \<Rightarrow> [(k', v')]
           | _ \<Rightarrow> [])"

definition parse_query :: "string \<Rightarrow> (string \<times> string) list" where
  "parse_query q = concat (map query_part (split_byte CHR ''&'' q))"

section \<open>From a client to a server\<close>

definition split_url :: "string \<Rightarrow> string \<Rightarrow> string \<times> string" where
  "split_url base url =
     (let rest = trim_prefix url base; before = takeWhile (\<lambda>c. c \<noteq> CHR ''#'') rest
      in case index_byte before CHR ''?'' of
           None \<Rightarrow> (before, '''') | Some i \<Rightarrow> (take i before, drop (Suc i) before))"

definition served :: "(string \<Rightarrow> string + json) \<Rightarrow> string \<Rightarrow> out_request \<Rightarrow> request" where
  "served parse base q =
     (let (path, query) = split_url base (oq_url q)
      in \<lparr>rq_method = oq_method q, rq_path = path, rq_header = oq_headers q, rq_cookie = [], rq_vars = [],
          rq_query = query, rq_params = parse_query query,
          rq_json = (case oq_body q of BJson j \<Rightarrow> Inr j | BRaw s \<Rightarrow> parse s | BEvents _ \<Rightarrow> parse (body_text (oq_body q)) | BEmpty \<Rightarrow> Inl ''EOF''),
          rq_raw = body_text (oq_body q)\<rparr>)"

text \<open>A client whose requests are all served by one handler.\<close>

definition served_by :: "(string \<Rightarrow> string + json) \<Rightarrow> string \<Rightarrow> 's handler \<Rightarrow> 's http_client" where
  "served_by parse base h q s = (let (resp, s') = h (served parse base q) s in (Inr resp, s'))"

lemma served_sel:
  "rq_method (served parse base q) = oq_method q" "rq_header (served parse base q) = oq_headers q"
  "rq_path (served parse base q) = fst (split_url base (oq_url q))"
  "rq_query (served parse base q) = snd (split_url base (oq_url q))"
  "rq_params (served parse base q) = parse_query (snd (split_url base (oq_url q)))"
  "oq_body q = BJson j \<Longrightarrow> rq_json (served parse base q) = Inr j"
  "oq_body q = BRaw s \<Longrightarrow> rq_raw (served parse base q) = s"
  by (simp_all add: served_def case_prod_unfold Let_def body_text_def)

section \<open>Round trip\<close>

lemma hexval_digit: "n < 16 \<Longrightarrow> hexval (digit n) = Some n"
proof -
  assume n: "n < 16"
  then have "(of_char (digit n) :: nat) = (if n < 10 then 48 + n else 55 + n)"
    by (simp add: digit_def)
  with n show ?thesis by (simp add: hexval_def)
qed

lemma hex2_value:
  assumes "n < 256"
  shows "hexval (digit (n div 16)) = Some (n div 16)" "hexval (digit (n mod 16)) = Some (n mod 16)"
    "16 * (n div 16) + n mod 16 = n"
  using assms by (simp_all add: hexval_digit)

lemma unreserved_plain: "unreserved c \<Longrightarrow> c \<noteq> CHR ''%'' \<and> c \<noteq> CHR ''+'' \<and> c \<noteq> CHR ''&'' \<and> c \<noteq> CHR ''#''
    \<and> c \<noteq> CHR '';'' \<and> c \<noteq> CHR ''?'' \<and> c \<noteq> CHR ''=''"
  by (auto simp: unreserved_def)

lemma query_unescape_escape_char: "query_unescape (escape_char c @ s) = map_option (Cons c) (query_unescape s)"
proof (cases "unreserved c")
  case True
  with unreserved_plain [OF True] show ?thesis by (simp add: escape_char_def)
next
  case False
  show ?thesis
  proof (cases "c = CHR '' ''")
    case space: False
    have "(of_char c :: nat) < 256" by (simp add: of_char_def)
    from hex2_value [OF this] False space show ?thesis
      by (simp add: escape_char_def hex2_def)
  qed (use False in \<open>simp add: escape_char_def\<close>)
qed

lemma query_unescape_escape: "query_unescape (query_escape s) = Some s"
proof (induction s)
  case (Cons c s)
  then show ?case using query_unescape_escape_char [of c "query_escape s"] by (simp add: query_escape_def)
qed (simp add: query_escape_def)

definition query_safe :: "char \<Rightarrow> bool" where
  "query_safe c \<longleftrightarrow> c \<noteq> CHR ''&'' \<and> c \<noteq> CHR ''#'' \<and> c \<noteq> CHR '';'' \<and> c \<noteq> CHR ''?'' \<and> c \<noteq> CHR ''=''"

lemma digit_safe: "n < 16 \<Longrightarrow> query_safe (digit n)"
proof -
  assume n: "n < 16"
  have "hexval c = None" if "\<not> query_safe c" for c
    using that by (auto simp: query_safe_def hexval_def)
  with hexval_digit [OF n] show ?thesis by (metis option.distinct(1))
qed

lemma query_escape_safe: "c \<in> set (query_escape s) \<Longrightarrow> query_safe c"
proof -
  have "c \<in> set (escape_char x) \<Longrightarrow> query_safe c" for x
  proof (cases "unreserved x")
    case True
    with unreserved_plain [OF True] show "c \<in> set (escape_char x) \<Longrightarrow> query_safe c"
      by (simp add: escape_char_def query_safe_def)
  next
    case False
    have "(of_char x :: nat) < 256" by (simp add: of_char_def)
    then have "of_char x div 16 < (16 :: nat)" by linarith
    then have "query_safe (digit (of_char x div 16))" "query_safe (digit (of_char x mod 16))"
      by (simp_all add: digit_safe)
    with False show "c \<in> set (escape_char x) \<Longrightarrow> query_safe c"
      by (auto simp: escape_char_def hex2_def query_safe_def split: if_splits)
  qed
  then show "c \<in> set (query_escape s) \<Longrightarrow> query_safe c" by (auto simp: query_escape_def)
qed

text \<open>A key of plain characters with an escaped value is read back.\<close>

lemma query_unescape_plain: "list_all unreserved k \<Longrightarrow> query_unescape k = Some k"
proof (induction k)
  case (Cons c k)
  with unreserved_plain [of c] show ?case by simp
qed simp

lemma parse_query_escaped:
  assumes "list_all unreserved k" and "k \<noteq> ''''"
  shows "parse_query (k @ ''='' @ query_escape v) = [(k, v)]"
proof -
  let ?q = "k @ ''='' @ query_escape v"
  have safe: "c \<noteq> CHR ''&'' \<and> c \<noteq> CHR '';''" if "c \<in> set ?q" for c
    using that assms(1) unreserved_plain query_escape_safe [of c v] by (auto simp: list_all_iff query_safe_def)
  then have "split_byte CHR ''&'' ?q = [?q]" by (intro split_byte_no_sep) blast
  moreover have "CHR ''='' \<notin> set k" using assms(1) unreserved_plain by (auto simp: list_all_iff)
  then have "index_byte ?q CHR ''='' = Some (length k)" using index_byte_append [of _ k] by simp
  then have "query_part ?q = [(k, v)]"
    using safe by (auto simp: query_part_def query_unescape_plain [OF assms(1)] query_unescape_escape)
  ultimately show ?thesis by (simp add: parse_query_def)
qed

section \<open>Splitting a URL\<close>

definition plain_char :: "char \<Rightarrow> bool" where
  "plain_char c \<longleftrightarrow> c \<noteq> CHR ''#'' \<and> c \<noteq> CHR ''?''"

lemma split_url_plain: "list_all plain_char path \<Longrightarrow> split_url base (base @ path) = (path, '''')"
proof -
  assume p: "list_all plain_char path"
  then have t: "takeWhile (\<lambda>c. c \<noteq> CHR ''#'') path = path" by (auto simp: list_all_iff plain_char_def)
  have "index_byte path CHR ''?'' = None" using p by (auto simp: index_byte_None list_all_iff plain_char_def)
  then show ?thesis unfolding split_url_def Let_def trim_prefix_append t by simp
qed

lemma split_url_query:
  assumes "list_all plain_char path" and "CHR ''#'' \<notin> set query"
  shows "split_url base (base @ path @ CHR ''?'' # query) = (path, query)"
proof -
  have t: "takeWhile (\<lambda>c. c \<noteq> CHR ''#'') (path @ CHR ''?'' # query) = path @ CHR ''?'' # query"
    using assms by (auto simp: takeWhile_eq_all_conv list_all_iff plain_char_def)
  have "CHR ''?'' \<notin> set path" using assms(1) by (auto simp: list_all_iff plain_char_def)
  then have "index_byte (path @ CHR ''?'' # query) CHR ''?'' = Some (length path)" by (rule index_byte_append)
  then show ?thesis unfolding split_url_def Let_def trim_prefix_append t by simp
qed

text \<open>An identifier that is one segment of a path.\<close>

definition plain_id :: "string \<Rightarrow> bool" where
  "plain_id i \<longleftrightarrow> i \<noteq> '''' \<and> (\<forall>c \<in> set i. plain_char c \<and> c \<noteq> CHR ''/'')"

end
