(* ===== verification/Rest_Api.thy ===== *)
theory Rest_Api
  imports Go_Url Orchestrator
begin

text \<open>
  Package \<open>api\<close>: the REST server of a single host, in front of an orchestrator (\<open>handlers.go\<close>),
  with its middlewares (\<open>middleware.go\<close>) and routes (\<open>server.go\<close>). Its state is the orchestrator.
  What the handlers use from outside is the record \<open>api_env\<close>: the backend's methods, the HTTP
  client, the generated identifier, the clock, the error of building a request for a URL, and the
  text of a time in the zone of the host. Logging is left out.
\<close>

section \<open>Answers\<close>

record 'r api_env =
  ae_rt :: "'r runtime"
  ae_client :: "'r http_client"
  ae_uuid :: string
  ae_now :: time
  ae_new_request :: "string \<Rightarrow> string option"
  ae_local :: "time \<Rightarrow> string"

definition api_writeError :: "nat \<Rightarrow> string \<Rightarrow> response" where
  "api_writeError st msg = json_response st (JObj [(''error'', JStr msg)])"

definition toVMResponse :: "'r api_env \<Rightarrow> VMInstance \<Rightarrow> json" where
  "toVMResponse e inst = JObj
     ([(''id'', JStr (vi_ID inst)), (''state'', JStr (vi_State inst)), (''template'', JStr (vi_Template inst)),
       (''vcpus'', JInt (vi_VCPUs inst)), (''memoryMB'', JInt (vi_MemoryMB inst)),
       (''createdAt'', JStr (ae_local e (vi_CreatedAt inst))), (''expiresAt'', JStr (ae_local e (vi_ExpiresAt inst)))]
      @ (if vi_Metadata inst = [] then [] else [(''metadata'', jstr_map (vi_Metadata inst))])
      @ [(''agentURL'', JStr (vi_AgentURL inst)), (''guestIP'', JStr (vi_GuestIP inst))])"

section \<open>VM life cycle\<close>

definition decode_create_vm :: "json \<Rightarrow> string + CreateRequest" where
  "decode_create_vm j =
     bind_res (dec_string ''template'' j) (\<lambda>template.
     bind_res (dec_int ''vcpus'' j) (\<lambda>vcpus.
     bind_res (dec_int ''memoryMB'' j) (\<lambda>memoryMB.
     bind_res (dec_int ''timeout'' j) (\<lambda>timeout.
     bind_res (dec_map ''metadata'' j) (\<lambda>metadata.
     bind_res (dec_map ''envVars'' j) (\<lambda>envVars.
       Inr \<lparr>cr_Template = template, cr_VCPUs = vcpus, cr_MemoryMB = memoryMB, cr_Timeout = timeout,
            cr_Metadata = (case metadata of None \<Rightarrow> [] | Some m \<Rightarrow> m),
            cr_EnvVars = (case envVars of None \<Rightarrow> [] | Some m \<Rightarrow> m)\<rparr>))))))"

definition CreateVM :: "'r api_env \<Rightarrow> 'r orch handler" where
  "CreateVM e rq orc =
     (case bind_res (dec_object (rq_json rq)) decode_create_vm of
        Inl err \<Rightarrow> (api_writeError http_bad_request (''invalid JSON: '' @ err), orc)
      | Inr req \<Rightarrow>
          (case Create (ae_rt e) (ae_client e) (ae_uuid e) (ae_now e) req orc of
             (Inl err, orc1) \<Rightarrow> (api_writeError http_internal err, orc1)
           | (Inr instance, orc1) \<Rightarrow> (json_response http_created (toVMResponse e instance), orc1)))"

definition ListVMs :: "'r api_env \<Rightarrow> 'r orch handler" where
  "ListVMs e rq orc = (json_response http_ok (JArr (map (toVMResponse e) (orch_List orc))), orc)"

definition vm_not_found :: response where
  "vm_not_found = api_writeError http_not_found ''VM not found''"

definition GetVM :: "'r api_env \<Rightarrow> 'r orch handler" where
  "GetVM e rq orc =
     (case orch_Get orc (get_or_empty (rq_vars rq) ''id'') of
        None \<Rightarrow> (vm_not_found, orc)
      | Some inst \<Rightarrow> (json_response http_ok (toVMResponse e inst), orc))"

definition DeleteVM :: "'r api_env \<Rightarrow> 'r orch handler" where
  "DeleteVM e rq orc =
     (case Delete (ae_rt e) (get_or_empty (rq_vars rq) ''id'') orc of
        (Some err, orc1) \<Rightarrow> (api_writeError http_not_found err, orc1)
      | (None, orc1) \<Rightarrow> (json_response http_ok (JObj [(''status'', JStr ''deleted'')]), orc1))"

section \<open>Calls to the agent\<close>

definition unreachable :: "string \<Rightarrow> response" where
  "unreachable err = api_writeError http_bad_gateway (''agent unreachable: '' @ err)"

text \<open>
  One call to the agent of the VM that the path names. \<open>on_new_request\<close> is the answer when no request
  can be built for the URL: an error for the functions of package \<open>http\<close> that report it, no answer
  where the error of \<open>NewRequest\<close> is dropped and the nil request is used. \<open>answer\<close> makes the answer from the
  agent's.
\<close>

definition call_agent ::
  "'r api_env \<Rightarrow> (VMInstance \<Rightarrow> out_request) \<Rightarrow> (string \<Rightarrow> response) \<Rightarrow> (response \<Rightarrow> response) \<Rightarrow> 'r orch handler" where
  "call_agent e build on_new_request answer rq orc =
     (case orch_Get orc (get_or_empty (rq_vars rq) ''id'') of
        None \<Rightarrow> (vm_not_found, orc)
      | Some instance \<Rightarrow>
          let q = build instance
          in case ae_new_request e (oq_url q) of
               Some err \<Rightarrow> (on_new_request err, orc)
             | None \<Rightarrow>
                 let (res, r1) = ae_client e q (backend orc); orc1 = orc\<lparr>backend := r1\<rparr>
                 in case res of
                      Inl err \<Rightarrow> (unreachable err, orc1)
                    | Inr resp \<Rightarrow> (answer resp, orc1))"

definition as_json :: "response \<Rightarrow> response" where
  "as_json resp = resp\<lparr>rheaders := [(''Content-Type'', ''application/json'')]\<rparr>"

definition post_json :: "string \<Rightarrow> body \<Rightarrow> out_request" where
  "post_json url b = \<lparr>oq_method = ''POST'', oq_url = url, oq_headers = [(''Content-Type'', ''application/json'')], oq_body = b\<rparr>"

definition ExecVM :: "'r api_env \<Rightarrow> 'r orch handler" where
  "ExecVM e rq = call_agent e (\<lambda>inst. post_json (vi_AgentURL inst @ ''/exec'') (BRaw (rq_raw rq))) unreachable as_json rq"

text \<open>The status of the agent's answer is not passed on: the stream's own is 200.\<close>

definition as_stream :: "response \<Rightarrow> response" where
  "as_stream resp = \<lparr>status = http_ok,
     rheaders = [(''Content-Type'', ''text/event-stream''), (''Cache-Control'', ''no-cache''), (''Connection'', ''keep-alive'')],
     rbody = rbody resp\<rparr>"

definition ExecStreamVM :: "'r api_env \<Rightarrow> 'r orch handler" where
  "ExecStreamVM e rq =
     call_agent e (\<lambda>inst. post_json (vi_AgentURL inst @ ''/exec/stream'') (BRaw (rq_raw rq))) unreachable as_stream rq"

definition proxyGetToAgent :: "'r api_env \<Rightarrow> string \<Rightarrow> 'r orch handler" where
  "proxyGetToAgent e agentPath rq =
     call_agent e
       (\<lambda>inst. \<lparr>oq_method = ''GET'', oq_url = vi_AgentURL inst @ agentPath @ ''?'' @ rq_query rq, oq_headers = [], oq_body = BEmpty\<rparr>)
       unreachable (\<lambda>resp. resp\<lparr>rheaders := set_headers (rheaders resp)\<rparr>) rq"

definition proxyBodyToAgent :: "'r api_env \<Rightarrow> string \<Rightarrow> string \<Rightarrow> 'r orch handler" where
  "proxyBodyToAgent e meth agentPath rq =
     call_agent e
       (\<lambda>inst. \<lparr>oq_method = meth, oq_url = vi_AgentURL inst @ agentPath @ ''?'' @ rq_query rq,
          oq_headers = [(''Content-Type'', get_or_empty (rq_header rq) ''Content-Type'')], oq_body = BRaw (rq_raw rq)\<rparr>)
       (\<lambda>_. aborted) as_json rq"

definition api_ReadFile :: "'r api_env \<Rightarrow> 'r orch handler" where
  "api_ReadFile e = proxyGetToAgent e ''/files''"

definition api_WriteFile :: "'r api_env \<Rightarrow> 'r orch handler" where
  "api_WriteFile e = proxyBodyToAgent e ''PUT'' ''/files''"

definition api_ListFiles :: "'r api_env \<Rightarrow> 'r orch handler" where
  "api_ListFiles e = proxyGetToAgent e ''/files/list''"

text \<open>These two read the decoded parameter and paste it into the query without escaping it.\<close>

definition api_DeleteFile :: "'r api_env \<Rightarrow> 'r orch handler" where
  "api_DeleteFile e rq =
     call_agent e
       (\<lambda>inst. \<lparr>oq_method = ''DELETE'', oq_url = vi_AgentURL inst @ ''/files?path='' @ get_or_empty (rq_params rq) ''path'',
          oq_headers = [], oq_body = BEmpty\<rparr>)
       (\<lambda>_. aborted) as_json rq"

definition api_Mkdir :: "'r api_env \<Rightarrow> 'r orch handler" where
  "api_Mkdir e rq =
     call_agent e
       (\<lambda>inst. post_json (vi_AgentURL inst @ ''/files/mkdir?path='' @ get_or_empty (rq_params rq) ''path'') BEmpty)
       unreachable as_json rq"

definition api_Health :: "'r orch handler" where
  "api_Health rq orc =
     (json_response http_ok (JObj [(''status'', JStr ''ok''), (''vms'', JInt (int (length (orch_List orc))))]), orc)"

section \<open>Routes and middleware\<close>

definition api_routes :: "'r api_env \<Rightarrow> 'r orch route list" where
  "api_routes e =
     [route ''POST'' [Lit ''v1'', Lit ''vms''] (CreateVM e),
      route ''GET'' [Lit ''v1'', Lit ''vms''] (ListVMs e),
      route ''GET'' [Lit ''v1'', Lit ''vms'', Wild ''id''] (GetVM e),
      route ''DELETE'' [Lit ''v1'', Lit ''vms'', Wild ''id''] (DeleteVM e),
      route ''POST'' [Lit ''v1'', Lit ''vms'', Wild ''id'', Lit ''exec''] (ExecVM e),
      route ''POST'' [Lit ''v1'', Lit ''vms'', Wild ''id'', Lit ''exec'', Lit ''stream''] (ExecStreamVM e),
      route ''GET'' [Lit ''v1'', Lit ''vms'', Wild ''id'', Lit ''files''] (api_ReadFile e),
      route ''PUT'' [Lit ''v1'', Lit ''vms'', Wild ''id'', Lit ''files''] (api_WriteFile e),
      route ''GET'' [Lit ''v1'', Lit ''vms'', Wild ''id'', Lit ''files'', Lit ''list''] (api_ListFiles e),
      route ''DELETE'' [Lit ''v1'', Lit ''vms'', Wild ''id'', Lit ''files''] (api_DeleteFile e),
      route ''POST'' [Lit ''v1'', Lit ''vms'', Wild ''id'', Lit ''files'', Lit ''mkdir''] (api_Mkdir e),
      route ''GET'' [Lit ''health''] api_Health]"

definition api_cors_headers :: "(string \<times> string) list" where
  "api_cors_headers =
     [(''Access-Control-Allow-Origin'', ''*''), (''Access-Control-Allow-Methods'', ''GET, POST, PUT, DELETE, OPTIONS''),
      (''Access-Control-Allow-Headers'', ''Content-Type, X-API-KEY, Authorization'')]"

definition CORS :: "'s handler \<Rightarrow> 's handler" where
  "CORS nxt rq s =
     (if rq_method rq = ''OPTIONS'' then (\<lparr>status = http_no_content, rheaders = api_cors_headers, rbody = BEmpty\<rparr>, s)
      else let (resp, s1) = nxt rq s in (preset_headers api_cors_headers resp, s1))"

text \<open>The key a request presents: its own header, or else the authorization header.\<close>

definition presented_key :: "request \<Rightarrow> string" where
  "presented_key rq =
     (let key = get_or_empty (rq_header rq) ''X-API-KEY''
      in if key = '''' then
           let key = get_or_empty (rq_header rq) ''Authorization''
           in if length key > 7 \<and> take 7 key = ''Bearer '' then drop 7 key else key
         else key)"

definition APIKeyAuth :: "string \<Rightarrow> 's handler \<Rightarrow> 's handler" where
  "APIKeyAuth apiKey nxt rq s =
     (if rq_path rq = ''/health'' then nxt rq s
      else if apiKey = '''' then nxt rq s
      else if presented_key rq \<noteq> apiKey
      then (plain_error http_unauthorized ''{\"error\":\"unauthorized\"}'', s)
      else nxt rq s)"

definition api_Handler :: "string \<Rightarrow> 'r api_env \<Rightarrow> 'r orch handler" where
  "api_Handler apiKey e = APIKeyAuth apiKey (CORS (serve_mux (api_routes e)))"

section \<open>The server is an orchestrator\<close>

definition api_sim :: "'r api_env \<Rightarrow> ('r \<Rightarrow> 'r \<Rightarrow> bool) \<Rightarrow> 'r orch \<Rightarrow> 'r orch \<Rightarrow> bool" where
  "api_sim e env orc orc' \<longleftrightarrow> orc' = orc \<or> orch_step (ae_rt e) (ae_client e) env orc orc'"

named_theorems api_sims \<open>handlers make at most one step of the orchestrator\<close>

lemma api_sim_same [simp]: "api_sim e env orc orc"
  by (simp add: api_sim_def)

lemma api_sim_Create [api_sims]:
  assumes "sandbox_id (ae_uuid e) \<notin> gm_keys (store orc)"
  shows "api_sim e env orc (snd (CreateVM e rq orc))"
proof (cases "bind_res (dec_object (rq_json rq)) decode_create_vm")
  case (Inr req)
  from orch_step.create [OF assms, of "ae_rt e" "ae_client e" env "ae_now e" req] Inr show ?thesis
    by (auto simp: CreateVM_def api_sim_def split: sum.split prod.split)
qed (simp add: CreateVM_def)

lemma api_sim_Delete [api_sims]: "api_sim e env orc (snd (DeleteVM e rq orc))"
  using orch_step.delete [of "ae_rt e" "ae_client e" env orc "get_or_empty (rq_vars rq) ''id''"]
  by (auto simp: DeleteVM_def api_sim_def split: option.split prod.split)

lemma api_sim_readers [api_sims]:
  "snd (ListVMs e rq orc) = orc" "snd (GetVM e rq orc) = orc" "snd (api_Health rq orc) = orc"
  by (auto simp: ListVMs_def GetVM_def api_Health_def split: option.split)

lemma call_agent_backend:
  "snd (call_agent e build onr answer rq orc) = orc
   \<or> (\<exists>q. snd (call_agent e build onr answer rq orc) = orc\<lparr>backend := snd (ae_client e q (backend orc))\<rparr>)"
  by (auto simp: call_agent_def Let_def case_prod_unfold split: option.split sum.split)

lemma api_sim_call_agent:
  assumes "\<And>q r resp r'. ae_client e q r = (resp, r') \<Longrightarrow> env r r'"
  shows "api_sim e env orc (snd (call_agent e build onr answer rq orc))"
  using call_agent_backend [of e build onr answer rq orc] assms
  by (metis api_sim_def orch_step.world prod.collapse)

lemmas agent_calls = ExecVM_def ExecStreamVM_def proxyGetToAgent_def proxyBodyToAgent_def api_ReadFile_def api_WriteFile_def
  api_ListFiles_def api_DeleteFile_def api_Mkdir_def

lemma api_mux_sim:
  assumes "sandbox_id (ae_uuid e) \<notin> gm_keys (store orc)" and "\<And>q r resp r'. ae_client e q r = (resp, r') \<Longrightarrow> env r r'"
  shows "api_sim e env orc (snd (serve_mux (api_routes e) rq orc))"
proof (rule serve_mux_invariant [where P = "api_sim e env"])
  fix r rq
  assume "r \<in> set (api_routes e)"
  then show "api_sim e env orc (snd (rt_handler r rq orc))"
    unfolding api_routes_def
    by (auto simp: api_sims assms(1) agent_calls intro: api_sim_call_agent [of e env, OF assms(2)])
qed simp

lemma snd_CORS: "snd (CORS nxt rq s) = (if rq_method rq = ''OPTIONS'' then s else snd (nxt rq s))"
  by (simp add: CORS_def case_prod_unfold Let_def)

lemma APIKeyAuth_cases:
  obtains (served) "APIKeyAuth apiKey nxt rq s = nxt rq s" "apiKey = '''' \<or> rq_path rq = ''/health'' \<or> presented_key rq = apiKey"
  | (refused) "status (fst (APIKeyAuth apiKey nxt rq s)) = 401" "snd (APIKeyAuth apiKey nxt rq s) = s"
      "apiKey \<noteq> ''''" "rq_path rq \<noteq> ''/health''" "presented_key rq \<noteq> apiKey"
  by (cases "apiKey = '''' \<or> rq_path rq = ''/health'' \<or> presented_key rq = apiKey")
     (auto simp: APIKeyAuth_def plain_error_def)

lemma store_readers:
  "rq_method rq = ''GET'' \<or> rq_method rq = ''HEAD'' \<Longrightarrow> store (snd (serve_mux (api_routes e) rq orc)) = store orc"
proof -
  assume m: "rq_method rq = ''GET'' \<or> rq_method rq = ''HEAD''"
  have c: "store (snd (call_agent e build onr answer rq orc)) = store orc" for build onr answer rq
    using call_agent_backend [of e build onr answer rq orc] by auto
  have "store (snd (rt_handler r rq orc)) = store orc"
    if "r \<in> set (api_routes e)" "rt_method r = ''GET''" for r rq
    using that unfolding api_routes_def by (auto simp: api_sims agent_calls c)
  moreover have "rt_method r = ''GET''" if "route_matches rq r" "r \<in> set (api_routes e)" for r
    using that m unfolding api_routes_def by (auto simp: route_matches_def method_matches_def)
  ultimately show ?thesis
    unfolding serve_mux_def
    by (auto simp: find_Some_iff split: option.split)
qed

lemmas api_search = serve_mux_def api_routes_def route_matches_def method_matches_def

lemma api_dispatches:
  "rq_method rq = ''POST'' \<Longrightarrow> path_segments (rq_path rq) = [''v1'', ''vms''] \<Longrightarrow>
     serve_mux (api_routes e) rq orc = CreateVM e (rq\<lparr>rq_vars := []\<rparr>) orc"
  "i \<noteq> '''' \<Longrightarrow> rq_method rq = ''DELETE'' \<Longrightarrow> path_segments (rq_path rq) = [''v1'', ''vms'', i] \<Longrightarrow>
     serve_mux (api_routes e) rq orc = DeleteVM e (rq\<lparr>rq_vars := [(''id'', i)]\<rparr>) orc"
  "i \<noteq> '''' \<Longrightarrow> rq_method rq = ''GET'' \<Longrightarrow> path_segments (rq_path rq) = [''v1'', ''vms'', i, ''files''] \<Longrightarrow>
     serve_mux (api_routes e) rq orc = api_ReadFile e (rq\<lparr>rq_vars := [(''id'', i)]\<rparr>) orc"
  "i \<noteq> '''' \<Longrightarrow> rq_method rq = ''PUT'' \<Longrightarrow> path_segments (rq_path rq) = [''v1'', ''vms'', i, ''files''] \<Longrightarrow>
     serve_mux (api_routes e) rq orc = api_WriteFile e (rq\<lparr>rq_vars := [(''id'', i)]\<rparr>) orc"
  "i \<noteq> '''' \<Longrightarrow> rq_method rq = ''DELETE'' \<Longrightarrow> path_segments (rq_path rq) = [''v1'', ''vms'', i, ''files''] \<Longrightarrow>
     serve_mux (api_routes e) rq orc = api_DeleteFile e (rq\<lparr>rq_vars := [(''id'', i)]\<rparr>) orc"
  by (simp_all add: api_search)

text \<open>
  A route that is neither the creation nor the deletion makes at most one call, to the agent of
  the VM its path names.
\<close>

definition agent_call_of :: "'r api_env \<Rightarrow> request \<Rightarrow> 'r orch \<Rightarrow> 'r orch \<Rightarrow> bool" where
  "agent_call_of e rq orc orc' \<longleftrightarrow> (\<exists>i rest inst q p.
     path_segments (rq_path rq) = ''v1'' # ''vms'' # i # rest \<and> rest \<noteq> [] \<and> orch_Get orc i = Some inst
     \<and> oq_url q = vi_AgentURL inst @ p \<and> orc' = orc\<lparr>backend := snd (ae_client e q (backend orc))\<rparr>)"

lemma call_agent_effect:
  assumes "\<And>inst. \<exists>p. oq_url (build inst) = vi_AgentURL inst @ p"
  shows "snd (call_agent e build onr answer rq orc) = orc
    \<or> (\<exists>inst q p. orch_Get orc (get_or_empty (rq_vars rq) ''id'') = Some inst \<and> oq_url q = vi_AgentURL inst @ p
         \<and> snd (call_agent e build onr answer rq orc) = orc\<lparr>backend := snd (ae_client e q (backend orc))\<rparr>)"
proof (cases "orch_Get orc (get_or_empty (rq_vars rq) ''id'')")
  case (Some inst)
  moreover obtain p where "oq_url (build inst) = vi_AgentURL inst @ p" using assms by blast
  ultimately show ?thesis
    by (auto simp: call_agent_def Let_def case_prod_unfold split: option.split sum.split)
qed (simp add: call_agent_def)

lemma agent_routes_effect:
  assumes "h \<in> {ExecVM e, ExecStreamVM e, api_ReadFile e, api_WriteFile e, api_ListFiles e, api_DeleteFile e, api_Mkdir e}"
    and "get_or_empty (rq_vars rq) ''id'' = i" and "path_segments (rq_path rq) = ''v1'' # ''vms'' # i # rest" and "rest \<noteq> []"
  shows "snd (h rq orc) = orc \<or> agent_call_of e rq orc (snd (h rq orc))"
proof -
  have c: "snd (call_agent e build onr answer rq orc) = orc
      \<or> agent_call_of e rq orc (snd (call_agent e build onr answer rq orc))"
    if "\<And>inst. \<exists>p. oq_url (build inst) = vi_AgentURL inst @ p" for build onr answer
    using call_agent_effect [OF that, of e onr answer rq orc] assms(2-4)
    by (auto simp: agent_call_of_def)
  show ?thesis
    using assms(1) by (elim insertE emptyE; simp only: agent_calls; intro c; simp add: post_json_def)
qed

lemma agent_call_of_vars: "agent_call_of e (rq\<lparr>rq_vars := v\<rparr>) orc orc' \<longleftrightarrow> agent_call_of e rq orc orc'"
  by (simp add: agent_call_of_def)

lemma api_route_cases:
  assumes "r \<in> set (api_routes e)"
  obtains (create) "r = route ''POST'' [Lit ''v1'', Lit ''vms''] (CreateVM e)"
  | (delete) "r = route ''DELETE'' [Lit ''v1'', Lit ''vms'', Wild ''id''] (DeleteVM e)"
  | (reader) "rt_handler r \<in> {ListVMs e, GetVM e, api_Health}"
  | (agent) rest where "rt_pattern r = Lit ''v1'' # Lit ''vms'' # Wild ''id'' # rest" "rest \<noteq> []"
      "rt_handler r \<in> {ExecVM e, ExecStreamVM e, api_ReadFile e, api_WriteFile e, api_ListFiles e, api_DeleteFile e, api_Mkdir e}"
  using assms unfolding api_routes_def by auto

lemma api_other_routes:
  assumes "\<not> (rq_method rq = ''POST'' \<and> path_segments (rq_path rq) = [''v1'', ''vms''])"
    and "\<not> (rq_method rq = ''DELETE'' \<and> (\<exists>i. i \<noteq> '''' \<and> path_segments (rq_path rq) = [''v1'', ''vms'', i]))"
  shows "snd (serve_mux (api_routes e) rq orc) = orc
    \<or> agent_call_of e rq orc (snd (serve_mux (api_routes e) rq orc))"
proof (cases rule: serve_mux_matched [of "api_routes e" rq orc])
  case (handled r vars)
  from handled(1) show ?thesis
  proof (cases rule: api_route_cases)
    case create
    with handled(2,3) assms(1) show ?thesis by (simp add: method_matches_def match_segments_Some)
  next
    case delete
    with handled(2,3) assms(2) show ?thesis by (auto simp: method_matches_def match_segments_Some)
  next
    case reader
    with handled(4) show ?thesis by (auto simp: api_sims)
  next
    case (agent rest)
    from handled(3) agent(1) obtain i t m where p: "path_segments (rq_path rq) = ''v1'' # ''vms'' # i # t"
      and v: "vars = (''id'', i) # m" and m: "match_segments rest t = Some m"
      by (auto simp: match_segments_Some)
    have "t \<noteq> []" using m agent(2) by (cases rest; cases "hd rest") auto
    with agent_routes_effect [OF agent(3), of "rq\<lparr>rq_vars := vars\<rparr>" i t orc] p v handled(4) show ?thesis
      by (simp add: get_or_empty_def agent_call_of_vars)
  qed
qed simp

lemma api_Handler_effect:
  assumes "rq_method rq \<noteq> ''OPTIONS''" and "apiKey = '''' \<or> rq_path rq = ''/health'' \<or> presented_key rq = apiKey"
  shows "snd (api_Handler apiKey e rq orc) = snd (serve_mux (api_routes e) rq orc)"
  using assms by (auto simp: api_Handler_def APIKeyAuth_def snd_CORS)

text \<open>
  C3. What serving one request does to the orchestrator, exactly. The creation route calls
  \<open>Create\<close> once with the decoded body, and does nothing when the body does not decode; the deletion
  route calls \<open>Delete\<close> once with the identifier of the path; every other request changes nothing but
  what one call to the agent of the VM named in its path changes outside, if it makes that call.
  A preflight request, and, where a key is configured, a request without it except the
  health check, change nothing; the latter is answered with 401, preflights included. So a server
  that serves its requests one after the other only reaches states of the orchestrator and stays
  within its capacity, and reading requests never change which VMs exist.
\<close>
theorem api_refines_orchestrator:
  assumes "orch_reachable (ae_rt e) (ae_client e) env cfg r orc" and "sandbox_id (ae_uuid e) \<notin> gm_keys (store orc)"
    and "\<And>q r resp r'. ae_client e q r = (resp, r') \<Longrightarrow> env r r'"
    and "api_Handler apiKey e rq orc = (resp, orc')"
  defines "admitted \<equiv> apiKey = '''' \<or> rq_path rq = ''/health'' \<or> presented_key rq = apiKey"
  shows "(\<not> admitted \<longrightarrow> status resp = 401 \<and> orc' = orc)
    \<and> (rq_method rq = ''OPTIONS'' \<longrightarrow> orc' = orc)
    \<and> (admitted \<longrightarrow> on_path ''POST'' [''v1'', ''vms''] rq \<longrightarrow>
        orc' = (case bind_res (dec_object (rq_json rq)) decode_create_vm of Inl err \<Rightarrow> orc
                | Inr req \<Rightarrow> snd (Create (ae_rt e) (ae_client e) (ae_uuid e) (ae_now e) req orc)))
    \<and> (\<forall>i. admitted \<longrightarrow> i \<noteq> '''' \<longrightarrow> on_path ''DELETE'' [''v1'', ''vms'', i] rq \<longrightarrow>
        orc' = snd (Delete (ae_rt e) i orc))
    \<and> (\<not> on_path ''POST'' [''v1'', ''vms''] rq \<longrightarrow> (\<forall>i. i \<noteq> '''' \<longrightarrow> \<not> on_path ''DELETE'' [''v1'', ''vms'', i] rq) \<longrightarrow>
        orc' = orc \<or> agent_call_of e rq orc orc')
    \<and> orch_reachable (ae_rt e) (ae_client e) env cfg r orc' \<and> store_Count (store orc') \<le> max 0 (cf_MaxVMs cfg)
    \<and> (rq_method rq \<in> {''GET'', ''HEAD'', ''OPTIONS''} \<longrightarrow> store orc' = store orc)"
proof -
  let ?mux = "serve_mux (api_routes e)"
  have h: "resp = fst (APIKeyAuth apiKey (CORS ?mux) rq orc)" "orc' = snd (APIKeyAuth apiKey (CORS ?mux) rq orc)"
    "orc' = snd (api_Handler apiKey e rq orc)"
    using assms(4) by (simp_all add: api_Handler_def)
  note key = APIKeyAuth_cases [of apiKey "CORS ?mux" rq orc]
  have refused: "\<not> admitted \<longrightarrow> status resp = 401 \<and> orc' = orc"
    by (cases rule: key) (auto simp: h admitted_def)
  have preflight: "rq_method rq = ''OPTIONS'' \<longrightarrow> orc' = orc"
    by (cases rule: key) (auto simp: h snd_CORS)
  have create: "orc' = (case bind_res (dec_object (rq_json rq)) decode_create_vm of Inl err \<Rightarrow> orc
      | Inr req \<Rightarrow> snd (Create (ae_rt e) (ae_client e) (ae_uuid e) (ae_now e) req orc))"
    if "admitted" "on_path ''POST'' [''v1'', ''vms''] rq"
    using that api_Handler_effect [of rq apiKey e orc]
    by (auto simp: h(3) admitted_def on_path_def api_dispatches(1) CreateVM_def case_prod_unfold split: sum.split)
  have delete: "orc' = snd (Delete (ae_rt e) i orc)"
    if "admitted" "i \<noteq> ''''" "on_path ''DELETE'' [''v1'', ''vms'', i] rq" for i
    using that api_Handler_effect [of rq apiKey e orc]
    by (auto simp: h(3) admitted_def on_path_def api_dispatches(2) DeleteVM_def get_or_empty_def case_prod_unfold
        split: option.split)
  have other: "orc' = orc \<or> agent_call_of e rq orc orc'"
    if "\<not> on_path ''POST'' [''v1'', ''vms''] rq" "\<forall>i. i \<noteq> '''' \<longrightarrow> \<not> on_path ''DELETE'' [''v1'', ''vms'', i] rq"
    using api_other_routes [of rq e orc] that
    by (cases rule: key) (auto simp: h(2) snd_CORS on_path_def)
  have sim: "api_sim e env orc orc'"
    using api_mux_sim [of e orc env rq, OF assms(2,3)] by (cases rule: key) (auto simp: h(2) snd_CORS)
  then have reach: "orch_reachable (ae_rt e) (ae_client e) env cfg r orc'"
    using assms(1) unfolding api_sim_def by (metis rtranclp.rtrancl_into_rtrancl)
  then have cap: "store_Count (store orc') \<le> max 0 (cf_MaxVMs cfg)"
    using orch_reachable_capacity [OF reach] orch_reachable_config [OF reach] by (simp add: within_capacity_def)
  have readers: "rq_method rq \<in> {''GET'', ''HEAD'', ''OPTIONS''} \<longrightarrow> store orc' = store orc"
    using store_readers [of rq e orc] by (cases rule: key) (auto simp: h(2) snd_CORS)
  from refused preflight create delete other reach cap readers show ?thesis by blast
qed

definition demo_api :: "'r http_client \<Rightarrow> 'r api_env" where
  "demo_api cl = \<lparr>ae_rt = idle_runtime, ae_client = cl, ae_uuid = ''0a1b2c3d-'', ae_now = 0, ae_new_request = (\<lambda>_. None),
     ae_local = time_text\<rparr>"

lemma api_refines_orchestrator_witness:
  "\<exists>resp. api_Handler ''secret'' (demo_api no_client) (empty_request\<lparr>rq_method := ''OPTIONS'', rq_path := ''/v1/vms''\<rparr>) (NewOrch small_config ())
     = (resp, NewOrch small_config ()) \<and> status resp = 401"
proof -
  let ?e = "demo_api no_client :: unit api_env" let ?rq = "empty_request\<lparr>rq_method := ''OPTIONS'', rq_path := ''/v1/vms''\<rparr>"
  let ?orc = "NewOrch small_config ()"
  have f: "sandbox_id (ae_uuid ?e) \<notin> gm_keys (store ?orc)" by (simp add: NewOrch_def NewVMStore_def)
  have k: "presented_key ?rq \<noteq> ''secret''" by (simp add: presented_key_def empty_request_def get_or_empty_def)
  obtain resp orc' where h: "api_Handler ''secret'' ?e ?rq ?orc = (resp, orc')" by (metis surj_pair)
  show ?thesis
    using api_refines_orchestrator [of ?e "\<lambda>_ _. True" small_config "()" ?orc "''secret''", OF rtranclp.rtrancl_refl f TrueI h] k
    by (auto simp: h)
qed

end
