(* ===== verification/Sdk_Machine.thy ===== *)
theory Sdk_Machine
  imports Rest_Api
begin

text \<open>
  Package \<open>sdk\<close>: the client of the REST server (\<open>client.go\<close>) and the machine built on it
  (\<open>machine.go\<close>). The HTTP client, the error of building a request for a URL and the JSON parser
  of an answer's text are the record \<open>sdk_env\<close>. The callbacks of \<open>ExecuteOptions\<close> are never called by the code
  and are left out.
\<close>

section \<open>Client\<close>

record 'w sdk_env =
  sd_http :: "'w http_client"
  sd_new_request :: "string \<Rightarrow> string option"
  sd_parse :: "string \<Rightarrow> string + json"

record sdk_client =
  cl_baseURL :: string
  cl_apiKey :: string

definition NewClient :: "string \<Rightarrow> string \<Rightarrow> sdk_client" where
  "NewClient serverURL apiKey = \<lparr>cl_baseURL = serverURL, cl_apiKey = apiKey\<rparr>"

definition doRequest ::
  "'w sdk_env \<Rightarrow> sdk_client \<Rightarrow> string \<Rightarrow> string \<Rightarrow> body option \<Rightarrow> 'w \<Rightarrow> (string + response) \<times> 'w" where
  "doRequest e c meth path body w =
     (let url = cl_baseURL c @ path
      in case sd_new_request e url of
           Some err \<Rightarrow> (Inl err, w)
         | None \<Rightarrow>
             let req = \<lparr>oq_method = meth, oq_url = url,
                        oq_headers = (if body \<noteq> None \<and> meth \<noteq> ''GET'' then [(''Content-Type'', ''application/json'')] else [])
                          @ (if cl_apiKey c \<noteq> '''' then [(''X-API-KEY'', cl_apiKey c)] else []),
                        oq_body = (case body of None \<Rightarrow> BEmpty | Some b \<Rightarrow> b)\<rparr>;
                 (res, w1) = sd_http e req w
             in (case res of
                   Inl err \<Rightarrow> Inl (meth @ '' '' @ path @ '': '' @ err)
                 | Inr resp \<Rightarrow>
                     if status resp \<ge> 400
                     then Inl (meth @ '' '' @ path @ '' returned '' @ dec (int (status resp)) @ '': '' @ body_text (rbody resp))
                     else Inr resp, w1))"

definition decode_body :: "'w sdk_env \<Rightarrow> body \<Rightarrow> string + json" where
  "decode_body e b = (case b of BJson j \<Rightarrow> Inr j | BEmpty \<Rightarrow> Inl ''EOF'' | _ \<Rightarrow> sd_parse e (body_text b))"

definition decode_response :: "'w sdk_env \<Rightarrow> (json \<Rightarrow> string + 'a) \<Rightarrow> string + response \<Rightarrow> string + 'a" where
  "decode_response e f res =
     (case res of
        Inl err \<Rightarrow> Inl err
      | Inr resp \<Rightarrow>
          (case bind_res (decode_body e (rbody resp)) f of
             Inl err \<Rightarrow> Inl (''decode response: '' @ err)
           | Inr x \<Rightarrow> Inr x))"

definition postJSON :: "'w sdk_env \<Rightarrow> sdk_client \<Rightarrow> string \<Rightarrow> json \<Rightarrow> 'w \<Rightarrow> (string + json) \<times> 'w" where
  "postJSON e c path body w =
     (let (res, w1) = doRequest e c ''POST'' path (Some (BJson body)) w in (decode_response e (\<lambda>j. dec_object (Inr j)) res, w1))"

definition getJSON :: "'w sdk_env \<Rightarrow> sdk_client \<Rightarrow> string \<Rightarrow> 'w \<Rightarrow> (string + json) \<times> 'w" where
  "getJSON e c path w =
     (let (res, w1) = doRequest e c ''GET'' path None w in (decode_response e (\<lambda>j. dec_object (Inr j)) res, w1))"

definition sdk_CreateVM :: "'w sdk_env \<Rightarrow> sdk_client \<Rightarrow> json \<Rightarrow> 'w \<Rightarrow> (string + json) \<times> 'w" where
  "sdk_CreateVM e c req = postJSON e c ''/v1/vms'' req"

definition sdk_DeleteVM :: "'w sdk_env \<Rightarrow> sdk_client \<Rightarrow> string \<Rightarrow> 'w \<Rightarrow> string option \<times> 'w" where
  "sdk_DeleteVM e c i w =
     (let (res, w1) = doRequest e c ''DELETE'' (''/v1/vms/'' @ i) None w
      in (case res of Inl err \<Rightarrow> Some err | Inr _ \<Rightarrow> None, w1))"

definition sdk_GetVM :: "'w sdk_env \<Rightarrow> sdk_client \<Rightarrow> string \<Rightarrow> 'w \<Rightarrow> (string + json) \<times> 'w" where
  "sdk_GetVM e c i = getJSON e c (''/v1/vms/'' @ i)"

definition sdk_ListVMs :: "'w sdk_env \<Rightarrow> sdk_client \<Rightarrow> 'w \<Rightarrow> (string + json list) \<times> 'w" where
  "sdk_ListVMs e c w =
     (let (res, w1) = doRequest e c ''GET'' ''/v1/vms'' None w in (decode_response e dec_top_list res, w1))"

record execute_options =
  eo_Cwd :: string
  eo_Env :: "(string, string) gomap option"
  eo_Timeout :: int

record execution_result =
  xr_ExitCode :: int
  xr_Stdout :: string
  xr_Stderr :: string

text \<open>
  A JSON number read into an interface is a 64-bit float: an integer is rounded to 53 bits, to even
  when halfway, and converted back to an integer of 64 bits (with amd64's result out of range).
\<close>

definition float_bits :: "int \<Rightarrow> nat" where
  "float_bits a = length (takeWhile (\<lambda>k. 2 ^ (53 + k) \<le> a) [0..<2000])"

definition through_float :: "int \<Rightarrow> int" where
  "through_float i =
     (let a = \<bar>i\<bar>; p = 2 ^ float_bits a; q = a div p; r = a mod p;
          q' = (if 2 * r > p \<or> 2 * r = p \<and> odd q then q + 1 else q);
          v = sgn i * (q' * p)
      in if - (2 ^ 63) \<le> v \<and> v < 2 ^ 63 then v else - (2 ^ 63))"

text \<open>The texts come from the command line or the caller: encoding them as JSON replaces what is no UTF-8.\<close>

definition exec_body :: "string \<Rightarrow> execute_options option \<Rightarrow> json" where
  "exec_body command opts = JObj
     ((''command'', JStr (valid_text command)) #
      (case opts of
         None \<Rightarrow> []
       | Some o' \<Rightarrow>
           (if eo_Cwd o' \<noteq> '''' then [(''cwd'', JStr (valid_text (eo_Cwd o')))] else [])
           @ (case eo_Env o' of None \<Rightarrow> [] | Some m \<Rightarrow> [(''env'', jstr_map (map (\<lambda>(k, v). (valid_text k, valid_text v)) m))])
           @ (if eo_Timeout o' > 0 then [(''timeout'', JInt (eo_Timeout o'))] else [])))"

definition string_field :: "string \<Rightarrow> json \<Rightarrow> string option" where
  "string_field k j = (case jfield k j of Some (JStr s) \<Rightarrow> Some s | _ \<Rightarrow> None)"

definition execution_result_of :: "json \<Rightarrow> execution_result" where
  "execution_result_of j =
     \<lparr>xr_ExitCode = (case jfield ''exitCode'' j of Some (JInt i) \<Rightarrow> through_float i | _ \<Rightarrow> 0),
      xr_Stdout = (case string_field ''stdout'' j of None \<Rightarrow> '''' | Some s \<Rightarrow> s),
      xr_Stderr = (case string_field ''stderr'' j of None \<Rightarrow> '''' | Some s \<Rightarrow> s)\<rparr>"

definition sdk_Exec ::
  "'w sdk_env \<Rightarrow> sdk_client \<Rightarrow> string \<Rightarrow> string \<Rightarrow> execute_options option \<Rightarrow> 'w \<Rightarrow> (string + execution_result) \<times> 'w" where
  "sdk_Exec e c vmID command opts w =
     (let (res, w1) = postJSON e c (''/v1/vms/'' @ vmID @ ''/exec'') (exec_body command opts) w
      in (case res of Inl err \<Rightarrow> Inl err | Inr j \<Rightarrow> Inr (execution_result_of j), w1))"

definition sdk_ReadFile :: "'w sdk_env \<Rightarrow> sdk_client \<Rightarrow> string \<Rightarrow> string \<Rightarrow> 'w \<Rightarrow> (string + string) \<times> 'w" where
  "sdk_ReadFile e c vmID path w =
     (let (res, w1) = doRequest e c ''GET'' (''/v1/vms/'' @ vmID @ ''/files?path='' @ query_escape path) None w
      in (case res of Inl err \<Rightarrow> Inl err | Inr resp \<Rightarrow> Inr (body_text (rbody resp)), w1))"

definition sdk_WriteFile :: "'w sdk_env \<Rightarrow> sdk_client \<Rightarrow> string \<Rightarrow> string \<Rightarrow> string \<Rightarrow> 'w \<Rightarrow> string option \<times> 'w" where
  "sdk_WriteFile e c vmID path content w =
     (let (res, w1) = doRequest e c ''PUT'' (''/v1/vms/'' @ vmID @ ''/files?path='' @ query_escape path) (Some (BRaw content)) w
      in (case res of Inl err \<Rightarrow> Some err | Inr _ \<Rightarrow> None, w1))"

definition sdk_ListFiles :: "'w sdk_env \<Rightarrow> sdk_client \<Rightarrow> string \<Rightarrow> string \<Rightarrow> 'w \<Rightarrow> (string + string list) \<times> 'w" where
  "sdk_ListFiles e c vmID path w =
     (let (res, w1) = doRequest e c ''GET'' (''/v1/vms/'' @ vmID @ ''/files/list?path='' @ query_escape path) None w
      in (decode_response e (\<lambda>j. bind_res (dec_top_list j) (traverse (dec_string ''name''))) res, w1))"

section \<open>Machine\<close>

datatype machine_state = StateIdle | StateRunning | StatePaused | StateStopped

fun state_text :: "machine_state \<Rightarrow> string" where
  "state_text StateIdle = ''idle''"
| "state_text StateRunning = ''running''"
| "state_text StatePaused = ''paused''"
| "state_text StateStopped = ''stopped''"

record gitvm_config =
  gc_ServerURL :: string
  gc_APIKey :: string
  gc_Template :: string
  gc_VCPUs :: int
  gc_MemoryMB :: int
  gc_Timeout :: int
  gc_EnvVars :: "(string, string) gomap option"
  gc_Metadata :: "(string, string) gomap option"

record machine =
  mc_config :: gitvm_config
  mc_client :: sdk_client
  mc_vmID :: string
  mc_state :: machine_state

definition NewGitVMMachine :: "gitvm_config \<Rightarrow> machine" where
  "NewGitVMMachine cfg =
     (let config = (if gc_ServerURL cfg = '''' then cfg\<lparr>gc_ServerURL := ''http://localhost:8080''\<rparr> else cfg)
      in \<lparr>mc_config = config, mc_client = NewClient (gc_ServerURL config) (gc_APIKey config), mc_vmID = '''', mc_state = StateIdle\<rparr>)"

text \<open>The object is built as a Go map, which is written with its keys sorted.\<close>

definition start_body :: "gitvm_config \<Rightarrow> json" where
  "start_body cfg = JObj
     ((case gc_EnvVars cfg of None \<Rightarrow> [] | Some m \<Rightarrow> [(''envVars'', jstr_map m)])
      @ (if gc_MemoryMB cfg > 0 then [(''memoryMB'', JInt (gc_MemoryMB cfg))] else [])
      @ (case gc_Metadata cfg of None \<Rightarrow> [] | Some m \<Rightarrow> [(''metadata'', jstr_map m)])
      @ (if gc_Template cfg \<noteq> '''' then [(''template'', JStr (gc_Template cfg))] else [])
      @ (if gc_Timeout cfg > 0 then [(''timeout'', JInt (gc_Timeout cfg))] else [])
      @ (if gc_VCPUs cfg > 0 then [(''vcpus'', JInt (gc_VCPUs cfg))] else []))"

definition machine_Start :: "'w sdk_env \<Rightarrow> machine \<Rightarrow> 'w \<Rightarrow> string option \<times> machine \<times> 'w" where
  "machine_Start e m w =
     (if mc_state m = StateRunning then (Some ''machine is already running'', m, w)
      else
        let (res, w1) = sdk_CreateVM e (mc_client m) (start_body (mc_config m)) w
        in case res of
             Inl err \<Rightarrow> (Some (''create VM: '' @ err), m, w1)
           | Inr resp \<Rightarrow>
               (None, m\<lparr>mc_vmID := (case string_field ''id'' resp of Some i \<Rightarrow> i | None \<Rightarrow> mc_vmID m), mc_state := StateRunning\<rparr>, w1))"

definition machine_Pause :: "machine \<Rightarrow> string option \<times> machine" where
  "machine_Pause m = (None, m\<lparr>mc_state := StatePaused\<rparr>)"

definition machine_Resume :: "machine \<Rightarrow> string option \<times> machine" where
  "machine_Resume m = (None, m\<lparr>mc_state := StateRunning\<rparr>)"

definition machine_Stop :: "'w sdk_env \<Rightarrow> machine \<Rightarrow> 'w \<Rightarrow> string option \<times> machine \<times> 'w" where
  "machine_Stop e m w =
     (if mc_vmID m = '''' then (None, m\<lparr>mc_state := StateStopped\<rparr>, w)
      else
        let (res, w1) = sdk_DeleteVM e (mc_client m) (mc_vmID m) w
        in case res of
             Some err \<Rightarrow> (Some (''delete VM: '' @ err), m, w1)
           | None \<Rightarrow> (None, m\<lparr>mc_state := StateStopped\<rparr>, w1))"

definition Execute :: "'w sdk_env \<Rightarrow> machine \<Rightarrow> string \<Rightarrow> execute_options option \<Rightarrow> 'w \<Rightarrow> (string + execution_result) \<times> 'w" where
  "Execute e m command opts w =
     (if mc_state m \<noteq> StateRunning then (Inl (''machine is not running (state: '' @ state_text (mc_state m) @ '')''), w)
      else sdk_Exec e (mc_client m) (mc_vmID m) command opts w)"

definition machine_ReadFile :: "'w sdk_env \<Rightarrow> machine \<Rightarrow> string \<Rightarrow> 'w \<Rightarrow> (string + string) \<times> 'w" where
  "machine_ReadFile e m path w =
     (if mc_state m \<noteq> StateRunning then (Inl ''machine is not running'', w) else sdk_ReadFile e (mc_client m) (mc_vmID m) path w)"

definition machine_WriteFile :: "'w sdk_env \<Rightarrow> machine \<Rightarrow> string \<Rightarrow> string \<Rightarrow> 'w \<Rightarrow> string option \<times> 'w" where
  "machine_WriteFile e m path content w =
     (if mc_state m \<noteq> StateRunning then (Some ''machine is not running'', w)
      else sdk_WriteFile e (mc_client m) (mc_vmID m) path content w)"

definition machine_ListFiles :: "'w sdk_env \<Rightarrow> machine \<Rightarrow> string \<Rightarrow> 'w \<Rightarrow> (string + string list) \<times> 'w" where
  "machine_ListFiles e m path w =
     (if mc_state m \<noteq> StateRunning then (Inl ''machine is not running'', w) else sdk_ListFiles e (mc_client m) (mc_vmID m) path w)"

end
