(* ===== verification/Guest_Agent.thy ===== *)
theory Guest_Agent
  imports Go_Url Go_Host "HOL-Library.Word"
begin

text \<open>
  Package \<open>agent\<close>: the HTTP server inside a sandbox (\<open>main.go\<close>), its commands (\<open>process.go\<close>) and its
  files (\<open>filesystem.go\<close>). The state is the agent's defaults and the guest; the guest's files,
  users and processes are the record \<open>guest\<close> over an abstract world. A process is a function of
  the command to its whole outcome: how it ended, what it wrote, and whether its
  deadline had passed by then.
\<close>

section \<open>Errors\<close>

text \<open>
  An error of package \<open>os\<close> knows whether a file is missing; \<open>fmt.Errorf\<close> with \<open>%w\<close> wraps an error, and
  \<open>os.IsNotExist\<close> does not look through such a wrapping.
\<close>

datatype go_error = SysError bool string | Wrapped string go_error

fun error_text :: "go_error \<Rightarrow> string" where
  "error_text (SysError _ m) = m"
| "error_text (Wrapped p e) = p @ '': '' @ error_text e"

fun os_IsNotExist :: "go_error \<Rightarrow> bool" where
  "os_IsNotExist (SysError absent _) = absent"
| "os_IsNotExist (Wrapped _ _) = False"

section \<open>The guest\<close>

record command =
  cm_args :: "string list"
  cm_dir :: string
  cm_env :: "string list"
  cm_cred :: "(32 word \<times> 32 word) option"
  cm_deadline :: "int option"

datatype proc_error = ExitError int | ProcError string

record outcome =
  oc_err :: "proc_error option"
  oc_stdout :: string
  oc_stderr :: string
  oc_expired :: bool

text \<open>
  A process whose output is read in chunks: the pipe that could not be made, the error of the start,
  or the chunks in the order in which the two readers hand them on, and how the process ended.
\<close>

datatype stream_outcome =
    PipeFailed string string
  | StartFailed string
  | Streamed "(string \<times> string) list" "proc_error option"

record 'w guest =
  g_readFile :: "string \<Rightarrow> 'w \<Rightarrow> go_error + string"
  g_mkdirAll :: "string \<Rightarrow> 'w \<Rightarrow> go_error option \<times> 'w"
  g_writeFile :: "string \<Rightarrow> string \<Rightarrow> 'w \<Rightarrow> go_error option \<times> 'w"
  g_readDir :: "string \<Rightarrow> 'w \<Rightarrow> go_error + (string \<times> bool \<times> (go_error + int \<times> string)) list"
  g_removeAll :: "string \<Rightarrow> 'w \<Rightarrow> go_error option \<times> 'w"
  g_stat :: "string \<Rightarrow> 'w \<Rightarrow> go_error + file_info"
  g_getwd :: "'w \<Rightarrow> string"
  g_lookup :: "string \<Rightarrow> 'w \<Rightarrow> string + string \<times> string"
  g_run :: "command \<Rightarrow> 'w \<Rightarrow> outcome \<times> 'w"
  g_stream :: "command \<Rightarrow> 'w \<Rightarrow> stream_outcome \<times> 'w"

section \<open>Files\<close>

definition ag_ReadFile :: "'w guest \<Rightarrow> string \<Rightarrow> 'w \<Rightarrow> go_error + string" where
  "ag_ReadFile g path w =
     (case g_readFile g path w of Inl err \<Rightarrow> Inl (Wrapped (''read '' @ path) err) | Inr data \<Rightarrow> Inr data)"

definition ag_WriteFile :: "'w guest \<Rightarrow> string \<Rightarrow> string \<Rightarrow> 'w \<Rightarrow> go_error option \<times> 'w" where
  "ag_WriteFile g path content w =
     (let dir = path_dir path
      in case g_mkdirAll g dir w of
           (Some err, w1) \<Rightarrow> (Some (Wrapped (''mkdir '' @ dir) err), w1)
         | (None, w1) \<Rightarrow>
             (case g_writeFile g path content w1 of
                (Some err, w2) \<Rightarrow> (Some (Wrapped (''write '' @ path) err), w2)
              | (None, w2) \<Rightarrow> (None, w2)))"

record agent_file_info =
  af_Name :: string
  af_IsDir :: bool
  af_Size :: int
  af_Mode :: string

text \<open>An entry whose details cannot be read is left out.\<close>

fun list_infos :: "(string \<times> bool \<times> (go_error + int \<times> string)) list \<Rightarrow> agent_file_info list" where
  "list_infos [] = []"
| "list_infos ((name, isDir, Inl _) # entries) = list_infos entries"
| "list_infos ((name, isDir, Inr (sz, mode)) # entries) =
     \<lparr>af_Name = name, af_IsDir = isDir, af_Size = sz, af_Mode = mode\<rparr> # list_infos entries"

definition ListDir :: "'w guest \<Rightarrow> string \<Rightarrow> 'w \<Rightarrow> go_error + agent_file_info list" where
  "ListDir g path w =
     (case g_readDir g path w of
        Inl err \<Rightarrow> Inl (Wrapped (''list '' @ path) err)
      | Inr entries \<Rightarrow> Inr (list_infos entries))"

definition MakeDir :: "'w guest \<Rightarrow> string \<Rightarrow> 'w \<Rightarrow> go_error option \<times> 'w" where
  "MakeDir g path w =
     (case g_mkdirAll g path w of (Some err, w1) \<Rightarrow> (Some (Wrapped (''mkdir '' @ path) err), w1) | (None, w1) \<Rightarrow> (None, w1))"

definition RemovePath :: "'w guest \<Rightarrow> string \<Rightarrow> 'w \<Rightarrow> go_error option \<times> 'w" where
  "RemovePath g path w =
     (case g_removeAll g path w of (Some err, w1) \<Rightarrow> (Some (Wrapped (''remove '' @ path) err), w1) | (None, w1) \<Rightarrow> (None, w1))"

text \<open>Whether a path exists, with its details, or the error other than its absence.\<close>

definition Exists :: "'w guest \<Rightarrow> string \<Rightarrow> 'w \<Rightarrow> go_error + file_info option" where
  "Exists g path w =
     (case g_stat g path w of
        Inl err \<Rightarrow> if os_IsNotExist err then Inr None else Inl err
      | Inr info \<Rightarrow> Inr (Some info))"

section \<open>Defaults\<close>

record defaults =
  d_EnvVars :: "(string, string) gomap"
  d_User :: string
  d_WorkDir :: string
  d_Token :: string

record 'w agent =
  ag_defaults :: defaults
  ag_world :: 'w

definition NewAgent :: "'w \<Rightarrow> 'w agent" where
  "NewAgent w = \<lparr>ag_defaults = \<lparr>d_EnvVars = [], d_User = ''root'', d_WorkDir = ''/home/user'', d_Token = ''''\<rparr>, ag_world = w\<rparr>"

record init_request =
  ir_EnvVars :: "(string, string) gomap option"
  ir_User :: string
  ir_WorkDir :: string
  ir_AccessToken :: string

definition SetFrom :: "init_request \<Rightarrow> defaults \<Rightarrow> defaults" where
  "SetFrom req d =
     \<lparr>d_EnvVars = (case ir_EnvVars req of None \<Rightarrow> d_EnvVars d | Some vars \<Rightarrow> gm_copy_into vars (d_EnvVars d)),
      d_User = (if ir_User req \<noteq> '''' then ir_User req else d_User d),
      d_WorkDir = (if ir_WorkDir req \<noteq> '''' then ir_WorkDir req else d_WorkDir d),
      d_Token = (if ir_AccessToken req \<noteq> '''' then ir_AccessToken req else d_Token d)\<rparr>"

text \<open>\<open>Snapshot\<close> copies the map, so that the command's view does not change under it.\<close>

definition defaults_Snapshot :: "defaults \<Rightarrow> defaults" where
  "defaults_Snapshot d = d\<lparr>d_EnvVars := gm_copy_into (d_EnvVars d) []\<rparr>"

section \<open>Commands\<close>

record exec_request =
  er_Command :: string
  er_Cwd :: string
  er_Env :: "(string, string) gomap"
  er_Timeout :: int

record exec_result =
  ex_ExitCode :: int
  ex_Stdout :: string
  ex_Stderr :: string

definition dirExists :: "'w guest \<Rightarrow> string \<Rightarrow> 'w \<Rightarrow> bool" where
  "dirExists g path w = (case g_stat g path w of Inl _ \<Rightarrow> False | Inr info \<Rightarrow> fi_IsDir info)"

definition default_path :: string where
  "default_path = ''/usr/local/sbin:/usr/local/bin:/usr/sbin:/usr/bin:/sbin:/bin''"

definition mergeEnv :: "(string, string) gomap \<Rightarrow> (string, string) gomap \<Rightarrow> string list" where
  "mergeEnv base overrides =
     (let merged = gm_copy_into overrides (gm_copy_into base []);
          merged = (if gm_get merged ''PATH'' = None then gm_put ''PATH'' default_path merged else merged)
      in map (\<lambda>(k, v). k @ ''='' @ v) merged)"

text \<open>The identifiers are truncated to 32 bits; text that is no number counts as zero, which is root.\<close>

definition setUser :: "'w guest \<Rightarrow> string \<Rightarrow> 'w \<Rightarrow> string + (32 word \<times> 32 word) option" where
  "setUser g username w =
     (case g_lookup g username w of
        Inl err \<Rightarrow> if has_prefix username ''#'' then Inr None else Inl err
      | Inr (uid, gid) \<Rightarrow> Inr (Some (word_of_int (fst (Atoi uid)), word_of_int (fst (Atoi gid)))))"

definition shell_command :: "'w guest \<Rightarrow> exec_request \<Rightarrow> defaults \<Rightarrow> 'w \<Rightarrow> string + command" where
  "shell_command g req defaults w =
     (let cwd = (if er_Cwd req = '''' then d_WorkDir defaults else er_Cwd req);
          cwd = (if dirExists g cwd w then cwd else g_getwd g w);
          cmd = \<lparr>cm_args = [''/bin/sh'', ''-c'', er_Command req], cm_dir = cwd, cm_env = mergeEnv (d_EnvVars defaults) (er_Env req),
                 cm_cred = None, cm_deadline = (if er_Timeout req > 0 then Some (duration_seconds (er_Timeout req)) else None)\<rparr>
      in if d_User defaults \<noteq> '''' \<and> d_User defaults \<noteq> ''root''
         then (case setUser g (d_User defaults) w of
                 Inl err \<Rightarrow> Inl (''set user '' @ quote (d_User defaults) @ '': '' @ err)
               | Inr cred \<Rightarrow> Inr (cmd\<lparr>cm_cred := cred\<rparr>))
         else Inr cmd)"

definition RunCommand :: "'w guest \<Rightarrow> exec_request \<Rightarrow> defaults \<Rightarrow> 'w \<Rightarrow> (string + exec_result) \<times> 'w" where
  "RunCommand g req defaults w =
     (case shell_command g req defaults w of
        Inl err \<Rightarrow> (Inl err, w)
      | Inr cmd \<Rightarrow>
          let (oc, w1) = g_run g cmd w
          in (case oc_err oc of
                None \<Rightarrow> Inr \<lparr>ex_ExitCode = 0, ex_Stdout = oc_stdout oc, ex_Stderr = oc_stderr oc\<rparr>
              | Some (ExitError code) \<Rightarrow> Inr \<lparr>ex_ExitCode = code, ex_Stdout = oc_stdout oc, ex_Stderr = oc_stderr oc\<rparr>
              | Some (ProcError err) \<Rightarrow>
                  if oc_expired oc
                  then Inr \<lparr>ex_ExitCode = 124, ex_Stdout = oc_stdout oc,
                            ex_Stderr = oc_stderr oc @ [CHR 0x0A] @ ''gitvm-agent: command timed out''\<rparr>
                  else Inl (''exec: '' @ err), w1))"

text \<open>The chunks handed to the caller, then the exit code or the error.\<close>

definition StreamCommand ::
  "'w guest \<Rightarrow> exec_request \<Rightarrow> defaults \<Rightarrow> 'w \<Rightarrow> (string \<times> string) list \<times> (string + int) \<times> 'w" where
  "StreamCommand g req defaults w =
     (case shell_command g req defaults w of
        Inl err \<Rightarrow> ([], Inl err, w)
      | Inr cmd \<Rightarrow>
          (case g_stream g cmd w of
             (PipeFailed pipe err, w1) \<Rightarrow> ([], Inl (pipe @ '' pipe: '' @ err), w1)
           | (StartFailed err, w1) \<Rightarrow> ([], Inl (''start: '' @ err), w1)
           | (Streamed chunks waited, w1) \<Rightarrow>
               (chunks,
                (case waited of
                   None \<Rightarrow> Inr 0
                 | Some (ExitError code) \<Rightarrow> Inr code
                 | Some (ProcError err) \<Rightarrow> Inl (''wait: '' @ err)), w1)))"

section \<open>Handlers\<close>

definition ag_writeError :: "nat \<Rightarrow> string \<Rightarrow> response" where
  "ag_writeError st msg = json_response st (JObj [(''error'', JStr msg)])"

definition ag_ok :: response where
  "ag_ok = json_response http_ok (JObj [(''status'', JStr ''ok'')])"

definition decode_init :: "json \<Rightarrow> string + init_request" where
  "decode_init j =
     bind_res (dec_map ''envVars'' j) (\<lambda>envVars.
     bind_res (dec_string ''user'' j) (\<lambda>user.
     bind_res (dec_string ''workDir'' j) (\<lambda>workDir.
     bind_res (dec_string ''accessToken'' j) (\<lambda>accessToken.
       Inr \<lparr>ir_EnvVars = envVars, ir_User = user, ir_WorkDir = workDir, ir_AccessToken = accessToken\<rparr>))))"

definition handleInit :: "'w agent handler" where
  "handleInit rq a =
     (case bind_res (dec_object (rq_json rq)) decode_init of
        Inl err \<Rightarrow> (ag_writeError http_bad_request (''invalid JSON: '' @ err), a)
      | Inr req \<Rightarrow> (ag_ok, a\<lparr>ag_defaults := SetFrom req (ag_defaults a)\<rparr>))"

definition decode_exec :: "json \<Rightarrow> string + exec_request" where
  "decode_exec j =
     bind_res (dec_string ''command'' j) (\<lambda>command.
     bind_res (dec_string ''cwd'' j) (\<lambda>cwd.
     bind_res (dec_map ''env'' j) (\<lambda>env.
     bind_res (dec_int ''timeout'' j) (\<lambda>timeout.
       Inr \<lparr>er_Command = command, er_Cwd = cwd, er_Env = (case env of None \<Rightarrow> [] | Some m \<Rightarrow> m), er_Timeout = timeout\<rparr>))))"

definition checked_exec :: "request \<Rightarrow> response + exec_request" where
  "checked_exec rq =
     (case bind_res (dec_object (rq_json rq)) decode_exec of
        Inl err \<Rightarrow> Inl (ag_writeError http_bad_request (''invalid JSON: '' @ err))
      | Inr req \<Rightarrow>
          if er_Command req = '''' then Inl (ag_writeError http_bad_request ''command is required'') else Inr req)"

text \<open>The outputs are bytes: encoding them as JSON replaces what is no UTF-8.\<close>

definition exec_json :: "exec_result \<Rightarrow> json" where
  "exec_json r = JObj [(''exitCode'', JInt (ex_ExitCode r)), (''stdout'', JStr (valid_text (ex_Stdout r))),
     (''stderr'', JStr (valid_text (ex_Stderr r)))]"

definition ag_handleExec :: "'w guest \<Rightarrow> 'w agent handler" where
  "ag_handleExec g rq a =
     (case checked_exec rq of
        Inl resp \<Rightarrow> (resp, a)
      | Inr req \<Rightarrow>
          let (res, w1) = RunCommand g req (defaults_Snapshot (ag_defaults a)) (ag_world a); a1 = a\<lparr>ag_world := w1\<rparr>
          in case res of
               Inl err \<Rightarrow> (ag_writeError http_internal err, a1)
             | Inr result \<Rightarrow> (json_response http_ok (exec_json result), a1))"

definition stream_event :: "string \<times> string \<Rightarrow> json" where
  "stream_event = (\<lambda>(stream, data). JObj [(''data'', JStr (valid_text data)), (''stream'', JStr stream)])"

definition last_event :: "string + int \<Rightarrow> json" where
  "last_event r =
     (case r of
        Inl err \<Rightarrow> stream_event (''error'', err)
      | Inr code \<Rightarrow> JObj [(''exitCode'', JInt code), (''stream'', JStr ''exit'')])"

definition ag_handleExecStream :: "'w guest \<Rightarrow> 'w agent handler" where
  "ag_handleExecStream g rq a =
     (case checked_exec rq of
        Inl resp \<Rightarrow> (resp, a)
      | Inr req \<Rightarrow>
          let (chunks, res, w1) = StreamCommand g req (defaults_Snapshot (ag_defaults a)) (ag_world a)
          in (\<lparr>status = http_ok,
               rheaders = [(''Content-Type'', ''text/event-stream''), (''Cache-Control'', ''no-cache''), (''Connection'', ''keep-alive'')],
               rbody = BEvents (map stream_event chunks @ [last_event res])\<rparr>, a\<lparr>ag_world := w1\<rparr>))"

definition path_required :: response where
  "path_required = ag_writeError http_bad_request ''path query parameter is required''"

definition file_error :: "go_error \<Rightarrow> response" where
  "file_error err = ag_writeError (if os_IsNotExist err then http_not_found else http_internal) (error_text err)"

definition ag_handleReadFile :: "'w guest \<Rightarrow> 'w agent handler" where
  "ag_handleReadFile g rq a =
     (let path = get_or_empty (rq_params rq) ''path''
      in if path = '''' then (path_required, a)
         else case ag_ReadFile g path (ag_world a) of
                Inl err \<Rightarrow> (file_error err, a)
              | Inr data \<Rightarrow>
                  (\<lparr>status = http_ok, rheaders = [(''Content-Type'', ''application/octet-stream'')], rbody = BRaw data\<rparr>, a))"

text \<open>A handler that changes files: the error of its operation is an internal one.\<close>

definition change_files :: "(string \<Rightarrow> 'w \<Rightarrow> go_error option \<times> 'w) \<Rightarrow> 'w agent handler" where
  "change_files f rq a =
     (let path = get_or_empty (rq_params rq) ''path''
      in if path = '''' then (path_required, a)
         else case f path (ag_world a) of
                (Some err, w1) \<Rightarrow> (ag_writeError http_internal (error_text err), a\<lparr>ag_world := w1\<rparr>)
              | (None, w1) \<Rightarrow> (ag_ok, a\<lparr>ag_world := w1\<rparr>))"

definition ag_handleWriteFile :: "'w guest \<Rightarrow> 'w agent handler" where
  "ag_handleWriteFile g rq = change_files (\<lambda>path. ag_WriteFile g path (rq_raw rq)) rq"

definition file_json :: "agent_file_info \<Rightarrow> json" where
  "file_json f = JObj [(''name'', JStr (af_Name f)), (''isDir'', JBool (af_IsDir f)), (''size'', JInt (af_Size f)),
     (''mode'', JStr (af_Mode f))]"

definition ag_handleListFiles :: "'w guest \<Rightarrow> 'w agent handler" where
  "ag_handleListFiles g rq a =
     (let path = get_or_empty (rq_params rq) ''path''
      in if path = '''' then (path_required, a)
         else case ListDir g path (ag_world a) of
                Inl err \<Rightarrow> (file_error err, a)
              | Inr entries \<Rightarrow> (json_response http_ok (JArr (map file_json entries)), a))"

definition ag_handleDeleteFile :: "'w guest \<Rightarrow> 'w agent handler" where
  "ag_handleDeleteFile g = change_files (RemovePath g)"

definition ag_handleMkdir :: "'w guest \<Rightarrow> 'w agent handler" where
  "ag_handleMkdir g = change_files (MakeDir g)"

definition ag_handleHealth :: "'w agent handler" where
  "ag_handleHealth rq a = (json_response http_ok (JObj [(''agent'', JStr ''gitvm-agent''), (''status'', JStr ''ok'')]), a)"

definition agent_routes :: "'w guest \<Rightarrow> 'w agent route list" where
  "agent_routes g =
     [route ''POST'' [Lit ''init''] handleInit,
      route ''POST'' [Lit ''exec''] (ag_handleExec g),
      route ''POST'' [Lit ''exec'', Lit ''stream''] (ag_handleExecStream g),
      route ''GET'' [Lit ''files''] (ag_handleReadFile g),
      route ''PUT'' [Lit ''files''] (ag_handleWriteFile g),
      route ''GET'' [Lit ''files'', Lit ''list''] (ag_handleListFiles g),
      route ''DELETE'' [Lit ''files''] (ag_handleDeleteFile g),
      route ''POST'' [Lit ''files'', Lit ''mkdir''] (ag_handleMkdir g),
      route ''GET'' [Lit ''health''] ag_handleHealth]"

definition agent_Handler :: "'w guest \<Rightarrow> 'w agent handler" where
  "agent_Handler g = serve_mux (agent_routes g)"

section \<open>What a command sees\<close>

text \<open>A variable of an environment as the process reads it: the first entry for the name.\<close>

definition getenv :: "string list \<Rightarrow> string \<Rightarrow> string option" where
  "getenv env k = map_option (\<lambda>e. trim_prefix e (k @ ''='')) (find (\<lambda>e. has_prefix e (k @ ''='')) env)"

definition plain_keys :: "(string, string) gomap \<Rightarrow> bool" where
  "plain_keys m \<longleftrightarrow> gm_wf m \<and> (\<forall>k \<in> gm_keys m. CHR ''='' \<notin> set k)"

lemma entry_prefix:
  "CHR ''='' \<notin> set k \<Longrightarrow> CHR ''='' \<notin> set k' \<Longrightarrow> has_prefix (k' @ ''='' @ v) (k @ ''='') \<longleftrightarrow> k' = k"
proof (induction k arbitrary: k')
  case Nil
  then show ?case by (cases k') (auto simp: has_prefix_def)
next
  case (Cons c k)
  show ?case
  proof (cases k')
    case Nil
    with Cons.prems show ?thesis by (auto simp: has_prefix_def)
  next
    case (Cons c' l)
    with Cons.prems Cons.IH [of l] show ?thesis by (auto simp: has_prefix_def)
  qed
qed

lemma getenv_entries:
  assumes "plain_keys m" and "CHR ''='' \<notin> set k"
  shows "getenv (map (\<lambda>(k, v). k @ ''='' @ v) m) k = gm_get m k"
  using assms(1)
proof (induction m)
  case (Cons kv m)
  obtain k' v where kv: "kv = (k', v)" by (cases kv)
  have "CHR ''='' \<notin> set k'" and m: "plain_keys m" using Cons.prems kv by (auto simp: plain_keys_def)
  with entry_prefix [OF assms(2)] have p: "has_prefix (k' @ ''='' @ v) (k @ ''='') \<longleftrightarrow> k' = k" by blast
  show ?case
  proof (cases "k' = k")
    case True
    have "trim_prefix (k @ ''='' @ v) (k @ ''='') = v" using trim_prefix_append [of "k @ ''=''" v] by simp
    with True p show ?thesis by (simp add: getenv_def kv)
  next
    case False
    with p Cons.IH [OF m] show ?thesis by (auto simp: getenv_def kv)
  qed
qed (simp add: getenv_def)

lemma gm_copy_into_keys: "gm_keys (gm_copy_into src dst) = gm_keys src \<union> gm_keys dst"
proof (induction src arbitrary: dst)
  case (Cons kv src)
  have "gm_copy_into (kv # src) dst = gm_copy_into src (gm_put (fst kv) (snd kv) dst)"
    by (simp add: gm_copy_into_def case_prod_unfold)
  then show ?case using Cons [of "gm_put (fst kv) (snd kv) dst"] by (simp only: gm_keys_put) simp
qed (simp add: gm_copy_into_def)

lemma plain_keys_put: "plain_keys m \<Longrightarrow> CHR ''='' \<notin> set k \<Longrightarrow> plain_keys (gm_put k v m)"
  unfolding plain_keys_def gm_keys_put by blast

lemma plain_keys_copy: "plain_keys src \<Longrightarrow> plain_keys dst \<Longrightarrow> plain_keys (gm_copy_into src dst)"
  by (auto simp: plain_keys_def gm_copy_into_keys intro: gm_copy_into_wf)

lemma getenv_mergeEnv:
  assumes "plain_keys base" and "plain_keys overrides" and "CHR ''='' \<notin> set k"
  shows "getenv (mergeEnv base overrides) k =
    (case gm_get overrides k of
       Some v \<Rightarrow> Some v
     | None \<Rightarrow>
         (case gm_get base k of Some v \<Rightarrow> Some v | None \<Rightarrow> if k = ''PATH'' then Some default_path else None))"
proof -
  let ?m = "gm_copy_into overrides (gm_copy_into base [])"
  let ?m' = "if gm_get ?m ''PATH'' = None then gm_put ''PATH'' default_path ?m else ?m"
  have e: "plain_keys []" by (simp add: plain_keys_def)
  have m: "plain_keys ?m" using plain_keys_copy [OF assms(2) plain_keys_copy [OF assms(1) e]] .
  then have m': "plain_keys ?m'" using plain_keys_put [OF m, of "''PATH''"] by simp
  have g: "gm_get ?m x = (case gm_get overrides x of Some v \<Rightarrow> Some v | None \<Rightarrow> gm_get base x)" for x
    using assms(1,2) by (auto simp: plain_keys_def gm_copy_into_get split: option.split)
  show ?thesis
    using getenv_entries [OF m' assms(3)] g by (auto simp: mergeEnv_def Let_def split: option.split)
qed

section \<open>Requests\<close>

definition agent_path :: "string \<Rightarrow> string list \<Rightarrow> request \<Rightarrow> bool" where
  "agent_path m ss rq \<longleftrightarrow> rq_method rq = m \<and> path_segments (rq_path rq) = ss"

lemma agent_dispatches:
  "agent_path ''POST'' [''init''] rq \<Longrightarrow> agent_Handler g rq a = handleInit (rq\<lparr>rq_vars := []\<rparr>) a"
  "agent_path ''POST'' [''exec''] rq \<Longrightarrow> agent_Handler g rq a = ag_handleExec g (rq\<lparr>rq_vars := []\<rparr>) a"
  "agent_path ''GET'' [''files''] rq \<Longrightarrow> agent_Handler g rq a = ag_handleReadFile g (rq\<lparr>rq_vars := []\<rparr>) a"
  "agent_path ''PUT'' [''files''] rq \<Longrightarrow> agent_Handler g rq a = ag_handleWriteFile g (rq\<lparr>rq_vars := []\<rparr>) a"
  "agent_path ''DELETE'' [''files''] rq \<Longrightarrow> agent_Handler g rq a = ag_handleDeleteFile g (rq\<lparr>rq_vars := []\<rparr>) a"
  "agent_path ''GET'' [''files'', ''list''] rq \<Longrightarrow> agent_Handler g rq a = ag_handleListFiles g (rq\<lparr>rq_vars := []\<rparr>) a"
  by (simp_all add: agent_Handler_def agent_path_def serve_mux_def agent_routes_def route_matches_def method_matches_def)

lemma decode_init_env:
  "gm_wf vars \<Longrightarrow> decode_init (JObj [(''envVars'', jstr_map vars)])
    = Inr \<lparr>ir_EnvVars = Some vars, ir_User = '''', ir_WorkDir = '''', ir_AccessToken = ''''\<rparr>"
  by (simp add: decode_init_def dec_map_jstr_map dec_string_def jfield_def)

text \<open>
  C18. The variables that the orchestrator sends when it creates a sandbox are seen by every later
  command: a command's own variables win over them, they win over the agent's earlier ones, and
  the search path has a default.
\<close>
theorem init_reaches_commands:
  assumes "agent_path ''POST'' [''init''] irq" and "rq_json irq = Inr (JObj [(''envVars'', jstr_map vars)])"
    and "agent_Handler g irq a = (resp, a')"
    and "shell_command g req (defaults_Snapshot (ag_defaults a')) w = Inr cmd"
    and "plain_keys vars" and "plain_keys (d_EnvVars (ag_defaults a))" and "plain_keys (er_Env req)"
    and "CHR ''='' \<notin> set k"
  shows "status resp = 200 \<and> getenv (cm_env cmd) k =
    (case gm_get (er_Env req) k of
       Some v \<Rightarrow> Some v
     | None \<Rightarrow> (case gm_get vars k of
         Some v \<Rightarrow> Some v
       | None \<Rightarrow> (case gm_get (d_EnvVars (ag_defaults a)) k of
           Some v \<Rightarrow> Some v
         | None \<Rightarrow> if k = ''PATH'' then Some default_path else None)))"
proof -
  have w: "gm_wf vars" using assms(5) by (simp add: plain_keys_def)
  have h: "resp = ag_ok" "d_EnvVars (ag_defaults a') = gm_copy_into vars (d_EnvVars (ag_defaults a))"
    using assms(3) by (auto simp: agent_dispatches(1) [OF assms(1)] handleInit_def assms(2) dec_object_def decode_init_env [OF w] SetFrom_def)
  have e: "plain_keys []" by (simp add: plain_keys_def)
  let ?base = "gm_copy_into (d_EnvVars (ag_defaults a')) []"
  have b: "plain_keys (d_EnvVars (ag_defaults a'))" unfolding h(2) by (rule plain_keys_copy [OF assms(5,6)])
  have base: "plain_keys ?base" by (rule plain_keys_copy [OF b e])
  have "gm_get ?base k = gm_get (d_EnvVars (ag_defaults a')) k"
    using b by (simp add: gm_copy_into_get plain_keys_def split: option.split)
  also have "\<dots> = (case gm_get vars k of Some v \<Rightarrow> Some v | None \<Rightarrow> gm_get (d_EnvVars (ag_defaults a)) k)"
    using w by (auto simp: h(2) gm_copy_into_get split: option.split)
  finally have g: "gm_get ?base k = (case gm_get vars k of Some v \<Rightarrow> Some v | None \<Rightarrow> gm_get (d_EnvVars (ag_defaults a)) k)" .
  have "cm_env cmd = mergeEnv ?base (er_Env req)"
    using assms(4) by (auto simp: shell_command_def Let_def defaults_Snapshot_def split: if_splits sum.splits)
  then have "getenv (cm_env cmd) k = (case gm_get (er_Env req) k of
       Some v \<Rightarrow> Some v
     | None \<Rightarrow> (case gm_get ?base k of Some v \<Rightarrow> Some v | None \<Rightarrow> if k = ''PATH'' then Some default_path else None))"
    by (simp only: getenv_mergeEnv [OF base assms(7,8)])
  then show ?thesis unfolding g by (simp add: h(1) ag_ok_def split: option.split)
qed

text \<open>A guest without files or users, whose processes succeed at once without output.\<close>

definition empty_guest :: "'w guest" where
  "empty_guest = \<lparr>g_readFile = \<lambda>_ _. Inl (SysError True ''no such file or directory''), g_mkdirAll = \<lambda>_ w. (None, w),
     g_writeFile = \<lambda>_ _ w. (None, w), g_readDir = \<lambda>_ _. Inl (SysError True ''no such file or directory''), g_removeAll = \<lambda>_ w. (None, w),
     g_stat = \<lambda>_ _. Inl (SysError True ''no such file or directory''), g_getwd = \<lambda>_. ''/'', g_lookup = \<lambda>_ _. Inl ''unknown user'',
     g_run = \<lambda>_ w. (\<lparr>oc_err = None, oc_stdout = '''', oc_stderr = '''', oc_expired = False\<rparr>, w),
     g_stream = \<lambda>_ w. (Streamed [] None, w)\<rparr>"

definition agent_rq :: "string \<Rightarrow> string \<Rightarrow> request" where
  "agent_rq m p = empty_request\<lparr>rq_method := m, rq_path := p\<rparr>"

lemma init_reaches_commands_witness:
  "\<exists>a' cmd. a' = snd (agent_Handler empty_guest
        ((agent_rq ''POST'' ''/init'')\<lparr>rq_json := Inr (JObj [(''envVars'', jstr_map [(''A'', ''1''), (''B'', ''2'')])])\<rparr>) (NewAgent ()))
     \<and> shell_command empty_guest \<lparr>er_Command = ''env'', er_Cwd = '''', er_Env = [(''B'', ''3'')], er_Timeout = 0\<rparr>
         (defaults_Snapshot (ag_defaults a')) () = Inr cmd
     \<and> getenv (cm_env cmd) ''A'' = Some ''1'' \<and> getenv (cm_env cmd) ''B'' = Some ''3'' \<and> getenv (cm_env cmd) ''PATH'' = Some default_path"
proof -
  let ?irq = "(agent_rq ''POST'' ''/init'')\<lparr>rq_json := Inr (JObj [(''envVars'', jstr_map [(''A'', ''1''), (''B'', ''2'')])])\<rparr>"
  let ?req = "\<lparr>er_Command = ''env'', er_Cwd = '''', er_Env = [(''B'', ''3'')], er_Timeout = 0\<rparr>"
  let ?g = "empty_guest :: unit guest"
  have p: "agent_path ''POST'' [''init''] ?irq" by (simp add: agent_path_def agent_rq_def path_segments_def)
  have j: "rq_json ?irq = Inr (JObj [(''envVars'', jstr_map [(''A'', ''1''), (''B'', ''2'')])])" by simp
  obtain resp a' where h: "agent_Handler ?g ?irq (NewAgent ()) = (resp, a')" by (metis surj_pair)
  have "d_User (ag_defaults a') = ''root''"
    using h decode_init_env [of "[(''A'', ''1''), (''B'', ''2'')]"]
    by (auto simp: agent_dispatches(1) [OF p] handleInit_def dec_object_def SetFrom_def NewAgent_def)
  then obtain cmd where c: "shell_command ?g ?req (defaults_Snapshot (ag_defaults a')) () = Inr cmd"
    by (simp add: shell_command_def Let_def defaults_Snapshot_def)
  have k: "plain_keys [(''A'', ''1''), (''B'', ''2'')]" "plain_keys (d_EnvVars (ag_defaults (NewAgent ())))" "plain_keys (er_Env ?req)"
    by (simp_all add: plain_keys_def NewAgent_def)
  note r = init_reaches_commands [OF p j h c k]
  have "getenv (cm_env cmd) ''A'' = Some ''1''" using r [of "''A''"] by simp
  moreover have "getenv (cm_env cmd) ''B'' = Some ''3''" using r [of "''B''"] by simp
  moreover have "getenv (cm_env cmd) ''PATH'' = Some default_path" using r [of "''PATH''"] by (simp add: NewAgent_def)
  ultimately show ?thesis using c h by (intro exI [of _ a'] exI [of _ cmd]) simp
qed

section \<open>Errors the agent reports\<close>

lemma not_found_is_wrapped:
  "ag_ReadFile g path w = Inl err \<Longrightarrow> \<not> os_IsNotExist err" "ListDir g path w = Inl err' \<Longrightarrow> \<not> os_IsNotExist err'"
  by (auto simp: ag_ReadFile_def ListDir_def split: sum.splits)

text \<open>
  Reading or listing a missing path is never answered with 404: the error has been wrapped
  before it is asked whether it means a missing file, so the answer is an internal error.
\<close>
theorem missing_file_is_internal_error:
  assumes "agent_path ''GET'' ss rq" and "ss = [''files''] \<or> ss = [''files'', ''list'']"
    and "get_or_empty (rq_params rq) ''path'' = path"
  shows "status (fst (agent_Handler g rq a)) \<in> {200, 400, 500} \<and> snd (agent_Handler g rq a) = a
    \<and> (path \<noteq> '''' \<and> ss = [''files''] \<and> g_readFile g path (ag_world a) = Inl (SysError True m)
        \<longrightarrow> fst (agent_Handler g rq a) = ag_writeError 500 (''read '' @ path @ '': '' @ m))
    \<and> (path \<noteq> '''' \<and> ss = [''files'', ''list''] \<and> g_readDir g path (ag_world a) = Inl (SysError True m)
        \<longrightarrow> fst (agent_Handler g rq a) = ag_writeError 500 (''list '' @ path @ '': '' @ m))"
  using assms(2)
proof
  assume s: "ss = [''files'']"
  then have d: "agent_Handler g rq a = ag_handleReadFile g (rq\<lparr>rq_vars := []\<rparr>) a" using agent_dispatches(3) assms(1) by blast
  show ?thesis
    using not_found_is_wrapped(1)
    by (auto simp: d s assms(3) ag_handleReadFile_def ag_ReadFile_def path_required_def ag_writeError_def file_error_def split: sum.split)
next
  assume s: "ss = [''files'', ''list'']"
  then have d: "agent_Handler g rq a = ag_handleListFiles g (rq\<lparr>rq_vars := []\<rparr>) a" using agent_dispatches(6) assms(1) by blast
  show ?thesis
    using not_found_is_wrapped(2)
    by (auto simp: d s assms(3) ag_handleListFiles_def ListDir_def path_required_def ag_writeError_def file_error_def split: sum.split)
qed

lemma missing_file_is_internal_error_witness:
  "fst (agent_Handler empty_guest ((agent_rq ''GET'' ''/files'')\<lparr>rq_params := [(''path'', ''/x'')]\<rparr>) (NewAgent ()))
   = ag_writeError 500 ''read /x: no such file or directory''"
proof -
  let ?rq = "(agent_rq ''GET'' ''/files'')\<lparr>rq_params := [(''path'', ''/x'')]\<rparr>"
  have p: "agent_path ''GET'' [''files''] ?rq" by (simp add: agent_path_def agent_rq_def path_segments_def)
  have q: "get_or_empty (rq_params ?rq) ''path'' = ''/x''" by (simp add: get_or_empty_def)
  show ?thesis
    using missing_file_is_internal_error [OF p disjI1 [OF refl] q, of empty_guest "NewAgent ()" "''no such file or directory''"]
    by (simp add: empty_guest_def)
qed

text \<open>
  A command runs for the seconds asked for and its result is what the process left. A process
  that is killed when its time is up ends with an exit error, so its code (-1) is passed on like any
  other code and nothing says that it timed out: code 124 and its note are given only when the
  run failed in another way after the deadline, and only such a failure before it is an error.
\<close>
theorem killed_command_is_not_called_timed_out:
  assumes "agent_path ''POST'' [''exec''] rq" and "checked_exec rq = Inr req"
    and "shell_command g req (defaults_Snapshot (ag_defaults a)) (ag_world a) = Inr cmd"
    and "g_run g cmd (ag_world a) = (oc, w')" and "er_Timeout req \<le> 9223372036"
  shows "cm_deadline cmd = (if 0 < er_Timeout req then Some (er_Timeout req * 10 ^ 9) else None)
    \<and> snd (agent_Handler g rq a) = a\<lparr>ag_world := w'\<rparr>
    \<and> (oc_err oc = Some (ExitError c) \<longrightarrow> fst (agent_Handler g rq a)
         = json_response 200 (exec_json \<lparr>ex_ExitCode = c, ex_Stdout = oc_stdout oc, ex_Stderr = oc_stderr oc\<rparr>))
    \<and> (status (fst (agent_Handler g rq a)) = 500 \<longleftrightarrow> (\<exists>e. oc_err oc = Some (ProcError e)) \<and> \<not> oc_expired oc)
    \<and> ((\<exists>e. oc_err oc = Some (ProcError e)) \<and> oc_expired oc \<longrightarrow> fst (agent_Handler g rq a)
         = json_response 200 (exec_json \<lparr>ex_ExitCode = 124, ex_Stdout = oc_stdout oc,
             ex_Stderr = oc_stderr oc @ [CHR 0x0A] @ ''gitvm-agent: command timed out''\<rparr>))"
proof -
  have d: "agent_Handler g rq a = ag_handleExec g (rq\<lparr>rq_vars := []\<rparr>) a" by (rule agent_dispatches(2) [OF assms(1)])
  have c: "checked_exec (rq\<lparr>rq_vars := []\<rparr>) = Inr req" using assms(2) by (simp add: checked_exec_def)
  have "cm_deadline cmd = (if 0 < er_Timeout req then Some (duration_seconds (er_Timeout req)) else None)"
    using assms(3) by (auto simp: shell_command_def Let_def split: if_splits sum.splits)
  moreover have "duration_seconds (er_Timeout req) = er_Timeout req * 10 ^ 9" if "0 < er_Timeout req"
    using duration_seconds_small [of "er_Timeout req"] that assms(5) by (simp add: second_def)
  moreover have "snd (agent_Handler g rq a) = a\<lparr>ag_world := w'\<rparr>"
    by (auto simp: d ag_handleExec_def c RunCommand_def assms(3,4) split: option.split proc_error.split)
  moreover have "status (fst (agent_Handler g rq a)) = 500 \<longleftrightarrow> (\<exists>e. oc_err oc = Some (ProcError e)) \<and> \<not> oc_expired oc"
    by (auto simp: d ag_handleExec_def c RunCommand_def assms(3,4) ag_writeError_def split: option.split proc_error.split)
  moreover have "oc_err oc = Some (ExitError c) \<longrightarrow> fst (agent_Handler g rq a)
         = json_response 200 (exec_json \<lparr>ex_ExitCode = c, ex_Stdout = oc_stdout oc, ex_Stderr = oc_stderr oc\<rparr>)"
    by (simp add: d ag_handleExec_def c RunCommand_def assms(3,4))
  moreover have "(\<exists>e. oc_err oc = Some (ProcError e)) \<and> oc_expired oc \<longrightarrow> fst (agent_Handler g rq a)
         = json_response 200 (exec_json \<lparr>ex_ExitCode = 124, ex_Stdout = oc_stdout oc,
             ex_Stderr = oc_stderr oc @ [CHR 0x0A] @ ''gitvm-agent: command timed out''\<rparr>)"
    by (auto simp: d ag_handleExec_def c RunCommand_def assms(3,4))
  ultimately show ?thesis by simp
qed

text \<open>A guest whose every command is killed at its deadline.\<close>

definition slow_guest :: "'w guest" where
  "slow_guest = empty_guest\<lparr>g_run := \<lambda>cmd w. (\<lparr>oc_err = Some (ExitError (- 1)), oc_stdout = ''part'', oc_stderr = '''', oc_expired = True\<rparr>, w)\<rparr>"

lemma killed_command_is_not_called_timed_out_witness:
  "fst (agent_Handler slow_guest
      ((agent_rq ''POST'' ''/exec'')\<lparr>rq_json := Inr (JObj [(''command'', JStr ''sleep 9''), (''timeout'', JInt 1)])\<rparr>) (NewAgent ()))
   = json_response 200 (exec_json \<lparr>ex_ExitCode = - 1, ex_Stdout = ''part'', ex_Stderr = ''''\<rparr>)"
proof -
  let ?rq = "(agent_rq ''POST'' ''/exec'')\<lparr>rq_json := Inr (JObj [(''command'', JStr ''sleep 9''), (''timeout'', JInt 1)])\<rparr>"
  let ?req = "\<lparr>er_Command = ''sleep 9'', er_Cwd = '''', er_Env = [], er_Timeout = 1\<rparr>"
  let ?g = "slow_guest :: unit guest"
  have p: "agent_path ''POST'' [''exec''] ?rq" by (simp add: agent_path_def agent_rq_def path_segments_def)
  have c: "checked_exec ?rq = Inr ?req"
    by (simp add: checked_exec_def dec_object_def decode_exec_def dec_string_def dec_int_def dec_map_def jfield_def)
  obtain cmd where s: "shell_command ?g ?req (defaults_Snapshot (ag_defaults (NewAgent ()))) (ag_world (NewAgent ())) = Inr cmd"
    by (simp add: shell_command_def Let_def defaults_Snapshot_def NewAgent_def)
  have r: "g_run ?g cmd (ag_world (NewAgent ()))
      = (\<lparr>oc_err = Some (ExitError (- 1)), oc_stdout = ''part'', oc_stderr = '''', oc_expired = True\<rparr>, ())"
    by (simp add: slow_guest_def NewAgent_def)
  show ?thesis using killed_command_is_not_called_timed_out [OF p c s r, of "- 1"] by simp
qed

end
