(* ===== verification/Host_Composition.thy ===== *)
theory Host_Composition
  imports Sdk_Machine Guest_Agent
begin

text \<open>
  The parts of a single host run against each other: a machine of package \<open>sdk\<close> whose client talks to
  the REST server of package \<open>api\<close> (\<open>on_server\<close>), whose own client talks to the agent of package
  \<open>agent\<close>. The server knows the key that the machine is configured with.
\<close>

definition on_server :: "(string \<Rightarrow> string + json) \<Rightarrow> string \<Rightarrow> string \<Rightarrow> 'r api_env \<Rightarrow> 'r orch sdk_env" where
  "on_server parse url key e =
     \<lparr>sd_http = served_by parse url (api_Handler key e), sd_new_request = (\<lambda>_. None), sd_parse = parse\<rparr>"

text \<open>The request that a machine asks for, as the server's handler decodes it.\<close>

definition config_request :: "gitvm_config \<Rightarrow> CreateRequest" where
  "config_request cfg =
     \<lparr>cr_Template = gc_Template cfg, cr_VCPUs = max 0 (gc_VCPUs cfg), cr_MemoryMB = max 0 (gc_MemoryMB cfg),
      cr_Timeout = max 0 (gc_Timeout cfg), cr_Metadata = (case gc_Metadata cfg of None \<Rightarrow> [] | Some m \<Rightarrow> m),
      cr_EnvVars = (case gc_EnvVars cfg of None \<Rightarrow> [] | Some m \<Rightarrow> m)\<rparr>"

text \<open>Integers of 64 bits, and maps with distinct keys: what the Go types of a configuration allow.\<close>

definition config_ok :: "gitvm_config \<Rightarrow> bool" where
  "config_ok cfg \<longleftrightarrow> gc_VCPUs cfg < 2 ^ 63 \<and> gc_MemoryMB cfg < 2 ^ 63 \<and> gc_Timeout cfg < 2 ^ 63
     \<and> (case gc_EnvVars cfg of None \<Rightarrow> True | Some m \<Rightarrow> gm_wf m) \<and> (case gc_Metadata cfg of None \<Rightarrow> True | Some m \<Rightarrow> gm_wf m)"

section \<open>A request of the client, served\<close>

definition sent :: "string \<Rightarrow> sdk_client \<Rightarrow> string \<Rightarrow> body option \<Rightarrow> out_request" where
  "sent meth c path body =
     \<lparr>oq_method = meth, oq_url = cl_baseURL c @ path,
      oq_headers = (if body \<noteq> None \<and> meth \<noteq> ''GET'' then [(''Content-Type'', ''application/json'')] else [])
        @ (if cl_apiKey c \<noteq> '''' then [(''X-API-KEY'', cl_apiKey c)] else []),
      oq_body = (case body of None \<Rightarrow> BEmpty | Some b \<Rightarrow> b)\<rparr>"

lemma preset_headers_sel [simp]: "status (preset_headers hs r) = status r" "rbody (preset_headers hs r) = rbody r"
  by (simp_all add: preset_headers_def)

lemma presented_own_key:
  "key \<noteq> '''' \<Longrightarrow> presented_key (served parse url (sent meth (NewClient url key) path body)) = key"
  by (simp add: presented_key_def served_sel sent_def NewClient_def get_or_empty_def)

lemma server_call:
  assumes "meth \<noteq> ''OPTIONS''" and "rq = served parse url (sent meth (NewClient url key) path body)"
    and "serve_mux (api_routes e) rq orc = (resp, orc1)"
  shows "doRequest (on_server parse url key e) (NewClient url key) meth path body orc
    = (if status resp \<ge> 400
       then Inl (meth @ '' '' @ path @ '' returned '' @ dec (int (status resp)) @ '': '' @ body_text (rbody resp))
       else Inr (preset_headers api_cors_headers resp), orc1)"
proof -
  have k: "key = '''' \<or> presented_key rq = key" using presented_own_key assms(2) by blast
  have m: "rq_method rq = meth" by (simp add: assms(2) served_sel sent_def)
  have "api_Handler key e rq orc = (preset_headers api_cors_headers resp, orc1)"
    using k assms(1,3) by (auto simp: api_Handler_def APIKeyAuth_def CORS_def m)
  then have "served_by parse url (api_Handler key e) (sent meth (NewClient url key) path body) orc
    = (Inr (preset_headers api_cors_headers resp), orc1)"
    by (simp add: served_by_def assms(2))
  then show ?thesis by (simp add: doRequest_def on_server_def sent_def NewClient_def)
qed

text \<open>The requests of the client on the route table of the server.\<close>

lemma plain_id_url: "plain_id i \<Longrightarrow> list_all plain_char (''/v1/vms/'' @ i)" "plain_id i \<Longrightarrow> list_all plain_char (''/v1/vms/'' @ i @ ''/files'')"
  by (auto simp: plain_id_def plain_char_def list_all_iff)

lemma vm_segments:
  assumes "plain_id i"
  shows "path_segments (''/v1/vms/'' @ i) = [''v1'', ''vms'', i]" "path_segments (''/v1/vms/'' @ i @ ''/files'') = [''v1'', ''vms'', i, ''files'']"
proof -
  have "CHR ''/'' \<notin> set i" using assms by (auto simp: plain_id_def)
  then show "path_segments (''/v1/vms/'' @ i) = [''v1'', ''vms'', i]" "path_segments (''/v1/vms/'' @ i @ ''/files'') = [''v1'', ''vms'', i, ''files'']"
    using path_segments_join [of "[''v1'', ''vms'', i]"] path_segments_join [of "[''v1'', ''vms'', i, ''files'']"] by simp_all
qed

section \<open>A machine is a VM of the server\<close>

lemma decode_start_body:
  assumes "config_ok cfg"
  shows "bind_res (dec_object (Inr (start_body cfg))) decode_create_vm = Inr (config_request cfg)"
proof -
  have s: "dec_string ''template'' (start_body cfg) = Inr (gc_Template cfg)"
    by (simp add: dec_string_def jfield_def start_body_def split: option.split)
  have i: "dec_int ''vcpus'' (start_body cfg) = Inr (max 0 (gc_VCPUs cfg))"
    "dec_int ''memoryMB'' (start_body cfg) = Inr (max 0 (gc_MemoryMB cfg))"
    "dec_int ''timeout'' (start_body cfg) = Inr (max 0 (gc_Timeout cfg))"
    using assms by (simp_all add: config_ok_def dec_int_def jfield_def start_body_def split: option.split)
  have e: "dec_map ''envVars'' (start_body cfg) = Inr (gc_EnvVars cfg)"
  proof (cases "gc_EnvVars cfg")
    case None
    then show ?thesis by (simp add: dec_map_def jfield_def start_body_def split: option.split)
  next
    case (Some m)
    have "jfield ''envVars'' (start_body cfg) = Some (jstr_map m)"
      using Some by (simp add: jfield_def start_body_def split: option.split)
    then show ?thesis using dec_map_jstr_map assms Some by (simp add: config_ok_def)
  qed
  have m: "dec_map ''metadata'' (start_body cfg) = Inr (gc_Metadata cfg)"
  proof (cases "gc_Metadata cfg")
    case None
    then show ?thesis by (simp add: dec_map_def jfield_def start_body_def split: option.split)
  next
    case (Some m)
    have "jfield ''metadata'' (start_body cfg) = Some (jstr_map m)"
      using Some by (simp add: jfield_def start_body_def split: option.split)
    then show ?thesis using dec_map_jstr_map assms Some by (simp add: config_ok_def)
  qed
  have "dec_object (Inr (start_body cfg)) = Inr (start_body cfg)"
    by (simp add: start_body_def dec_object_def)
  then show ?thesis by (simp add: decode_create_vm_def s i e m config_request_def)
qed

lemma server_Start:
  assumes "mc_client m = NewClient url key" and "mc_state m \<noteq> StateRunning" and "config_ok (mc_config m)"
    and "Create (ae_rt e) (ae_client e) (ae_uuid e) (ae_now e) (config_request (mc_config m)) orc = (res, orc1)"
  shows "case res of
      Inr inst \<Rightarrow> machine_Start (on_server parse url key e) m orc = (None, m\<lparr>mc_vmID := vi_ID inst, mc_state := StateRunning\<rparr>, orc1)
    | Inl err \<Rightarrow> \<exists>msg. machine_Start (on_server parse url key e) m orc = (Some msg, m, orc1)"
proof -
  let ?rq = "served parse url (sent ''POST'' (NewClient url key) ''/v1/vms'' (Some (BJson (start_body (mc_config m)))))"
  have p: "path_segments ''/v1/vms'' = [''v1'', ''vms'']" by (simp add: path_segments_def)
  have u: "split_url url (url @ ''/v1/vms'') = (''/v1/vms'', '''')" by (rule split_url_plain) (simp add: plain_char_def)
  have j: "rq_json ?rq = Inr (start_body (mc_config m))" by (rule served_sel(6)) (simp add: sent_def)
  have d: "serve_mux (api_routes e) ?rq orc = CreateVM e (?rq\<lparr>rq_vars := []\<rparr>) orc"
    by (rule api_dispatches(1)) (simp_all add: served_sel sent_def NewClient_def u p)
  have c: "CreateVM e (?rq\<lparr>rq_vars := []\<rparr>) orc = (case res of
        Inl err \<Rightarrow> (api_writeError 500 err, orc1)
      | Inr inst \<Rightarrow> (json_response 201 (toVMResponse e inst), orc1))"
    using decode_start_body [OF assms(3)] assms(4) by (simp add: CreateVM_def j split: sum.split)
  have call: "doRequest (on_server parse url key e) (NewClient url key) ''POST'' ''/v1/vms'' (Some (BJson (start_body (mc_config m)))) orc
      = (if status resp \<ge> 400
         then Inl (''POST'' @ '' '' @ ''/v1/vms'' @ '' returned '' @ dec (int (status resp)) @ '': '' @ body_text (rbody resp))
         else Inr (preset_headers api_cors_headers resp), orc1)"
    if "CreateVM e (?rq\<lparr>rq_vars := []\<rparr>) orc = (resp, orc1)" for resp
    by (rule server_call [OF _ refl]) (simp_all add: d that)
  show ?thesis
  proof (cases res)
    case (Inl err)
    then have "CreateVM e (?rq\<lparr>rq_vars := []\<rparr>) orc = (api_writeError 500 err, orc1)" using c by simp
    from call [OF this] assms(2) Inl show ?thesis
      by (simp add: machine_Start_def sdk_CreateVM_def postJSON_def assms(1) decode_response_def api_writeError_def)
  next
    case (Inr inst)
    then have "CreateVM e (?rq\<lparr>rq_vars := []\<rparr>) orc = (json_response 201 (toVMResponse e inst), orc1)" using c by simp
    from call [OF this] assms(2) Inr show ?thesis
      by (simp add: machine_Start_def sdk_CreateVM_def postJSON_def assms(1) decode_response_def decode_body_def
          toVMResponse_def dec_object_def string_field_def jfield_def)
  qed
qed

lemma server_Stop:
  assumes "mc_client m = NewClient url key" and "plain_id (mc_vmID m)"
    and "Delete (ae_rt e) (mc_vmID m) orc = (res, orc1)"
  shows "case res of
      None \<Rightarrow> machine_Stop (on_server parse url key e) m orc = (None, m\<lparr>mc_state := StateStopped\<rparr>, orc1)
    | Some err \<Rightarrow> \<exists>msg. machine_Stop (on_server parse url key e) m orc = (Some msg, m, orc1)"
proof -
  let ?p = "''/v1/vms/'' @ mc_vmID m"
  let ?rq = "served parse url (sent ''DELETE'' (NewClient url key) ?p None)"
  have n: "mc_vmID m \<noteq> ''''" using assms(2) by (simp add: plain_id_def)
  have u: "split_url url (url @ ?p) = (?p, '''')" by (rule split_url_plain [OF plain_id_url(1) [OF assms(2)]])
  have d: "serve_mux (api_routes e) ?rq orc = DeleteVM e (?rq\<lparr>rq_vars := [(''id'', mc_vmID m)]\<rparr>) orc"
    by (rule api_dispatches(2) [OF n]) (simp_all only: served_sel sent_def NewClient_def out_request.simps sdk_client.simps u fst_conv vm_segments(1) [OF assms(2)])
  have c: "DeleteVM e (?rq\<lparr>rq_vars := [(''id'', mc_vmID m)]\<rparr>) orc = (case res of
        Some err \<Rightarrow> (api_writeError 404 err, orc1)
      | None \<Rightarrow> (json_response 200 (JObj [(''status'', JStr ''deleted'')]), orc1))"
    using assms(3) by (simp add: DeleteVM_def get_or_empty_def split: option.split)
  have call: "doRequest (on_server parse url key e) (NewClient url key) ''DELETE'' ?p None orc
      = (if status resp \<ge> 400
         then Inl (''DELETE'' @ '' '' @ ?p @ '' returned '' @ dec (int (status resp)) @ '': '' @ body_text (rbody resp))
         else Inr (preset_headers api_cors_headers resp), orc1)"
    if "DeleteVM e (?rq\<lparr>rq_vars := [(''id'', mc_vmID m)]\<rparr>) orc = (resp, orc1)" for resp
    by (rule server_call [OF _ refl]) (simp, simp only: d that)
  show ?thesis
  proof (cases res)
    case None
    then have "DeleteVM e (?rq\<lparr>rq_vars := [(''id'', mc_vmID m)]\<rparr>) orc = (json_response 200 (JObj [(''status'', JStr ''deleted'')]), orc1)"
      using c by simp
    from call [OF this] n None show ?thesis by (simp add: machine_Stop_def sdk_DeleteVM_def assms(1))
  next
    case (Some err)
    then have "DeleteVM e (?rq\<lparr>rq_vars := [(''id'', mc_vmID m)]\<rparr>) orc = (api_writeError 404 err, orc1)" using c by simp
    from call [OF this] n Some show ?thesis by (simp add: machine_Stop_def sdk_DeleteVM_def assms(1) api_writeError_def)
  qed
qed

lemma Start_outcome:
  assumes "mc_client m = NewClient url key" and "mc_state m \<noteq> StateRunning" and "config_ok (mc_config m)"
    and "machine_Start (on_server parse url key e) m orc = (r, m1, orc1)"
  obtains (started) inst where "r = None" "m1 = m\<lparr>mc_vmID := sandbox_id (ae_uuid e), mc_state := StateRunning\<rparr>"
      "vi_ID inst = sandbox_id (ae_uuid e)" "vi_State inst = ''running''" "vi_Metadata inst = cr_Metadata (config_request (mc_config m))"
      "store orc1 = gm_put (sandbox_id (ae_uuid e)) inst (store orc)"
  | (refused) msg where "r = Some msg" "m1 = m" "store orc1 = store orc"
proof -
  obtain res orc' where c: "Create (ae_rt e) (ae_client e) (ae_uuid e) (ae_now e) (config_request (mc_config m)) orc = (res, orc')"
    by (metis surj_pair)
  note s = server_Start [where parse = parse, OF assms(1-3) c]
  show ?thesis
  proof (cases res)
    case (Inl err)
    have "store orc' = store orc"
      using c Inl by (cases rule: Create_cases) (auto elim!: CreateAdmitted_cases)
    moreover obtain msg where "machine_Start (on_server parse url key e) m orc = (Some msg, m, orc')"
      using s Inl by auto
    ultimately show ?thesis using assms(4) by (intro refused [of msg]) simp_all
  next
    case (Inr inst)
    obtain sb where "inst = created_instance (ae_rt e) (config orc) (ae_uuid e) (ae_now e) (config_request (mc_config m)) sb"
      "store orc' = store_Put inst (store orc)"
      using c Inr Create_created by blast
    then show ?thesis
      using s Inr assms(4)
      by (intro started [of inst]) (auto simp: created_instance_def sandbox_id_def store_Put_def)
  qed
qed

lemma Stop_outcome:
  assumes "mc_client m = NewClient url key" and "plain_id (mc_vmID m)"
    and "machine_Stop (on_server parse url key e) m orc = (r, m1, orc1)"
  shows "mc_vmID m1 = mc_vmID m"
    "orch_Get orc (mc_vmID m) \<noteq> None \<Longrightarrow> r = None \<and> mc_state m1 = StateStopped \<and> store orc1 = gm_del (mc_vmID m) (store orc)"
proof -
  obtain res orc' where d: "Delete (ae_rt e) (mc_vmID m) orc = (res, orc')" by (metis surj_pair)
  note s = server_Stop [where parse = parse, OF assms(1,2) d]
  show "mc_vmID m1 = mc_vmID m" using s assms(3) by (cases res) auto
  assume g: "orch_Get orc (mc_vmID m) \<noteq> None"
  then have "res = None" "store orc' = gm_del (mc_vmID m) (store orc)"
    using d by (auto simp: Delete_def orch_Get_def store_Delete_def split: prod.splits)
  then show "r = None \<and> mc_state m1 = StateStopped \<and> store orc1 = gm_del (mc_vmID m) (store orc)"
    using s assms(3) by simp
qed

text \<open>
  C10. A machine that starts owns exactly one new VM of the server, with the configured metadata, and
  stopping it removes that VM and leaves the server's other VMs as they were; a start that fails
  changes neither the machine nor the VMs of the server.
\<close>
theorem machine_owns_one_vm:
  assumes "mc_client m = NewClient url key" and "mc_state m \<noteq> StateRunning" and "config_ok (mc_config m)"
    and "machine_Start (on_server parse url key e) m orc = (r, m1, orc1)"
    and "plain_id (sandbox_id (ae_uuid e))" and "sandbox_id (ae_uuid e) \<notin> gm_keys (store orc)"
    and "machine_Stop (on_server parse url key e') m1 orc1 = (r', m2, orc2)"
  shows "(r \<noteq> None \<longrightarrow> m1 = m \<and> store orc1 = store orc)
    \<and> (r = None \<longrightarrow> mc_state m1 = StateRunning
        \<and> (\<exists>inst. orch_Get orc1 (mc_vmID m1) = Some inst \<and> orch_Get orc (mc_vmID m1) = None \<and> vi_State inst = ''running''
             \<and> vi_Metadata inst = (case gc_Metadata (mc_config m) of None \<Rightarrow> [] | Some md \<Rightarrow> md))
        \<and> r' = None \<and> mc_state m2 = StateStopped \<and> store orc2 = store orc)"
  using assms(1-4)
proof (cases rule: Start_outcome)
  case (started inst)
  have c: "mc_client m1 = NewClient url key" and i: "mc_vmID m1 = sandbox_id (ae_uuid e)" using started(2) assms(1) by simp_all
  have g: "orch_Get orc1 (mc_vmID m1) = Some inst" by (simp add: orch_Get_def store_Get_def started(6) i)
  have p: "plain_id (mc_vmID m1)" using assms(5) i by simp
  have "r' = None \<and> mc_state m2 = StateStopped \<and> store orc2 = gm_del (mc_vmID m1) (store orc1)"
    using Stop_outcome(2) [OF c p assms(7)] g by simp
  then show ?thesis
    using started g assms(6) by (simp add: i gm_del_put_absent orch_Get_def store_Get_def gm_get_None config_request_def)
next
  case (refused msg)
  then show ?thesis by simp
qed

text \<open>
  Pausing a machine is local, and starting it again creates another VM: after a stop the
  second is gone, but the first is still on the server although no machine refers to it.
\<close>
theorem restart_after_pause_orphans_vm:
  assumes "mc_client m = NewClient url key" and "mc_state m \<noteq> StateRunning" and "config_ok (mc_config m)"
    and "machine_Start (on_server parse url key e) m orc = (None, m1, orc1)"
    and "machine_Start (on_server parse url key e') (snd (machine_Pause m1)) orc1 = (None, m2, orc2)"
    and "machine_Stop (on_server parse url key e'') m2 orc2 = (r, m3, orc3)"
    and "plain_id (sandbox_id (ae_uuid e'))" and "sandbox_id (ae_uuid e') \<noteq> sandbox_id (ae_uuid e)"
  shows "r = None \<and> mc_state m3 = StateStopped \<and> mc_vmID m3 \<noteq> mc_vmID m1
    \<and> (\<exists>inst. orch_Get orc1 (mc_vmID m1) = Some inst \<and> orch_Get orc3 (mc_vmID m1) = Some inst)"
  using assms(1-4)
proof (cases rule: Start_outcome)
  case (started inst)
  let ?m = "snd (machine_Pause m1)"
  have m: "mc_client ?m = NewClient url key" "mc_state ?m \<noteq> StateRunning" "config_ok (mc_config ?m)"
    using started(2) assms(1,3) by (simp_all add: machine_Pause_def)
  from m assms(5) show ?thesis
  proof (cases rule: Start_outcome)
    case (started inst2)
    have c: "mc_client m2 = NewClient url key" and i: "mc_vmID m2 = sandbox_id (ae_uuid e')" using started(2) m by simp_all
    have g: "orch_Get orc2 (mc_vmID m2) \<noteq> None" by (simp add: orch_Get_def store_Get_def started(6) i)
    have p: "plain_id (mc_vmID m2)" using assms(7) i by simp
    have "r = None \<and> mc_state m3 = StateStopped \<and> store orc3 = gm_del (mc_vmID m2) (store orc2)" "mc_vmID m3 = mc_vmID m2"
      using Stop_outcome [OF c p assms(6)] g by simp_all
    then show ?thesis
      using started(6) \<open>store orc1 = _\<close> \<open>m1 = _\<close> assms(8) by (simp add: i orch_Get_def store_Get_def)
  qed simp
qed simp

definition demo_machine :: machine where
  "demo_machine = NewGitVMMachine \<lparr>gc_ServerURL = ''http://h'', gc_APIKey = ''secret'', gc_Template = '''', gc_VCPUs = 2, gc_MemoryMB = 0,
     gc_Timeout = 0, gc_EnvVars = None, gc_Metadata = Some [(''owner'', ''me'')]\<rparr>"

definition uuid_api :: "string \<Rightarrow> unit api_env" where
  "uuid_api uuid = (demo_api no_client)\<lparr>ae_uuid := uuid\<rparr>"

lemma demo_machine_facts:
  "mc_client demo_machine = NewClient ''http://h'' ''secret''" "mc_state demo_machine \<noteq> StateRunning" "config_ok (mc_config demo_machine)"
  "gc_Metadata (mc_config demo_machine) = Some [(''owner'', ''me'')]"
  by (simp_all add: demo_machine_def NewGitVMMachine_def config_ok_def)

lemma plain_demo_ids: "plain_id (sandbox_id ''0a1b2c3d-'')" "plain_id (sandbox_id ''ffffffff-'')"
  by (simp_all add: plain_id_def sandbox_id_def plain_char_def)

lemma demo_Start:
  assumes "mc_client m = NewClient url key" and "mc_state m \<noteq> StateRunning" and "config_ok (mc_config m)"
    and "store_Count (store orc) < cf_MaxVMs (config orc)"
  shows "\<exists>m1 orc1. machine_Start (on_server parse url key (uuid_api uuid)) m orc = (None, m1, orc1) \<and> config orc1 = config orc"
proof -
  obtain inst orc1 where c: "Create idle_runtime no_client uuid 0 (config_request (mc_config m)) orc = (Inr inst, orc1)" "config orc1 = config orc"
    using assms(4) by (auto simp: Create_def check_capacity_def CreateAdmitted_def idle_runtime_def Let_def)
  have "Create (ae_rt (uuid_api uuid)) (ae_client (uuid_api uuid)) (ae_uuid (uuid_api uuid)) (ae_now (uuid_api uuid))
      (config_request (mc_config m)) orc = (Inr inst, orc1)"
    using c(1) by (simp add: uuid_api_def demo_api_def)
  from server_Start [where parse = parse, OF assms(1-3) this] c(2) show ?thesis by simp
qed

lemma machine_owns_one_vm_witness:
  "\<exists>m1 orc1 m2 orc2. machine_Start (on_server (\<lambda>_. Inr JNull) ''http://h'' ''secret'' (uuid_api ''0a1b2c3d-'')) demo_machine
        (NewOrch small_config ()) = (None, m1, orc1)
     \<and> machine_Stop (on_server (\<lambda>_. Inr JNull) ''http://h'' ''secret'' (uuid_api '''')) m1 orc1 = (None, m2, orc2)
     \<and> store orc2 = [] \<and> (\<exists>inst. orch_Get orc1 (mc_vmID m1) = Some inst \<and> vi_Metadata inst = [(''owner'', ''me'')])"
proof -
  let ?s = "on_server (\<lambda>_. Inr JNull) ''http://h'' ''secret''" and ?orc = "NewOrch small_config ()"
  have n: "store ?orc = []" by (simp add: NewOrch_def NewVMStore_def)
  have room: "store_Count (store ?orc) < cf_MaxVMs (config ?orc)"
    by (simp add: n store_Count_def) (simp add: NewOrch_def small_config_def)
  obtain m1 orc1 where s: "machine_Start (?s (uuid_api ''0a1b2c3d-'')) demo_machine ?orc = (None, m1, orc1)"
    using demo_Start [OF demo_machine_facts(1-3) room] by blast
  obtain r m2 orc2 where t: "machine_Stop (?s (uuid_api '''')) m1 orc1 = (r, m2, orc2)" by (metis surj_pair)
  have u: "ae_uuid (uuid_api ''0a1b2c3d-'') = ''0a1b2c3d-''" by (simp add: uuid_api_def)
  have p: "plain_id (sandbox_id (ae_uuid (uuid_api ''0a1b2c3d-'')))" "sandbox_id (ae_uuid (uuid_api ''0a1b2c3d-'')) \<notin> gm_keys (store ?orc)"
    using plain_demo_ids(1) by (simp_all add: u n)
  show ?thesis
    using machine_owns_one_vm [OF demo_machine_facts(1-3) s p t] s t demo_machine_facts(4) n by auto
qed

lemma restart_after_pause_orphans_vm_witness:
  "\<exists>m1 orc1 m2 orc2 m3 orc3. machine_Start (on_server (\<lambda>_. Inr JNull) ''http://h'' ''secret'' (uuid_api ''0a1b2c3d-'')) demo_machine
        (NewOrch DefaultOrchestratorConfig ()) = (None, m1, orc1)
     \<and> machine_Start (on_server (\<lambda>_. Inr JNull) ''http://h'' ''secret'' (uuid_api ''ffffffff-'')) (snd (machine_Pause m1)) orc1 = (None, m2, orc2)
     \<and> machine_Stop (on_server (\<lambda>_. Inr JNull) ''http://h'' ''secret'' (uuid_api '''')) m2 orc2 = (None, m3, orc3)
     \<and> orch_Get orc3 (mc_vmID m1) \<noteq> None"
proof -
  let ?s = "on_server (\<lambda>_. Inr JNull) ''http://h'' ''secret''" and ?orc = "NewOrch DefaultOrchestratorConfig ()"
  have n: "store ?orc = []" "config ?orc = DefaultOrchestratorConfig" by (simp_all add: NewOrch_def NewVMStore_def)
  have room: "store_Count (store ?orc) < cf_MaxVMs (config ?orc)"
    unfolding n by (simp add: store_Count_def DefaultOrchestratorConfig_def)
  obtain m1 orc1 where s: "machine_Start (?s (uuid_api ''0a1b2c3d-'')) demo_machine ?orc = (None, m1, orc1)" "config orc1 = config ?orc"
    using demo_Start [OF demo_machine_facts(1-3) room] by blast
  have m: "mc_client (snd (machine_Pause m1)) = NewClient ''http://h'' ''secret''" "mc_state (snd (machine_Pause m1)) \<noteq> StateRunning"
      "config_ok (mc_config (snd (machine_Pause m1)))" "length (store orc1) = 1"
    using demo_machine_facts(1-3) s(1)
    by (cases rule: Start_outcome; auto simp: machine_Pause_def demo_machine_facts n)+
  have room1: "store_Count (store orc1) < cf_MaxVMs (config orc1)"
    using m(4) unfolding s(2) n by (simp add: store_Count_def DefaultOrchestratorConfig_def)
  obtain m2 orc2 where t: "machine_Start (?s (uuid_api ''ffffffff-'')) (snd (machine_Pause m1)) orc1 = (None, m2, orc2)"
    using demo_Start [OF m(1-3) room1] by blast
  obtain r m3 orc3 where u: "machine_Stop (?s (uuid_api '''')) m2 orc2 = (r, m3, orc3)" by (metis surj_pair)
  have p: "plain_id (sandbox_id (ae_uuid (uuid_api ''ffffffff-'')))"
      "sandbox_id (ae_uuid (uuid_api ''ffffffff-'')) \<noteq> sandbox_id (ae_uuid (uuid_api ''0a1b2c3d-''))"
    using plain_demo_ids(2) by (simp_all add: uuid_api_def sandbox_id_def)
  show ?thesis
    using restart_after_pause_orphans_vm [OF demo_machine_facts(1-3) s(1) t u p] s(1) t u by auto
qed

section \<open>Files, from the client to the agent\<close>

definition named :: "string \<Rightarrow> string" where
  "named path = ''path='' @ query_escape path"

lemma named_params: "parse_query (named path) = [(''path'', path)]"
  unfolding named_def using parse_query_escaped [of "''path''" path] by (simp add: unreserved_def)

lemma named_safe: "CHR ''#'' \<notin> set (named path)"
  using query_escape_safe [of "CHR ''#''" path] by (auto simp: named_def query_safe_def)

text \<open>The query of a request is passed on to the agent unchanged, and names the same file there.\<close>

lemma agent_sees_file:
  assumes "oq_url q = agentURL @ ''/files'' @ ''?'' @ named path"
  shows "path_segments (rq_path (served parse agentURL q)) = [''files'']"
    "get_or_empty (rq_params (served parse agentURL q)) ''path'' = path"
proof -
  have "split_url agentURL (agentURL @ ''/files'' @ CHR ''?'' # named path) = (''/files'', named path)"
    by (rule split_url_query [OF _ named_safe]) (simp add: plain_char_def)
  then have u: "split_url agentURL (oq_url q) = (''/files'', named path)" by (simp add: assms)
  show "path_segments (rq_path (served parse agentURL q)) = [''files'']"
    by (simp add: served_sel u path_segments_def)
  show "get_or_empty (rq_params (served parse agentURL q)) ''path'' = path"
    by (simp add: served_sel u named_params get_or_empty_def)
qed

lemma agent_reads:
  "agent_path ''GET'' [''files''] srq \<Longrightarrow> get_or_empty (rq_params srq) ''path'' = path \<Longrightarrow> path \<noteq> '''' \<Longrightarrow>
   ag_ReadFile g path (ag_world a) = Inr data \<Longrightarrow>
   agent_Handler g srq a = (\<lparr>status = 200, rheaders = [(''Content-Type'', ''application/octet-stream'')], rbody = BRaw data\<rparr>, a)"
  by (simp add: agent_dispatches(3) ag_handleReadFile_def)

lemma agent_writes:
  "agent_path ''PUT'' [''files''] srq \<Longrightarrow> get_or_empty (rq_params srq) ''path'' = path \<Longrightarrow> path \<noteq> '''' \<Longrightarrow> rq_raw srq = content \<Longrightarrow>
   ag_WriteFile g path content (ag_world a) = (None, w') \<Longrightarrow> agent_Handler g srq a = (ag_ok, a\<lparr>ag_world := w'\<rparr>)"
  by (simp add: agent_dispatches(4) ag_handleWriteFile_def change_files_def)

lemma agent_deletes:
  "agent_path ''DELETE'' [''files''] srq \<Longrightarrow> get_or_empty (rq_params srq) ''path'' = path \<Longrightarrow> path \<noteq> '''' \<Longrightarrow>
   g_removeAll g path (ag_world a) = (None, w') \<Longrightarrow> agent_Handler g srq a = (ag_ok, a\<lparr>ag_world := w'\<rparr>)"
  by (simp add: agent_dispatches(5) ag_handleDeleteFile_def change_files_def RemovePath_def)

definition on_agent :: "(string \<Rightarrow> string + json) \<Rightarrow> string \<Rightarrow> 'w guest \<Rightarrow> 'w agent api_env \<Rightarrow> bool" where
  "on_agent parse agentURL g e \<longleftrightarrow> ae_client e = served_by parse agentURL (agent_Handler g) \<and> ae_new_request e = (\<lambda>_. None)"

lemma call_agent_served:
  assumes "on_agent parse agentURL g e" and "orch_Get orc i = Some inst" and "rq_vars rq = [(''id'', i)]"
    and "agent_Handler g (served parse agentURL (build inst)) (backend orc) = (resp, a')"
  shows "call_agent e build onr answer rq orc = (answer resp, orc\<lparr>backend := a'\<rparr>)"
  using assms by (simp add: call_agent_def on_agent_def get_or_empty_def served_by_def)

lemma file_request:
  assumes "plain_id i" and "rq = served parse url (sent meth (NewClient url key) (''/v1/vms/'' @ i @ ''/files?'' @ named path) body)"
  shows "path_segments (rq_path rq) = [''v1'', ''vms'', i, ''files'']" "rq_query rq = named path" "rq_method rq = meth"
    "rq_params rq = [(''path'', path)]" "body = Some (BRaw content) \<Longrightarrow> rq_raw rq = content"
proof -
  have "split_url url (url @ (''/v1/vms/'' @ i @ ''/files'') @ CHR ''?'' # named path) = (''/v1/vms/'' @ i @ ''/files'', named path)"
    by (rule split_url_query [OF plain_id_url(2) [OF assms(1)] named_safe])
  then have u: "split_url url (oq_url (sent meth (NewClient url key) (''/v1/vms/'' @ i @ ''/files?'' @ named path) body))
      = (''/v1/vms/'' @ i @ ''/files'', named path)"
    by (simp add: sent_def NewClient_def)
  show "path_segments (rq_path rq) = [''v1'', ''vms'', i, ''files'']"
    unfolding assms(2) served_sel u fst_conv by (rule vm_segments(2) [OF assms(1)])
  show "rq_query rq = named path" "rq_method rq = meth" "rq_params rq = [(''path'', path)]"
    unfolding assms(2) served_sel u snd_conv by (simp_all add: sent_def named_params)
  show "body = Some (BRaw content) \<Longrightarrow> rq_raw rq = content"
    unfolding assms(2) by (rule served_sel(7)) (simp add: sent_def)
qed

lemma sdk_WriteFile_served:
  assumes "plain_id i" and "on_agent parse agentURL g e" and "orch_Get orc i = Some inst" and "vi_AgentURL inst = agentURL"
    and "path \<noteq> ''''" and "ag_WriteFile g path content (ag_world (backend orc)) = (None, w')"
  shows "sdk_WriteFile (on_server parse url key e) (NewClient url key) i path content orc
    = (None, orc\<lparr>backend := (backend orc)\<lparr>ag_world := w'\<rparr>\<rparr>)"
proof -
  let ?p = "''/v1/vms/'' @ i @ ''/files?'' @ named path"
  let ?rq = "served parse url (sent ''PUT'' (NewClient url key) ?p (Some (BRaw content)))"
  let ?rv = "?rq\<lparr>rq_vars := [(''id'', i)]\<rparr>"
  let ?q = "\<lparr>oq_method = ''PUT'', oq_url = agentURL @ ''/files'' @ ''?'' @ named path,
      oq_headers = [(''Content-Type'', get_or_empty (rq_header ?rv) ''Content-Type'')], oq_body = BRaw content\<rparr>"
  note f = file_request [where rq = ?rq, OF assms(1) refl]
  have n: "i \<noteq> ''''" using assms(1) by (simp add: plain_id_def)
  have s: "agent_path ''PUT'' [''files''] (served parse agentURL ?q)" "get_or_empty (rq_params (served parse agentURL ?q)) ''path'' = path"
    using agent_sees_file [of ?q agentURL path parse] by (simp_all add: agent_path_def served_sel(1))
  have r: "rq_raw (served parse agentURL ?q) = content" by (rule served_sel(7)) simp
  have a: "agent_Handler g (served parse agentURL ?q) (backend orc) = (ag_ok, (backend orc)\<lparr>ag_world := w'\<rparr>)"
    by (rule agent_writes [OF s assms(5) r assms(6)])
  have "serve_mux (api_routes e) ?rq orc = api_WriteFile e ?rv orc" by (rule api_dispatches(4) [OF n f(3) f(1)])
  also have "\<dots> = (as_json ag_ok, orc\<lparr>backend := (backend orc)\<lparr>ag_world := w'\<rparr>\<rparr>)"
    unfolding api_WriteFile_def proxyBodyToAgent_def
    by (rule call_agent_served [OF assms(2,3)]) (use a f(2) f(5) [OF refl] assms(4) in simp_all)
  finally have "serve_mux (api_routes e) ?rq orc = (as_json ag_ok, orc\<lparr>backend := (backend orc)\<lparr>ag_world := w'\<rparr>\<rparr>)" .
  from server_call [OF _ refl this] show ?thesis
    by (simp add: sdk_WriteFile_def named_def as_json_def ag_ok_def)
qed

lemma sdk_ReadFile_served:
  assumes "plain_id i" and "on_agent parse agentURL g e" and "orch_Get orc i = Some inst" and "vi_AgentURL inst = agentURL"
    and "path \<noteq> ''''" and "ag_ReadFile g path (ag_world (backend orc)) = Inr data"
  shows "sdk_ReadFile (on_server parse url key e) (NewClient url key) i path orc = (Inr data, orc)"
proof -
  let ?p = "''/v1/vms/'' @ i @ ''/files?'' @ named path"
  let ?rq = "served parse url (sent ''GET'' (NewClient url key) ?p None)"
  let ?rv = "?rq\<lparr>rq_vars := [(''id'', i)]\<rparr>"
  let ?q = "\<lparr>oq_method = ''GET'', oq_url = agentURL @ ''/files'' @ ''?'' @ named path, oq_headers = [], oq_body = BEmpty\<rparr>"
  let ?resp = "\<lparr>status = 200, rheaders = [(''Content-Type'', ''application/octet-stream'')], rbody = BRaw data\<rparr>"
  note f = file_request [where rq = ?rq, OF assms(1) refl]
  have n: "i \<noteq> ''''" using assms(1) by (simp add: plain_id_def)
  have s: "agent_path ''GET'' [''files''] (served parse agentURL ?q)" "get_or_empty (rq_params (served parse agentURL ?q)) ''path'' = path"
    using agent_sees_file [of ?q agentURL path parse] by (simp_all add: agent_path_def served_sel(1))
  have a: "agent_Handler g (served parse agentURL ?q) (backend orc) = (?resp, backend orc)"
    by (rule agent_reads [OF s assms(5,6)])
  have "serve_mux (api_routes e) ?rq orc = api_ReadFile e ?rv orc" by (rule api_dispatches(3) [OF n f(3) f(1)])
  also have "\<dots> = (?resp\<lparr>rheaders := set_headers (rheaders ?resp)\<rparr>, orc\<lparr>backend := backend orc\<rparr>)"
    unfolding api_ReadFile_def proxyGetToAgent_def
    by (rule call_agent_served [OF assms(2,3)]) (use a f(2) assms(4) in simp_all)
  finally have "serve_mux (api_routes e) ?rq orc = (?resp\<lparr>rheaders := set_headers (rheaders ?resp)\<rparr>, orc)" by simp
  from server_call [OF _ refl this] show ?thesis
    by (simp add: sdk_ReadFile_def named_def body_text_def)
qed

text \<open>
  C9. A file that the SDK writes through the server into a sandbox is read back through the server
  with the same content, whatever characters its name and its content have; this asks of the guest's
  file system only that it gives back what was written to that very name.
\<close>
theorem file_written_is_read_back:
  assumes "plain_id i" and "on_agent parse agentURL g e" and "orch_Get orc i = Some inst" and "vi_AgentURL inst = agentURL"
    and "path \<noteq> ''''" and "g_mkdirAll g (path_dir path) (ag_world (backend orc)) = (None, w1)"
    and "g_writeFile g path content w1 = (None, w2)" and "g_readFile g path w2 = Inr content"
    and "sdk_WriteFile (on_server parse url key e) (NewClient url key) i path content orc = (r, orc')"
  shows "r = None \<and> store orc' = store orc
    \<and> sdk_ReadFile (on_server parse url key e) (NewClient url key) i path orc' = (Inr content, orc')"
proof -
  have "ag_WriteFile g path content (ag_world (backend orc)) = (None, w2)"
    by (simp add: ag_WriteFile_def assms(6,7))
  from sdk_WriteFile_served [where parse = parse, OF assms(1-5) this] assms(9)
  have o: "r = None" "orc' = orc\<lparr>backend := (backend orc)\<lparr>ag_world := w2\<rparr>\<rparr>" by auto
  have g: "orch_Get orc' i = Some inst" using assms(3) by (simp add: o orch_Get_def)
  have "ag_ReadFile g path (ag_world (backend orc')) = Inr content" by (simp add: o ag_ReadFile_def assms(8))
  from sdk_ReadFile_served [OF assms(1,2) g assms(4,5) this] show ?thesis by (simp add: o(1)) (simp add: o(2))
qed

text \<open>
  Deleting a file through the server does not escape its name again: of a name with an
  ampersand the agent gets only the part before it, so another file is removed.
\<close>
theorem delete_removes_another_file:
  assumes "plain_id i" and "on_agent parse agentURL g e" and "orch_Get orc i = Some inst" and "vi_AgentURL inst = agentURL"
    and "list_all (\<lambda>c. unreserved c \<or> c = CHR ''/'') front" and "front \<noteq> ''''" and "CHR ''#'' \<notin> set rest"
    and "rq_method rq = ''DELETE''" and "path_segments (rq_path rq) = [''v1'', ''vms'', i, ''files'']"
    and "get_or_empty (rq_params rq) ''path'' = front @ CHR ''&'' # rest" and "rq_path rq \<noteq> ''/health''"
    and "g_removeAll g front (ag_world (backend orc)) = (None, w')"
  shows "\<exists>resp. api_Handler '''' e rq orc = (resp, orc\<lparr>backend := (backend orc)\<lparr>ag_world := w'\<rparr>\<rparr>) \<and> status resp = 200"
proof -
  let ?rv = "rq\<lparr>rq_vars := [(''id'', i)]\<rparr>"
  let ?q = "\<lparr>oq_method = ''DELETE'', oq_url = agentURL @ ''/files?path='' @ front @ CHR ''&'' # rest, oq_headers = [], oq_body = BEmpty\<rparr>"
  let ?query = "''path='' @ front @ CHR ''&'' # rest"
  have plain: "c \<noteq> CHR ''%'' \<and> c \<noteq> CHR ''+'' \<and> c \<noteq> CHR ''&'' \<and> c \<noteq> CHR ''#'' \<and> c \<noteq> CHR '';''" if "c \<in> set front" for c
    using that assms(5) unreserved_plain [of c] by (auto simp: list_all_iff)
  have n: "i \<noteq> ''''" using assms(1) by (simp add: plain_id_def)
  have "CHR ''#'' \<notin> set ?query" using plain assms(7) by auto
  then have "split_url agentURL (agentURL @ ''/files'' @ CHR ''?'' # ?query) = (''/files'', ?query)"
    by (intro split_url_query) (simp_all add: plain_char_def)
  then have u: "split_url agentURL (oq_url ?q) = (''/files'', ?query)" by simp
  have "split_byte CHR ''&'' ((''path='' @ front) @ CHR ''&'' # rest) = (''path='' @ front) # split_byte CHR ''&'' rest"
    using plain by (intro split_byte_sep) auto
  moreover have "query_part (''path='' @ front) = [(''path'', front)]"
  proof -
    have i: "index_byte (''path='' @ front) CHR ''='' = Some 4" using index_byte_append [of "CHR ''=''" "''path''" front] by simp
    have "list_all (\<lambda>c. c \<noteq> CHR ''%'' \<and> c \<noteq> CHR ''+'') front" using plain by (simp add: list_all_iff)
    then have "query_unescape front = Some front" by (induction front) simp_all
    moreover have "CHR '';'' \<notin> set (''path='' @ front)" using plain by auto
    ultimately show ?thesis using i by (simp add: query_part_def)
  qed
  ultimately have "get_or_empty (rq_params (served parse agentURL ?q)) ''path'' = front"
    unfolding served_sel u by (simp add: parse_query_def get_or_empty_def)
  moreover have p: "agent_path ''DELETE'' [''files''] (served parse agentURL ?q)"
    unfolding agent_path_def served_sel u by (simp add: path_segments_def)
  ultimately have a: "agent_Handler g (served parse agentURL ?q) (backend orc) = (ag_ok, (backend orc)\<lparr>ag_world := w'\<rparr>)"
    by (rule agent_deletes [rotated, OF _ assms(6,12)])
  have "serve_mux (api_routes e) rq orc = api_DeleteFile e ?rv orc" by (rule api_dispatches(5) [OF n assms(8,9)])
  also have "\<dots> = (as_json ag_ok, orc\<lparr>backend := (backend orc)\<lparr>ag_world := w'\<rparr>\<rparr>)"
    unfolding api_DeleteFile_def
    by (rule call_agent_served [OF assms(2,3)]) (use a assms(4,10) in simp_all)
  finally show ?thesis
    by (simp add: api_Handler_def APIKeyAuth_def CORS_def assms(8) as_json_def ag_ok_def)
qed

text \<open>A guest that keeps its files in a map.\<close>

definition memory_guest :: "(string, string) gomap guest" where
  "memory_guest = empty_guest\<lparr>g_writeFile := \<lambda>p c w. (None, gm_put p c w),
     g_readFile := \<lambda>p w. (case gm_get w p of None \<Rightarrow> Inl (SysError True ''no such file or directory'') | Some c \<Rightarrow> Inr c),
     g_removeAll := \<lambda>p w. (None, gm_del p w)\<rparr>"

definition memory_api :: "(string, string) gomap agent api_env" where
  "memory_api = demo_api (served_by (\<lambda>_. Inr JNull) ''http://a'' (agent_Handler memory_guest))"

definition memory_orch :: "(string, string) gomap \<Rightarrow> (string, string) gomap agent orch" where
  "memory_orch files = (NewOrch DefaultOrchestratorConfig (NewAgent files))\<lparr>store := [(''sb-1'',
     created_instance (idle_runtime :: unit runtime) DefaultOrchestratorConfig ''1'' 0 plain_request
       \<lparr>sb_ID = ''sb-1'', sb_State = ''running'', sb_Runtime = ''idle'', sb_IP = '''', sb_AgentURL = ''http://a''\<rparr>)]\<rparr>"

lemma memory_setup:
  "plain_id ''sb-1''" "on_agent (\<lambda>_. Inr JNull) ''http://a'' memory_guest memory_api"
  "\<exists>inst. orch_Get (memory_orch files) ''sb-1'' = Some inst \<and> vi_AgentURL inst = ''http://a''"
  "backend (memory_orch files) = NewAgent files"
  by (simp_all add: plain_id_def plain_char_def on_agent_def memory_api_def demo_api_def memory_orch_def orch_Get_def store_Get_def
      created_instance_def NewOrch_def)

lemma file_written_is_read_back_witness:
  "\<exists>orc'. sdk_ReadFile (on_server (\<lambda>_. Inr JNull) ''http://h'' ''k'' memory_api) (NewClient ''http://h'' ''k'') ''sb-1'' ''/a b&c#d?%'' orc'
     = (Inr ''x'', orc')"
proof -
  let ?s = "on_server (\<lambda>_. Inr JNull) ''http://h'' ''k'' memory_api" and ?c = "NewClient ''http://h'' ''k''"
  obtain inst where i: "orch_Get (memory_orch []) ''sb-1'' = Some inst" "vi_AgentURL inst = ''http://a''"
    using memory_setup(3) by blast
  obtain r orc' where w: "sdk_WriteFile ?s ?c ''sb-1'' ''/a b&c#d?%'' ''x'' (memory_orch []) = (r, orc')" by (metis surj_pair)
  have g: "g_mkdirAll memory_guest (path_dir ''/a b&c#d?%'') (ag_world (backend (memory_orch []))) = (None, [])"
    "g_writeFile memory_guest ''/a b&c#d?%'' ''x'' [] = (None, [(''/a b&c#d?%'', ''x'')])"
    "g_readFile memory_guest ''/a b&c#d?%'' [(''/a b&c#d?%'', ''x'')] = Inr ''x''"
    by (simp_all add: memory_guest_def empty_guest_def memory_setup(4) NewAgent_def)
  have p: "''/a b&c#d?%'' \<noteq> ''''" by simp
  show ?thesis using file_written_is_read_back [OF memory_setup(1,2) i p g w] by blast
qed

lemma delete_removes_another_file_witness:
  "\<exists>resp orc'. api_Handler '''' memory_api
      (empty_request\<lparr>rq_method := ''DELETE'', rq_path := ''/v1/vms/sb-1/files'', rq_params := [(''path'', ''/tmp/a&b'')]\<rparr>)
      (memory_orch [(''/tmp/a'', ''1''), (''/tmp/a&b'', ''2'')]) = (resp, orc')
    \<and> ag_world (backend orc') = [(''/tmp/a&b'', ''2'')]"
proof -
  let ?rq = "empty_request\<lparr>rq_method := ''DELETE'', rq_path := ''/v1/vms/sb-1/files'', rq_params := [(''path'', ''/tmp/a&b'')]\<rparr>"
  let ?files = "[(''/tmp/a'', ''1''), (''/tmp/a&b'', ''2'')]"
  obtain inst where i: "orch_Get (memory_orch ?files) ''sb-1'' = Some inst" "vi_AgentURL inst = ''http://a''"
    using memory_setup(3) by blast
  have f: "list_all (\<lambda>c. unreserved c \<or> c = CHR ''/'') ''/tmp/a''" "''/tmp/a'' \<noteq> ''''" "CHR ''#'' \<notin> set ''b''"
    by (simp_all add: unreserved_def)
  have q: "rq_method ?rq = ''DELETE''" "path_segments (rq_path ?rq) = [''v1'', ''vms'', ''sb-1'', ''files'']"
    "get_or_empty (rq_params ?rq) ''path'' = ''/tmp/a'' @ CHR ''&'' # ''b''" "rq_path ?rq \<noteq> ''/health''"
    by (simp_all add: path_segments_def get_or_empty_def)
  have g: "g_removeAll memory_guest ''/tmp/a'' (ag_world (backend (memory_orch ?files))) = (None, [(''/tmp/a&b'', ''2'')])"
    by (simp add: memory_guest_def memory_setup(4) NewAgent_def)
  show ?thesis using delete_removes_another_file [OF memory_setup(1,2) i f q g] by (auto simp: memory_setup(4))
qed

section \<open>Commands, from the client to the agent\<close>

text \<open>An integer of at most 53 bits is read back from a float as it is.\<close>

lemma through_float_small: "\<bar>i\<bar> < 2 ^ 53 \<Longrightarrow> through_float i = i"
proof -
  assume i: "\<bar>i\<bar> < 2 ^ 53"
  then have "\<not> 2 ^ (53 + 0) \<le> \<bar>i\<bar>" by simp
  then have "float_bits \<bar>i\<bar> = 0" by (simp add: float_bits_def upt_conv_Cons [of 0 2000])
  moreover have "- (2 ^ 63) \<le> i" "i < 2 ^ 63" using i by (simp_all add: abs_less_iff)
  ultimately show ?thesis by (simp add: through_float_def sgn_mult_abs)
qed

lemma exec_url:
  assumes "plain_id i"
  shows "list_all plain_char (''/v1/vms/'' @ i @ ''/exec'')" "path_segments (''/v1/vms/'' @ i @ ''/exec'') = [''v1'', ''vms'', i, ''exec'']"
proof -
  show "list_all plain_char (''/v1/vms/'' @ i @ ''/exec'')"
    using assms by (auto simp: plain_id_def plain_char_def list_all_iff)
  have "CHR ''/'' \<notin> set i" using assms by (auto simp: plain_id_def)
  then show "path_segments (''/v1/vms/'' @ i @ ''/exec'') = [''v1'', ''vms'', i, ''exec'']"
    using path_segments_join [of "[''v1'', ''vms'', i, ''exec'']"] by simp
qed

lemma api_exec_dispatch:
  "i \<noteq> '''' \<Longrightarrow> rq_method rq = ''POST'' \<Longrightarrow> path_segments (rq_path rq) = [''v1'', ''vms'', i, ''exec''] \<Longrightarrow>
     serve_mux (api_routes e) rq orc = ExecVM e (rq\<lparr>rq_vars := [(''id'', i)]\<rparr>) orc"
  by (simp add: api_search)

definition plain_exec :: "string \<Rightarrow> exec_request" where
  "plain_exec command = \<lparr>er_Command = command, er_Cwd = '''', er_Env = [], er_Timeout = 0\<rparr>"

lemma decode_exec_body: "bind_res (dec_object (Inr (exec_body command None))) decode_exec = Inr (plain_exec (valid_text command))"
  by (simp add: exec_body_def dec_object_def decode_exec_def dec_string_def dec_int_def dec_map_def jfield_def plain_exec_def)

lemma agent_runs:
  assumes "agent_path ''POST'' [''exec''] srq" and "rq_json srq = Inr (exec_body command None)" and "command \<noteq> ''''"
    and "RunCommand g (plain_exec (valid_text command)) (defaults_Snapshot (ag_defaults a)) (ag_world a) = (res, w1)"
  shows "agent_Handler g srq a
    = (case res of Inl err \<Rightarrow> ag_writeError 500 err | Inr r \<Rightarrow> json_response 200 (exec_json r), a\<lparr>ag_world := w1\<rparr>)"
  using assms(3,4)
  by (simp add: agent_dispatches(2) [OF assms(1)] ag_handleExec_def checked_exec_def assms(2) decode_exec_body split: sum.split)
    (simp add: plain_exec_def)

lemma served_post_json: "rq_json (served parse base (post_json u (BRaw s))) = parse s"
  by (simp add: served_def post_json_def Let_def case_prod_unfold)

lemma sdk_Exec_served:
  assumes "plain_id i" and "on_agent parse agentURL g e" and "orch_Get orc i = Some inst" and "vi_AgentURL inst = agentURL"
    and "parse (json_text (exec_body command None)) = Inr (exec_body command None)" and "command \<noteq> ''''"
    and "RunCommand g (plain_exec (valid_text command)) (defaults_Snapshot (ag_defaults (backend orc))) (ag_world (backend orc)) = (res, w1)"
  shows "\<exists>msg. sdk_Exec (on_server parse url key e) (NewClient url key) i command None orc
    = (case res of
         Inl err \<Rightarrow> Inl msg
       | Inr r \<Rightarrow> Inr \<lparr>xr_ExitCode = through_float (ex_ExitCode r), xr_Stdout = valid_text (ex_Stdout r), xr_Stderr = valid_text (ex_Stderr r)\<rparr>,
       orc\<lparr>backend := (backend orc)\<lparr>ag_world := w1\<rparr>\<rparr>)"
proof -
  let ?p = "''/v1/vms/'' @ i @ ''/exec''" and ?j = "exec_body command None"
  let ?rq = "served parse url (sent ''POST'' (NewClient url key) ?p (Some (BJson ?j)))"
  let ?rv = "?rq\<lparr>rq_vars := [(''id'', i)]\<rparr>"
  let ?q = "post_json (agentURL @ ''/exec'') (BRaw (rq_raw ?rv))"
  let ?orc = "orc\<lparr>backend := (backend orc)\<lparr>ag_world := w1\<rparr>\<rparr>"
  let ?resp = "case res of Inl err \<Rightarrow> ag_writeError 500 err | Inr r \<Rightarrow> json_response 200 (exec_json r)"
  have n: "i \<noteq> ''''" using assms(1) by (simp add: plain_id_def)
  have "split_url url (url @ ?p) = (?p, '''')" by (rule split_url_plain [OF exec_url(1) [OF assms(1)]])
  then have u: "split_url url (oq_url (sent ''POST'' (NewClient url key) ?p (Some (BJson ?j)))) = (?p, '''')"
    by (simp add: sent_def NewClient_def)
  have m: "rq_method ?rq = ''POST''" by (simp add: served_sel sent_def)
  have s: "path_segments (rq_path ?rq) = [''v1'', ''vms'', i, ''exec'']"
    unfolding served_sel u fst_conv by (rule exec_url(2) [OF assms(1)])
  have raw: "rq_raw ?rv = json_text ?j" by (simp add: served_def sent_def body_text_def Let_def case_prod_unfold)
  have "split_url agentURL (agentURL @ ''/exec'') = (''/exec'', '''')" by (rule split_url_plain) (simp add: plain_char_def)
  then have "split_url agentURL (oq_url ?q) = (''/exec'', '''')" by (simp add: post_json_def)
  then have ap: "agent_path ''POST'' [''exec''] (served parse agentURL ?q)"
    by (simp add: agent_path_def served_sel path_segments_def) (simp add: post_json_def)
  have aj: "rq_json (served parse agentURL ?q) = Inr ?j"
    by (simp only: served_post_json raw assms(5))
  have a: "agent_Handler g (served parse agentURL ?q) (backend orc) = (?resp, (backend orc)\<lparr>ag_world := w1\<rparr>)"
    by (rule agent_runs [OF ap aj assms(6,7)])
  have "serve_mux (api_routes e) ?rq orc = ExecVM e ?rv orc" by (rule api_exec_dispatch [OF n m s])
  also have "\<dots> = (as_json ?resp, ?orc)"
    unfolding ExecVM_def by (rule call_agent_served [OF assms(2,3)]) (use a assms(4) in simp_all)
  finally have c: "serve_mux (api_routes e) ?rq orc = (as_json ?resp, ?orc)" .
  from server_call [OF _ refl c] show ?thesis
    by (cases res) (auto simp: sdk_Exec_def postJSON_def as_json_def ag_writeError_def decode_response_def decode_body_def dec_object_def
        exec_json_def execution_result_of_def string_field_def jfield_def)
qed

end
