(* ===== verification/Cluster_Composition.thy ===== *)
theory Cluster_Composition
  imports ControlPlane_Scaler Node_Server Go_Url
begin

text \<open>
  The control plane run against a node: the world of the control plane is the node, and its HTTP
  client hands the requests for the node's address to the node's own server.
\<close>

definition to_node ::
  "(string \<Rightarrow> string + json) \<Rightarrow> string \<Rightarrow> 'r runtime \<Rightarrow> 'r http_client \<Rightarrow> string \<Rightarrow> time \<Rightarrow> 'r node http_client" where
  "to_node parse addr rt cl uuid now = served_by parse addr (node_Handler rt cl uuid now)"

lemma to_node_answer:
  assumes "to_node parse addr rt cl uuid now q nd = (Inr resp, nd')"
  shows "node_Handler rt cl uuid now (served parse addr q) nd = (resp, nd')"
  using assms by (simp add: to_node_def served_by_def case_prod_unfold prod_eq_iff Let_def)

lemma node_path:
  assumes "list_all plain_char path" and "oq_url q = addr @ path"
  shows "on_path (oq_method q) (path_segments path) (served parse addr q)"
  unfolding on_path_def served_sel assms(2) split_url_plain [OF assms(1)] by simp

lemma handleCreate_accepted:
  assumes "handleCreate rt cl uuid now rq nd = (resp, nd')" and "status resp < 400"
  obtains req inst orc1 where "Create rt cl uuid now req (nd_orch nd) = (Inr inst, orc1)" "nd' = nd\<lparr>nd_orch := orc1\<rparr>"
proof (cases "bind_res (dec_object (rq_json rq)) decode_create")
  case (Inl e)
  then show ?thesis using assms by (auto simp: handleCreate_def node_writeErr_def)
next
  case (Inr req)
  obtain res orc1 where c: "Create rt cl uuid now req (nd_orch nd) = (res, orc1)" by (metis surj_pair)
  show ?thesis
  proof (cases res)
    case (Inl e)
    then show ?thesis using assms Inr c by (auto simp: handleCreate_def node_writeErr_def)
  next
    case (Inr inst)
    then show ?thesis using assms \<open>_ = Inr req\<close> c by (intro that [of req inst orc1]) (auto simp: handleCreate_def)
  qed
qed

text \<open>An accepted creation leaves the sandbox under the identifier that the node itself drew.\<close>

lemma node_created:
  assumes "to_node parse addr rt cl uuid now q nd = (Inr resp, nd')" and "status resp < 400"
    and "oq_method q = ''POST''" and "oq_url q = addr @ ''/sandboxes''"
  obtains inst where "vi_State inst = ''running''" "store (nd_orch nd') = gm_put (sandbox_id uuid) inst (store (nd_orch nd))"
proof -
  let ?rq = "served parse addr q"
  have p: "on_path ''POST'' [''sandboxes''] ?rq"
    using node_path [of "''/sandboxes''" q addr parse] assms(3,4) by (simp add: plain_char_def path_segments_def)
  have h: "handleCreate rt cl uuid now (?rq\<lparr>rq_vars := []\<rparr>) nd = (resp, nd')"
    using to_node_answer [OF assms(1)] by (simp add: node_dispatches(1) [OF p])
  from handleCreate_accepted [OF h assms(2)]
  obtain req inst orc1 where c: "Create rt cl uuid now req (nd_orch nd) = (Inr inst, orc1)" "nd' = nd\<lparr>nd_orch := orc1\<rparr>" .
  obtain sb where "inst = created_instance rt (config (nd_orch nd)) uuid now req sb" "store orc1 = store_Put inst (store (nd_orch nd))"
    using Create_created [OF c(1)] by blast
  then show ?thesis using c(2) by (intro that [of inst]) (simp_all add: created_instance_def store_Put_def sandbox_id_def)
qed

text \<open>A node asked to delete what it does not know stays as it was.\<close>

lemma node_delete_unknown:
  assumes "plain_id i" and "orch_Get (nd_orch nd) i = None"
    and "forwardToNode e n ''DELETE'' (''/sandboxes/'' @ i) None s = (r, s1)" and "sv_world s = nd" and "n_Address n = addr"
    and "e_client e = to_node parse addr rt cl uuid now"
  shows "sv_world s1 = nd"
proof (cases "e_new_request e (addr @ ''/sandboxes/'' @ i)")
  case None
  let ?q = "\<lparr>oq_method = ''DELETE'', oq_url = addr @ ''/sandboxes/'' @ i, oq_headers = [], oq_body = BEmpty\<rparr>"
  let ?rq = "served parse addr ?q"
  have s: "path_segments (''/sandboxes/'' @ i) = [''sandboxes'', i]"
    using path_segments_join [of "[''sandboxes'', i]"] assms(1) by (auto simp: plain_id_def)
  have c: "list_all plain_char (''/sandboxes/'' @ i)" using assms(1) by (auto simp: plain_id_def plain_char_def list_all_iff)
  have p: "on_path ''DELETE'' [''sandboxes'', i] ?rq" using node_path [OF c, of ?q addr parse] unfolding s by simp
  have n: "i \<noteq> ''''" using assms(1) by (simp add: plain_id_def)
  have "snd (node_Handler rt cl uuid now ?rq nd) = nd"
    using assms(2) by (simp only: node_dispatches(5) [OF p n]) (simp add: handleDelete_def Delete_def orch_Get_def get_or_empty_def)
  then have "snd (to_node parse addr rt cl uuid now ?q nd) = nd"
    by (simp only: to_node_def served_by_def case_prod_unfold Let_def snd_conv)
  moreover have "sv_world s1 = snd (e_client e ?q (sv_world s))"
  proof -
    have "sv_world (snd (forwardToNode e n ''DELETE'' (''/sandboxes/'' @ i) None s)) = snd (e_client e ?q (sv_world s))"
      using None unfolding forwardToNode_def Let_def assms(5) by (simp add: case_prod_unfold split: sum.split)
    then show ?thesis by (simp only: assms(3) snd_conv)
  qed
  ultimately show ?thesis by (simp only: assms(4,6))
next
  case (Some err)
  then have "forwardToNode e n ''DELETE'' (''/sandboxes/'' @ i) None s = (Some err, s)" by (simp add: forwardToNode_def assms(5))
  then show ?thesis using assms(3,4) by simp
qed

text \<open>
  C37. A sandbox created through the control plane cannot be removed through it: the node keeps it
  under an identifier of its own, so the control plane's delete finds nothing on the node, is
  answered with success and forgets the row, while the sandbox goes on running on the node.
\<close>
theorem control_plane_delete_leaks_sandbox:
  assumes "handleCreateSandbox e cx rq s = (resp, s1)" and "cx_project cx = Some project"
    and "bind_res (dec_object (rq_json rq)) decode_create_sandbox = Inr req"
    and "db_ok (sv_db s)" and "down (sv_db s) = None" and "status resp = 200"
    and "sid = new_sandbox_id (e_uuid e 0)" and "\<forall>t \<in> set (t_sandboxes (sv_db s)). s_ID t \<noteq> sid"
    and "\<forall>n \<in> set (t_nodes (sv_db s)). n_Address n = addr" and "e_client e = to_node parse addr rt cl uuid now"
    and "sid \<noteq> sandbox_id uuid" and "orch_Get (nd_orch (sv_world s)) sid = None" and "plain_id sid"
    and "handleDeleteSandbox e' (rq'\<lparr>rq_vars := [(''id'', sid)]\<rparr>) s1 = (resp', s2)"
    and "e_client e' = to_node parse addr rt cl uuid' now'"
  shows "status resp' = 200 \<and> GetSandbox sid (sv_db s2) = Inl NoRows
    \<and> (\<exists>inst. vi_State inst = ''running'' \<and> orch_Get (nd_orch (sv_world s1)) (sandbox_id uuid) = Some inst
         \<and> orch_Get (nd_orch (sv_world s2)) (sandbox_id uuid) = Some inst)"
  using assms(1-3,5,7)
proof (cases rule: create_cases)
  case (placed t w)
  have addr: "n_Address t = addr" using placed(1) assms(9) by (simp add: candidates_def)
  have d: "sv_db s1 = snd (UpdateNodeHeartbeat (n_ID t) (n_Running t + 1) (e_now e)
      (snd (CreateSandbox (sandbox_row e sid project t req) (sv_db s))))" and w1: "sv_world s1 = sv_world w"
    by (simp_all add: placed(5))
  obtain q a where q: "oq_method q = ''POST''" "oq_url q = n_Address t @ ''/sandboxes''"
    "e_client e q (sv_world s) = (Inr a, sv_world w)" "status a < 400"
    using forwardToNode_sent [OF placed(3)] by blast
  obtain inst where inst: "vi_State inst = ''running''"
    "store (nd_orch (sv_world s1)) = gm_put (sandbox_id uuid) inst (store (nd_orch (sv_world s)))"
    using node_created [OF q(3) [unfolded assms(10)] q(4,1)] q(2) addr w1 by metis
  have unknown: "orch_Get (nd_orch (sv_world s1)) sid = None"
    using assms(11,12) by (simp add: orch_Get_def store_Get_def inst(2))
  obtain row where row: "GetSandbox sid (sv_db s1) = Inr row" "s_NodeID row = n_ID t"
    using placed_rows(1) [OF placed(1) assms(4,5,8) d] by blast
  obtain n where n: "GetNode (s_NodeID row) (sv_db s1) = Inr n" "n_Address n = addr"
    using placed_rows(2) [OF placed(1) assms(4,5,8) d] row(2) addr by simp
  obtain r s' where f: "forwardToNode e' n ''DELETE'' (''/sandboxes/'' @ sid) None s1 = (r, s')" by (metis surj_pair)
  have del: "resp' = cp_writeOK (JObj [(''status'', JStr ''deleted'')])" "s2 = s'\<lparr>sv_db := snd (db_DeleteSandbox sid (sv_db s'))\<rparr>"
    using assms(14) unfolding handleDeleteSandbox_def Let_def
    by (simp_all add: get_or_empty_def sandbox_and_node_def row(1) n(1) f [simplified] case_prod_unfold)
  have "sv_db s' = sv_db s1" using forwardToNode_db(1) [of e' n "''DELETE''" "''/sandboxes/'' @ sid" None s1] f by simp
  moreover have "down (sv_db s1) = None" using row(1) by (simp add: GetSandbox_def db_row_Inr)
  ultimately have "GetSandbox sid (sv_db s2) = Inl NoRows"
    by (simp add: del(2) db_DeleteSandbox_def db_exec_def GetSandbox_def db_row_def find_None_iff split: option.split)
  moreover have "sv_world s2 = sv_world s1"
    using node_delete_unknown [OF assms(13) unknown f refl n(2) assms(15)] by (simp add: del(2))
  ultimately show ?thesis using inst by (auto simp: del(1) cp_writeOK_def orch_Get_def store_Get_def)
qed (use assms(6) in simp_all)

definition demo_cluster_env :: "string \<Rightarrow> unit node cp_env" where
  "demo_cluster_env uuid = demo_env (to_node (\<lambda>_. Inr JNull) ''http://1.2.3.4:9090'' idle_runtime no_client uuid 0)"

definition demo_cluster :: "unit node cpserver" where
  "demo_cluster = cp_NewServer demo_config (snd (UpsertNode (demo_cp_node ''n1'') OpenDB)) (demo_node '''' ())"

lemma demo_cluster_facts:
  "t_nodes (sv_db demo_cluster) = [(demo_cp_node ''n1'')\<lparr>n_LastSeen := stored_time (7 * second + 5), n_CreatedAt := stored_time (7 * second + 5)\<rparr>]"
  "down (sv_db demo_cluster) = None" "t_sandboxes (sv_db demo_cluster) = []" "sv_world demo_cluster = demo_node '''' ()"
  by (simp_all add: demo_cluster_def cp_NewServer_def UpsertNode_def db_exec_def OpenDB_def demo_cp_node_def)

text \<open>The node accepts whatever well-formed creation it is sent.\<close>

lemma demo_node_accepts:
  assumes "oq_method q = ''POST''" and "oq_url q = ''http://1.2.3.4:9090/sandboxes''"
    and "oq_body q = BJson (node_request_body sid \<lparr>cs_Template = ''python'', cs_VCPUs = 0, cs_MemoryMB = 0, cs_Timeout = 0, cs_Metadata = [], cs_EnvVars = None\<rparr>)"
  shows "\<exists>resp nd'. to_node parse ''http://1.2.3.4:9090'' idle_runtime no_client uuid 0 q (demo_node '''' ()) = (Inr resp, nd') \<and> status resp = 201"
proof -
  let ?rq = "served parse ''http://1.2.3.4:9090'' q"
  have p: "on_path ''POST'' [''sandboxes''] ?rq"
    using node_path [of "''/sandboxes''" q "''http://1.2.3.4:9090''" parse] assms(1,2) by (simp add: plain_char_def path_segments_def)
  have j: "rq_json (?rq\<lparr>rq_vars := []\<rparr>) = Inr (node_request_body sid
      \<lparr>cs_Template = ''python'', cs_VCPUs = 0, cs_MemoryMB = 0, cs_Timeout = 0, cs_Metadata = [], cs_EnvVars = None\<rparr>)"
    using served_sel(6) [OF assms(3)] by simp
  have "\<exists>req. bind_res (dec_object (rq_json (?rq\<lparr>rq_vars := []\<rparr>))) decode_create = Inr req"
    unfolding j by (simp add: node_request_body_def dec_object_def decode_create_def dec_string_def dec_int_def dec_map_def jfield_def)
  then obtain req where d: "bind_res (dec_object (rq_json (?rq\<lparr>rq_vars := []\<rparr>))) decode_create = Inr req" by blast
  have c: "store (nd_orch (demo_node '''' ())) = []" "cf_MaxVMs (config (nd_orch (demo_node '''' ()))) = 1"
    by (simp_all add: demo_node_def NewNodeServer_def NewOrch_def NewVMStore_def small_config_def)
  obtain inst orc1 where "Create idle_runtime no_client uuid 0 req (nd_orch (demo_node '''' ())) = (Inr inst, orc1)"
    using c by (auto simp: Create_def check_capacity_def CreateAdmitted_def idle_runtime_def Let_def store_Count_def)
  then have "handleCreate idle_runtime no_client uuid 0 (?rq\<lparr>rq_vars := []\<rparr>) (demo_node '''' ())
      = (node_writeJSON http_created [(''hostIp'', JStr (vi_GuestIP inst)), (''sandboxId'', JStr (vi_ID inst)), (''status'', JStr (vi_State inst))],
         (demo_node '''' ())\<lparr>nd_orch := orc1\<rparr>)"
    unfolding handleCreate_def d by simp
  then show ?thesis
    unfolding to_node_def served_by_def by (simp add: node_dispatches(1) [OF p] node_writeJSON_def)
qed

lemma demo_cluster_creates:
  "\<exists>resp s1. handleCreateSandbox (demo_cluster_env ''node-uuid'') (background\<lparr>cx_project := Some demo_project\<rparr>) create_cp_rq demo_cluster
     = (resp, s1) \<and> status resp = 200"
proof -
  let ?t = "(demo_cp_node ''n1'')\<lparr>n_LastSeen := stored_time (7 * second + 5), n_CreatedAt := stored_time (7 * second + 5)\<rparr>"
  let ?req = "\<lparr>cs_Template = ''python'', cs_VCPUs = 0, cs_MemoryMB = 0, cs_Timeout = 0, cs_Metadata = [], cs_EnvVars = None\<rparr>"
  let ?b = "node_request_body (new_sandbox_id (e_uuid (demo_cluster_env ''node-uuid'') 0)) ?req"
  let ?q = "\<lparr>oq_method = ''POST'', oq_url = n_Address ?t @ ''/sandboxes'', oq_headers = [(''Content-Type'', ''application/json'')], oq_body = BJson ?b\<rparr>"
  obtain a nd' where a: "to_node (\<lambda>_. Inr JNull) ''http://1.2.3.4:9090'' idle_runtime no_client ''node-uuid'' 0 ?q (demo_node '''' ()) = (Inr a, nd')" "status a = 201"
  proof -
    have "oq_method ?q = ''POST''" "oq_url ?q = ''http://1.2.3.4:9090/sandboxes''" "oq_body ?q = BJson ?b"
      by (simp_all add: demo_cp_node_def)
    from demo_node_accepts [OF this] that show ?thesis by blast
  qed
  have l: "ListOnlineNodes (sv_db demo_cluster) = Inr [?t]"
    by (simp add: ListOnlineNodes_def db_query_def demo_cluster_facts demo_cp_node_def)
  have r: "find has_room [?t] = Some ?t" by (simp add: has_room_def demo_cp_node_def)
  have "forwardToNode (demo_cluster_env ''node-uuid'') ?t ''POST'' ''/sandboxes'' (Some ?b) demo_cluster = (None, demo_cluster\<lparr>sv_world := nd'\<rparr>)"
    using a unfolding forwardToNode_def Let_def
    by (simp add: demo_cluster_env_def demo_env_def demo_cluster_facts(4))
  then show ?thesis
    unfolding handleCreateSandbox_def create_cp_rq_decodes l
    by (simp add: r [simplified] Let_def cp_writeOK_def case_prod_unfold)
qed

lemma control_plane_delete_leaks_sandbox_witness:
  "\<exists>s1 s2. s2 = snd (handleDeleteSandbox (demo_cluster_env ''x'') (empty_request\<lparr>rq_vars := [(''id'', ''sb-11111111'')]\<rparr>) s1)
     \<and> GetSandbox ''sb-11111111'' (sv_db s2) = Inl NoRows \<and> orch_Get (nd_orch (sv_world s2)) ''sb-node-uui'' \<noteq> None"
proof -
  let ?e = "demo_cluster_env ''node-uuid''" and ?cx = "background\<lparr>cx_project := Some demo_project\<rparr>"
  obtain resp s1 where h: "handleCreateSandbox ?e ?cx create_cp_rq demo_cluster = (resp, s1)" "status resp = 200"
    using demo_cluster_creates by blast
  obtain resp' s2 where d: "handleDeleteSandbox (demo_cluster_env ''x'') (empty_request\<lparr>rq_vars := [(''id'', ''sb-11111111'')]\<rparr>) s1 = (resp', s2)"
    by (metis surj_pair)
  have ok: "db_ok (sv_db demo_cluster)" by (simp add: demo_cluster_def cp_NewServer_def keys_kept OpenDB_ok)
  have p: "cx_project ?cx = Some demo_project" by simp
  have i: "''sb-11111111'' = new_sandbox_id (e_uuid ?e 0)" by (simp add: demo_cluster_env_def demo_env_def new_sandbox_id_def)
  have f: "\<forall>t \<in> set (t_sandboxes (sv_db demo_cluster)). s_ID t \<noteq> ''sb-11111111''"
    "\<forall>n \<in> set (t_nodes (sv_db demo_cluster)). n_Address n = ''http://1.2.3.4:9090''"
    by (simp_all add: demo_cluster_facts demo_cp_node_def)
  have cl: "e_client (demo_cluster_env u) = to_node (\<lambda>_. Inr JNull) ''http://1.2.3.4:9090'' idle_runtime no_client u 0" for u
    by (simp add: demo_cluster_env_def demo_env_def)
  have n: "''sb-11111111'' \<noteq> sandbox_id ''node-uuid''" "orch_Get (nd_orch (sv_world demo_cluster)) ''sb-11111111'' = None" "plain_id ''sb-11111111''"
    by (simp_all add: sandbox_id_def demo_cluster_facts demo_node_def NewNodeServer_def NewOrch_def NewVMStore_def orch_Get_def store_Get_def
        plain_id_def plain_char_def)
  have id: "sandbox_id ''node-uuid'' = ''sb-node-uui''" by (simp add: sandbox_id_def)
  show ?thesis
    using control_plane_delete_leaks_sandbox [OF h(1) p create_cp_rq_decodes ok demo_cluster_facts(2) h(2) i f cl n d cl] d
    by (intro exI [of _ s1] exI [of _ s2]) (auto simp: id)
qed

end
