(* ===== verification/Startup_Bounds.thy ===== *)
theory Startup_Bounds
  imports Firecracker_Runtime Docker_Runtime
begin

text \<open>
  How often creating a sandbox sleeps and probes. A host with a meter (\<open>metered_host\<close>) counts what the
  loops of the code do: sleeping, the five seconds given to a process to stop, an HTTP request to the agent. The routines
  of the two backends are bounded once, for every such host; the log of a run gives two meters, the milliseconds
  slept and the number of probes. The time that the host's own calls take, commands, files and the
  probes themselves, is not metered: the code gives them no timeout, so it has no bound.
\<close>

locale metered_host =
  fixes h :: "'w host" and meter :: "'w \<Rightarrow> int" and sleep_cost :: "int \<Rightarrow> int" and probe_cost :: int and stop_cost :: int
  assumes free_calls: "meter (snd (h_sh h cmd w)) = meter w" "meter (snd (h_mkdirAll h p w)) = meter w"
      "meter (snd (h_removeAll h p w)) = meter w" "meter (snd (h_remove h p w)) = meter w"
      "meter (snd (h_create h p w)) = meter w" "meter (snd (h_copy h p q w)) = meter w"
      "meter (snd (h_start h cmd out w)) = meter w" "meter (h_kill h pid w) = meter w"
      "meter (snd (h_unix h s rq w)) = meter w"
    and paid_calls: "meter (h_sleep h ms w) = meter w + sleep_cost ms" "meter (snd (h_http h rq w)) = meter w + probe_cost"
      "meter (snd (h_term h pid w)) = meter w + stop_cost"
    and costs: "0 \<le> sleep_cost 100" "0 \<le> sleep_cost 500" "0 \<le> probe_cost" "0 \<le> stop_cost"
begin

lemma poll_meter:
  assumes "\<And>w. meter (snd (probe w)) = meter w + c" and "0 \<le> c" and "0 \<le> sleep_cost ms"
  shows "meter w \<le> meter (snd (poll n probe (h_sleep h ms) w))
    \<and> meter (snd (poll n probe (h_sleep h ms) w)) \<le> meter w + int n * (c + sleep_cost ms)"
proof (induction n arbitrary: w)
  case (Suc n)
  obtain b w1 where p: "probe w = (b, w1)" by fastforce
  then have m: "meter w1 = meter w + c" using assms(1) [of w] by simp
  have n: "0 \<le> int n * (c + sleep_cost ms)" using assms(2,3) by simp
  show ?case
  proof (cases b)
    case True
    then show ?thesis using p m n assms(2,3) by (simp add: algebra_simps)
  next
    case False
    then show ?thesis using p m assms(2,3) Suc [of "h_sleep h ms w1"] paid_calls(1) [of ms w1] by (simp add: algebra_simps)
  qed
qed simp

text \<open>A loop whose probe never succeeds runs to its end.\<close>

lemma poll_meter_exact:
  assumes "\<And>w. meter (snd (probe w)) = meter w + c" and "\<And>w. \<not> fst (probe w)"
  shows "\<not> fst (poll n probe (h_sleep h ms) w) \<and> meter (snd (poll n probe (h_sleep h ms) w)) = meter w + int n * (c + sleep_cost ms)"
proof (induction n arbitrary: w)
  case (Suc n)
  obtain b w1 where p: "probe w = (b, w1)" by fastforce
  then have "\<not> b" "meter w1 = meter w + c" using assms [of w] by simp_all
  then show ?case using p Suc [of "h_sleep h ms w1"] paid_calls(1) [of ms w1] by (simp add: algebra_simps)
qed simp

lemma run_meter: "meter (snd (run (h_sh h) cmd w)) = meter w" "meter (snd (sh_err (h_sh h) cmd w)) = meter w"
  "meter (sh_ignore (h_sh h) cmd w) = meter w"
  using free_calls(1) [of cmd w] by (simp_all add: run_def sh_err_def sh_ignore_def case_prod_unfold split: option.split)

lemmas meters = free_calls run_meter

lemma network_meter:
  "meter (snd (CreateTAP (h_sh h) s w)) = meter w" "meter (snd (SetupNAT (h_sh h) s i w)) = meter w"
  "meter (snd (DestroyTAP (h_sh h) s w)) = meter w" "meter (snd (TeardownNAT (h_sh h) s i w)) = meter w"
  by (simp_all add: CreateTAP_def SetupNAT_def DestroyTAP_def TeardownNAT_def Let_def case_prod_unfold meters split: option.split)

lemma pool_meter:
  "meter (snd (snd (Allocate (h_sh h) p w))) = meter w" "meter (snd (Release (h_sh h) s p w)) = meter w"
  by (simp_all add: Allocate_def Release_def Let_def case_prod_unfold network_meter split: option.split)

lemma vm_parts_meter:
  "meter (snd (copyRootfs h vm w)) = meter w" "meter (snd (snd (startProcess h vm s w))) = meter w"
  "meter (snd (fc_put h fc path body w)) = meter w" "meter (snd (configureVM h vm fc w)) = meter w"
  "meter (snd (StartInstance h fc w)) = meter w"
proof -
  show p: "meter (snd (fc_put h fc path body w)) = meter w" for path body w
    by (simp add: fc_put_def case_prod_unfold meters split: sum.split)
  show "meter (snd (copyRootfs h vm w)) = meter w"
    by (simp add: copyRootfs_def manualCopyRootfs_def Let_def case_prod_unfold meters split: option.split)
  show "meter (snd (snd (startProcess h vm s w))) = meter w"
    by (simp add: startProcess_def Let_def case_prod_unfold meters split: option.split sum.split)
  show "meter (snd (StartInstance h fc w)) = meter w" by (simp add: StartInstance_def p)
  show "meter (snd (configureVM h vm fc w)) = meter w"
    by (simp add: configureVM_def SetMachineConfig_def SetBootSource_def AddDrive_def AddNetworkInterface_def Let_def
        case_prod_unfold p split: option.split)
qed

lemma vm_Stop_meter: "meter w \<le> meter (snd (vm_Stop h vm w)) \<and> meter (snd (vm_Stop h vm w)) \<le> meter w + stop_cost"
  using costs(4) paid_calls(3) by (auto simp: vm_Stop_def Let_def case_prod_unfold meters split: option.split bool.split)

lemma vm_Stop_between:
  "k \<le> meter w \<Longrightarrow> k \<le> meter (snd (vm_Stop h vm w))" "meter w \<le> k \<Longrightarrow> meter (snd (vm_Stop h vm w)) \<le> k + stop_cost"
  using vm_Stop_meter [of w vm] by simp_all

lemma waits_meter:
  "meter w \<le> meter (snd (waitForSocket h s w)) \<and> meter (snd (waitForSocket h s w)) \<le> meter w + 50 * sleep_cost 100"
  "meter w \<le> meter (snd (fc_waitForAgent h u w))
     \<and> meter (snd (fc_waitForAgent h u w)) \<le> meter w + 60 * (probe_cost + sleep_cost 500)"
  "meter w \<le> meter (snd (dk_waitForAgent h u w))
     \<and> meter (snd (dk_waitForAgent h u w)) \<le> meter w + 30 * (probe_cost + sleep_cost 500)"
proof -
  have a: "meter (snd (health_probe h url w)) = meter w + probe_cost" "meter (snd (dk_probe h url w)) = meter w + probe_cost" for url w
    by (simp_all add: health_probe_def dk_probe_def case_prod_unfold paid_calls split: sum.split)
  show "meter w \<le> meter (snd (waitForSocket h s w)) \<and> meter (snd (waitForSocket h s w)) \<le> meter w + 50 * sleep_cost 100"
    using poll_meter [of "\<lambda>w. (stat_ok h s w, w)" 0 100 w 50] costs
    by (simp add: waitForSocket_def case_prod_unfold split: bool.split)
  show "meter w \<le> meter (snd (fc_waitForAgent h u w))
     \<and> meter (snd (fc_waitForAgent h u w)) \<le> meter w + 60 * (probe_cost + sleep_cost 500)"
    using poll_meter [where probe = "health_probe h (u @ ''/health'')" and c = probe_cost and n = 60 and ms = 500 and w = w, OF a(1)] costs
    by (simp add: fc_waitForAgent_def case_prod_unfold split: bool.split)
  show "meter w \<le> meter (snd (dk_waitForAgent h u w))
     \<and> meter (snd (dk_waitForAgent h u w)) \<le> meter w + 30 * (probe_cost + sleep_cost 500)"
    using poll_meter [where probe = "dk_probe h (u @ ''/health'')" and c = probe_cost and n = 30 and ms = 500 and w = w, OF a(2)] costs
    by (simp add: dk_waitForAgent_def case_prod_unfold split: bool.split)
qed


lemma deaf_waits_meter:
  assumes "\<And>q w resp. fst (h_http h q w) = Inr resp \<Longrightarrow> status resp \<noteq> 200"
  shows "fst (fc_waitForAgent h u w) \<noteq> None" "meter (snd (fc_waitForAgent h u w)) = meter w + 60 * (probe_cost + sleep_cost 500)"
    "fst (dk_waitForAgent h u w) \<noteq> None" "meter (snd (dk_waitForAgent h u w)) = meter w + 30 * (probe_cost + sleep_cost 500)"
proof -
  have a: "meter (snd (health_probe h url w)) = meter w + probe_cost" "meter (snd (dk_probe h url w)) = meter w + probe_cost"
    "\<not> fst (health_probe h url w)" "\<not> fst (dk_probe h url w)" for url w
    using assms by (auto simp: health_probe_def dk_probe_def case_prod_unfold paid_calls split: sum.split)
  show "fst (fc_waitForAgent h u w) \<noteq> None" "meter (snd (fc_waitForAgent h u w)) = meter w + 60 * (probe_cost + sleep_cost 500)"
    using poll_meter_exact [where probe = "health_probe h (u @ ''/health'')" and c = probe_cost and n = 60 and ms = 500 and w = w, OF a(1,3)]
    by (simp_all add: fc_waitForAgent_def case_prod_unfold split: bool.split)
  show "fst (dk_waitForAgent h u w) \<noteq> None" "meter (snd (dk_waitForAgent h u w)) = meter w + 30 * (probe_cost + sleep_cost 500)"
    using poll_meter_exact [where probe = "dk_probe h (u @ ''/health'')" and c = probe_cost and n = 30 and ms = 500 and w = w, OF a(2,4)]
    by (simp_all add: dk_waitForAgent_def case_prod_unfold split: bool.split)
qed

lemma vm_Start_meter:
  "meter w \<le> meter (snd (snd (vm_Start h vm w)))
   \<and> meter (snd (snd (vm_Start h vm w))) \<le> meter w + 50 * sleep_cost 100 + (if fst (vm_Start h vm w) = None then 0 else stop_cost)"
proof -
  have m: "meter w1 = meter w" if "h_mkdirAll h p w = (e, w1)" for p e w w1 using that free_calls(2) [of p w] by simp
  have c: "meter w1 = meter w" if "copyRootfs h v w = (e, w1)" for v e w w1 using that vm_parts_meter(1) [of v w] by simp
  have st: "meter w1 = meter w" if "startProcess h v s w = (e, v', w1)" for v s e v' w w1 using that vm_parts_meter(2) [of v s w] by simp
  have so: "meter w \<le> meter w1 \<and> meter w1 \<le> meter w + 50 * sleep_cost 100" if "waitForSocket h s w = (e, w1)" for s e w w1
    using that waits_meter(1) [of w s] by simp
  have cf: "meter w1 = meter w" if "configureVM h v fc w = (e, w1)" for v fc e w w1 using that vm_parts_meter(4) [of v fc w] by simp
  have si: "meter w1 = meter w" if "StartInstance h fc w = (e, w1)" for fc e w w1 using that vm_parts_meter(5) [of fc w] by simp
  show ?thesis
    unfolding vm_Start_def Let_def using costs(1,4)
    by (auto split: option.split prod.split dest!: m c st so cf si intro: vm_Stop_between)
qed

text \<open>
  Creating waits at most for the socket, the agent and, when it fails, for the process to end.
\<close>

lemma fc_Create_meter:
  "meter (snd (snd (fc_Create h dflt opts (f, w))))
    \<le> meter w + 50 * sleep_cost 100 + 60 * (probe_cost + sleep_cost 500) + stop_cost"
proof -
  have al: "meter w1 = meter w" if "Allocate (h_sh h) p w = (r, p', w1)" for p w r p' w1
    using that pool_meter(1) [of p w] by simp
  have re: "meter w1 = meter w" if "Release (h_sh h) s p w = (p', w1)" for s p w p' w1 using that pool_meter(2) [of s p w] by simp
  have vs: "meter w1 \<le> meter w + 50 * sleep_cost 100 + (if e = None then 0 else stop_cost)" if "vm_Start h v w = (e, v', w1)" for v w e v' w1
    using that vm_Start_meter [of w v] by simp
  have wa: "meter w1 \<le> meter w + 60 * (probe_cost + sleep_cost 500)" if "fc_waitForAgent h u w = (e, w1)" for u w e w1
    using that waits_meter(2) [of w u] by simp
  have sp: "meter w1 \<le> meter w + stop_cost" if "vm_Stop h v w = (v', w1)" for v v' w w1
    using that vm_Stop_meter [of w v] by simp
  show ?thesis
    unfolding fc_Create_def Let_def using costs
    by (auto split: option.split prod.split sum.split dest!: al re vs wa sp)
qed

lemma resolve_meter: "meter (snd (resolveAgentURL h n w)) = meter w"
  by (simp add: resolveAgentURL_def getHostPort_def getContainerIP_def Let_def case_prod_unfold meters split: option.split sum.split)

lemma run_container_meter:
  "meter (snd (run_container h i cmd what w)) \<le> meter w + 30 * (probe_cost + sleep_cost 500)"
proof -
  have s: "meter w1 = meter w" if "h_sh h c w = (r, w1)" for c w r w1 using that free_calls(1) [of c w] by simp
  have r: "meter w1 = meter w" if "resolveAgentURL h n w = (x, w1)" for n w x w1 using that resolve_meter [of n w] by simp
  have wa: "meter w1 \<le> meter w + 30 * (probe_cost + sleep_cost 500)" if "dk_waitForAgent h u w = (e, w1)" for u w e w1
    using that waits_meter(3) [of w u] by simp
  show ?thesis
    unfolding run_container_def Let_def using costs
    by (auto split: option.split prod.split sum.split dest!: s r wa simp: meters)
qed

end

section \<open>The meters of a log\<close>

fun waited :: "event \<Rightarrow> int" where
  "waited (Slept ms) = ms"
| "waited (Terminated pid) = 5000"
| "waited _ = 0"

fun probed :: "event \<Rightarrow> int" where
  "probed (Http q st) = 1"
| "probed _ = 0"

definition waited_ms :: "event list \<Rightarrow> int" where
  "waited_ms log = sum_list (map waited log)"

definition probes :: "event list \<Rightarrow> int" where
  "probes log = sum_list (map probed log)"

lemma case_pair_event: "(case r of (e, out) \<Rightarrow> Ran cmd (e = None)) = Ran cmd (fst r = None)"
  by (simp add: case_prod_unfold)

interpretation waiting: metered_host "logging h" "\<lambda>w. waited_ms (snd w)" "\<lambda>ms. ms" 0 5000 for h
  by unfold_locales (simp_all add: waited_ms_def logging_sel snd_noting case_pair_event)

interpretation probing: metered_host "logging h" "\<lambda>w. probes (snd w)" "\<lambda>ms. 0" 1 0 for h
  by unfold_locales (simp_all add: probes_def logging_sel snd_noting case_pair_event)

text \<open>An agent that never answers a probe with 200.\<close>

definition never_healthy :: "'w host \<Rightarrow> bool" where
  "never_healthy h \<longleftrightarrow> (\<forall>q w resp. fst (h_http h q w) = Inr resp \<longrightarrow> status resp \<noteq> 200)"

lemma never_healthy_logging: "never_healthy h \<Longrightarrow> fst (h_http (logging h) q wl) = Inr resp \<Longrightarrow> status resp \<noteq> 200"
  by (cases wl) (simp add: never_healthy_def logging_sel noting_pair)

text \<open>
  C19. What the loops of a creation may do at most: a microVM's creation sleeps, and waits for its process to
  stop, 40 seconds in all and probes the agent 60 times, a container's creation or restore sleeps
  15 seconds and probes 30 times, whatever the host and the agent answer. The loops are used up by an agent that
  answers every probe but never with 200: after exactly 60 probes and 30 seconds, or 30 and 15, waiting for it fails. These are
  bounds on the sleeps and on the number of calls, not on the time: a call that is never answered
  blocks for ever, since the code sets no timeout (firecracker.go:228, docker.go:420).
\<close>
theorem creation_waits_bounded:
  "waited_ms (snd (snd (snd (fc_Create (logging h) dflt opts (f, (w, [])))))) \<le> 40000
   \<and> probes (snd (snd (snd (fc_Create (logging h) dflt opts (f, (w, [])))))) \<le> 60
   \<and> waited_ms (snd (snd (dk_Create (logging h) d opts (w, [])))) \<le> 15000
   \<and> probes (snd (snd (dk_Create (logging h) d opts (w, [])))) \<le> 30
   \<and> waited_ms (snd (snd (dk_Restore (logging h) d snap new (w, [])))) \<le> 15000
   \<and> probes (snd (snd (dk_Restore (logging h) d snap new (w, [])))) \<le> 30
   \<and> (never_healthy h \<longrightarrow>
       fst (fc_waitForAgent (logging h) u (w, [])) \<noteq> None \<and> waited_ms (snd (snd (fc_waitForAgent (logging h) u (w, [])))) = 30000
       \<and> probes (snd (snd (fc_waitForAgent (logging h) u (w, [])))) = 60
       \<and> fst (dk_waitForAgent (logging h) u (w, [])) \<noteq> None \<and> waited_ms (snd (snd (dk_waitForAgent (logging h) u (w, [])))) = 15000
       \<and> probes (snd (snd (dk_waitForAgent (logging h) u (w, [])))) = 30)"
proof -
  have deaf: "never_healthy h \<longrightarrow>
       fst (fc_waitForAgent (logging h) u (w, [])) \<noteq> None \<and> waited_ms (snd (snd (fc_waitForAgent (logging h) u (w, [])))) = 30000
       \<and> probes (snd (snd (fc_waitForAgent (logging h) u (w, [])))) = 60
       \<and> fst (dk_waitForAgent (logging h) u (w, [])) \<noteq> None \<and> waited_ms (snd (snd (dk_waitForAgent (logging h) u (w, [])))) = 15000
       \<and> probes (snd (snd (dk_waitForAgent (logging h) u (w, [])))) = 30"
  proof
    assume "never_healthy h"
    note d = never_healthy_logging [OF this]
    note facts = waiting.deaf_waits_meter [of h u "(w, [])", OF d] probing.deaf_waits_meter [of h u "(w, [])", OF d]
    show "fst (fc_waitForAgent (logging h) u (w, [])) \<noteq> None \<and> waited_ms (snd (snd (fc_waitForAgent (logging h) u (w, [])))) = 30000
       \<and> probes (snd (snd (fc_waitForAgent (logging h) u (w, [])))) = 60
       \<and> fst (dk_waitForAgent (logging h) u (w, [])) \<noteq> None \<and> waited_ms (snd (snd (dk_waitForAgent (logging h) u (w, [])))) = 15000
       \<and> probes (snd (snd (dk_waitForAgent (logging h) u (w, [])))) = 30"
      using facts by (simp add: waited_ms_def probes_def)
  qed
  have "waited_ms (snd (snd (snd (fc_Create (logging h) dflt opts (f, (w, [])))))) \<le> 40000
   \<and> probes (snd (snd (snd (fc_Create (logging h) dflt opts (f, (w, [])))))) \<le> 60
   \<and> waited_ms (snd (snd (dk_Create (logging h) d opts (w, [])))) \<le> 15000
   \<and> probes (snd (snd (dk_Create (logging h) d opts (w, [])))) \<le> 30
   \<and> waited_ms (snd (snd (dk_Restore (logging h) d snap new (w, [])))) \<le> 15000
   \<and> probes (snd (snd (dk_Restore (logging h) d snap new (w, [])))) \<le> 30"
    using waiting.fc_Create_meter [of h dflt opts f "(w, [])"] probing.fc_Create_meter [of h dflt opts f "(w, [])"]
      waiting.run_container_meter [of h _ _ _ "(w, [])"] probing.run_container_meter [of h _ _ _ "(w, [])"]
    by (simp add: dk_Create_def dk_Restore_def waited_ms_def probes_def)
  with deaf show ?thesis by blast
qed

lemma creation_waits_bounded_witness:
  "probes (snd (snd (dk_waitForAgent (logging (good_host\<lparr>h_http := (\<lambda>q w. (Inl ''refused'', w))\<rparr>)) ''http://127.0.0.1:1'' ((), [])))) = 30"
proof -
  let ?h = "good_host\<lparr>h_http := (\<lambda>q w. (Inl ''refused'', w))\<rparr>"
  have "never_healthy ?h" by (simp add: never_healthy_def)
  with creation_waits_bounded [of ?h] show ?thesis by blast
qed

end
