(* ===== verification/Command_Line.thy ===== *)
theory Command_Line
  imports Go_Http
begin

text \<open>
  What the commands under \<open>cmd/\<close> share: the environment, the loops over flags, and what a command
  prints before it exits. An environment is a map of names to values; a name that is not set and one that is
  set to the empty string are the same to the code.
\<close>

type_synonym environ = "(string, string) gomap"

section \<open>Environment\<close>

definition envStr :: "environ \<Rightarrow> string \<Rightarrow> string \<Rightarrow> string" where
  "envStr env key dflt = (let v = get_or_empty env key in if v \<noteq> '''' then v else dflt)"

definition envInt :: "environ \<Rightarrow> string \<Rightarrow> int \<Rightarrow> int" where
  "envInt env key dflt =
     (let v = get_or_empty env key
      in if v \<noteq> '''' then (case Atoi v of (n, None) \<Rightarrow> n | (n, Some err) \<Rightarrow> dflt) else dflt)"

section \<open>Flags\<close>

text \<open>
  The loop of every command over its arguments: a known flag takes the argument after it, whatever
  that is; the last argument of all has nothing to take; any other argument is skipped. \<open>fl\<close> is the
  switch of the command: what a flag does with its value, if it is known.
\<close>

fun scan_flags :: "(string \<Rightarrow> ('c \<Rightarrow> string \<Rightarrow> 'c) option) \<Rightarrow> string list \<Rightarrow> 'c \<Rightarrow> 'c" where
  "scan_flags fl [] c = c"
| "scan_flags fl (a # as) c =
     (case fl a of
        None \<Rightarrow> scan_flags fl as c
      | Some put \<Rightarrow> (case as of [] \<Rightarrow> c | v # as' \<Rightarrow> scan_flags fl as' (put c v)))"

definition flag_args :: "(string \<times> string) list \<Rightarrow> string list" where
  "flag_args ps = concat (map (\<lambda>(f, v). [f, v]) ps)"

text \<open>The value given last to a flag.\<close>

definition last_value :: "(string \<times> string) list \<Rightarrow> string \<Rightarrow> string option" where
  "last_value ps f = map_of (rev ps) f"

definition flag_or :: "(string \<times> string) list \<Rightarrow> string \<Rightarrow> string \<Rightarrow> string" where
  "flag_or ps f dflt = (case last_value ps f of None \<Rightarrow> dflt | Some v \<Rightarrow> v)"

definition int_flag_or :: "(string \<times> string) list \<Rightarrow> string \<Rightarrow> int \<Rightarrow> int" where
  "int_flag_or ps f dflt = (case last_value ps f of None \<Rightarrow> dflt | Some v \<Rightarrow> fst (Atoi v))"

lemma scan_flags_pairs:
  assumes "\<forall>(f, v) \<in> set ps. fl f \<noteq> None"
  shows "scan_flags fl (flag_args ps) c = fold (\<lambda>(f, v) c. the (fl f) c v) ps c"
  using assms
proof (induction ps arbitrary: c)
  case (Cons p ps)
  obtain f v where p: "p = (f, v)" by (cases p)
  then obtain put where "fl f = Some put" using Cons.prems by auto
  then show ?case using Cons p by (simp add: flag_args_def)
qed (simp add: flag_args_def)

text \<open>A field that one flag alone writes ends up with that flag's last value.\<close>

lemma fold_flags_field:
  assumes "\<And>c v. get (the (fl f) c v) = conv v" and "\<And>g c v. g \<noteq> f \<Longrightarrow> g \<in> fst ` set ps \<Longrightarrow> get (the (fl g) c v) = get c"
  shows "get (fold (\<lambda>(f, v) c. the (fl f) c v) ps c) = (case last_value ps f of None \<Rightarrow> get c | Some v \<Rightarrow> conv v)"
  using assms(2)
proof (induction ps rule: rev_induct)
  case (snoc p ps)
  obtain g v where p: "p = (g, v)" by (cases p)
  have IH: "get (fold (\<lambda>(f, v) c. the (fl f) c v) ps c) = (case last_value ps f of None \<Rightarrow> get c | Some v \<Rightarrow> conv v)"
    by (rule snoc.IH) (use snoc.prems in auto)
  show ?case
  proof (cases "g = f")
    case True
    then show ?thesis using p assms(1) by (simp add: last_value_def)
  next
    case False
    then have "get (the (fl g) x v) = get x" for x using snoc.prems [of g x v] p by auto
    then show ?thesis using p False IH by (simp add: last_value_def)
  qed
qed (simp add: last_value_def)

section \<open>Output\<close>

text \<open>
  What a command writes: text to the standard output or error, a value as indented JSON, and a
  format with JSON values in place of its verbs (\<open>None\<close>: a key that the map does not have), whose
  rendering is the formatter's. A command ends with its outputs and the value it exits with; the
  status its parent sees is that value modulo 256.
\<close>

datatype printed =
    Out string
  | Err string
  | OutJson json
  | OutFmt string "json option list"

type_synonym ending = "printed list \<times> int"

definition println :: "string \<Rightarrow> printed" where
  "println s = Out (s @ [CHR 0x0A])"

definition error_line :: "string \<Rightarrow> printed" where
  "error_line err = Err (''error: '' @ err @ [CHR 0x0A])"

definition exit_status :: "int \<Rightarrow> int" where
  "exit_status code = code mod 256"

text \<open>A panic prints its message and ends the program with status 2.\<close>

definition panicked :: "string \<Rightarrow> printed list \<Rightarrow> ending" where
  "panicked msg out = (out @ [Err (''panic: '' @ msg)], 2)"

definition text_lines :: "string list \<Rightarrow> string" where
  "text_lines ls = concat (map (\<lambda>l. l @ [CHR 0x0A]) ls)"

end
