(* ===== verification/Gitvm_Command.thy ===== *)
theory Gitvm_Command
  imports Command_Line Host_Composition Docker_Runtime Template_Cache
begin

text \<open>
  The command \<open>gitvm\<close> (\<open>cmd/gitvm/main.go\<close>): it starts a REST server on Docker or an agent, lists and
  builds templates, and talks to a running server through the SDK's client. A command ends with its
  outputs and exit value, or becomes a server, whose cleanup and shutdown are the orchestrator's
  (\<open>cleanup_loop\<close>, \<open>Shutdown\<close>). Printed JSON is the decoded value, in which a
  null list and an empty one are not told apart.
\<close>

section \<open>Servers\<close>

datatype 'w gitvm_run =
    Ended ending 'w
  | ServesApi int string docker_runtime "'w orch"
  | ServesAgent int "'w agent"

record server_opts =
  so_port :: int
  so_dataDir :: string
  so_runtime :: string
  so_apiKey :: string

definition server_flag :: "string \<Rightarrow> (server_opts \<Rightarrow> string \<Rightarrow> server_opts) option" where
  "server_flag a =
     (if a = ''--port'' then Some (\<lambda>o' v. o'\<lparr>so_port := fst (Atoi v)\<rparr>)
      else if a = ''--data-dir'' then Some (\<lambda>o' v. o'\<lparr>so_dataDir := v\<rparr>)
      else if a = ''--runtime'' then Some (\<lambda>o' v. o'\<lparr>so_runtime := v\<rparr>)
      else if a = ''--api-key'' then Some (\<lambda>o' v. o'\<lparr>so_apiKey := v\<rparr>)
      else None)"

definition server_options :: "environ \<Rightarrow> string list \<Rightarrow> server_opts" where
  "server_options env flags =
     scan_flags server_flag flags
       \<lparr>so_port = 8080, so_dataDir = ''/tmp/gitvm'', so_runtime = ''docker'', so_apiKey = get_or_empty env ''GITVM_API_KEY''\<rparr>"

definition handleServer :: "environ \<Rightarrow> string list \<Rightarrow> 'w \<Rightarrow> 'w gitvm_run" where
  "handleServer env args w =
     (if args = [] \<or> hd args \<noteq> ''start''
      then Ended ([println ''Usage: gitvm server start [--port 8080] [--data-dir /tmp/gitvm]''], 1) w
      else
        let o' = server_options env (tl args)
        in ServesApi (so_port o') (so_apiKey o') (NewDocker '''' ''ubuntu:22.04'' '''')
             (NewOrch \<lparr>cf_DataDir = so_dataDir o', cf_MaxVMs = 50, cf_DefaultTimeoutSec = 300,
                       cf_FirecrackerBin = '''', cf_HostInterface = ''''\<rparr> w))"

definition agent_flag :: "string \<Rightarrow> (int \<Rightarrow> string \<Rightarrow> int) option" where
  "agent_flag a = (if a = ''--port'' then Some (\<lambda>port v. fst (Atoi v)) else None)"

definition handleAgent :: "string list \<Rightarrow> 'w \<Rightarrow> 'w gitvm_run" where
  "handleAgent args w =
     (if args = [] \<or> hd args \<noteq> ''start''
      then Ended ([println ''Usage: gitvm agent start [--port 49983]''], 1) w
      else ServesAgent (scan_flags agent_flag (tl args) 49983) (NewAgent w))"

section \<open>Templates\<close>

definition template_row :: "template_info \<Rightarrow> printed" where
  "template_row t = OutFmt (''%-20s %-10s %s'' @ [CHR 0x0A])
     [Some (JStr (ti_Name t)), Some (JStr (dec (ti_SizeMB t) @ ''MB'')), Some (JStr (ti_ModTime t))]"

definition handleTemplate :: "'w host \<Rightarrow> string \<Rightarrow> string list \<Rightarrow> 'w \<Rightarrow> ending \<times> 'w" where
  "handleTemplate h home args w =
     (case args of
        [] \<Rightarrow> (([println ''Usage: gitvm template <list|build>''], 1), w)
      | sub # rest \<Rightarrow>
          let cache = NewCache home '''' in
          if sub = ''list'' then
            (case template_List h cache w of
               Inl err \<Rightarrow> (([error_line err], 1), w)
             | Inr [] \<Rightarrow> (([println ''No templates found. Build one with: gitvm template build <name> <dir>''], 0), w)
             | Inr templates \<Rightarrow>
                 ((OutFmt (''%-20s %-10s %s'' @ [CHR 0x0A]) [Some (JStr ''NAME''), Some (JStr ''SIZE''), Some (JStr ''MODIFIED'')]
                    # map template_row templates, 0), w))
          else if sub = ''build'' then
            (case rest of
               name # dir # _ \<Rightarrow>
                 (case Build h cache name dir w of
                    (Inl msg, w1) \<Rightarrow> (panicked msg [], w1)
                  | (Inr (Some err), w1) \<Rightarrow> (([error_line err], 1), w1)
                  | (Inr None, w1) \<Rightarrow> (([], 0), w1))
             | _ \<Rightarrow> (([println ''Usage: gitvm template build <name> <dockerfile-dir>''], 1), w))
          else (([Err (''unknown template command: '' @ sub @ [CHR 0x0A])], 1), w))"

section \<open>VMs\<close>

definition envOrDefault :: "environ \<Rightarrow> string \<Rightarrow> string \<Rightarrow> string" where
  "envOrDefault env key dflt = (if get_or_empty env key \<noteq> '''' then get_or_empty env key else dflt)"

record vm_opts =
  vo_template :: string
  vo_vcpus :: int
  vo_memory :: int

definition vm_create_flag :: "string \<Rightarrow> (vm_opts \<Rightarrow> string \<Rightarrow> vm_opts) option" where
  "vm_create_flag a =
     (if a = ''--template'' then Some (\<lambda>o' v. o'\<lparr>vo_template := v\<rparr>)
      else if a = ''--vcpus'' then Some (\<lambda>o' v. o'\<lparr>vo_vcpus := fst (Atoi v)\<rparr>)
      else if a = ''--memory'' then Some (\<lambda>o' v. o'\<lparr>vo_memory := fst (Atoi v)\<rparr>)
      else None)"

definition vm_create :: "'w sdk_env \<Rightarrow> sdk_client \<Rightarrow> string list \<Rightarrow> 'w \<Rightarrow> ending \<times> 'w" where
  "vm_create e c flags w =
     (let o' = scan_flags vm_create_flag flags \<lparr>vo_template = ''base'', vo_vcpus = 1, vo_memory = 512\<rparr>
      in case sdk_CreateVM e c
                (JObj [(''memoryMB'', JInt (vo_memory o')), (''template'', JStr (vo_template o')), (''vcpus'', JInt (vo_vcpus o'))]) w of
           (Inl err, w1) \<Rightarrow> (([error_line err], 1), w1)
         | (Inr resp, w1) \<Rightarrow> (([OutJson resp], 0), w1))"

definition vm_list :: "'w sdk_env \<Rightarrow> sdk_client \<Rightarrow> 'w \<Rightarrow> ending \<times> 'w" where
  "vm_list e c w =
     (case sdk_ListVMs e c w of
        (Inl err, w1) \<Rightarrow> (([error_line err], 1), w1)
      | (Inr resp, w1) \<Rightarrow> (([OutJson (JArr resp)], 0), w1))"

definition vm_exec :: "'w sdk_env \<Rightarrow> sdk_client \<Rightarrow> string list \<Rightarrow> 'w \<Rightarrow> ending \<times> 'w" where
  "vm_exec e c rest w =
     (case rest of
        vmID # word # words \<Rightarrow>
          (case sdk_Exec e c vmID (join '' '' (word # words)) None w of
             (Inl err, w1) \<Rightarrow> (([error_line err], 1), w1)
           | (Inr result, w1) \<Rightarrow>
               (((if xr_Stdout result \<noteq> '''' then [Out (xr_Stdout result)] else [])
                 @ (if xr_Stderr result \<noteq> '''' then [Err (xr_Stderr result)] else []), xr_ExitCode result), w1))
      | _ \<Rightarrow> (([println ''Usage: gitvm vm exec <id> <command>''], 1), w))"

definition vm_stop :: "'w sdk_env \<Rightarrow> sdk_client \<Rightarrow> string list \<Rightarrow> 'w \<Rightarrow> ending \<times> 'w" where
  "vm_stop e c rest w =
     (case rest of
        [] \<Rightarrow> (([println ''Usage: gitvm vm stop <id>''], 1), w)
      | i # _ \<Rightarrow>
          (case sdk_DeleteVM e c i w of
             (Some err, w1) \<Rightarrow> (([error_line err], 1), w1)
           | (None, w1) \<Rightarrow> (([println (''VM '' @ i @ '' stopped'')], 0), w1)))"

definition handleVM :: "environ \<Rightarrow> 'w sdk_env \<Rightarrow> string list \<Rightarrow> 'w \<Rightarrow> ending \<times> 'w" where
  "handleVM env e args w =
     (case args of
        [] \<Rightarrow> (([println ''Usage: gitvm vm <create|list|exec|stop>''], 1), w)
      | sub # rest \<Rightarrow>
          let c = NewClient (envOrDefault env ''GITVM_SERVER'' ''http://localhost:8080'') (get_or_empty env ''GITVM_API_KEY'')
          in if sub = ''create'' then vm_create e c rest w
             else if sub = ''list'' then vm_list e c w
             else if sub = ''exec'' then vm_exec e c rest w
             else if sub = ''stop'' then vm_stop e c rest w
             else (([Err (''unknown vm command: '' @ sub @ [CHR 0x0A])], 1), w))"

section \<open>The command\<close>

definition gitvm_usage :: string where
  "gitvm_usage = text_lines
     [''gitvm '' @ [CHR 0xE2, CHR 0x80, CHR 0x94] @ '' Git-native Firecracker microVM platform'', '''', ''Usage:'',
      ''  gitvm server start [--port 8080] [--data-dir /tmp/gitvm]'',
      ''  gitvm agent start  [--port 49983]'',
      ''  gitvm template list'',
      ''  gitvm template build <name> <dockerfile-dir>'',
      ''  gitvm vm create [--template base] [--vcpus 1] [--memory 512]'',
      ''  gitvm vm list'',
      ''  gitvm vm exec <id> <command>'',
      ''  gitvm vm stop <id>'',
      ''  gitvm version'']"

definition gitvm_main :: "'w host \<Rightarrow> string \<Rightarrow> environ \<Rightarrow> 'w sdk_env \<Rightarrow> string list \<Rightarrow> 'w \<Rightarrow> 'w gitvm_run" where
  "gitvm_main h home env e args w =
     (case args of
        [] \<Rightarrow> Ended ([Out gitvm_usage], 1) w
      | cmd # rest \<Rightarrow>
          if cmd = ''server'' then handleServer env rest w
          else if cmd = ''agent'' then handleAgent rest w
          else if cmd = ''template'' then (case handleTemplate h home rest w of (end', w1) \<Rightarrow> Ended end' w1)
          else if cmd = ''vm'' then (case handleVM env e rest w of (end', w1) \<Rightarrow> Ended end' w1)
          else if cmd = ''version'' then Ended ([println ''gitvm v0.1.0''], 0) w
          else if cmd \<in> set [''help'', ''--help'', ''-h''] then Ended ([Out gitvm_usage], 0) w
          else Ended ([Err (''unknown command: '' @ cmd @ [CHR 0x0A]), Out gitvm_usage], 1) w)"

section \<open>A command run from the command line\<close>

text \<open>
  C12. gitvm vm exec against the REST server, whose sandbox runs the agent: the arguments joined by
  blanks are run as one command, its outputs are printed and its exit code is the command's;
  when the agent could not run it, an error is printed and the exit code is 1. The command and the
  outputs travel as JSON, which replaces every byte that is no UTF-8 by U+FFFD (\<open>valid_text\<close>); texts
  in UTF-8 arrive unchanged.
\<close>
theorem vm_exec_runs_command:
  assumes "plain_id i" and "on_agent parse agentURL g e" and "orch_Get orc i = Some inst" and "vi_AgentURL inst = agentURL"
    and "command = join '' '' (word # words)" and "command \<noteq> ''''"
    and "parse (json_text (exec_body command None)) = Inr (exec_body command None)"
    and "RunCommand g (plain_exec (valid_text command)) (defaults_Snapshot (ag_defaults (backend orc))) (ag_world (backend orc)) = (res, w1)"
    and "\<forall>r. res = Inr r \<longrightarrow> \<bar>ex_ExitCode r\<bar> < 2 ^ 53"
    and "url = envOrDefault env ''GITVM_SERVER'' ''http://localhost:8080''" and "key = get_or_empty env ''GITVM_API_KEY''"
  shows "\<exists>msg. gitvm_main h home env (on_server parse url key e) ([''vm'', ''exec'', i, word] @ words) orc
    = Ended
       (case res of
          Inl err \<Rightarrow> ([error_line msg], 1)
        | Inr r \<Rightarrow> ((if ex_Stdout r \<noteq> '''' then [Out (valid_text (ex_Stdout r))] else [])
                   @ (if ex_Stderr r \<noteq> '''' then [Err (valid_text (ex_Stderr r))] else []), ex_ExitCode r))
       (orc\<lparr>backend := (backend orc)\<lparr>ag_world := w1\<rparr>\<rparr>)
    \<and> (\<forall>t. None \<notin> set (runes t) \<longrightarrow> valid_text t = t)"
proof -
  obtain msg where "sdk_Exec (on_server parse url key e) (NewClient url key) i command None orc
    = (case res of
         Inl err \<Rightarrow> Inl msg
       | Inr r \<Rightarrow> Inr \<lparr>xr_ExitCode = through_float (ex_ExitCode r), xr_Stdout = valid_text (ex_Stdout r), xr_Stderr = valid_text (ex_Stderr r)\<rparr>,
       orc\<lparr>backend := (backend orc)\<lparr>ag_world := w1\<rparr>\<rparr>)"
    using sdk_Exec_served [where url = url and key = key, OF assms(1-4,7,6,8)] by blast
  then show ?thesis
    using assms(9) unfolding assms(5,10,11)
    by (cases res) (auto simp: gitvm_main_def handleVM_def vm_exec_def through_float_small valid_text_id)
qed

definition failing_guest :: "unit guest" where
  "failing_guest = empty_guest\<lparr>g_run := \<lambda>cmd w. (\<lparr>oc_err = Some (ExitError 3), oc_stdout = ''out'', oc_stderr = '''', oc_expired = False\<rparr>, w)\<rparr>"

definition ls_parse :: "string \<Rightarrow> string + json" where
  "ls_parse s = (if s = json_text (exec_body ''ls /'' None) then Inr (exec_body ''ls /'' None) else Inl ''EOF'')"

definition failing_orch :: "unit agent orch" where
  "failing_orch = (NewOrch DefaultOrchestratorConfig (NewAgent ()))\<lparr>store := [(''sb-1'',
     created_instance (idle_runtime :: unit runtime) DefaultOrchestratorConfig ''1'' 0 plain_request
       \<lparr>sb_ID = ''sb-1'', sb_State = ''running'', sb_Runtime = ''idle'', sb_IP = '''', sb_AgentURL = ''http://a''\<rparr>)]\<rparr>"

lemma vm_exec_runs_command_witness:
  "\<forall>h. \<exists>orc'. gitvm_main h ''/root'' [(''GITVM_API_KEY'', ''k'')]
     (on_server ls_parse ''http://localhost:8080'' ''k'' (demo_api (served_by ls_parse ''http://a'' (agent_Handler failing_guest))))
     [''vm'', ''exec'', ''sb-1'', ''ls'', ''/''] failing_orch = Ended ([Out ''out''], 3) orc'"
proof
  fix h :: "unit agent orch host"
  let ?e = "demo_api (served_by ls_parse ''http://a'' (agent_Handler failing_guest))"
  let ?r = "\<lparr>ex_ExitCode = 3, ex_Stdout = ''out'', ex_Stderr = ''''\<rparr>"
  let ?env = "[(''GITVM_API_KEY'', ''k'')]"
  have o: "plain_id ''sb-1''" "on_agent ls_parse ''http://a'' failing_guest ?e"
    by (simp_all add: plain_id_def plain_char_def on_agent_def demo_api_def)
  obtain inst where i: "orch_Get failing_orch ''sb-1'' = Some inst" "vi_AgentURL inst = ''http://a''"
    by (simp add: failing_orch_def orch_Get_def store_Get_def created_instance_def)
  have v: "valid_text ''ls /'' = ''ls /''" "valid_text ''out'' = ''out''" by (rule valid_text_ascii; simp)+
  have r: "RunCommand failing_guest (plain_exec (valid_text ''ls /'')) (defaults_Snapshot (ag_defaults (backend failing_orch)))
      (ag_world (backend failing_orch)) = (Inr ?r, ())"
    by (simp add: RunCommand_def shell_command_def failing_orch_def NewOrch_def NewAgent_def defaults_Snapshot_def failing_guest_def plain_exec_def v Let_def)
  have p: "ls_parse (json_text (exec_body ''ls /'' None)) = Inr (exec_body ''ls /'' None)" unfolding ls_parse_def by (rule if_P) (rule refl)
  have u: "''http://localhost:8080'' = envOrDefault ?env ''GITVM_SERVER'' ''http://localhost:8080''" "''k'' = get_or_empty ?env ''GITVM_API_KEY''"
    by (simp_all add: envOrDefault_def get_or_empty_def)
  have c: "''ls /'' = join '' '' [''ls'', ''/'']" "''ls /'' \<noteq> ''''" by simp_all
  have s: "\<forall>r. (Inr ?r :: string + exec_result) = Inr r \<longrightarrow> \<bar>ex_ExitCode r\<bar> < 2 ^ 53" by simp
  from vm_exec_runs_command [OF o i c p r s u, of h "''/root''"]
  show "\<exists>orc'. gitvm_main h ''/root'' ?env (on_server ls_parse ''http://localhost:8080'' ''k'' ?e)
     [''vm'', ''exec'', ''sb-1'', ''ls'', ''/''] failing_orch = Ended ([Out ''out''], 3) orc'" by (auto simp: v)
qed

end
