(* ===== verification/Node_Command.thy ===== *)
theory Node_Command
  imports Command_Line Node_Server Docker_Runtime Firecracker_Runtime ControlPlane_Cloud "HOL-Library.Sublist"
begin

text \<open>
  The command \<open>gitvm-node\<close> (\<open>cmd/gitvm-node/main.go\<close>): the node's server and its backend are made from the
  environment alone. The error of creating the data directory is ignored; \<open>hostname\<close> is
  \<open>os.Hostname()\<close> and \<open>home\<close> \<open>os.UserHomeDir()\<close>.
\<close>

datatype 'w node_run =
    NodeEnded ending 'w
  | DockerNode docker_runtime "'w node"
  | FirecrackerNode "'w fc node"

definition hostname :: "string + string \<Rightarrow> string" where
  "hostname h = (case h of Inl err \<Rightarrow> ''gitvm-node'' | Inr name \<Rightarrow> name)"

definition node_settings :: "environ \<Rightarrow> string + string \<Rightarrow> node_config" where
  "node_settings env host =
     \<lparr>nc_Port = envInt env ''GITVM_NODE_PORT'' 9090,
      nc_ControlPlaneURL = envStr env ''GITVM_CONTROL_PLANE'' '''',
      nc_NodeKey = envStr env ''GITVM_NODE_KEY'' '''',
      nc_Name = envStr env ''GITVM_NODE_NAME'' (hostname host),
      nc_DataDir = envStr env ''GITVM_DATA_DIR'' ''/tmp/gitvm'',
      nc_FirecrackerBin = envStr env ''GITVM_FIRECRACKER_BIN'' ''firecracker'',
      nc_HostInterface = envStr env ''GITVM_HOST_INTERFACE'' ''eth0'',
      nc_MaxSandboxes = envInt env ''GITVM_MAX_SANDBOXES'' 50\<rparr>"

definition node_orch_config :: "node_config \<Rightarrow> orch_config" where
  "node_orch_config c =
     \<lparr>cf_DataDir = nc_DataDir c, cf_MaxVMs = nc_MaxSandboxes c, cf_DefaultTimeoutSec = 300,
      cf_FirecrackerBin = nc_FirecrackerBin c, cf_HostInterface = nc_HostInterface c\<rparr>"

definition node_main :: "'w host \<Rightarrow> string \<Rightarrow> string + string \<Rightarrow> environ \<Rightarrow> 'w \<Rightarrow> 'w node_run" where
  "node_main h home host env w =
     (let c = node_settings env host;
          runtimeType = envStr env ''GITVM_RUNTIME'' ''docker'';
          dockerImage = envStr env ''GITVM_DOCKER_IMAGE'' ''ubuntu:22.04'';
          agentBinary = envStr env ''GITVM_AGENT_BINARY'' '''';
          (_, w1) = h_mkdirAll h (nc_DataDir c) w
      in if runtimeType = ''docker''
         then DockerNode (NewDocker agentBinary dockerImage '''') (NewNodeServer c (NewOrch (node_orch_config c) w1))
         else if runtimeType = ''firecracker''
         then FirecrackerNode
                (NewNodeServer c (NewOrch (node_orch_config c)
                   (NewFirecracker \<lparr>fcc_DataDir = nc_DataDir c, fcc_FirecrackerBin = nc_FirecrackerBin c,
                       fcc_HostInterface = nc_HostInterface c, fcc_MaxVMs = nc_MaxSandboxes c\<rparr> (NewCache home ''''), w1)))
         else NodeEnded ([Err (''unknown runtime: '' @ runtimeType @ '' (use 'docker' or 'firecracker')'' @ [CHR 0x0A])], 1) w1)"

section \<open>A node started by its script\<close>

text \<open>
  The last words of the start script (\<open>NodeUserData\<close>): the environment it adds and the arguments it
  passes. The shell joins the continued lines and splits them into words at blanks.
\<close>

definition script_tail :: "string \<Rightarrow> string \<Rightarrow> string \<Rightarrow> string \<Rightarrow> string" where
  "script_tail cpURL key name runtime = script_lines
     [continued (''GITVM_RUNTIME='' @ runtime @ '' exec $GOPATH/bin/gitvm-node''), continued (''  --control-plane '' @ cpURL),
      continued (''  --node-key '' @ key), ''  --name '' @ name]"

lemma script_suffix: "suffix ys xs \<Longrightarrow> suffix (script_lines ys) (script_lines xs)"
  by (auto simp: suffix_def script_lines_def)

lemma script_ends_with_tail:
  "suffix (script_tail cpURL key name (if runtime = '''' then ''firecracker'' else runtime)) (NodeUserData cpURL key name runtime)"
  unfolding NodeUserData_def Let_def script_tail_def
  by (rule script_suffix) (simp only: suffix_Cons simp_thms suffix_order.refl)

lemma unconnected_node:
  assumes "nc_ControlPlaneURL c = ''''"
  shows "heartbeatLoop cl n (node_Start cl (NewNodeServer c orc)) = NewNodeServer c orc"
proof -
  have "heartbeatLoop cl n (NewNodeServer c orc) = NewNodeServer c orc"
    by (induction n) (simp_all add: sendHeartbeat_def NewNodeServer_def)
  then show ?thesis using assms by (simp add: node_Start_def) (simp add: NewNodeServer_def)
qed

text \<open>
  C38. A node bought from a cloud never joins the cluster: the script that the control plane gives it
  passes the control plane's address and key as arguments, and gitvm-node reads its environment only.
  So it starts its server on either backend, but does not register and sends no heartbeat, however long
  it runs.
\<close>
theorem scripted_node_never_joins:
  assumes "env = gm_put ''GITVM_RUNTIME'' runtime base" and "get_or_empty base ''GITVM_CONTROL_PLANE'' = ''''"
    and "runtime \<in> set [''docker'', ''firecracker'']"
  shows "suffix (script_tail cpURL key name runtime) (NodeUserData cpURL key name runtime)
    \<and> (case node_main h home host env w of
         NodeEnded ending w1 \<Rightarrow> False
       | DockerNode d nd \<Rightarrow> runtime = ''docker'' \<and> heartbeatLoop cl n (node_Start cl nd) = nd
       | FirecrackerNode nd \<Rightarrow> runtime = ''firecracker'' \<and> heartbeatLoop cl' n (node_Start cl' nd) = nd)"
proof -
  have u: "nc_ControlPlaneURL (node_settings env host) = ''''"
    using assms(2) by (simp add: node_settings_def envStr_def get_or_empty_def assms(1) gm_get_put)
  have r: "envStr env ''GITVM_RUNTIME'' ''docker'' = runtime"
    using assms(3) by (auto simp: envStr_def get_or_empty_def assms(1) gm_get_put)
  note n = unconnected_node [OF u]
  have "suffix (script_tail cpURL key name runtime) (NodeUserData cpURL key name runtime)"
    using script_ends_with_tail [of cpURL key name runtime] assms(3) by (auto split: if_splits)
  moreover have "case node_main h home host env w of
         NodeEnded ending w1 \<Rightarrow> False
       | DockerNode d nd \<Rightarrow> runtime = ''docker'' \<and> heartbeatLoop cl n (node_Start cl nd) = nd
       | FirecrackerNode nd \<Rightarrow> runtime = ''firecracker'' \<and> heartbeatLoop cl' n (node_Start cl' nd) = nd"
    using assms(3) unfolding node_main_def Let_def r by (auto simp: n case_prod_unfold)
  ultimately show ?thesis ..
qed

lemma scripted_node_never_joins_witness:
  "\<exists>nd. node_main good_host ''/root'' (Inr ''vm-1'') [(''HOME'', ''/root''), (''GITVM_RUNTIME'', ''docker'')] ()
       = DockerNode (NewDocker '''' ''ubuntu:22.04'' '''') nd
     \<and> heartbeatLoop no_client 100 (node_Start no_client nd) = nd \<and> nc_Name (nd_config nd) = ''vm-1''"
proof -
  have e: "[(''HOME'', ''/root''), (''GITVM_RUNTIME'', ''docker'')] = gm_put ''GITVM_RUNTIME'' ''docker'' [(''HOME'', ''/root'')]" by simp
  have b: "get_or_empty [(''HOME'', ''/root'')] ''GITVM_CONTROL_PLANE'' = ''''" by (simp add: get_or_empty_def)
  have d: "''docker'' \<in> set [''docker'', ''firecracker'']" by simp
  obtain nd where m: "node_main good_host ''/root'' (Inr ''vm-1'') [(''HOME'', ''/root''), (''GITVM_RUNTIME'', ''docker'')] ()
       = DockerNode (NewDocker '''' ''ubuntu:22.04'' '''') nd" and nm: "nc_Name (nd_config nd) = ''vm-1''"
    by (simp add: node_main_def node_settings_def envStr_def get_or_empty_def hostname_def good_host_sel NewNodeServer_def Let_def)
  from scripted_node_never_joins [OF e b d, where h = good_host and home = "''/root''" and host = "Inr ''vm-1''" and w = "()"
      and cl = no_client and n = 100]
  have "heartbeatLoop no_client 100 (node_Start no_client nd) = nd" unfolding m by simp
  with m nm show ?thesis by blast
qed

end
