(* ===== verification/Gitvmd_Command.thy ===== *)
theory Gitvmd_Command
  imports Command_Line ControlPlane_Scaler Sdk_Machine
begin

text \<open>
  The command \<open>gitvmd\<close> (\<open>cmd/gitvmd/main.go\<close>): it starts the control plane from the environment and
  flags, and asks a running one about its nodes. The client of the other commands, the error of building a
  request for a URL and the JSON parser are the record \<open>sdk_env\<close> of the SDK's model.
\<close>

section \<open>Starting the control plane\<close>

record start_opts =
  st_port :: int
  st_nodeKey :: string
  st_dataDir :: string

definition start_flag :: "string \<Rightarrow> (start_opts \<Rightarrow> string \<Rightarrow> start_opts) option" where
  "start_flag a =
     (if a = ''--port'' then Some (\<lambda>o' v. o'\<lparr>st_port := fst (Atoi v)\<rparr>)
      else if a = ''--node-key'' then Some (\<lambda>o' v. o'\<lparr>st_nodeKey := v\<rparr>)
      else if a = ''--data-dir'' then Some (\<lambda>o' v. o'\<lparr>st_dataDir := v\<rparr>)
      else None)"

definition start_defaults :: "environ \<Rightarrow> string \<Rightarrow> start_opts" where
  "start_defaults env home =
     \<lparr>st_port = envInt env ''GITVMD_PORT'' 7070, st_nodeKey = envStr env ''GITVMD_NODE_KEY'' ''change-me-in-production'',
      st_dataDir = envStr env ''GITVMD_DATA_DIR'' (home @ ''/.gitvmd'')\<rparr>"

definition start_config :: "environ \<Rightarrow> string \<Rightarrow> string list \<Rightarrow> server_config" where
  "start_config env home args =
     (let o' = scan_flags start_flag args (start_defaults env home)
      in \<lparr>sc_Port = st_port o', sc_DataDir = st_dataDir o',
          sc_DBPath = envStr env ''GITVMD_DB_PATH'' (st_dataDir o' @ ''/gitvmd.db''),
          sc_NodeKey = st_nodeKey o',
          sc_CPURL = envStr env ''GITVMD_URL'' (''http://localhost:'' @ dec (st_port o'))\<rparr>)"

text \<open>The providers whose variables are set; the state of the AWS provider is part of the world.\<close>

definition aws_of :: "environ \<Rightarrow> aws_provider" where
  "aws_of env =
     \<lparr>aws_AccessKeyID = get_or_empty env ''AWS_ACCESS_KEY_ID'', aws_SecretAccessKey = get_or_empty env ''AWS_SECRET_ACCESS_KEY'',
      aws_DefaultRegion = envStr env ''AWS_DEFAULT_REGION'' ''us-east-1'', aws_SecurityGroupID = get_or_empty env ''AWS_SECURITY_GROUP_ID'',
      aws_SubnetID = get_or_empty env ''AWS_SUBNET_ID'', aws_KeyName = get_or_empty env ''AWS_KEY_NAME'',
      aws_AMI = get_or_empty env ''AWS_AMI'', aws_once = None\<rparr>"

definition gcp_of :: "environ \<Rightarrow> gcp_provider" where
  "gcp_of env =
     \<lparr>gcp_ProjectID = get_or_empty env ''GCP_PROJECT_ID'', gcp_Zone = envStr env ''GCP_ZONE'' ''us-central1-a'',
      gcp_Network = get_or_empty env ''GCP_NETWORK'', gcp_Subnet = get_or_empty env ''GCP_SUBNET'',
      gcp_MachineImage = envStr env ''GCP_IMAGE'' ''projects/ubuntu-os-cloud/global/images/family/ubuntu-2204-lts''\<rparr>"

definition azure_of :: "environ \<Rightarrow> azure_provider" where
  "azure_of env =
     \<lparr>az_SubscriptionID = get_or_empty env ''AZURE_SUBSCRIPTION_ID'', az_ResourceGroup = get_or_empty env ''AZURE_RESOURCE_GROUP'',
      az_Location = envStr env ''AZURE_LOCATION'' ''eastus'',
      az_Image = envStr env ''AZURE_IMAGE'' ''Canonical:0001-com-ubuntu-server-jammy:22_04-lts:latest'',
      az_VNet = get_or_empty env ''AZURE_VNET'', az_Subnet = get_or_empty env ''AZURE_SUBNET''\<rparr>"

definition beside_aws :: "'w cli \<Rightarrow> (aws_provider \<times> 'w) cli" where
  "beside_aws cli env cmd = (\<lambda>(p, w). case cli env cmd w of (r, w') \<Rightarrow> (r, (p, w')))"

definition registerProviders ::
  "'w cli \<Rightarrow> (string \<Rightarrow> string + json) \<Rightarrow> environ \<Rightarrow> (aws_provider \<times> 'w) cpserver \<Rightarrow> (aws_provider \<times> 'w) cpserver" where
  "registerProviders cli parse env s =
     (let s1 = (if get_or_empty env ''AWS_ACCESS_KEY_ID'' \<noteq> ''''
                then RegisterProvider (aws cli parse) (s\<lparr>sv_world := (aws_of env, snd (sv_world s))\<rparr>) else s);
          s2 = (if get_or_empty env ''GCP_PROJECT_ID'' \<noteq> ''''
                then RegisterProvider (gcp (beside_aws cli) parse (gcp_of env)) s1 else s1)
      in if get_or_empty env ''AZURE_RESOURCE_GROUP'' \<noteq> ''''
         then RegisterProvider (azure (beside_aws cli) parse (azure_of env)) s2 else s2)"

text \<open>\<open>open_db\<close> is the database driver; the error of creating the directory is ignored.\<close>

definition handleStart ::
  "(string \<Rightarrow> 'w \<Rightarrow> string option \<times> 'w) \<Rightarrow> (string \<Rightarrow> 'w \<Rightarrow> (string + db) \<times> 'w) \<Rightarrow> 'w cli \<Rightarrow> (string \<Rightarrow> string + json)
   \<Rightarrow> environ \<Rightarrow> string \<Rightarrow> string list \<Rightarrow> 'w \<Rightarrow> (ending \<times> 'w) + (aws_provider \<times> 'w) cpserver" where
  "handleStart mkdirAll open_db cli parse env home args w =
     (let cfg = start_config env home args; (_, w1) = mkdirAll (sc_DataDir cfg) w
      in case open_db (sc_DBPath cfg) w1 of
           (Inl err, w2) \<Rightarrow> Inl (([], 1), w2)
         | (Inr d, w2) \<Rightarrow> Inr (registerProviders cli parse env (cp_NewServer cfg d (aws_of env, w2))))"

section \<open>Asking a running control plane\<close>

definition cpURL :: "environ \<Rightarrow> string" where
  "cpURL env =
     (let url = envStr env ''GITVMD_URL'' ''''
      in if url \<noteq> '''' then url else ''http://localhost:'' @ envStr env ''GITVMD_PORT'' ''7070'')"

definition nodeKey :: "environ \<Rightarrow> string" where
  "nodeKey env = envStr env ''GITVMD_NODE_KEY'' ''change-me-in-production''"

text \<open>A request that cannot be built is nil, and setting its header panics.\<close>

datatype 'a answer = Panic string | Failed string | Answer 'a

definition nil_panic :: string where
  "nil_panic = ''runtime error: invalid memory address or nil pointer dereference''"

definition server_error :: "response \<Rightarrow> string" where
  "server_error resp = ''server returned '' @ dec (int (status resp)) @ '': '' @ trim_space (body_text (rbody resp))"

definition apiGet :: "environ \<Rightarrow> 'w sdk_env \<Rightarrow> string \<Rightarrow> 'w \<Rightarrow> json answer \<times> 'w" where
  "apiGet env e path w =
     (let url = cpURL env @ path
      in if sd_new_request e url \<noteq> None then (Panic nil_panic, w)
         else
           let (res, w1) = sd_http e \<lparr>oq_method = ''GET'', oq_url = url, oq_headers = [(''X-Node-Key'', nodeKey env)], oq_body = BEmpty\<rparr> w
           in (case res of
                 Inl err \<Rightarrow> Failed (''cannot reach control plane: '' @ err)
               | Inr resp \<Rightarrow>
                   if status resp \<ge> 400 then Failed (server_error resp)
                   else Answer (case decode_body e (rbody resp) of Inl err \<Rightarrow> JNull | Inr j \<Rightarrow> j), w1))"

definition apiPost :: "environ \<Rightarrow> 'w sdk_env \<Rightarrow> string \<Rightarrow> json \<Rightarrow> 'w \<Rightarrow> json answer \<times> 'w" where
  "apiPost env e path body w =
     (let url = cpURL env @ path
      in if sd_new_request e url \<noteq> None then (Panic nil_panic, w)
         else
           let (res, w1) = sd_http e \<lparr>oq_method = ''POST'', oq_url = url,
                 oq_headers = [(''Content-Type'', ''application/json''), (''X-Node-Key'', nodeKey env)], oq_body = BJson body\<rparr> w
           in (case res of
                 Inl err \<Rightarrow> Failed (''cannot reach control plane: '' @ err)
               | Inr resp \<Rightarrow>
                   if status resp \<ge> 400 then Failed (server_error resp)
                   else Answer (case dec_object (decode_body e (rbody resp)) of Inl err \<Rightarrow> JNull | Inr j \<Rightarrow> j), w1))"

section \<open>Nodes\<close>

record provision_flags =
  pf_provider :: string
  pf_runtime :: string
  pf_instanceType :: string
  pf_region :: string
  pf_name :: string

definition provision_flag :: "string \<Rightarrow> (provision_flags \<Rightarrow> string \<Rightarrow> provision_flags) option" where
  "provision_flag a =
     (if a \<in> set [''--provider'', ''-p''] then Some (\<lambda>o' v. o'\<lparr>pf_provider := v\<rparr>)
      else if a \<in> set [''--runtime'', ''-r''] then Some (\<lambda>o' v. o'\<lparr>pf_runtime := v\<rparr>)
      else if a \<in> set [''--instance-type'', ''-t''] then Some (\<lambda>o' v. o'\<lparr>pf_instanceType := v\<rparr>)
      else if a = ''--region'' then Some (\<lambda>o' v. o'\<lparr>pf_region := v\<rparr>)
      else if a = ''--name'' then Some (\<lambda>o' v. o'\<lparr>pf_name := v\<rparr>)
      else None)"

text \<open>The encoder sorts the keys of a map.\<close>

definition provision_body :: "provision_flags \<Rightarrow> json" where
  "provision_body o' = JObj
     ((if pf_instanceType o' \<noteq> '''' then [(''instanceType'', JStr (pf_instanceType o'))] else [])
      @ (if pf_name o' \<noteq> '''' then [(''name'', JStr (pf_name o'))] else [])
      @ [(''provider'', JStr (pf_provider o'))]
      @ (if pf_region o' \<noteq> '''' then [(''region'', JStr (pf_region o'))] else [])
      @ [(''runtime'', JStr (pf_runtime o'))])"

definition out_fmt :: "string \<Rightarrow> json option list \<Rightarrow> printed" where
  "out_fmt f vs = OutFmt (f @ [CHR 0x0A]) vs"

definition handleNodeProvision :: "environ \<Rightarrow> 'w sdk_env \<Rightarrow> string list \<Rightarrow> 'w \<Rightarrow> ending \<times> 'w" where
  "handleNodeProvision env e args w =
     (let o' = scan_flags provision_flag args
                 \<lparr>pf_provider = ''aws'', pf_runtime = ''docker'', pf_instanceType = '''', pf_region = '''', pf_name = ''''\<rparr>;
          intro = println (''Provisioning '' @ pf_instanceType o' @ '' node on '' @ pf_provider o' @ '' (runtime: '' @ pf_runtime o' @ '')...'')
            # (if pf_instanceType o' = '''' then [println ''  (using default instance type for runtime)''] else [])
      in case apiPost env e ''/v1/nodes/provision'' (provision_body o') w of
           (Panic msg, w1) \<Rightarrow> (panicked msg intro, w1)
         | (Failed err, w1) \<Rightarrow> ((intro @ [error_line err], 1), w1)
         | (Answer resp, w1) \<Rightarrow>
             ((intro
               @ [println '''',
                  out_fmt ''  Node:     %s'' [jfield ''name'' resp],
                  out_fmt ''  ID:       %s'' [jfield ''nodeId'' resp],
                  out_fmt ''  IP:       %s'' [jfield ''publicIp'' resp],
                  out_fmt ''  Provider: %s (%s)'' [jfield ''providerId'' resp, jfield ''instanceType'' resp],
                  out_fmt ''  Region:   %s'' [jfield ''region'' resp],
                  out_fmt ''  Status:   %s'' [jfield ''status'' resp],
                  println '''',
                  println ''Node is booting. It will register with the control plane in 2-5 minutes.'',
                  println ''Check status: gitvmd node list''], 0), w1))"

text \<open>
  A row of the table, or the panic of a failed type assertion, before which nothing of the table has been
  written: the tab writer keeps its lines until it is flushed.
\<close>

definition count_field :: "string \<Rightarrow> json \<Rightarrow> string + int" where
  "count_field k j =
     (case jfield k j of None \<Rightarrow> Inr 0 | Some (JInt i) \<Rightarrow> Inr (through_float i) | Some _ \<Rightarrow> Inl ''interface conversion'')"

definition tabbed :: "string list \<Rightarrow> string" where
  "tabbed cells = join [CHR 0x09] cells"

definition node_row :: "json \<Rightarrow> string + printed" where
  "node_row j =
     (if (case j of JObj fs \<Rightarrow> False | _ \<Rightarrow> True) then Inl ''interface conversion''
      else
        bind_res (count_field ''runningSandboxes'' j) (\<lambda>running.
        bind_res (count_field ''maxSandboxes'' j) (\<lambda>mx.
          Inr (out_fmt (tabbed [''%s'', ''%s'', ''%s'', ''%s'', ''%s'', ''%d/%d'', ''%s''])
            [jfield ''name'' j, jfield ''status'' j, jfield ''publicIp'' j, jfield ''provider'' j, jfield ''instanceType'' j,
             Some (JInt running), Some (JInt mx), jfield ''region'' j]))))"

definition node_header :: printed where
  "node_header = println (tabbed [''NAME'', ''STATUS'', ''IP'', ''PROVIDER'', ''INSTANCE'', ''SANDBOXES'', ''REGION''])"

definition handleNodeList :: "environ \<Rightarrow> 'w sdk_env \<Rightarrow> 'w \<Rightarrow> ending \<times> 'w" where
  "handleNodeList env e w =
     (case apiGet env e ''/v1/nodes'' w of
        (Panic msg, w1) \<Rightarrow> (panicked msg [], w1)
      | (Failed err, w1) \<Rightarrow> (([error_line err], 1), w1)
      | (Answer resp, w1) \<Rightarrow>
          (case resp of
             JArr (n # nodes) \<Rightarrow>
               (case traverse node_row (n # nodes) of
                  Inl msg \<Rightarrow> (panicked msg [], w1)
                | Inr rows \<Rightarrow> ((node_header # rows, 0), w1))
           | _ \<Rightarrow> (([println ''No nodes registered.''], 0), w1)))"

definition handleNodeTerminate :: "string \<Rightarrow> ending" where
  "handleNodeTerminate nodeID =
     ([println (''Terminating node '' @ nodeID @ ''...''),
       println ''Not yet implemented via CLI. Terminate via cloud console or:'',
       println (''  aws ec2 terminate-instances --instance-ids '' @ nodeID)], 0)"

definition ctl_handleNode :: "environ \<Rightarrow> 'w sdk_env \<Rightarrow> string list \<Rightarrow> 'w \<Rightarrow> ending \<times> 'w" where
  "ctl_handleNode env e args w =
     (case args of
        [] \<Rightarrow> (([println ''Usage: gitvmd node <provision|list|terminate>''], 1), w)
      | sub # rest \<Rightarrow>
          if sub = ''provision'' then handleNodeProvision env e rest w
          else if sub \<in> set [''list'', ''ls''] then handleNodeList env e w
          else if sub \<in> set [''terminate'', ''rm'', ''delete''] then
            (case rest of
               [] \<Rightarrow> (([println ''Usage: gitvmd node terminate <node-id>''], 1), w)
             | i # _ \<Rightarrow> (handleNodeTerminate i, w))
          else (([Err (''unknown node command: '' @ sub @ [CHR 0x0A])], 1), w))"

section \<open>Sandboxes and status\<close>

definition handleVMList :: "environ \<Rightarrow> 'w sdk_env \<Rightarrow> 'w \<Rightarrow> ending \<times> 'w" where
  "handleVMList env e w =
     (case apiGet env e ''/health'' w of
        (Panic msg, w1) \<Rightarrow> (panicked msg [], w1)
      | (Failed err, w1) \<Rightarrow> (([error_line err], 1), w1)
      | (Answer (JObj fs), w1) \<Rightarrow>
          (([out_fmt ''Nodes: %v   Sandboxes: %v'' [jfield ''nodes'' (JObj fs), jfield ''vms'' (JObj fs)]], 0), w1)
      | (Answer j, w1) \<Rightarrow> (panicked ''interface conversion'' [], w1))"

definition ctl_handleVM :: "environ \<Rightarrow> 'w sdk_env \<Rightarrow> string list \<Rightarrow> 'w \<Rightarrow> ending \<times> 'w" where
  "ctl_handleVM env e args w =
     (case args of
        [] \<Rightarrow> (([println ''Usage: gitvmd vm <list>''], 1), w)
      | sub # rest \<Rightarrow>
          if sub \<in> set [''list'', ''ls''] then handleVMList env e w
          else (([Err (''unknown vm command: '' @ sub @ [CHR 0x0A])], 1), w))"

text \<open>\<open>http.Get\<close> sends no key; the status of the answer is not looked at.\<close>

definition handleStatus :: "environ \<Rightarrow> 'w sdk_env \<Rightarrow> 'w \<Rightarrow> ending \<times> 'w" where
  "handleStatus env e w =
     (let serverURL = cpURL env; url = serverURL @ ''/health'';
          (res, w1) = (case sd_new_request e url of
             Some err \<Rightarrow> (Inl err, w)
           | None \<Rightarrow> sd_http e \<lparr>oq_method = ''GET'', oq_url = url, oq_headers = [], oq_body = BEmpty\<rparr> w)
      in case res of
           Inl err \<Rightarrow> (([Err (''Cannot reach control plane at '' @ serverURL @ '': '' @ err @ [CHR 0x0A]),
                         println ''Is gitvmd running? Start with: gitvmd start''], 1), w1)
         | Inr resp \<Rightarrow>
             let health = (case dec_object (decode_body e (rbody resp)) of Inl err \<Rightarrow> JNull | Inr j \<Rightarrow> j);
                 ((out, code), w2) = handleNodeList env e w1
             in (([println (''Control Plane: '' @ serverURL),
                   out_fmt ''Status:        %s'' [jfield ''status'' health],
                   out_fmt ''Nodes:         %v'' [jfield ''nodes'' health],
                   out_fmt ''Sandboxes:     %v'' [jfield ''vms'' health],
                   println ''''] @ out, code), w2))"

section \<open>The command\<close>

definition gitvmd_usage :: string where
  "gitvmd_usage = text_lines
     [''gitvmd '' @ [CHR 0xE2, CHR 0x80, CHR 0x94] @ '' gitvm control plane'', '''', ''Usage:'',
      ''  gitvmd start    [--port 7070] [--node-key KEY]    Start the control plane server'',
      ''  gitvmd status                                      Show cluster status'',
      ''  gitvmd node     provision [--provider aws] [--runtime docker] [--instance-type t3.medium]'',
      ''  gitvmd node     list                               List all nodes'',
      ''  gitvmd node     terminate <node-id-or-provider-id> Terminate a node'',
      ''  gitvmd vm       list                               List all sandboxes'',
      ''  gitvmd version                                     Show version'', '''',
      ''Environment variables:'',
      ''  AWS_ACCESS_KEY_ID, AWS_SECRET_ACCESS_KEY           AWS credentials'',
      ''  GCP_PROJECT_ID, GCP_ZONE                           GCP credentials'',
      ''  AZURE_RESOURCE_GROUP, AZURE_SUBSCRIPTION_ID        Azure credentials'',
      ''  GITVMD_PORT, GITVMD_NODE_KEY, GITVMD_DATA_DIR      Server config'']"

text \<open>Every command but \<open>start\<close>, which becomes the server (\<open>handleStart\<close>).\<close>

definition gitvmd_main :: "environ \<Rightarrow> 'w sdk_env \<Rightarrow> (string list \<Rightarrow> 'w \<Rightarrow> 'x) \<Rightarrow> string list \<Rightarrow> 'w \<Rightarrow> (ending \<times> 'w) + 'x" where
  "gitvmd_main env e start args w =
     (case args of
        [] \<Rightarrow> Inl (([Out gitvmd_usage], 1), w)
      | cmd # rest \<Rightarrow>
          if cmd = ''start'' then Inr (start rest w)
          else if cmd = ''node'' then Inl (ctl_handleNode env e rest w)
          else if cmd = ''vm'' then Inl (ctl_handleVM env e rest w)
          else if cmd = ''status'' then Inl (handleStatus env e w)
          else if cmd = ''version'' then Inl (([println ''gitvmd v0.1.0''], 0), w)
          else if cmd \<in> set [''help'', ''--help'', ''-h''] then Inl (([Out gitvmd_usage], 0), w)
          else Inl (([Err (''unknown command: '' @ cmd @ [CHR 0x0A]), Out gitvmd_usage], 1), w))"

section \<open>Flags and environment\<close>

definition start_flag_names :: "string set" where
  "start_flag_names = {''--port'', ''--node-key'', ''--data-dir''}"

lemma start_options:
  assumes "\<forall>(f, v) \<in> set ps. f \<in> start_flag_names"
  shows "scan_flags start_flag (flag_args ps) o' =
    \<lparr>st_port = int_flag_or ps ''--port'' (st_port o'), st_nodeKey = flag_or ps ''--node-key'' (st_nodeKey o'),
     st_dataDir = flag_or ps ''--data-dir'' (st_dataDir o')\<rparr>"
proof -
  have k: "g \<in> fst ` set ps \<Longrightarrow> g \<in> start_flag_names" for g using assms by auto
  have known: "\<forall>(f, v) \<in> set ps. start_flag f \<noteq> None"
    using assms by (auto simp: start_flag_names_def start_flag_def)
  let ?o = "fold (\<lambda>(f, v) c. the (start_flag f) c v) ps o'"
  have "st_port ?o = (case last_value ps ''--port'' of None \<Rightarrow> st_port o' | Some v \<Rightarrow> fst (Atoi v))"
    by (rule fold_flags_field) (auto simp: start_flag_def start_flag_names_def dest!: k)
  moreover have "st_nodeKey ?o = (case last_value ps ''--node-key'' of None \<Rightarrow> st_nodeKey o' | Some v \<Rightarrow> v)"
    by (rule fold_flags_field [where conv = "\<lambda>v. v"]) (auto simp: start_flag_def start_flag_names_def dest!: k)
  moreover have "st_dataDir ?o = (case last_value ps ''--data-dir'' of None \<Rightarrow> st_dataDir o' | Some v \<Rightarrow> v)"
    by (rule fold_flags_field [where conv = "\<lambda>v. v"]) (auto simp: start_flag_def start_flag_names_def dest!: k)
  ultimately have "?o = \<lparr>st_port = int_flag_or ps ''--port'' (st_port o'), st_nodeKey = flag_or ps ''--node-key'' (st_nodeKey o'),
     st_dataDir = flag_or ps ''--data-dir'' (st_dataDir o')\<rparr>"
    by (simp add: int_flag_or_def flag_or_def)
  then show ?thesis by (simp only: scan_flags_pairs [OF known])
qed

text \<open>
  C32. The loop over the flags of gitvmd start computes what its usage promises: the last value
  of a flag counts, then the environment, then the default; the database and the advertised address
  follow the chosen directory and port unless they have variables of their own.
\<close>
theorem start_flag_precedence:
  assumes "\<forall>(f, v) \<in> set ps. f \<in> start_flag_names"
    and "port = int_flag_or ps ''--port'' (envInt env ''GITVMD_PORT'' 7070)"
    and "dir = flag_or ps ''--data-dir'' (envStr env ''GITVMD_DATA_DIR'' (home @ ''/.gitvmd''))"
  shows "start_config env home (flag_args ps) =
    \<lparr>sc_Port = port, sc_DataDir = dir, sc_DBPath = envStr env ''GITVMD_DB_PATH'' (dir @ ''/gitvmd.db''),
     sc_NodeKey = flag_or ps ''--node-key'' (envStr env ''GITVMD_NODE_KEY'' ''change-me-in-production''),
     sc_CPURL = envStr env ''GITVMD_URL'' (''http://localhost:'' @ dec port)\<rparr>"
  using assms(2,3) by (simp add: start_config_def start_options [OF assms(1)] start_defaults_def Let_def)

lemma start_flag_precedence_witness:
  "start_config [(''GITVMD_PORT'', ''70x''), (''GITVMD_NODE_KEY'', ''k1'')] ''/root'' [''--port'', ''1'', ''--port'', ''7071'']
   = \<lparr>sc_Port = 7071, sc_DataDir = ''/root/.gitvmd'', sc_DBPath = ''/root/.gitvmd/gitvmd.db'', sc_NodeKey = ''k1'',
      sc_CPURL = ''http://localhost:7071''\<rparr>"
proof -
  let ?ps = "[(''--port'', ''1''), (''--port'', ''7071'')]" and ?env = "[(''GITVMD_PORT'', ''70x''), (''GITVMD_NODE_KEY'', ''k1'')]"
  have f: "\<forall>(f, v) \<in> set ?ps. f \<in> start_flag_names" by (simp add: start_flag_names_def)
  have t: "dec 7071 = ''7071''" by (simp add: dec_def dec_nat.simps digit_def char_of_def bit_0)
  have a: "Atoi ''7071'' = (7071, None)" using Atoi_dec [of 7071] t by simp
  have p: "7071 = int_flag_or ?ps ''--port'' (envInt ?env ''GITVMD_PORT'' 7070)"
    using a by (simp add: int_flag_or_def last_value_def)
  have d: "''/root/.gitvmd'' = flag_or ?ps ''--data-dir'' (envStr ?env ''GITVMD_DATA_DIR'' (''/root'' @ ''/.gitvmd''))"
    by (simp add: flag_or_def last_value_def envStr_def get_or_empty_def)
  have n: "flag_or ?ps ''--node-key'' (envStr ?env ''GITVMD_NODE_KEY'' ''change-me-in-production'') = ''k1''"
    by (simp add: flag_or_def last_value_def envStr_def get_or_empty_def)
  from start_flag_precedence [OF f p d] show ?thesis unfolding n t
    by (simp add: flag_args_def envStr_def get_or_empty_def)
qed

section \<open>The commands against the control plane\<close>

text \<open>The port, as text, that a URL of this machine names before its path.\<close>

definition localhost_port :: "string \<Rightarrow> string option" where
  "localhost_port url =
     (if has_prefix url ''http://localhost:''
      then Some (takeWhile (\<lambda>c. c \<noteq> CHR ''/'') (drop (length ''http://localhost:'') url)) else None)"

text \<open>
  This machine, with one control plane that listens on the port of its settings and nothing else: a
  request to another port, or to another machine, is refused. No request can be built for a
  URL whose port is not made of digits (\<open>url.Parse\<close>). \<open>err\<close> is the error of a refused connection.
\<close>

definition on_this_machine :: "(string \<Rightarrow> string + json) \<Rightarrow> string \<Rightarrow> 'w cp_env \<Rightarrow> 'w cpserver sdk_env" where
  "on_this_machine parse err ce =
     \<lparr>sd_http = (\<lambda>q s.
        case localhost_port (oq_url q) of
          None \<Rightarrow> (Inl err, s)
        | Some t \<Rightarrow> if Atoi t = (sc_Port (sv_config s), None) then served_by parse (''http://localhost:'' @ t) (cp_Handler ce) q s
                     else (Inl err, s)),
      sd_new_request = (\<lambda>url. case localhost_port url of
          None \<Rightarrow> None
        | Some t \<Rightarrow> if list_all is_digit t then None else Some ''invalid port after host''),
      sd_parse = parse\<rparr>"

text \<open>The row that the table shows for a node.\<close>

definition shown_node :: "cp_node \<Rightarrow> printed" where
  "shown_node n = out_fmt (tabbed [''%s'', ''%s'', ''%s'', ''%s'', ''%s'', ''%d/%d'', ''%s''])
     (map Some [JStr (n_Name n), JStr (n_Status n), JStr (n_PublicIP n), JStr (n_Provider n), JStr (n_InstanceType n),
        JInt (through_float (n_Running n)), JInt (through_float (n_MaxSandboxes n)), JStr (n_Region n)])"

lemma traverse_node_rows: "traverse node_row (map node_json nodes) = Inr (map shown_node nodes)"
  by (induction nodes) (simp_all add: node_row_def node_json_def count_field_def jfield_def shown_node_def)

definition nodes_request :: "environ \<Rightarrow> out_request" where
  "nodes_request env = \<lparr>oq_method = ''GET'', oq_url = cpURL env @ ''/v1/nodes'', oq_headers = [(''X-Node-Key'', nodeKey env)], oq_body = BEmpty\<rparr>"

lemma nodes_served:
  assumes "ListNodes (sv_db s) = Inr nodes"
  shows "cp_Handler ce (served parse (cpURL env) (nodes_request env)) s
    = (preset_headers cors_headers (if nodeKey env = sc_NodeKey (sv_config s) then cp_writeOK (JArr (map node_json nodes))
         else unauthorized ''authentication required''), s)"
proof -
  let ?rq = "served parse (cpURL env) (nodes_request env)"
  have "split_url (cpURL env) (cpURL env @ ''/v1/nodes'') = (''/v1/nodes'', '''')" by (rule split_url_plain) (simp add: plain_char_def)
  then have p: "rq_path ?rq = ''/v1/nodes''" "rq_method ?rq = ''GET''" "rq_cookie ?rq = []" "rq_header ?rq = [(''X-Node-Key'', nodeKey env)]"
    by (simp_all add: served_def nodes_request_def)
  have n: "nodeKey env \<noteq> ''''" by (simp add: nodeKey_def envStr_def Let_def)
  have d: "serve_mux (cp_routes ce cx) ?rq s = (cp_writeOK (JArr (map node_json nodes)), s)" for cx
    using p(1,2) assms by (simp add: serve_mux_def cp_route_search path_segments_def handleListNodes_def)
  have pub: "\<not> isPublicPath ''/v1/nodes''" "\<not> has_prefix ''/v1/nodes'' ''/internal/''"
    by (simp_all add: isPublicPath_def has_prefix_def)
  have h: "get_or_empty (rq_header ?rq) ''X-Node-Key'' = nodeKey env" "get_or_empty (rq_header ?rq) ''X-API-Key'' = ''''"
    by (simp_all add: p(4) get_or_empty_def)
  have u: "session_user ?rq s = None" by (simp add: session_user_def p(3))
  have "AuthMiddleware (\<lambda>cx. serve_mux (cp_routes ce cx)) ?rq s
    = (if nodeKey env = sc_NodeKey (sv_config s) then cp_writeOK (JArr (map node_json nodes))
       else unauthorized ''authentication required'', s)"
    unfolding AuthMiddleware_def Let_def h p(1) using pub n d u by simp
  then show ?thesis by (simp add: cp_Handler_def corsMiddleware_def p(2))
qed

text \<open>A port text without the characters that would end or change the host of the URL.\<close>

definition plain_port :: "string \<Rightarrow> bool" where
  "plain_port t \<longleftrightarrow> t \<noteq> '''' \<and> list_all (\<lambda>c. c \<notin> set ''/?#@[]:%'') t"

text \<open>A key that a header carries unchanged: visible ASCII characters.\<close>

definition header_text :: "string \<Rightarrow> bool" where
  "header_text s \<longleftrightarrow> list_all (\<lambda>c. 32 < (of_char c :: nat) \<and> (of_char c :: nat) < 127) s"

lemma localhost_port_url: "plain_port t \<Longrightarrow> localhost_port (''http://localhost:'' @ t @ ''/v1/nodes'') = Some t"
proof -
  assume "plain_port t"
  then have "\<forall>c \<in> set t. c \<noteq> CHR ''/''" by (auto simp: plain_port_def list_all_iff)
  then have "takeWhile (\<lambda>c. c \<noteq> CHR ''/'') (t @ ''/v1/nodes'') = t" by (simp add: takeWhile_append2)
  then show ?thesis by (simp add: localhost_port_def has_prefix_def)
qed

text \<open>
  C31. gitvmd node list against the control plane that gitvmd start made and that listens on this
  machine, on a port that can be listened on. Start takes its port and key from its flags, then the
  environment; the other commands read the environment only.
  With no GITVMD_URL: a GITVMD_PORT that is not made of digits crashes the list before it asks;
  otherwise it reaches the server exactly when the port of the environment is the number the server
  listens on, is answered with 401 exactly when the server's key is not the environment's, and then shows
  every node of the database, one row each. The server's state does not change. So a port or a key given
  to start by flag alone locks the other commands out.
\<close>
theorem node_list_shows_cluster:
  assumes "sv_config s = start_config env home (flag_args ps)" and "\<forall>(f, v) \<in> set ps. f \<in> start_flag_names"
    and "ListNodes (sv_db s) = Inr nodes" and "get_or_empty env ''GITVMD_URL'' = ''''"
    and "port = envStr env ''GITVMD_PORT'' ''7070''" and "plain_port port" and "header_text (nodeKey env)"
    and "0 < sc_Port (sv_config s)" and "sc_Port (sv_config s) < 65536"
  shows "\<exists>msg. handleNodeList env (on_this_machine parse err ce) s =
    (if \<not> list_all is_digit port then panicked nil_panic []
     else if Atoi port \<noteq> (int_flag_or ps ''--port'' (envInt env ''GITVMD_PORT'' 7070), None)
     then ([error_line (''cannot reach control plane: '' @ err)], 1)
     else if flag_or ps ''--node-key'' (nodeKey env) \<noteq> nodeKey env then ([error_line (''server returned 401: '' @ msg)], 1)
     else if nodes = [] then ([println ''No nodes registered.''], 0)
     else (node_header # map shown_node nodes, 0), s)"
proof -
  let ?key = "flag_or ps ''--node-key'' (nodeKey env)" and ?m = "on_this_machine parse err ce"
  have k: "sc_NodeKey (sv_config s) = ?key" and p: "sc_Port (sv_config s) = int_flag_or ps ''--port'' (envInt env ''GITVMD_PORT'' 7070)"
    by (simp_all add: assms(1) start_config_def start_options [OF assms(2)] start_defaults_def Let_def nodeKey_def)
  have u: "cpURL env = ''http://localhost:'' @ port" using assms(4,5) by (simp add: cpURL_def envStr_def Let_def)
  have l: "localhost_port (cpURL env @ ''/v1/nodes'') = Some port" using localhost_port_url [OF assms(6)] by (simp add: u)
  have t: "dec 401 = ''401''" by (simp add: dec_def dec_nat.simps digit_def char_of_def bit_0)
  have e: "server_error (unauthorized m) = ''server returned 401: '' @ trim_space (body_text (rbody (unauthorized m)))" for m
    by (simp add: server_error_def unauthorized_def cp_writeErr_def t)
  consider (crash) "\<not> list_all is_digit port"
    | (refused) "list_all is_digit port" "Atoi port \<noteq> (sc_Port (sv_config s), None)"
    | (reached) "list_all is_digit port" "Atoi port = (sc_Port (sv_config s), None)"
    by blast
  then show ?thesis
  proof cases
    case crash
    then have "apiGet env ?m ''/v1/nodes'' s = (Panic nil_panic, s)"
      using l by (simp add: apiGet_def on_this_machine_def Let_def)
    with crash show ?thesis by (simp add: handleNodeList_def)
  next
    case refused
    then have "apiGet env ?m ''/v1/nodes'' s = (Failed (''cannot reach control plane: '' @ err), s)"
      using l by (simp add: apiGet_def on_this_machine_def Let_def)
    with refused show ?thesis by (simp add: handleNodeList_def p)
  next
    case reached
    note h = nodes_served [OF assms(3), of ce parse env, unfolded nodes_request_def k]
    have g: "apiGet env ?m ''/v1/nodes'' s
      = (if nodeKey env = ?key then Answer (JArr (map node_json nodes))
         else Failed (server_error (unauthorized ''authentication required'')), s)"
      using l reached h [unfolded u]
      by (simp add: apiGet_def on_this_machine_def served_by_def Let_def u preset_headers_def cp_writeOK_def unauthorized_def
          cp_writeErr_def json_response_def decode_body_def server_error_def)
    show ?thesis
    proof (cases "?key = nodeKey env")
      case True
      with reached p show ?thesis
        unfolding handleNodeList_def g using traverse_node_rows [of nodes] by (cases nodes) simp_all
    next
      case False
      with reached p show ?thesis unfolding handleNodeList_def g e by auto
    qed
  qed
qed

lemma node_list_shows_cluster_witness:
  "\<forall>ce. \<exists>s :: unit cpserver. fst (handleNodeList [] (on_this_machine Inl ''refused'' ce) s) =
     ([node_header, shown_node ((demo_cp_node ''n1'')\<lparr>n_LastSeen := stored_time (7 * second + 5), n_CreatedAt := stored_time (7 * second + 5)\<rparr>)], 0)"
proof
  fix ce :: "unit cp_env"
  let ?s = "one_node_server\<lparr>sv_config := start_config [] ''/root'' (flag_args [])\<rparr>"
  have f: "\<forall>(f, v) \<in> set ([] :: (string \<times> string) list). f \<in> start_flag_names" by simp
  have c: "sv_config ?s = start_config [] ''/root'' (flag_args [])" by simp
  have n: "ListNodes (sv_db ?s) = Inr [(demo_cp_node ''n1'')\<lparr>n_LastSeen := stored_time (7 * second + 5), n_CreatedAt := stored_time (7 * second + 5)\<rparr>]"
    by (simp add: ListNodes_def db_query_def one_node_nodes)
  have u: "get_or_empty ([] :: environ) ''GITVMD_URL'' = ''''" by (simp add: get_or_empty_def)
  have t: "''7070'' = envStr [] ''GITVMD_PORT'' ''7070''" by (simp add: envStr_def get_or_empty_def)
  have pp: "plain_port ''7070''" by (simp add: plain_port_def)
  have hk: "header_text (nodeKey [])" by (simp add: header_text_def nodeKey_def envStr_def get_or_empty_def)
  have lp: "0 < sc_Port (sv_config ?s)" "sc_Port (sv_config ?s) < 65536"
    by (simp_all add: start_config_def start_defaults_def flag_args_def envInt_def get_or_empty_def Let_def)
  have dec: "dec 7070 = ''7070''" by (simp add: dec_def dec_nat.simps digit_def char_of_def bit_0)
  have a: "Atoi ''7070'' = (7070, None)" using Atoi_dec [of 7070] dec by simp
  have "fst (handleNodeList [] (on_this_machine Inl ''refused'' ce) ?s) =
     ([node_header, shown_node ((demo_cp_node ''n1'')\<lparr>n_LastSeen := stored_time (7 * second + 5), n_CreatedAt := stored_time (7 * second + 5)\<rparr>)], 0)"
    using node_list_shows_cluster [OF c f n u t pp hk lp, of Inl "''refused''" ce] a
    by (auto simp: flag_or_def int_flag_or_def last_value_def envInt_def get_or_empty_def is_digit_def)
  then show "\<exists>s :: unit cpserver. fst (handleNodeList [] (on_this_machine Inl ''refused'' ce) s) =
     ([node_header, shown_node ((demo_cp_node ''n1'')\<lparr>n_LastSeen := stored_time (7 * second + 5), n_CreatedAt := stored_time (7 * second + 5)\<rparr>)], 0)" by blast
qed

end
