(* ===== verification/ControlPlane_Run.thy ===== *)
theory ControlPlane_Run
  imports ControlPlane_Scaler
begin

text \<open>
  Every run of the control plane: requests, ticks of the scaler and a world that changes, in any order, as a
  step relation, and what holds in every state it reaches: the values its tables and sessions
  may hold (\<open>cp_typed\<close>), and, by the locale \<open>request_invariant\<close>, that no run ever has a pool (\<open>fleet\<close>).
\<close>

section \<open>Steps\<close>

text \<open>
  A request is served with the identifiers, tokens and the time of an environment of its own; the
  world may change between two steps, and the database may stop answering and answer again.
\<close>

inductive cp_step :: "'w cpserver \<Rightarrow> 'w cpserver \<Rightarrow> bool" where
  serve: "cp_step s (snd (cp_Handler e rq s))"
| tick: "cp_step s (evaluate e s)"
| outage: "cp_step s (s\<lparr>sv_db := (sv_db s)\<lparr>down := x\<rparr>\<rparr>)"
| world: "cp_step s (s\<lparr>sv_world := w\<rparr>)"

inductive_simps cp_step_iff: "cp_step s t"

abbreviation cp_reachable :: "server_config \<Rightarrow> 'w registry \<Rightarrow> 'w \<Rightarrow> 'w cpserver \<Rightarrow> bool" where
  "cp_reachable cfg providers w s \<equiv> cp_step\<^sup>*\<^sup>* ((cp_NewServer cfg OpenDB w)\<lparr>sv_providers := providers\<rparr>) s"

section \<open>Well-typed states\<close>

definition node_statuses :: "string set" where
  "node_statuses = {''provisioning'', ''online'', ''draining'', ''offline'', ''terminating''}"

definition sandbox_statuses :: "string set" where
  "sandbox_statuses = {''running'', ''paused''}"

definition sandbox_typed :: "cp_sandbox \<Rightarrow> bool" where
  "sandbox_typed t \<longleftrightarrow> s_Status t \<in> sandbox_statuses \<and> 0 < s_VCPUs t \<and> 0 < s_MemoryMB t \<and> 0 < s_TimeoutSec t"

definition db_typed :: "db \<Rightarrow> bool" where
  "db_typed d \<longleftrightarrow> db_ok d \<and> (\<forall>n \<in> set (t_nodes d). n_Status n \<in> node_statuses)
     \<and> (\<forall>t \<in> set (t_sandboxes d). sandbox_typed t \<and> s_ProjectID t \<in> p_ID ` set (t_projects d))
     \<and> (\<forall>p \<in> set (t_projects d). p_OwnerID p \<in> u_ID ` set (t_users d) \<and> has_prefix (p_APIKey p) ''gvm_'')
     \<and> (\<forall>u \<in> set (t_users d). u_Email u \<noteq> '''')"

definition cp_typed :: "'w cpserver \<Rightarrow> bool" where
  "cp_typed s \<longleftrightarrow> db_typed (sv_db s) \<and> gm_wf (sv_sessions s)
     \<and> (\<forall>(token, i) \<in> set (sv_sessions s). i \<in> u_ID ` set (t_users (sv_db s)))"

named_theorems typed \<open>operations keep the tables and sessions well typed\<close>

lemma db_exec_typed: "db_typed d \<Longrightarrow> (down d = None \<Longrightarrow> db_typed (snd r)) \<Longrightarrow> db_typed (snd (db_exec d r))"
  by (cases rule: db_exec_cases [of d r]) auto

lemma typed_ok: "db_typed d \<Longrightarrow> db_ok d"
  by (simp add: db_typed_def)

lemma node_status_typed [typed]:
  "db_typed d \<Longrightarrow> n_Status n \<in> node_statuses \<Longrightarrow> db_typed (snd (UpsertNode n d))"
  "db_typed d \<Longrightarrow> st \<in> node_statuses \<Longrightarrow> db_typed (snd (UpdateNodeStatus i st d))"
  "db_typed d \<Longrightarrow> db_typed (snd (UpdateNodeHeartbeat i r now d))"
  "db_typed d \<Longrightarrow> db_typed (snd (DeleteNode i d))"
proof -
  assume d: "db_typed d"
  have on: "''online'' \<in> node_statuses" by (simp add: node_statuses_def)
  show "n_Status n \<in> node_statuses \<Longrightarrow> db_typed (snd (UpsertNode n d))"
    using d node_statements_ok(1) [OF typed_ok [OF d], of n] unfolding UpsertNode_def
    by (cases "down d") (auto simp: db_typed_def db_exec_def split: if_splits)
  show "st \<in> node_statuses \<Longrightarrow> db_typed (snd (UpdateNodeStatus i st d))"
    using d node_statements_ok(2) [OF typed_ok [OF d], of i st] unfolding UpdateNodeStatus_def
    by (cases "down d") (auto simp: db_typed_def db_exec_def)
  show "db_typed (snd (UpdateNodeHeartbeat i r now d))"
    using d on node_statements_ok(3) [OF typed_ok [OF d], of i r now] unfolding UpdateNodeHeartbeat_def
    by (cases "down d") (auto simp: db_typed_def db_exec_def)
  show "db_typed (snd (DeleteNode i d))"
    using d node_statements_ok(4) [OF typed_ok [OF d], of i] unfolding DeleteNode_def
    by (cases "down d") (auto simp: db_typed_def db_exec_def)
qed

lemma sandbox_typed_statements [typed]:
  "db_typed d \<Longrightarrow> sandbox_typed t \<Longrightarrow> s_ProjectID t \<in> p_ID ` set (t_projects d) \<Longrightarrow> db_typed (snd (CreateSandbox t d))"
  "db_typed d \<Longrightarrow> st \<in> sandbox_statuses \<Longrightarrow> db_typed (snd (UpdateSandboxStatus i st d))"
  "db_typed d \<Longrightarrow> db_typed (snd (db_DeleteSandbox i d))"
proof -
  assume d: "db_typed d"
  show "sandbox_typed t \<Longrightarrow> s_ProjectID t \<in> p_ID ` set (t_projects d) \<Longrightarrow> db_typed (snd (CreateSandbox t d))"
    using d sandbox_statements_ok(1) [OF typed_ok [OF d], of t] unfolding CreateSandbox_def
    by (cases "down d") (auto simp: db_typed_def db_exec_def sandbox_typed_def)
  show "st \<in> sandbox_statuses \<Longrightarrow> db_typed (snd (UpdateSandboxStatus i st d))"
    using d sandbox_statements_ok(2) [OF typed_ok [OF d], of i st] unfolding UpdateSandboxStatus_def
    by (cases "down d") (auto simp: db_typed_def db_exec_def sandbox_typed_def)
  show "db_typed (snd (db_DeleteSandbox i d))"
    using d sandbox_statements_ok(3) [OF typed_ok [OF d], of i] unfolding db_DeleteSandbox_def
    by (cases "down d") (auto simp: db_typed_def db_exec_def)
qed

lemma pool_typed [typed]: "db_typed d \<Longrightarrow> db_typed (snd (UpsertCloudPool p d))"
  using UpsertCloudPool_ok [of d p] unfolding UpsertCloudPool_def
  by (cases "down d") (auto simp: db_typed_def db_exec_def)

text \<open>Only a registration adds users and projects; none is ever removed.\<close>

lemma tables_kept [simp]:
  "t_users (snd (UpsertNode n d)) = t_users d" "t_users (snd (UpdateNodeStatus i st d)) = t_users d"
  "t_users (snd (UpdateNodeHeartbeat i r now d)) = t_users d" "t_users (snd (DeleteNode i d)) = t_users d"
  "t_users (snd (CreateSandbox t d)) = t_users d" "t_users (snd (UpdateSandboxStatus i st d)) = t_users d"
  "t_users (snd (db_DeleteSandbox i d)) = t_users d" "t_users (snd (UpsertCloudPool p d)) = t_users d"
  "t_projects (snd (CreateSandbox t d)) = t_projects d"
  by (auto simp: UpsertNode_def UpdateNodeStatus_def UpdateNodeHeartbeat_def DeleteNode_def CreateSandbox_def UpdateSandboxStatus_def
      db_DeleteSandbox_def UpsertCloudPool_def db_exec_def split: option.split)


lemma typed_iff [simp]:
  "cp_typed (s\<lparr>sv_world := w\<rparr>) = cp_typed s" "cp_typed (s\<lparr>sv_providers := ps\<rparr>) = cp_typed s"
  by (simp_all add: cp_typed_def)

lemma typed_outage [simp]: "cp_typed (s\<lparr>sv_db := (sv_db s)\<lparr>down := x\<rparr>\<rparr>) = cp_typed s"
  by (simp add: cp_typed_def db_typed_def db_ok_def)

lemma typed_db: "cp_typed s \<Longrightarrow> db_typed (sv_db s)"
  by (simp add: cp_typed_def)

lemma typed_db_update [intro]:
  "cp_typed s \<Longrightarrow> db_typed d \<Longrightarrow> t_users d = t_users (sv_db s) \<Longrightarrow> cp_typed (s\<lparr>sv_db := d\<rparr>)"
  by (simp add: cp_typed_def)

lemma typed_statuses [simp]:
  "''provisioning'' \<in> node_statuses" "''online'' \<in> node_statuses" "''draining'' \<in> node_statuses"
  "''offline'' \<in> node_statuses" "''terminating'' \<in> node_statuses" "''running'' \<in> sandbox_statuses" "''paused'' \<in> sandbox_statuses"
  by (simp_all add: node_statuses_def sandbox_statuses_def)

section \<open>Registration, login and logout\<close>

lemma CreateUser_typed:
  "db_typed d \<Longrightarrow> email \<noteq> '''' \<Longrightarrow> db_typed (snd (CreateUser i email hash now d))"
  using CreateUser_ok [of d i email hash now] unfolding CreateUser_def
  by (cases "down d") (auto simp: db_typed_def db_exec_def split: if_splits)

lemma CreateUser_grows: "u_ID ` set (t_users d) \<subseteq> u_ID ` set (t_users (snd (CreateUser i email hash now d)))"
  by (cases "down d") (auto simp: CreateUser_def db_exec_def)

lemma CreateProject_typed:
  assumes "db_typed d" and "own \<in> u_ID ` set (t_users d)"
  shows "db_typed (snd (CreateProject (generateAPIKey k) i name own now d))"
proof -
  have "has_prefix (generateAPIKey k) ''gvm_''" by (simp add: generateAPIKey_def has_prefix_def)
  then show ?thesis
    using assms CreateProject_ok [OF typed_ok [OF assms(1)], of "generateAPIKey k" i name own now]
    unfolding CreateProject_def
    by (cases "down d") (auto simp: db_typed_def db_exec_def Let_def)
qed

lemma session_typed:
  assumes "gm_wf ss" and "\<forall>(token, i) \<in> set ss. i \<in> U" and "u \<in> U"
  shows "gm_wf (session_Create t u ss)" "\<forall>(token, i) \<in> set (session_Create t u ss). i \<in> U"
  using assms set_gm_put [of t u ss] by (auto simp: session_Create_def)

lemma Register_typed: "cp_typed s \<Longrightarrow> cp_typed (snd (handleRegister e rq s))"
proof -
  assume s: "cp_typed s"
  have "cp_typed (snd (handleRegister e rq s))"
    if d: "decode_credentials rq = Inr (email, pw)" and em: "email \<noteq> ''''" and "pw \<noteq> ''''"
      and g: "GetUserByEmail email (sv_db s) = Inl err" for email pw err
  proof -
    obtain x d1 where c: "CreateUser (e_uuid e 0) email (hashPassword e pw) (e_now e) (sv_db s) = (x, d1)" by (metis surj_pair)
    have d1: "db_typed d1" "u_ID ` set (t_users (sv_db s)) \<subseteq> u_ID ` set (t_users d1)"
      using CreateUser_typed [OF typed_db [OF s] em] CreateUser_grows [of "sv_db s"] c by (metis snd_conv)+
    show ?thesis
    proof (cases x)
      case (Some m)
      then have "d1 = sv_db s"
        using c by (auto simp: CreateUser_def db_exec_def split: option.splits if_splits)
      then show ?thesis using s d em that(3) g c Some by (simp add: handleRegister_def Let_def)
    next
      case None
      then have u: "e_uuid e 0 \<in> u_ID ` set (t_users d1)" using CreateUser_None(4) [of "e_uuid e 0"] c by simp
      let ?d2 = "snd (CreateProject (generateAPIKey (e_key e)) (e_uuid e 1) ''Default'' (e_uuid e 0) (e_now e) d1)"
      have d2: "db_typed ?d2" "t_users ?d2 = t_users d1"
        using CreateProject_typed [OF d1(1) u] CreateProject_users by blast+
      have ss: "\<forall>(token, i) \<in> set (sv_sessions s). i \<in> u_ID ` set (t_users d1)" "gm_wf (sv_sessions s)"
        using s d1(2) by (auto simp: cp_typed_def)
      have "snd (handleRegister e rq s) = s\<lparr>sv_db := ?d2, sv_sessions := session_Create (e_token e) (e_uuid e 0) (sv_sessions s)\<rparr>"
        using d em that(3) g c None by (simp add: handleRegister_def Let_def case_prod_unfold)
      then show ?thesis using d2 session_typed [OF ss(2,1) u] by (simp add: cp_typed_def)
    qed
  qed
  then show ?thesis using s
    by (cases "decode_credentials rq"; cases "GetUserByEmail (fst (projr (decode_credentials rq))) (sv_db s)")
      (auto simp: handleRegister_def)
qed

lemma Login_typed: "cp_typed s \<Longrightarrow> cp_typed (snd (handleLogin e rq s))"
proof -
  assume s: "cp_typed s"
  have "cp_typed (s\<lparr>sv_sessions := session_Create (e_token e) (u_ID u) (sv_sessions s)\<rparr>)"
    if "GetUserByEmail email (sv_db s) = Inr u" for email u
  proof -
    have "u \<in> set (t_users (sv_db s))"
      using that found [of "\<lambda>u. u_Email u = email" "t_users (sv_db s)" u] by (simp add: GetUserByEmail_def db_row_Inr)
    then have "u_ID u \<in> u_ID ` set (t_users (sv_db s))" by simp
    with s show ?thesis using session_typed [of "sv_sessions s" "u_ID ` set (t_users (sv_db s))" "u_ID u" "e_token e"]
      by (simp add: cp_typed_def)
  qed
  then show ?thesis using s by (auto simp: handleLogin_def split: sum.split db_error.split)
qed

lemma Logout_typed: "cp_typed s \<Longrightarrow> cp_typed (snd (handleLogout rq s))"
proof -
  assume s: "cp_typed s"
  have "cp_typed (s\<lparr>sv_sessions := session_Delete t (sv_sessions s)\<rparr>)" for t
    using s set_gm_del [of t "sv_sessions s"] by (auto simp: cp_typed_def session_Delete_def)
  with s show ?thesis by (simp add: handleLogout_def Let_def split: option.split)
qed


section \<open>The other handlers\<close>

lemma heartbeat_typed [intro]: "cp_typed s \<Longrightarrow> cp_typed (s\<lparr>sv_db := snd (UpdateNodeHeartbeat i r now (sv_db s))\<rparr>)"
  by (intro typed_db_update typed typed_db) simp_all

lemma sandbox_row_typed: "sandbox_typed (sandbox_row e sid project t req)" "s_ProjectID (sandbox_row e sid project t req) = p_ID project"
  by (simp_all add: sandbox_typed_def sandbox_row_def Let_def)

lemma forwardToNode_typed: "cp_typed (snd (forwardToNode e n m p b s)) = cp_typed s"
  by (simp add: cp_typed_def forwardToNode_db)

lemma Create_typed:
  assumes "cp_typed s" and "\<forall>p. cx_project cx = Some p \<longrightarrow> p \<in> set (t_projects (sv_db s))"
  shows "cp_typed (snd (handleCreateSandbox e cx rq s))"
proof -
  have fwd: "cp_typed (snd (forwardToNode e n m p b s))" "sv_db (snd (forwardToNode e n m p b s)) = sv_db s" for n m p b
    using assms(1) by (simp_all add: forwardToNode_typed forwardToNode_db)
  have row: "cp_typed (snd (forwardToNode e n m pa b s)\<lparr>sv_db :=
      snd (UpdateNodeHeartbeat i r now (snd (CreateSandbox (sandbox_row e sid p t req) (sv_db s))))\<rparr>)"
    if "p \<in> set (t_projects (sv_db s))" for n m pa b i r now sid p t req
    using assms(1) fwd that by (intro typed_db_update typed typed_db) (simp_all add: sandbox_row_typed)
  show ?thesis
    using assms
    by (auto simp: handleCreateSandbox_def Let_def case_prod_unfold fwd row
        split: option.split sum.split list.split)
qed

lemma sandbox_handlers_typed:
  assumes "cp_typed s"
  shows "cp_typed (snd (handleDeleteSandbox e rq s))" "st \<in> sandbox_statuses \<Longrightarrow> cp_typed (snd (set_status_on_node e verb st rq s))"
    "cp_typed (snd (proxySandboxToNode e m sub rq s))"
proof -
  have fwd: "cp_typed (snd (forwardToNode e n m p b s))" for n m p b using assms by (simp add: forwardToNode_typed)
  have del: "cp_typed (s1\<lparr>sv_db := snd (db_DeleteSandbox i (sv_db s1))\<rparr>)" if "cp_typed s1" for s1 :: "'a cpserver" and i
    using that by (intro typed_db_update typed typed_db) simp_all
  show "cp_typed (snd (handleDeleteSandbox e rq s))"
    using assms del [OF fwd] by (simp add: handleDeleteSandbox_def Let_def case_prod_unfold split: sum.split)
  have upd: "cp_typed (s1\<lparr>sv_db := snd (UpdateSandboxStatus i st (sv_db s1))\<rparr>)" if "cp_typed s1" "st \<in> sandbox_statuses" for s1 :: "'a cpserver" and i
    using that by (intro typed_db_update typed typed_db) simp_all
  show "cp_typed (snd (set_status_on_node e verb st rq s))" if "st \<in> sandbox_statuses"
    using assms upd [OF fwd that] fwd
    by (auto simp: set_status_on_node_def Let_def case_prod_unfold split: sum.split option.split)
  show "cp_typed (snd (proxySandboxToNode e m sub rq s))"
    using assms by (auto simp: proxySandboxToNode_def Let_def split: sum.split prod.split)
qed

lemma node_handlers_typed:
  assumes "cp_typed s"
  shows "cp_typed (snd (handleProvisionNode e rq s))" "cp_typed (snd (handleNodeRegister e rq s))"
    "cp_typed (snd (handleNodeHeartbeat e rq s))"
proof -
  have up: "cp_typed (s\<lparr>sv_db := snd (UpsertNode n (sv_db s))\<rparr>)" if "n_Status n \<in> node_statuses" for n
    using assms that by (intro typed_db_update typed typed_db) simp_all
  have pw: "cp_typed (s\<lparr>sv_world := w, sv_db := snd (UpsertNode n (sv_db s))\<rparr>)" if "n_Status n \<in> node_statuses" for n w
    using up [OF that] by (simp add: cp_typed_def)
  have pn: "n_Status (provisioned_node i name provider now res) \<in> node_statuses" for i name provider now res
    by (simp add: provisioned_node_def)
  show "cp_typed (snd (handleProvisionNode e rq s))"
    unfolding handleProvisionNode_def Let_def case_prod_unfold
    by (simp only: snd_conv assms pw [OF pn] typed_iff simp_thms split: sum.split)
  have "n_Status (registered_node i now req) \<in> node_statuses" for i now req
    by (simp add: registered_node_def split: prod.split)
  from up [OF this] have rg: "cp_typed (s\<lparr>sv_db := d\<rparr>)" if "UpsertNode (registered_node i now req) (sv_db s) = (x, d)" for i now req x d
    using that by (metis snd_conv)
  show "cp_typed (snd (handleNodeRegister e rq s))"
    using assms rg by (auto simp: handleNodeRegister_def Let_def split: sum.split prod.split option.split)
  have hb: "cp_typed (s\<lparr>sv_db := d\<rparr>)" if "UpdateNodeHeartbeat i r now (sv_db s) = (x, d)" for i r now x d
    using heartbeat_typed [OF assms, of i r now] that by simp
  show "cp_typed (snd (handleNodeHeartbeat e rq s))"
    using assms hb by (auto simp: handleNodeHeartbeat_def Let_def split: sum.split prod.split option.split)
qed

lemma readers_keep:
  "snd (handleListSandboxes cx rq s) = s" "snd (handleGetSandbox rq s) = s" "snd (handleListNodes rq s) = s" "snd (cp_handleHealth rq s) = s"
  by (auto simp: handleListSandboxes_def handleGetSandbox_def handleListNodes_def cp_handleHealth_def Let_def split: option.split sum.split)

lemma routes_typed:
  assumes "cp_typed s" and "\<forall>p. cx_project cx = Some p \<longrightarrow> p \<in> set (t_projects (sv_db s))"
    and "r \<in> set (cp_routes e cx)"
  shows "cp_typed (snd (rt_handler r rq s))"
  using assms Create_typed [OF assms(1,2)] Register_typed [OF assms(1)] Login_typed [OF assms(1)] Logout_typed [OF assms(1)]
    sandbox_handlers_typed [OF assms(1)] node_handlers_typed [OF assms(1)]
  by (auto simp: cp_routes_def readers_keep handlePauseSandbox_def handleResumeSandbox_def handleExecSandbox_def
      handleExecStreamSandbox_def cp_handleReadFile_def cp_handleWriteFile_def cp_handleListFiles_def)

text \<open>The middleware hands on a project of the table, or none.\<close>

lemma AuthMiddleware_cases:
  assumes "db_ok (sv_db s)"
  obtains (admitted) cx where "admits s rq cx" "AuthMiddleware nxt rq s = nxt cx rq s"
  | (refused) resp where "\<nexists>cx. admits s rq cx" "status resp = 401" "AuthMiddleware nxt rq s = (resp, s)"
proof (cases "\<exists>cx. admits s rq cx")
  case True
  then show ?thesis using AuthMiddleware_lets_in [OF assms] admitted by blast
qed (use AuthMiddleware_turns_away [OF assms] refused in \<open>metis prod.collapse\<close>)

lemma admits_project: "admits s rq cx \<Longrightarrow> cx_project cx = Some p \<Longrightarrow> p \<in> set (t_projects (sv_db s))"
  by (auto simp: background_def elim!: admits.cases)

lemma Handler_typed:
  assumes "cp_typed s"
  shows "cp_typed (snd (cp_Handler e rq s))"
proof -
  have ok: "db_ok (sv_db s)" using assms by (simp add: cp_typed_def db_typed_def)
  have "cp_typed (snd (AuthMiddleware (\<lambda>cx. serve_mux (cp_routes e cx)) rq s))"
    using ok
  proof (cases rule: AuthMiddleware_cases [of s rq "\<lambda>cx. serve_mux (cp_routes e cx)"])
    case (admitted cx)
    then have "cp_typed (snd (serve_mux (cp_routes e cx) rq s))"
      using serve_mux_invariant [of "cp_routes e cx" "\<lambda>s. cp_typed" s rq] routes_typed [OF assms, of cx] admits_project assms by blast
    then show ?thesis using admitted by simp
  qed (use assms in simp)
  then show ?thesis using assms by (simp add: cp_Handler_def corsMiddleware_def case_prod_unfold Let_def)
qed


section \<open>The scaler\<close>

lemma scaleUp_typed: "cp_typed s \<Longrightarrow> cp_typed (scaleUp e pool s)"
proof -
  assume s: "cp_typed s"
  have n: "n_Status (provisioned_node i name provider now res) \<in> node_statuses" for i name provider now res
    by (simp add: provisioned_node_def)
  have d: "db_typed (snd (UpsertNode (provisioned_node i name provider now res) (sv_db s)))" for i name provider now res
    by (rule node_status_typed(1) [OF typed_db [OF s] n])
  have w: "cp_typed (s\<lparr>sv_world := w, sv_db := db1\<rparr>)" if "db_typed db1" "t_users db1 = t_users (sv_db s)" for w db1
    using s that by (simp add: cp_typed_def)
  note row = w [OF d tables_kept(1)] w [OF pool_typed [OF d] trans [OF tables_kept(8,1)]]
  show ?thesis
    unfolding scaleUp_def Let_def case_prod_unfold
    by (simp only: snd_conv s row typed_iff simp_thms split: sum.split option.split)
qed

lemma terminateNode_typed: "cp_typed s \<Longrightarrow> cp_typed (terminateNode pool n s)"
proof -
  assume s: "cp_typed s"
  have d: "db_typed (snd (UpdateNodeStatus i ''terminating'' (sv_db s)))" for i
    using typed_db [OF s] by (intro typed) simp_all
  have "cp_typed (s\<lparr>sv_db := snd (UpdateNodeStatus i ''terminating'' (sv_db s))\<rparr>)"
    "cp_typed (s\<lparr>sv_db := snd (UpsertCloudPool p (snd (DeleteNode i (snd (UpdateNodeStatus i ''terminating'' (sv_db s))))))\<rparr>)" for i p
    using s by (intro typed_db_update typed d; simp)+
  then have "cp_typed (s\<lparr>sv_db := snd (UpdateNodeStatus i ''terminating'' (sv_db s)), sv_world := w\<rparr>)"
    "cp_typed (s\<lparr>sv_db := snd (UpsertCloudPool p (snd (DeleteNode i (snd (UpdateNodeStatus i ''terminating'' (sv_db s)))))), sv_world := w\<rparr>)" for i p w
    by simp_all
  with s show ?thesis
    by (simp add: terminateNode_def Let_def case_prod_unfold split: sum.split option.split)
qed

lemma scaleDown_typed: "cp_typed s \<Longrightarrow> cp_typed (scaleDown pool s)"
proof -
  assume s: "cp_typed s"
  have "cp_typed (s\<lparr>sv_db := snd (UpdateNodeStatus i ''draining'' (sv_db s))\<rparr>)" for i
    using s typed_db [OF s] by (intro typed_db_update typed) simp_all
  with s show ?thesis
    by (simp add: scaleDown_def Let_def case_prod_unfold terminateNode_typed split: sum.split option.split)
qed

lemma evaluatePool_typed: "cp_typed s \<Longrightarrow> cp_typed (evaluatePool e pool s)"
  by (auto simp: evaluatePool_def scaleUp_typed scaleDown_typed split: sum.split)

lemma evaluate_pools_typed: "cp_typed s \<Longrightarrow> cp_typed (evaluate_pools e pools s)"
  by (induction pools arbitrary: e s) (simp_all add: evaluatePool_typed)

lemma mark_offline_typed: "db_typed d \<Longrightarrow> db_typed (mark_offline now ns d) \<and> t_users (mark_offline now ns d) = t_users d"
  by (induction ns arbitrary: d) (simp_all add: typed)

lemma evaluate_typed: "cp_typed s \<Longrightarrow> cp_typed (evaluate e s)"
proof -
  assume s: "cp_typed s"
  have "cp_typed (s1\<lparr>sv_db := detectOfflineNodes now (sv_db s1)\<rparr>)" if "cp_typed s1" for s1 :: "'a cpserver" and now
    using that mark_offline_typed [OF typed_db [OF that]] by (simp add: detectOfflineNodes_def typed_db_update)
  with s show ?thesis
    by (simp add: evaluate_def Let_def evaluate_pools_typed split: sum.split)
qed

section \<open>Every run\<close>

lemma cp_step_typed: "cp_step s t \<Longrightarrow> cp_typed s \<Longrightarrow> cp_typed t"
  by (auto simp: cp_step_iff Handler_typed evaluate_typed)

lemma initial_typed: "cp_typed ((cp_NewServer cfg OpenDB w)\<lparr>sv_providers := providers\<rparr>)"
  by (simp add: cp_typed_def cp_NewServer_def db_typed_def OpenDB_ok) (simp add: OpenDB_def)

lemma steps_typed: "cp_step\<^sup>*\<^sup>* s t \<Longrightarrow> cp_typed s \<Longrightarrow> cp_typed t"
  by (induction rule: rtranclp_induct) (auto intro: cp_step_typed)


section \<open>The database under the handlers\<close>

text \<open>
  A property of the database that the statements of the handlers keep is kept by every request:
  no handler removes a node, marks one as draining or terminating, or writes a pool.
\<close>

locale request_invariant =
  fixes I :: "db \<Rightarrow> bool"
  assumes user: "I d \<Longrightarrow> I (snd (CreateUser i email hash now d))"
    and project: "I d \<Longrightarrow> I (snd (CreateProject key i name own now d))"
    and node: "I d \<Longrightarrow> n_Status n = ''provisioning'' \<or> n_Status n = ''online'' \<Longrightarrow> I (snd (UpsertNode n d))"
    and heartbeat: "I d \<Longrightarrow> I (snd (UpdateNodeHeartbeat i r now d))"
    and sandbox: "I d \<Longrightarrow> I (snd (CreateSandbox t d))"
    and status: "I d \<Longrightarrow> I (snd (UpdateSandboxStatus i st d))"
    and deletion: "I d \<Longrightarrow> I (snd (db_DeleteSandbox i d))"
begin

lemma Register_keeps: "I (sv_db s) \<Longrightarrow> I (sv_db (snd (handleRegister e rq s)))"
  using user by (auto simp: handleRegister_def Let_def case_prod_unfold intro!: project split: sum.split prod.split option.split)

lemma Login_Logout_keep:
  "sv_db (snd (handleLogin e rq s)) = sv_db s" "sv_db (snd (handleLogout rq s)) = sv_db s"
  by (auto simp: handleLogin_def handleLogout_def Let_def split: sum.split db_error.split option.split)

lemma Create_keeps: "I (sv_db s) \<Longrightarrow> I (sv_db (snd (handleCreateSandbox e cx rq s)))"
  by (simp add: handleCreateSandbox_def Let_def case_prod_unfold forwardToNode_db heartbeat sandbox split: option.split sum.split list.split)

lemma sandbox_handlers_keep:
  assumes "I (sv_db s)"
  shows "I (sv_db (snd (handleDeleteSandbox e rq s)))" "I (sv_db (snd (set_status_on_node e verb st rq s)))"
    "sv_db (snd (proxySandboxToNode e m sub rq s)) = sv_db s"
  using assms
  by (simp_all add: handleDeleteSandbox_def set_status_on_node_def proxySandboxToNode_def Let_def case_prod_unfold
      forwardToNode_db status deletion split: option.split sum.split)

lemma Provision_keeps: "I (sv_db s) \<Longrightarrow> I (sv_db (snd (handleProvisionNode e rq s)))"
proof -
  assume s: "I (sv_db s)"
  have n: "I (snd (UpsertNode (provisioned_node i name provider now res) (sv_db s)))" for i name provider now res
    by (intro node s) (simp add: provisioned_node_def)
  have f: "sv_db (s\<lparr>sv_world := w\<rparr>) = sv_db s" "sv_db (s\<lparr>sv_world := w, sv_db := d\<rparr>) = d" for w d by simp_all
  show ?thesis
    unfolding handleProvisionNode_def Let_def case_prod_unfold
    by (simp only: snd_conv s n f simp_thms split: sum.split)
qed

lemma node_calls_keep:
  assumes "I (sv_db s)"
  shows "I (sv_db (snd (handleNodeRegister e rq s)))" "I (sv_db (snd (handleNodeHeartbeat e rq s)))"
proof -
  have "n_Status (registered_node i now req) = ''online''" for i now req
    by (simp add: registered_node_def split: prod.split)
  then have "I (snd (UpsertNode (registered_node i now req) (sv_db s)))" for i now req
    by (intro node assms) simp
  then have "I d" if "UpsertNode (registered_node i now req) (sv_db s) = (x, d)" for i now req x d
    using that by (metis snd_conv)
  then show "I (sv_db (snd (handleNodeRegister e rq s)))"
    using assms by (simp add: handleNodeRegister_def Let_def split: sum.split prod.split option.split)
  have "I d" if "UpdateNodeHeartbeat i r now (sv_db s) = (x, d)" for i r now x d
    using that heartbeat [OF assms] by (metis snd_conv)
  then show "I (sv_db (snd (handleNodeHeartbeat e rq s)))"
    using assms by (simp add: handleNodeHeartbeat_def Let_def split: sum.split prod.split option.split)
qed

lemma routes_keep:
  assumes "I (sv_db s)" and "r \<in> set (cp_routes e cx)"
  shows "I (sv_db (snd (rt_handler r rq s)))"
  using assms Register_keeps [OF assms(1)] Create_keeps [OF assms(1)] Provision_keeps [OF assms(1)]
    sandbox_handlers_keep [OF assms(1)] node_calls_keep [OF assms(1)]
  by (auto simp: cp_routes_def readers_keep Login_Logout_keep handlePauseSandbox_def handleResumeSandbox_def handleExecSandbox_def
      handleExecStreamSandbox_def cp_handleReadFile_def cp_handleWriteFile_def cp_handleListFiles_def)

theorem Handler_keeps: "I (sv_db s) \<Longrightarrow> I (sv_db (snd (cp_Handler e rq s)))"
proof -
  assume s: "I (sv_db s)"
  have "I (sv_db (snd (serve_mux (cp_routes e cx) rq s)))" for cx
    using serve_mux_invariant [of "cp_routes e cx" "\<lambda>s s'. I (sv_db s')" s rq] routes_keep [OF s] s by blast
  then have "I (sv_db (snd (AuthMiddleware (\<lambda>cx. serve_mux (cp_routes e cx)) rq s)))"
    using s by (simp add: AuthMiddleware_def Let_def split: sum.split option.split)
  then show ?thesis using s by (simp add: cp_Handler_def corsMiddleware_def case_prod_unfold Let_def)
qed

end


interpretation keys: request_invariant db_ok
  by unfold_locales (simp_all add: keys_kept)

text \<open>No pool, no node that is draining or terminating, and every node of \<open>ids\<close> still there.\<close>

definition fleet :: "string set \<Rightarrow> db \<Rightarrow> bool" where
  "fleet ids d \<longleftrightarrow> t_pools d = [] \<and> (\<forall>n \<in> set (t_nodes d). n_Status n \<in> {''provisioning'', ''online'', ''offline''})
     \<and> ids \<subseteq> n_ID ` set (t_nodes d)"

lemma fleet_kept:
  assumes "t_pools d' = t_pools d" and "t_nodes d' = t_nodes d" and "fleet ids d"
  shows "fleet ids d'"
  using assms by (simp add: fleet_def)

lemma fleet_mapped:
  assumes "fleet ids d" and "\<And>n. n_ID (f n) = n_ID n"
    and "\<And>n. n_Status (f n) \<in> {n_Status n, ''provisioning'', ''online'', ''offline''}"
  shows "fleet ids (d\<lparr>t_nodes := map f (t_nodes d)\<rparr>)"
proof -
  have "n_Status (f n) \<in> {''provisioning'', ''online'', ''offline''}" if "n \<in> set (t_nodes d)" for n
    using assms(1) assms(3) [of n] that by (auto simp: fleet_def)
  then show ?thesis using assms(1,2) by (simp add: fleet_def image_image)
qed

lemma fleet_db_exec: "fleet ids d \<Longrightarrow> (down d = None \<Longrightarrow> fleet ids (snd r)) \<Longrightarrow> fleet ids (snd (db_exec d r))"
  by (cases rule: db_exec_cases [of d r]) auto

lemma fleet_UpsertNode:
  assumes "fleet ids d" and "n_Status n = ''provisioning'' \<or> n_Status n = ''online''"
  shows "fleet ids (snd (UpsertNode n d))"
proof (cases "\<exists>m \<in> set (t_nodes d). n_ID m = n_ID n")
  case True
  have "fleet ids (d\<lparr>t_nodes := map (\<lambda>m. if n_ID m = n_ID n
      then m\<lparr>n_Address := n_Address n, n_Status := n_Status n, n_Running := n_Running n, n_LastSeen := stored_time (n_LastSeen n)\<rparr>
      else m) (t_nodes d)\<rparr>)"
    by (rule fleet_mapped [OF assms(1)]) (use assms(2) in auto)
  with True show ?thesis unfolding UpsertNode_def by (intro fleet_db_exec [OF assms(1)]) simp
next
  case False
  then show ?thesis using assms unfolding UpsertNode_def
    by (intro fleet_db_exec) (auto simp: fleet_def)
qed

lemma fleet_status: "fleet ids d \<Longrightarrow> fleet ids (snd (UpdateNodeStatus i ''offline'' d))"
  unfolding UpdateNodeStatus_def 
  by (rule fleet_db_exec, assumption) (simp, rule fleet_mapped, auto)

interpretation fleet: request_invariant "fleet ids" for ids
proof
  fix d i r now assume d: "fleet ids d"
  show "fleet ids (snd (UpdateNodeHeartbeat i r now d))"
    unfolding UpdateNodeHeartbeat_def 
    by (rule fleet_db_exec [OF d]) (simp, rule fleet_mapped [OF d], auto)
next
  fix d i name key own now assume d: "fleet ids d"
  show "fleet ids (snd (CreateProject key i name own now d))"
    by (rule fleet_kept [OF _ _ d]) (auto simp: CreateProject_def db_exec_def Let_def split: option.split)
qed (erule fleet_UpsertNode, assumption | erule fleet_kept [rotated 2];
  auto simp: CreateUser_def CreateSandbox_def UpdateSandboxStatus_def db_DeleteSandbox_def db_exec_def split: option.split)+


text \<open>
  C7. Every run keeps the control plane's state well typed, requests, ticks, outages and changes of
  the world in any order: keys stay unique, a node has a documented status, a sandbox is running
  or paused with positive sizes and a positive lifetime and belongs to a project, a project has
  an owner and a key with the prefix of the keys, and a session names a user. A new server is well typed.
\<close>
theorem control_plane_well_typed:
  assumes "cp_step\<^sup>*\<^sup>* s t" and "cp_typed s"
  shows "db_ok (sv_db t) \<and> gm_wf (sv_sessions t)
    \<and> (\<forall>n \<in> set (t_nodes (sv_db t)). n_Status n \<in> {''provisioning'', ''online'', ''draining'', ''offline'', ''terminating''})
    \<and> (\<forall>x \<in> set (t_sandboxes (sv_db t)). s_Status x \<in> {''running'', ''paused''}
         \<and> 0 < s_VCPUs x \<and> 0 < s_MemoryMB x \<and> 0 < s_TimeoutSec x
         \<and> (\<exists>p \<in> set (t_projects (sv_db t)). p_ID p = s_ProjectID x))
    \<and> (\<forall>p \<in> set (t_projects (sv_db t)). has_prefix (p_APIKey p) ''gvm_'' \<and> (\<exists>u \<in> set (t_users (sv_db t)). u_ID u = p_OwnerID p))
    \<and> (\<forall>token i. gm_get (sv_sessions t) token = Some i \<longrightarrow> (\<exists>u \<in> set (t_users (sv_db t)). u_ID u = i))
    \<and> cp_typed ((cp_NewServer cfg OpenDB w)\<lparr>sv_providers := providers\<rparr>)"
proof -
  have t: "cp_typed t" using steps_typed [OF assms] .
  have pr: "\<exists>p \<in> set (t_projects (sv_db t)). p_ID p = s_ProjectID x" if "x \<in> set (t_sandboxes (sv_db t))" for x
    using t that by (fastforce simp: cp_typed_def db_typed_def)
  have ow: "\<exists>u \<in> set (t_users (sv_db t)). u_ID u = p_OwnerID p" if "p \<in> set (t_projects (sv_db t))" for p
    using t that by (fastforce simp: cp_typed_def db_typed_def)
  have us: "\<exists>u \<in> set (t_users (sv_db t)). u_ID u = i" if "gm_get (sv_sessions t) token = Some i" for token i
    using t map_of_SomeD [OF that] by (fastforce simp: cp_typed_def)
  show ?thesis
    using t pr ow us initial_typed
    by (simp add: cp_typed_def db_typed_def sandbox_typed_def node_statuses_def sandbox_statuses_def)
qed

text \<open>Two first requests: an account is registered, a node registers.\<close>

definition register_rq :: request where
  "register_rq = (credentials_rq ''pw'')\<lparr>rq_method := ''POST'', rq_path := ''/auth/register''\<rparr>"

definition node_rq :: request where
  "node_rq = empty_request\<lparr>rq_method := ''POST'', rq_path := ''/internal/nodes/register'', rq_header := [(''X-Node-Key'', ''nk'')],
     rq_json := Inr (JObj [(''address'', JStr ''http://10.0.0.9:9090''), (''maxSandboxes'', JInt 4)])\<rparr>"

lemma registers:
  "sv_sessions (snd (cp_Handler (demo_env accepting) register_rq (cp_NewServer demo_config OpenDB ()))) = [(''t0'', ''11111111-u'')]"
  by (simp add: cp_Handler_def corsMiddleware_def register_rq_def credentials_rq_def AuthMiddleware_def isPublicPath_def serve_mux_def
      cp_route_search path_segments_def handleRegister_def decode_credentials_def dec_object_def dec_string_def jfield_def cp_NewServer_def
      OpenDB_def GetUserByEmail_def db_row_def CreateUser_def CreateProject_def db_exec_def Let_def case_prod_unfold session_Create_def
      demo_env_def empty_request_def)

lemma node_registers:
  "map n_ID (t_nodes (sv_db (snd (cp_Handler (demo_env accepting) node_rq (cp_NewServer demo_config OpenDB ()))))) = [''11111111-u'']"
proof -
  let ?s = "cp_NewServer demo_config OpenDB ()"
  have a: "AuthMiddleware nx node_rq ?s = nx background node_rq ?s" for nx :: "cp_ctx \<Rightarrow> unit cpserver handler"
    by (rule AuthMiddleware_lets_in)
      (simp_all add: admits.node valid_node_key_def node_rq_def cp_NewServer_def demo_config_def OpenDB_ok)
  have p: "cp_on_path ''POST'' [''internal'', ''nodes'', ''register''] node_rq"
    by (simp add: node_rq_def cp_on_path_def path_segments_def)
  show ?thesis
    by (simp add: cp_Handler_def corsMiddleware_def a cp_dispatches(5) [OF p] case_prod_unfold)
      (simp add: node_rq_def handleNodeRegister_def decode_register_def dec_object_def dec_string_def dec_int_def jfield_def
        UpsertNode_def db_exec_def cp_NewServer_def OpenDB_def registered_node_def demo_env_def)
qed

lemma control_plane_well_typed_witness:
  "\<exists>t u. cp_step (cp_NewServer demo_config OpenDB ()) t \<and> u \<in> set (t_users (sv_db t)) \<and> gm_get (sv_sessions t) ''t0'' = Some (u_ID u)"
proof -
  let ?s = "cp_NewServer demo_config OpenDB ()" and ?t = "snd (cp_Handler (demo_env accepting) register_rq (cp_NewServer demo_config OpenDB ()))"
  have s: "cp_step ?s ?t" by (rule cp_step.serve)
  have "cp_typed ?s" using initial_typed [where cfg = demo_config and w = "()" and providers = "[]"] by simp
  note all = control_plane_well_typed [OF r_into_rtranclp [of cp_step, OF s] this, THEN conjunct2, THEN conjunct2, THEN conjunct2,
      THEN conjunct2, THEN conjunct2, THEN conjunct1]
  have "\<exists>u \<in> set (t_users (sv_db ?t)). u_ID u = ''11111111-u''"
    using all [rule_format, of "''t0''" "''11111111-u''"] by (simp add: registers)
  then obtain u where "u \<in> set (t_users (sv_db ?t))" "u_ID u = ''11111111-u''" by blast
  with s show ?thesis by (intro exI [of _ ?t] exI [of _ u]) (simp add: registers)
qed

section \<open>No run has a pool\<close>

lemma mark_offline_fleet: "fleet ids d \<Longrightarrow> fleet ids (mark_offline now ns d)"
  by (induction ns arbitrary: d) (simp_all add: fleet_status)

lemma evaluate_without_pools:
  assumes "t_pools (sv_db s) = []"
  shows "evaluate e s = (if down (sv_db s) = None then s\<lparr>sv_db := detectOfflineNodes (e_now e) (sv_db s)\<rparr> else s)"
  using assms by (auto simp: evaluate_def ListCloudPools_def db_query_def Let_def)

lemma cp_step_fleet:
  assumes "cp_step s t" and "fleet ids (sv_db s)"
  shows "fleet ids (sv_db t)"
  using assms(1)
proof cases
  case (serve e rq)
  then show ?thesis using fleet.Handler_keeps [OF assms(2)] by simp
next
  case (tick e)
  then show ?thesis
    using assms(2) evaluate_without_pools [of s e] mark_offline_fleet by (auto simp: fleet_def [of _ "sv_db s"] detectOfflineNodes_def)
qed (use assms(2) in \<open>simp_all add: fleet_def\<close>)

lemma steps_fleet: "cp_step\<^sup>*\<^sup>* s t \<Longrightarrow> fleet ids (sv_db s) \<Longrightarrow> fleet ids (sv_db t)"
  by (induction rule: rtranclp_induct) (auto intro: cp_step_fleet)

text \<open>
  C13. The auto-scaler never scales: no request and no tick writes a pool, so a server that starts on
  an empty database has none in any reachable state, and then a tick of the scaler asks no
  provider for anything and only marks silent nodes. No node is ever draining or terminating, and
  a node that is in the table stays in it for ever.
\<close>
theorem autoscaler_never_scales:
  assumes "cp_reachable cfg providers w s"
  shows "t_pools (sv_db s) = []
    \<and> evaluate e s = (if down (sv_db s) = None then s\<lparr>sv_db := detectOfflineNodes (e_now e) (sv_db s)\<rparr> else s)
    \<and> (\<forall>n \<in> set (t_nodes (sv_db s)). n_Status n \<in> {''provisioning'', ''online'', ''offline''})
    \<and> (\<forall>t. cp_step\<^sup>*\<^sup>* s t \<longrightarrow> n_ID ` set (t_nodes (sv_db s)) \<subseteq> n_ID ` set (t_nodes (sv_db t)))"
proof -
  have "fleet {} (sv_db ((cp_NewServer cfg OpenDB w)\<lparr>sv_providers := providers\<rparr>))"
    by (simp add: fleet_def cp_NewServer_def OpenDB_def)
  then have s: "fleet {} (sv_db s)" by (rule steps_fleet [OF assms])
  then have "fleet (n_ID ` set (t_nodes (sv_db s))) (sv_db s)" by (simp add: fleet_def)
  then have "\<forall>t. cp_step\<^sup>*\<^sup>* s t \<longrightarrow> fleet (n_ID ` set (t_nodes (sv_db s))) (sv_db t)" by (blast intro: steps_fleet)
  then show ?thesis using s evaluate_without_pools [of s e] by (simp add: fleet_def)
qed

lemma autoscaler_never_scales_witness:
  "\<exists>s :: unit cpserver. cp_step (cp_NewServer demo_config OpenDB ()) s \<and> t_pools (sv_db s) = []
     \<and> (\<exists>n \<in> set (t_nodes (sv_db s)). n_Status n \<in> {''provisioning'', ''online'', ''offline''})"
proof -
  let ?s = "snd (cp_Handler (demo_env accepting) node_rq (cp_NewServer demo_config OpenDB ()))"
  have s: "cp_step (cp_NewServer demo_config OpenDB ()) ?s" by (rule cp_step.serve)
  moreover have "cp_NewServer demo_config OpenDB () = (cp_NewServer demo_config OpenDB ())\<lparr>sv_providers := []\<rparr>"
    by (simp add: cp_NewServer_def NewCloudProviderRegistry_def)
  ultimately have r: "cp_reachable demo_config [] () ?s" by (metis r_into_rtranclp)
  have "t_nodes (sv_db ?s) \<noteq> []" using node_registers by auto
  then have "\<exists>n. n \<in> set (t_nodes (sv_db ?s))" by (meson list.set_sel(1))
  then show ?thesis using autoscaler_never_scales [OF r] s by (intro exI [of _ ?s]) blast
qed

end
