(* ===== verification/Ui_Server.thy ===== *)
theory Ui_Server
  imports ControlPlane_Handlers
begin

text \<open>
  The web interface (\<open>ui/server.go\<close>): its pages, its routes, and the requests that the scripts of its pages
  (\<open>ui/templates/\<close>) send to the control plane, with what a browser does with them. Executing a
  template of \<open>html/template\<close> and the file server are parameters.
\<close>

section \<open>Subtree patterns\<close>

text \<open>
  Patterns without wildcards, all registered for GET: a pattern that ends in a slash matches every path below it,
  the longest match wins, and a path whose pattern exists only with a slash at its end is redirected there.
\<close>

record 's tree_route =
  tr_pattern :: string
  tr_handler :: "'s handler"

definition subtree :: "string \<Rightarrow> bool" where
  "subtree p \<longleftrightarrow> p \<noteq> '''' \<and> last p = CHR ''/''"

definition tree_matches :: "string \<Rightarrow> 's tree_route \<Rightarrow> bool" where
  "tree_matches path r \<longleftrightarrow> (if subtree (tr_pattern r) then has_prefix path (tr_pattern r) else path = tr_pattern r)"

definition longest_match :: "'s tree_route list \<Rightarrow> string \<Rightarrow> 's tree_route option" where
  "longest_match rs path = find (tree_matches path) (sort_key (\<lambda>r. - int (length (tr_pattern r))) rs)"

definition moved_permanently :: "string \<Rightarrow> response" where
  "moved_permanently url = \<lparr>status = 301, rheaders = [(''Location'', url), (''Content-Type'', ''text/html; charset=utf-8'')],
     rbody = BRaw (''<a href='' @ quote url @ ''>Moved Permanently</a>.'' @ [CHR 0x0A, CHR 0x0A])\<rparr>"

definition serve_tree :: "'s tree_route list \<Rightarrow> 's handler" where
  "serve_tree rs rq s =
     (let path = rq_path rq
      in case longest_match rs path of
           None \<Rightarrow> (plain_error 404 ''404 page not found'', s)
         | Some r \<Rightarrow>
             if rq_method rq \<noteq> ''GET'' \<and> rq_method rq \<noteq> ''HEAD'' then (plain_error 405 ''Method Not Allowed'', s)
             else if tr_pattern r \<noteq> path \<and> \<not> subtree path \<and> path @ ''/'' \<in> set (map tr_pattern rs)
             then (moved_permanently (path @ ''/'' @ (if rq_query rq = '''' then '''' else ''?'' @ rq_query rq)), s)
             else tr_handler r rq s)"

section \<open>The pages\<close>

record ui_config =
  ui_Port :: int
  ui_ControlPlaneURL :: string

record page_data =
  pd_Title :: string
  pd_ControlPlaneURL :: string
  pd_Page :: string

text \<open>The text a template writes, and the error that stopped it, if any.\<close>

type_synonym templates = "string \<Rightarrow> page_data \<Rightarrow> string \<times> string option"

text \<open>
  The text goes straight to the client: an error after the first byte can no longer change the
  status, its message is appended to the page.
\<close>

definition render :: "templates \<Rightarrow> string \<Rightarrow> page_data \<Rightarrow> response" where
  "render tm name d =
     (let html = [(''Content-Type'', ''text/html; charset=utf-8'')]
      in case tm name d of
           (out, None) \<Rightarrow> \<lparr>status = http_ok, rheaders = html, rbody = BRaw out\<rparr>
         | (out, Some err) \<Rightarrow>
             if out = '''' then plain_error http_internal ''Internal Server Error''
             else \<lparr>status = http_ok, rheaders = html, rbody = BRaw (out @ ''Internal Server Error'' @ [CHR 0x0A])\<rparr>)"

definition handleDashboard :: "ui_config \<Rightarrow> templates \<Rightarrow> 's handler" where
  "handleDashboard cfg tm rq s =
     (render tm ''layout'' \<lparr>pd_Title = ''Dashboard'', pd_ControlPlaneURL = ui_ControlPlaneURL cfg, pd_Page = ''dashboard''\<rparr>, s)"

definition handleSandboxes :: "ui_config \<Rightarrow> templates \<Rightarrow> 's handler" where
  "handleSandboxes cfg tm rq s =
     (render tm ''layout'' \<lparr>pd_Title = ''Sandboxes'', pd_ControlPlaneURL = ui_ControlPlaneURL cfg, pd_Page = ''sandboxes''\<rparr>, s)"

definition handleNodes :: "ui_config \<Rightarrow> templates \<Rightarrow> 's handler" where
  "handleNodes cfg tm rq s =
     (render tm ''layout'' \<lparr>pd_Title = ''Nodes'', pd_ControlPlaneURL = ui_ControlPlaneURL cfg, pd_Page = ''nodes''\<rparr>, s)"

definition handleSettings :: "ui_config \<Rightarrow> templates \<Rightarrow> 's handler" where
  "handleSettings cfg tm rq s =
     (render tm ''layout'' \<lparr>pd_Title = ''Settings'', pd_ControlPlaneURL = ui_ControlPlaneURL cfg, pd_Page = ''settings''\<rparr>, s)"

definition handleLoginPage :: "ui_config \<Rightarrow> templates \<Rightarrow> 's handler" where
  "handleLoginPage cfg tm rq s =
     (render tm ''login'' \<lparr>pd_Title = ''Login'', pd_ControlPlaneURL = ui_ControlPlaneURL cfg, pd_Page = ''''\<rparr>, s)"

definition ui_routes :: "ui_config \<Rightarrow> templates \<Rightarrow> 's handler \<Rightarrow> 's tree_route list" where
  "ui_routes cfg tm files =
     [\<lparr>tr_pattern = ''/static/'', tr_handler = files\<rparr>,
      \<lparr>tr_pattern = ''/'', tr_handler = handleDashboard cfg tm\<rparr>,
      \<lparr>tr_pattern = ''/sandboxes'', tr_handler = handleSandboxes cfg tm\<rparr>,
      \<lparr>tr_pattern = ''/nodes'', tr_handler = handleNodes cfg tm\<rparr>,
      \<lparr>tr_pattern = ''/settings'', tr_handler = handleSettings cfg tm\<rparr>,
      \<lparr>tr_pattern = ''/login'', tr_handler = handleLoginPage cfg tm\<rparr>]"

definition ui_Handler :: "ui_config \<Rightarrow> templates \<Rightarrow> 's handler \<Rightarrow> 's handler" where
  "ui_Handler cfg tm files = serve_tree (ui_routes cfg tm files)"

section \<open>What the scripts of the pages ask for\<close>

text \<open>
  A request of a script: the browser's cookies for the control plane (\<open>jar\<close>, empty when it keeps them
  back) and nothing else that identifies the user. The path is the one that parsing the URL gives for an
  identifier of letters, digits and hyphens, like those the control plane generates.
\<close>

definition page_fetch :: "(string, string) gomap \<Rightarrow> string \<Rightarrow> string \<Rightarrow> json option \<Rightarrow> request" where
  "page_fetch jar meth path body = empty_request\<lparr>rq_method := meth, rq_path := path, rq_cookie := jar,
     rq_header := (if body = None then [] else [(''Content-Type'', ''application/json'')]),
     rq_json := (case body of None \<Rightarrow> Inl ''EOF'' | Some j \<Rightarrow> Inr j)\<rparr>"

definition plain_identifier :: "string \<Rightarrow> bool" where
  "plain_identifier i \<longleftrightarrow> i \<noteq> '''' \<and> list_all (\<lambda>c. c = CHR ''-''
     \<or> (let n = of_char c :: nat in (48 \<le> n \<and> n < 58) \<or> (65 \<le> n \<and> n < 91) \<or> (97 \<le> n \<and> n < 123))) i"

definition loadSandboxes :: "(string, string) gomap \<Rightarrow> request" where
  "loadSandboxes jar = page_fetch jar ''GET'' ''/v1/sandboxes'' None"

definition createSandbox_click :: "(string, string) gomap \<Rightarrow> request" where
  "createSandbox_click jar = page_fetch jar ''POST'' ''/v1/sandboxes''
     (Some (JObj [(''template'', JStr ''base''), (''vcpus'', JInt 1), (''memoryMB'', JInt 512)]))"

definition deleteSandbox_click :: "(string, string) gomap \<Rightarrow> string \<Rightarrow> request" where
  "deleteSandbox_click jar i = page_fetch jar ''DELETE'' (''/v1/sandboxes/'' @ i) None"

definition loadNodes :: "(string, string) gomap \<Rightarrow> request" where
  "loadNodes jar = page_fetch jar ''GET'' ''/v1/nodes'' None"

definition loadDashboard :: "(string, string) gomap \<Rightarrow> request" where
  "loadDashboard jar = page_fetch jar ''GET'' ''/health'' None"

definition login_click :: "(string, string) gomap \<Rightarrow> string \<Rightarrow> string \<Rightarrow> request" where
  "login_click jar email password = page_fetch jar ''POST'' ''/auth/login''
     (Some (JObj [(''email'', JStr email), (''password'', JStr password)]))"

definition register_click :: "(string, string) gomap \<Rightarrow> string \<Rightarrow> string \<Rightarrow> request" where
  "register_click jar email password = page_fetch jar ''POST'' ''/auth/register''
     (Some (JObj [(''email'', JStr email), (''password'', JStr password)]))"

section \<open>What a browser does with them\<close>

text \<open>
  The pages come from the interface's own port and so from another origin than the control plane's, and every
  call of the scripts asks for \<open>credentials: 'include'\<close>. The browser follows the Fetch standard: the
  script gets an answer only if it names the page's origin and allows credentials, for which the
  wildcard does not count; a call that is not simple, by its method or by a JSON content type, is sent
  only after the same check of the answer to a preflight request without cookies, which must also allow the
  method and the header. \<open>None\<close> is the error the script sees.
\<close>

definition allows_origin :: "string \<Rightarrow> response \<Rightarrow> bool" where
  "allows_origin origin resp \<longleftrightarrow> map_of (rheaders resp) ''Access-Control-Allow-Origin'' = Some origin
     \<and> map_of (rheaders resp) ''Access-Control-Allow-Credentials'' = Some ''true''"

definition allows_listed :: "string \<Rightarrow> string \<Rightarrow> response \<Rightarrow> bool" where
  "allows_listed name x resp \<longleftrightarrow>
     (case map_of (rheaders resp) name of None \<Rightarrow> False | Some v \<Rightarrow> x \<in> set (map trim_space (split_byte CHR '','' v)))"

definition simple_call :: "request \<Rightarrow> bool" where
  "simple_call rq \<longleftrightarrow> rq_method rq \<in> {''GET'', ''HEAD'', ''POST''} \<and> gm_get (rq_header rq) ''Content-Type'' = None"

definition preflight :: "string \<Rightarrow> request \<Rightarrow> request" where
  "preflight origin rq = empty_request\<lparr>rq_method := ''OPTIONS'', rq_path := rq_path rq,
     rq_header := [(''Origin'', origin), (''Access-Control-Request-Method'', rq_method rq)]\<rparr>"

definition preflight_passes :: "string \<Rightarrow> request \<Rightarrow> response \<Rightarrow> bool" where
  "preflight_passes origin rq pre \<longleftrightarrow> allows_origin origin pre \<and> 200 \<le> status pre \<and> status pre < 300
     \<and> (rq_method rq \<in> {''GET'', ''HEAD'', ''POST''} \<or> allows_listed ''Access-Control-Allow-Methods'' (rq_method rq) pre)
     \<and> (gm_get (rq_header rq) ''Content-Type'' = None \<or> allows_listed ''Access-Control-Allow-Headers'' ''Content-Type'' pre)"

definition browser_fetch :: "string \<Rightarrow> 's handler \<Rightarrow> request \<Rightarrow> 's \<Rightarrow> response option \<times> 's" where
  "browser_fetch origin server rq s =
     (let (pre, s1) = (if simple_call rq then (aborted, s) else server (preflight origin rq) s)
      in if simple_call rq \<or> preflight_passes origin rq pre then
           let (resp, s2) = server rq s1 in (if allows_origin origin resp then Some resp else None, s2)
         else (None, s1))"

section \<open>Routing\<close>

lemma ui_longest_match:
  "longest_match (ui_routes cfg tm files) path =
     (if has_prefix path ''/static/'' then Some \<lparr>tr_pattern = ''/static/'', tr_handler = files\<rparr>
      else if path = ''/sandboxes'' then Some \<lparr>tr_pattern = ''/sandboxes'', tr_handler = handleSandboxes cfg tm\<rparr>
      else if path = ''/settings'' then Some \<lparr>tr_pattern = ''/settings'', tr_handler = handleSettings cfg tm\<rparr>
      else if path = ''/nodes'' then Some \<lparr>tr_pattern = ''/nodes'', tr_handler = handleNodes cfg tm\<rparr>
      else if path = ''/login'' then Some \<lparr>tr_pattern = ''/login'', tr_handler = handleLoginPage cfg tm\<rparr>
      else if has_prefix path ''/'' then Some \<lparr>tr_pattern = ''/'', tr_handler = handleDashboard cfg tm\<rparr>
      else None)"
  by (simp add: longest_match_def ui_routes_def sort_key_simps tree_matches_def subtree_def has_prefix_def)

lemma ends_in_slash:
  "x @ ''/'' = ''/static/'' \<longleftrightarrow> x = ''/static''" "x @ ''/'' = ''/'' \<longleftrightarrow> x = ''''"
  "x @ ''/'' \<noteq> ''/sandboxes''" "x @ ''/'' \<noteq> ''/nodes''" "x @ ''/'' \<noteq> ''/settings''" "x @ ''/'' \<noteq> ''/login''"
proof -
  have e: "x @ ''/'' = y @ [c] \<longleftrightarrow> x = y \<and> c = CHR ''/''" for y c by auto
  show "x @ ''/'' = ''/static/'' \<longleftrightarrow> x = ''/static''" using e [of "''/static''" "CHR ''/''"] by simp
  show "x @ ''/'' = ''/'' \<longleftrightarrow> x = ''''" by simp
  show "x @ ''/'' \<noteq> ''/sandboxes''" using e [of "''/sandboxe''" "CHR ''s''"] by simp
  show "x @ ''/'' \<noteq> ''/nodes''" using e [of "''/node''" "CHR ''s''"] by simp
  show "x @ ''/'' \<noteq> ''/settings''" using e [of "''/setting''" "CHR ''s''"] by simp
  show "x @ ''/'' \<noteq> ''/login''" using e [of "''/logi''" "CHR ''n''"] by simp
qed

lemma ui_redirected: "path @ ''/'' \<in> set (map tr_pattern (ui_routes cfg tm files)) \<longleftrightarrow> path \<in> {'''', ''/static''}"
  by (auto simp: ui_routes_def ends_in_slash)

lemmas page_handlers = handleDashboard_def handleSandboxes_def handleNodes_def handleSettings_def handleLoginPage_def

lemma ui_Handler_serves:
  assumes "has_prefix (rq_path rq) ''/''"
  shows "ui_Handler cfg tm files rq s =
     (if rq_method rq \<notin> {''GET'', ''HEAD''} then (plain_error 405 ''Method Not Allowed'', s)
      else if rq_path rq = ''/static'' then (moved_permanently (''/static/'' @ (if rq_query rq = '''' then '''' else ''?'' @ rq_query rq)), s)
      else tr_handler (the (longest_match (ui_routes cfg tm files) (rq_path rq))) rq s)"
proof -
  have ne: "rq_path rq \<noteq> ''''" using assms by (auto simp: has_prefix_def)
  have "longest_match (ui_routes cfg tm files) (rq_path rq) \<noteq> None" using assms by (simp add: ui_longest_match)
  then obtain r where r: "longest_match (ui_routes cfg tm files) (rq_path rq) = Some r" by blast
  have st: "tr_pattern r = ''/''" "\<not> subtree (rq_path rq)" if "rq_path rq = ''/static''"
    using r that by (simp_all add: ui_longest_match has_prefix_def subtree_def split: if_splits) auto
  show ?thesis
  proof (cases "rq_path rq = ''/static''")
    case True
    then show ?thesis
      using st [OF True] r ui_redirected [of "''/static''" cfg tm files] unfolding ui_Handler_def serve_tree_def Let_def True
      by simp
  next
    case False
    then have "rq_path rq @ ''/'' \<notin> set (map tr_pattern (ui_routes cfg tm files))" using ne ui_redirected by blast
    with r False show ?thesis unfolding ui_Handler_def serve_tree_def Let_def by simp
  qed
qed

text \<open>
  C40. The web interface is this table: for GET and HEAD, the files of the static directory, a redirection
  to it from its name without the slash, the four other pages at their own paths, and the dashboard at every other path, so no path is
  ever answered with 404; any other method gets 405.
\<close>
theorem ui_pages:
  assumes "has_prefix (rq_path rq) ''/''"
  shows "ui_Handler cfg tm files rq s =
     (if rq_method rq \<notin> {''GET'', ''HEAD''} then (plain_error 405 ''Method Not Allowed'', s)
      else if has_prefix (rq_path rq) ''/static/'' then files rq s
      else if rq_path rq = ''/static''
      then (moved_permanently (''/static/'' @ (if rq_query rq = '''' then '''' else ''?'' @ rq_query rq)), s)
      else if rq_path rq = ''/login''
      then (render tm ''login'' \<lparr>pd_Title = ''Login'', pd_ControlPlaneURL = ui_ControlPlaneURL cfg, pd_Page = ''''\<rparr>, s)
      else (render tm ''layout'' (case map_of [(''/sandboxes'', (''Sandboxes'', ''sandboxes'')), (''/nodes'', (''Nodes'', ''nodes'')),
                (''/settings'', (''Settings'', ''settings''))] (rq_path rq) of
              Some (title, page) \<Rightarrow> \<lparr>pd_Title = title, pd_ControlPlaneURL = ui_ControlPlaneURL cfg, pd_Page = page\<rparr>
            | None \<Rightarrow> \<lparr>pd_Title = ''Dashboard'', pd_ControlPlaneURL = ui_ControlPlaneURL cfg, pd_Page = ''dashboard''\<rparr>), s))"
proof -
  have f: "\<not> has_prefix ''/sandboxes'' ''/static/''" "\<not> has_prefix ''/nodes'' ''/static/''" "\<not> has_prefix ''/settings'' ''/static/''"
    "\<not> has_prefix ''/login'' ''/static/''" "\<not> has_prefix ''/static'' ''/static/''" by (simp_all add: has_prefix_def)
  show ?thesis
    unfolding ui_Handler_serves [OF assms] ui_longest_match
    using assms f by (cases "rq_path rq \<in> {''/sandboxes'', ''/nodes'', ''/settings'', ''/login'', ''/static''}") (auto simp: page_handlers)
qed

lemma ui_pages_witness:
  "\<exists>rq. rq_path rq = ''/no/such/page'' \<and> ui_Handler \<lparr>ui_Port = 3000, ui_ControlPlaneURL = ''http://cp''\<rparr> (\<lambda>name d. (pd_Title d, None))
       (\<lambda>rq s. (plain_error 404 '''', s)) rq ()
     = (\<lparr>status = 200, rheaders = [(''Content-Type'', ''text/html; charset=utf-8'')], rbody = BRaw ''Dashboard''\<rparr>, ())"
proof -
  let ?rq = "empty_request\<lparr>rq_path := ''/no/such/page''\<rparr>"
  have p: "has_prefix (rq_path ?rq) ''/''" "\<not> has_prefix (rq_path ?rq) ''/static/''" "rq_method ?rq = ''GET''"
    by (simp_all add: has_prefix_def empty_request_def)
  show ?thesis
    using p(2,3) by (intro exI [of _ ?rq]) (simp add: ui_pages [OF p(1)] render_def)
qed

section \<open>The pages of a user who has logged in\<close>

lemma v1_path:
  assumes "rq_path rq = ''/v1'' @ rest" and "rest = '''' \<or> hd rest = CHR ''/''"
  shows "\<not> isPublicPath (rq_path rq)" "\<not> has_prefix (rq_path rq) ''/internal/''"
  using assms by (auto simp: isPublicPath_def has_prefix_def)

text \<open>A request with a live session and no key runs with the session's user and without a project.\<close>

lemma session_admits:
  assumes "db_ok (sv_db s)" and "down (sv_db s) = None" and "u \<in> set (t_users (sv_db s))" and "token \<noteq> ''''"
    and "gm_get (sv_sessions s) token = Some (u_ID u)" and "gm_get jar ''session'' = Some token"
  shows "AuthMiddleware nx (page_fetch jar m (''/v1/'' @ rest) b) s = nx (background\<lparr>cx_user := Some u\<rparr>) (page_fetch jar m (''/v1/'' @ rest) b) s"
proof (rule AuthMiddleware_lets_in [OF assms(1) admits.user])
  let ?rq = "page_fetch jar m (''/v1/'' @ rest) b"
  show "\<not> isPublicPath (rq_path ?rq)" "\<not> has_prefix (rq_path ?rq) ''/internal/''"
    using v1_path [of ?rq "''/'' @ rest"] by (simp_all add: page_fetch_def)
  show "\<not> valid_node_key s ?rq" "get_or_empty (rq_header ?rq) ''X-API-Key'' = ''''"
    by (auto simp: valid_node_key_def page_fetch_def get_or_empty_def)
  show "gm_get (rq_cookie ?rq) ''session'' = Some token" using assms(6) by (simp add: page_fetch_def)
qed (use assms in simp_all)

lemma on_v1_path: "cp_on_path m (''v1'' # split_byte CHR ''/'' rest) (page_fetch jar m (''/v1/'' @ rest) b)"
  by (simp add: cp_on_path_def page_fetch_def path_segments_def)

lemma session_served:
  assumes "db_ok (sv_db s)" and "down (sv_db s) = None" and "u \<in> set (t_users (sv_db s))" and "token \<noteq> ''''"
    and "gm_get (sv_sessions s) token = Some (u_ID u)" and "gm_get jar ''session'' = Some token" and "m \<noteq> ''OPTIONS''"
    and "serve_mux (cp_routes e (background\<lparr>cx_user := Some u\<rparr>)) (page_fetch jar m (''/v1/'' @ rest) b) s = (resp, s')"
  shows "cp_Handler e (page_fetch jar m (''/v1/'' @ rest) b) s = (preset_headers cors_headers resp, s')"
  using assms(7,8) session_admits [OF assms(1-6), of "\<lambda>cx. serve_mux (cp_routes e cx)" m rest b]
  by (simp add: cp_Handler_def corsMiddleware_def page_fetch_def)

lemma no_project: "cx_project (background\<lparr>cx_user := x\<rparr>) = None"
  by (simp add: background_def)

lemma delete_answers:
  assumes "db_ok (sv_db s)" and "down (sv_db s) = None" and "x \<in> set (t_sandboxes (sv_db s))" and "n \<in> set (t_nodes (sv_db s))"
    and "n_ID n = s_NodeID x" and "get_or_empty (rq_vars rq) ''id'' = s_ID x"
  shows "\<exists>s'. handleDeleteSandbox e rq s = (cp_writeOK (JObj [(''status'', JStr ''deleted'')]), s')
    \<and> t_sandboxes (sv_db s') = filter (\<lambda>y. s_ID y \<noteq> s_ID x) (t_sandboxes (sv_db s))"
proof -
  have "sandbox_and_node m (s_ID x) (sv_db s) = Inr (x, n)" for m
    using assms(1-5) by (simp add: sandbox_and_node_def GetSandbox_def GetNode_def db_row_def db_ok_def find_key_iff [THEN iffD2])
  then show ?thesis
    using assms(2,6)
    by (simp add: handleDeleteSandbox_def case_prod_unfold Let_def forwardToNode_db db_DeleteSandbox_def db_exec_def)
qed

lemma plain_identifier_segment: "plain_identifier i \<Longrightarrow> i \<noteq> '''' \<and> CHR ''/'' \<notin> set i"
proof -
  assume i: "plain_identifier i"
  have slash: "\<not> (CHR ''/'' = CHR ''-'' \<or> (let n = of_char (CHR ''/'') :: nat in (48 \<le> n \<and> n < 58) \<or> (65 \<le> n \<and> n < 91) \<or> (97 \<le> n \<and> n < 123)))"
    by simp
  from i show ?thesis unfolding plain_identifier_def list_all_iff using slash by blast
qed

text \<open>Every call of the scripts that is not simple ends with its preflight request.\<close>

lemma preflight_refused:
  assumes "\<not> simple_call rq"
  shows "browser_fetch origin (cp_Handler e) rq s = (None, s)"
proof -
  have p: "cp_Handler e (preflight origin rq) s = (\<lparr>status = http_no_content, rheaders = cors_headers, rbody = BEmpty\<rparr>, s)"
    by (simp add: preflight_def cp_Handler_def corsMiddleware_def)
  have "\<not> allows_origin origin \<lparr>status = http_no_content, rheaders = cors_headers, rbody = BEmpty\<rparr>"
    by (simp add: allows_origin_def cors_headers_def)
  then show ?thesis using assms by (simp add: browser_fetch_def p preflight_passes_def)
qed

text \<open>A simple call is served, and the script sees nothing of an answer that has no header of its own but its type.\<close>

lemma plain_answer_hidden:
  assumes "simple_call rq" and "rq_method rq \<noteq> ''OPTIONS''"
    and "rheaders (fst (AuthMiddleware (\<lambda>cx. serve_mux (cp_routes e cx)) rq s)) = [(''Content-Type'', t)]"
  shows "browser_fetch origin (cp_Handler e) rq s = (None, snd (cp_Handler e rq s))"
proof -
  let ?r = "AuthMiddleware (\<lambda>cx. serve_mux (cp_routes e cx)) rq s"
  have h: "cp_Handler e rq s = (preset_headers cors_headers (fst ?r), snd ?r)"
    using assms(2) by (simp add: cp_Handler_def corsMiddleware_def case_prod_unfold Let_def)
  have "\<not> allows_origin origin (preset_headers cors_headers (fst ?r))"
    using assms(3) by (simp add: allows_origin_def preset_headers_def cors_headers_def)
  then show ?thesis using assms(1) by (simp add: browser_fetch_def h)
qed

lemma reader_answers:
  assumes "rq \<in> {loadSandboxes jar, loadNodes jar, loadDashboard jar}"
  shows "simple_call rq" "rq_method rq \<noteq> ''OPTIONS''"
    "rheaders (fst (AuthMiddleware (\<lambda>cx. serve_mux (cp_routes e cx)) rq s)) = [(''Content-Type'', ''application/json'')]"
    "snd (cp_Handler e rq s) = s"
proof -
  show "simple_call rq" "rq_method rq \<noteq> ''OPTIONS''"
    using assms by (auto simp: simple_call_def loadSandboxes_def loadNodes_def loadDashboard_def page_fetch_def)
  have j: "rheaders (json_response st j) = [(''Content-Type'', ''application/json'')]" for st j
    by (simp add: json_response_def)
  have r: "rheaders (fst (serve_mux (cp_routes e cx) rq s)) = [(''Content-Type'', ''application/json'')]
      \<and> snd (serve_mux (cp_routes e cx) rq s) = s" for cx
    using assms
    by (elim insertE emptyE; simp add: serve_mux_def cp_route_search loadSandboxes_def loadNodes_def loadDashboard_def page_fetch_def
        path_segments_def handleListSandboxes_def handleListNodes_def cp_handleHealth_def cp_writeOK_def cp_writeErr_def j Let_def
        split: option.split sum.split)
  then show h: "rheaders (fst (AuthMiddleware (\<lambda>cx. serve_mux (cp_routes e cx)) rq s)) = [(''Content-Type'', ''application/json'')]"
    by (simp add: AuthMiddleware_def Let_def unauthorized_def cp_writeErr_def j split: option.split sum.split)
  have "snd (AuthMiddleware (\<lambda>cx. serve_mux (cp_routes e cx)) rq s) = s"
    using r by (simp add: AuthMiddleware_def Let_def split: option.split sum.split)
  then show "snd (cp_Handler e rq s) = s"
    using \<open>rq_method rq \<noteq> ''OPTIONS''\<close> by (simp add: cp_Handler_def corsMiddleware_def case_prod_unfold Let_def)
qed

lemma interface_blocked:
  "rq \<in> {loadSandboxes jar, loadNodes jar, loadDashboard jar, createSandbox_click jar, deleteSandbox_click jar i,
      login_click jar email pw, register_click jar email pw} \<Longrightarrow> browser_fetch origin (cp_Handler e) rq s = (None, s)"
proof -
  assume rq: "rq \<in> {loadSandboxes jar, loadNodes jar, loadDashboard jar, createSandbox_click jar, deleteSandbox_click jar i,
      login_click jar email pw, register_click jar email pw}"
  show ?thesis
  proof (cases "rq \<in> {loadSandboxes jar, loadNodes jar, loadDashboard jar}")
    case True
    from plain_answer_hidden [OF reader_answers(1-3) [OF True], of origin e s] reader_answers(4) [OF True, of e s]
    show ?thesis by simp
  next
    case False
    with rq have "\<not> simple_call rq"
      by (auto simp: simple_call_def createSandbox_click_def deleteSandbox_click_def login_click_def register_click_def page_fetch_def)
    then show ?thesis by (rule preflight_refused)
  qed
qed

text \<open>
  C14. Who can use the control plane with a session. The scripts of the web interface cannot: in a browser, where
  their pages have another origin, every one of their calls fails and the control plane does not change,
  whatever cookies are sent; the nodes and sandboxes are never shown, and creating, deleting, logging
  in and registering end with the preflight request, because the wildcard origin does not allow
  credentials. Any other client that sends the cookie of a live session gets 401 when it lists or creates
  sandboxes, because a session carries no project, but sees every node, and its delete request, which
  asks for no project, removes any sandbox of any project whose node is in the table.
\<close>
theorem session_sees_no_sandbox_deletes_any:
  assumes "db_ok (sv_db s)" and "down (sv_db s) = None" and "u \<in> set (t_users (sv_db s))" and "token \<noteq> ''''"
    and "gm_get (sv_sessions s) token = Some (u_ID u)" and "gm_get jar ''session'' = Some token"
  shows "(\<forall>origin jar i email pw s'. \<forall>rq \<in> {loadSandboxes jar, loadNodes jar, loadDashboard jar, createSandbox_click jar,
        deleteSandbox_click jar i, login_click jar email pw, register_click jar email pw}.
        browser_fetch origin (cp_Handler e) rq s' = (None, s'))
    \<and> cp_Handler e (loadSandboxes jar) s
      = (preset_headers cors_headers (cp_writeErr http_unauthorized ''unauthorized'' ''no project context''), s)
    \<and> cp_Handler e (createSandbox_click jar) s
      = (preset_headers cors_headers (cp_writeErr http_unauthorized ''unauthorized'' ''no project context''), s)
    \<and> (\<exists>nodes. set nodes = set (t_nodes (sv_db s))
         \<and> cp_Handler e (loadNodes jar) s = (preset_headers cors_headers (cp_writeOK (JArr (map node_json nodes))), s))
    \<and> (\<forall>x n. x \<in> set (t_sandboxes (sv_db s)) \<and> n \<in> set (t_nodes (sv_db s)) \<and> n_ID n = s_NodeID x
           \<and> plain_identifier (s_ID x) \<longrightarrow>
         (\<exists>s'. cp_Handler e (deleteSandbox_click jar (s_ID x)) s
             = (preset_headers cors_headers (cp_writeOK (JObj [(''status'', JStr ''deleted'')])), s')
           \<and> t_sandboxes (sv_db s') = filter (\<lambda>y. s_ID y \<noteq> s_ID x) (t_sandboxes (sv_db s))))"
proof -
  let ?cx = "background\<lparr>cx_user := Some u\<rparr>" and ?body = "Some (JObj [(''template'', JStr ''base''), (''vcpus'', JInt 1), (''memoryMB'', JInt 512)])"
  note served = session_served [OF assms]
  have list: "cp_Handler e (loadSandboxes jar) s
      = (preset_headers cors_headers (cp_writeErr http_unauthorized ''unauthorized'' ''no project context''), s)"
    using served [of "''GET''" e "''sandboxes''" None] on_v1_path [of "''GET''" "''sandboxes''" jar None]
    by (simp add: loadSandboxes_def cp_dispatches(4) handleListSandboxes_def no_project)
  have create: "cp_Handler e (createSandbox_click jar) s
      = (preset_headers cors_headers (cp_writeErr http_unauthorized ''unauthorized'' ''no project context''), s)"
    using served [of "''POST''" e "''sandboxes''" ?body] on_v1_path [of "''POST''" "''sandboxes''" jar ?body]
    by (simp add: createSandbox_click_def cp_dispatches(3) handleCreateSandbox_def no_project)
  have "serve_mux (cp_routes e ?cx) (page_fetch jar ''GET'' (''/v1/'' @ ''nodes'') None) s
      = (cp_writeOK (JArr (map node_json (sort_key (\<lambda>n. - n_CreatedAt n) (t_nodes (sv_db s))))), s)"
    using assms(2)
    by (simp add: serve_mux_def cp_route_search page_fetch_def path_segments_def handleListNodes_def ListNodes_def db_query_def)
  then have nodes: "cp_Handler e (loadNodes jar) s
      = (preset_headers cors_headers (cp_writeOK (JArr (map node_json (sort_key (\<lambda>n. - n_CreatedAt n) (t_nodes (sv_db s)))))), s)"
    unfolding loadNodes_def using served [of "''GET''" e "''nodes''" None] by simp
  have del: "\<exists>s'. cp_Handler e (deleteSandbox_click jar (s_ID x)) s
             = (preset_headers cors_headers (cp_writeOK (JObj [(''status'', JStr ''deleted'')])), s')
           \<and> t_sandboxes (sv_db s') = filter (\<lambda>y. s_ID y \<noteq> s_ID x) (t_sandboxes (sv_db s))"
    if x: "x \<in> set (t_sandboxes (sv_db s))" "n \<in> set (t_nodes (sv_db s))" "n_ID n = s_NodeID x" and i: "plain_identifier (s_ID x)" for x n
  proof -
    note id = plain_identifier_segment [OF i]
    have "split_byte CHR ''/'' (''sandboxes/'' @ s_ID x) = [''sandboxes'', s_ID x]"
      using split_byte_sep [of "CHR ''/''" "''sandboxes''" "s_ID x"] split_byte_end [OF id [THEN conjunct2]] by simp
    from on_v1_path [of "''DELETE''" "''sandboxes/'' @ s_ID x" jar None, unfolded this] id [THEN conjunct1]
    have d: "serve_mux (cp_routes e ?cx) (page_fetch jar ''DELETE'' (''/v1/'' @ (''sandboxes/'' @ s_ID x)) None) s
        = handleDeleteSandbox e (page_fetch jar ''DELETE'' (''/v1/'' @ (''sandboxes/'' @ s_ID x)) None\<lparr>rq_vars := [(''id'', s_ID x)]\<rparr>) s"
      by (rule cp_dispatches(2))
    then show ?thesis
      using delete_answers [OF assms(1,2) x(1-3), of "page_fetch jar ''DELETE'' (''/v1/'' @ (''sandboxes/'' @ s_ID x)) None\<lparr>rq_vars := [(''id'', s_ID x)]\<rparr>" e]
        served [of "''DELETE''" e "''sandboxes/'' @ s_ID x" None] by (auto simp: deleteSandbox_click_def get_or_empty_def)
  qed
  show ?thesis
    using list create nodes del by (intro conjI allI ballI impI interface_blocked exI [of _ "sort_key (\<lambda>n. - n_CreatedAt n) (t_nodes (sv_db s))"]) auto
qed

definition session_server :: "unit cpserver" where
  "session_server = (cp_NewServer demo_config
     (OpenDB\<lparr>t_users := [\<lparr>u_ID = ''u1'', u_Email = ''a@b.c'', u_PasswordHash = '''', u_CreatedAt = 0\<rparr>],
        t_nodes := [demo_cp_node ''n1''], t_sandboxes := [foreign_row]\<rparr>) ())\<lparr>sv_sessions := [(''t0'', ''u1'')]\<rparr>"

lemma session_sees_no_sandbox_deletes_any_witness:
  "\<exists>s'. cp_Handler (demo_env accepting) (deleteSandbox_click [(''session'', ''t0'')] ''sb-9'') session_server
       = (preset_headers cors_headers (cp_writeOK (JObj [(''status'', JStr ''deleted'')])), s') \<and> t_sandboxes (sv_db s') = []
     \<and> status (fst (cp_Handler (demo_env accepting) (loadSandboxes [(''session'', ''t0'')]) session_server)) = 401"
proof -
  obtain u where h: "db_ok (sv_db session_server)" "down (sv_db session_server) = None" "u \<in> set (t_users (sv_db session_server))"
    "''t0'' \<noteq> ''''" "gm_get (sv_sessions session_server) ''t0'' = Some (u_ID u)" "gm_get [(''session'', ''t0'')] ''session'' = Some ''t0''"
    by (simp add: session_server_def cp_NewServer_def OpenDB_def db_ok_def)
  have x: "foreign_row \<in> set (t_sandboxes (sv_db session_server))" "demo_cp_node ''n1'' \<in> set (t_nodes (sv_db session_server))"
    "n_ID (demo_cp_node ''n1'') = s_NodeID foreign_row" "s_ID foreign_row = ''sb-9''" "t_sandboxes (sv_db session_server) = [foreign_row]"
    by (simp_all add: session_server_def cp_NewServer_def foreign_row_def demo_cp_node_def)
  have pid: "plain_identifier (s_ID foreign_row)" by (simp add: x(4) plain_identifier_def)
  note all = session_sees_no_sandbox_deletes_any [OF h, of "demo_env accepting"]
  have "\<exists>s'. cp_Handler (demo_env accepting) (deleteSandbox_click [(''session'', ''t0'')] (s_ID foreign_row)) session_server
       = (preset_headers cors_headers (cp_writeOK (JObj [(''status'', JStr ''deleted'')])), s')
     \<and> t_sandboxes (sv_db s') = filter (\<lambda>y. s_ID y \<noteq> s_ID foreign_row) (t_sandboxes (sv_db session_server))"
    using all [THEN conjunct2, THEN conjunct2, THEN conjunct2, THEN conjunct2, rule_format, of foreign_row "demo_cp_node ''n1''"] x pid by simp
  then show ?thesis
    using all [THEN conjunct2, THEN conjunct1] unfolding x(4,5) by (auto simp: x(4) preset_headers_def cp_writeErr_def)
qed

end
