(* ===== verification/Placement_Overlap.thy ===== *)
theory Placement_Overlap
  imports ControlPlane_Handlers
begin

text \<open>
  Creations that overlap on the control plane: the handler reads the nodes, calls the node it picked, and only
  then writes what it read plus one. The two halves as definitions of their own, that the handler is one after
  the other, and what becomes of the counter when several requests have read before any of them writes.
\<close>

section \<open>The two halves of a creation\<close>

definition choose_node :: "cp_ctx \<Rightarrow> request \<Rightarrow> db \<Rightarrow> response + project \<times> create_sandbox_request \<times> cp_node" where
  "choose_node cx rq d =
     (case cx_project cx of
        None \<Rightarrow> Inl (cp_writeErr http_unauthorized ''unauthorized'' ''no project context'')
      | Some project \<Rightarrow>
     (case bind_res (dec_object (rq_json rq)) decode_create_sandbox of
        Inl err \<Rightarrow> Inl (cp_writeErr http_bad_request ''bad_request'' err)
      | Inr req \<Rightarrow>
     (case ListOnlineNodes d of
        Inl _ \<Rightarrow> Inl (cp_writeErr http_unavailable ''no_capacity'' ''no nodes available'')
      | Inr [] \<Rightarrow> Inl (cp_writeErr http_unavailable ''no_capacity'' ''no nodes available'')
      | Inr nodes \<Rightarrow>
     (case find has_room nodes of
        None \<Rightarrow> Inl (cp_writeErr http_unavailable ''no_capacity'' ''all nodes at capacity'')
      | Some target \<Rightarrow> Inr (project, req, target)))))"

definition place_on :: "'w cp_env \<Rightarrow> project \<times> create_sandbox_request \<times> cp_node \<Rightarrow> 'w cpserver \<Rightarrow> response \<times> 'w cpserver" where
  "place_on e p s =
     (let (project, req, target) = p;
          sandboxID = new_sandbox_id (e_uuid e 0)
      in case forwardToNode e target ''POST'' ''/sandboxes'' (Some (node_request_body sandboxID req)) s of
           (Some err, s1) \<Rightarrow> (cp_writeErr http_bad_gateway ''node_error'' (''failed to create sandbox: '' @ err), s1)
         | (None, s1) \<Rightarrow>
             let (_, db1) = CreateSandbox (sandbox_row e sandboxID project target req) (sv_db s1);
                 (_, db2) = UpdateNodeHeartbeat (n_ID target) (n_Running target + 1) (e_now e) db1
             in (cp_writeOK (JObj [(''sandboxId'', JStr sandboxID), (''status'', JStr ''running''),
                   (''hostIp'', JStr (n_PublicIP target))]), s1\<lparr>sv_db := db2\<rparr>))"

lemma create_split:
  "handleCreateSandbox e cx rq s = (case choose_node cx rq (sv_db s) of Inl resp \<Rightarrow> (resp, s) | Inr p \<Rightarrow> place_on e p s)"
  by (simp add: handleCreateSandbox_def choose_node_def place_on_def Let_def split: option.split sum.split list.split)

text \<open>Several placements finish one after the other.\<close>

fun place_all :: "('w cp_env \<times> project \<times> create_sandbox_request \<times> cp_node) list \<Rightarrow> 'w cpserver \<Rightarrow> 'w cpserver" where
  "place_all [] s = s"
| "place_all ((e, p) # ps) s = place_all ps (snd (place_on e p s))"

section \<open>Counting\<close>

definition accepts_all :: "'w cp_env \<Rightarrow> bool" where
  "accepts_all e \<longleftrightarrow> (\<forall>url. e_new_request e url = None) \<and> (\<forall>q w. \<exists>a. fst (e_client e q w) = Inr a \<and> status a < 400)"

definition on_node :: "string \<Rightarrow> db \<Rightarrow> nat" where
  "on_node i d = length (filter (\<lambda>x. s_NodeID x = i) (t_sandboxes d))"

lemma accepted_forward:
  assumes "accepts_all e"
  shows "fst (forwardToNode e n m p b s) = None"
proof -
  have "e_new_request e (n_Address n @ p) = None" using assms by (simp add: accepts_all_def)
  moreover have "\<exists>a. fst (e_client e q (sv_world s)) = Inr a \<and> status a < 400" for q using assms by (simp add: accepts_all_def)
  ultimately show ?thesis
    unfolding forwardToNode_def Let_def by (auto simp: case_prod_unfold split: sum.split) (metis Inl_Inr_False Inr_inject leD sum.sel)+
qed

text \<open>One placement that the node accepts: one row more on its node, whose counter is what was read plus one.\<close>

lemma place_on_rows:
  assumes "accepts_all e" and "down (sv_db s) = None" and "\<forall>x \<in> set (t_sandboxes (sv_db s)). s_ID x \<noteq> new_sandbox_id (e_uuid e 0)"
    and "d = sv_db (snd (place_on e (project, req, t) s))"
  shows "down d = None" "s_ID ` set (t_sandboxes d) = insert (new_sandbox_id (e_uuid e 0)) (s_ID ` set (t_sandboxes (sv_db s)))"
    "on_node (n_ID t) d = Suc (on_node (n_ID t) (sv_db s))"
    "t_nodes d = map (\<lambda>n. if n_ID n = n_ID t then n\<lparr>n_Running := n_Running t + 1, n_LastSeen := stored_time (e_now e), n_Status := ''online''\<rparr> else n)
       (t_nodes (sv_db s))"
proof -
  let ?row = "sandbox_row e (new_sandbox_id (e_uuid e 0)) project t req"
  have d: "d = snd (UpdateNodeHeartbeat (n_ID t) (n_Running t + 1) (e_now e) (snd (CreateSandbox ?row (sv_db s))))"
    using accepted_forward [OF assms(1)]
    by (simp add: assms(4) place_on_def Let_def case_prod_unfold forwardToNode_db)
  have f: "\<not> (\<exists>x \<in> set (t_sandboxes (sv_db s)). s_ID x = s_ID ?row)" using assms(3) by (simp add: sandbox_row_def Let_def)
  have r: "s_ID ?row = new_sandbox_id (e_uuid e 0)" "s_NodeID ?row = n_ID t" by (simp_all add: sandbox_row_def Let_def)
  note rows = d UpdateNodeHeartbeat_def CreateSandbox_def db_exec_def
  show "down d = None" "on_node (n_ID t) d = Suc (on_node (n_ID t) (sv_db s))"
    "s_ID ` set (t_sandboxes d) = insert (new_sandbox_id (e_uuid e 0)) (s_ID ` set (t_sandboxes (sv_db s)))"
    "t_nodes d = map (\<lambda>n. if n_ID n = n_ID t then n\<lparr>n_Running := n_Running t + 1, n_LastSeen := stored_time (e_now e), n_Status := ''online''\<rparr> else n)
       (t_nodes (sv_db s))"
    using assms(2) f r by (auto simp: rows on_node_def)
qed

lemma place_all_rows:
  assumes "\<forall>(e, project, req, n) \<in> set ps. accepts_all e \<and> n = t" and "down (sv_db s) = None"
    and "distinct (map (\<lambda>(e, p). new_sandbox_id (e_uuid e 0)) ps)"
    and "\<forall>(e, p) \<in> set ps. new_sandbox_id (e_uuid e 0) \<notin> s_ID ` set (t_sandboxes (sv_db s))"
  shows "on_node (n_ID t) (sv_db (place_all ps s)) = on_node (n_ID t) (sv_db s) + length ps
    \<and> (ps \<noteq> [] \<or> (\<forall>n \<in> set (t_nodes (sv_db s)). n_ID n = n_ID t \<longrightarrow> n_Running n = n_Running t + 1) \<longrightarrow>
         (\<forall>n \<in> set (t_nodes (sv_db (place_all ps s))). n_ID n = n_ID t \<longrightarrow> n_Running n = n_Running t + 1))
    \<and> map n_ID (t_nodes (sv_db (place_all ps s))) = map n_ID (t_nodes (sv_db s)) \<and> down (sv_db (place_all ps s)) = None"
  using assms
proof (induction ps arbitrary: s)
  case (Cons q ps)
  obtain e project req where q: "q = (e, project, req, t)" "accepts_all e" using Cons.prems(1) by (cases q) auto
  let ?s1 = "snd (place_on e (project, req, t) s)"
  have fresh: "\<forall>x \<in> set (t_sandboxes (sv_db s)). s_ID x \<noteq> new_sandbox_id (e_uuid e 0)" 
  proof -
    have "new_sandbox_id (e_uuid e 0) \<notin> s_ID ` set (t_sandboxes (sv_db s))" using Cons.prems(4) q by auto
    then show ?thesis by (metis imageI)
  qed
  note one = place_on_rows [OF q(2) Cons.prems(2) fresh refl, where project = project and req = req and t = t]
  have ids: "new_sandbox_id (e_uuid e 0) \<notin> (\<lambda>(e, p). new_sandbox_id (e_uuid e 0)) ` set ps" using Cons.prems(3) q by simp
  have new: "new_sandbox_id (e_uuid e' 0) \<notin> s_ID ` set (t_sandboxes (sv_db ?s1))" if m: "(e', p) \<in> set ps" for e' p
  proof -
    have "new_sandbox_id (e_uuid e' 0) \<noteq> new_sandbox_id (e_uuid e 0)" using ids m by force
    moreover have "new_sandbox_id (e_uuid e' 0) \<notin> s_ID ` set (t_sandboxes (sv_db s))" using Cons.prems(4) m by auto
    ultimately show ?thesis by (simp only: one(2) insert_iff) simp
  qed
  have rest: "\<forall>(e, project, req, n) \<in> set ps. accepts_all e \<and> n = t" "distinct (map (\<lambda>(e, p). new_sandbox_id (e_uuid e 0)) ps)"
    "\<forall>(e', p) \<in> set ps. new_sandbox_id (e_uuid e' 0) \<notin> s_ID ` set (t_sandboxes (sv_db ?s1))"
    subgoal using Cons.prems(1) by simp
    subgoal using Cons.prems(3) by simp
    subgoal by (intro ballI case_prodI2) (simp only: new simp_thms not_False_eq_True)
    done
  note IH = Cons.IH [OF rest(1) one(1) rest(2,3)]
  have counted: "\<forall>n \<in> set (t_nodes (sv_db ?s1)). n_ID n = n_ID t \<longrightarrow> n_Running n = n_Running t + 1" by (auto simp: one(4))
  have names: "map n_ID (t_nodes (sv_db ?s1)) = map n_ID (t_nodes (sv_db s))" by (simp add: one(4))
  have first: "place_all (q # ps) s = place_all ps ?s1" by (simp add: q(1))
  show ?case
    unfolding first
  proof (intro conjI impI)
    show "on_node (n_ID t) (sv_db (place_all ps ?s1)) = on_node (n_ID t) (sv_db s) + length (q # ps)"
      using IH [THEN conjunct1] by (simp add: one(3))
    show "\<forall>n \<in> set (t_nodes (sv_db (place_all ps ?s1))). n_ID n = n_ID t \<longrightarrow> n_Running n = n_Running t + 1"
      using IH counted by blast
    show "map n_ID (t_nodes (sv_db (place_all ps ?s1))) = map n_ID (t_nodes (sv_db s))"
      using IH names by metis
    show "down (sv_db (place_all ps ?s1)) = None" using IH by blast
  qed
qed simp

text \<open>What a request chooses is read from the tables alone: overlapping requests choose the same node.\<close>

lemma choose_node_target:
  assumes "choose_node cx rq d = Inr (project, req, t)"
  shows "\<exists>nodes. ListOnlineNodes d = Inr nodes \<and> find has_room nodes = Some t"
  using assms by (auto simp: choose_node_def split: option.splits sum.splits list.splits)

text \<open>
  C26. Overlapping creations overshoot a node: when several requests have read the nodes before any of them writes,
  all of them go to one node, and after all of them have finished that node holds as many rows more
  as there were requests, while its counter says one more than before, however many the node has room for.
\<close>
theorem overlapping_placements:
  assumes "db_ok (sv_db s)" and "down (sv_db s) = None" and "reqs \<noteq> []"
    and "\<forall>(e, cx, rq) \<in> set reqs. accepts_all e \<and> \<not> isl (choose_node cx rq (sv_db s))"
    and "ps = map (\<lambda>(e, cx, rq). (e, projr (choose_node cx rq (sv_db s)))) reqs"
    and "distinct (map (\<lambda>(e, cx, rq). new_sandbox_id (e_uuid e 0)) reqs)"
    and "\<forall>(e, cx, rq) \<in> set reqs. new_sandbox_id (e_uuid e 0) \<notin> s_ID ` set (t_sandboxes (sv_db s))"
  shows "\<exists>t n. t \<in> candidates (sv_db s) \<and> GetNode (n_ID t) (sv_db (place_all ps s)) = Inr n \<and> n_Running n = n_Running t + 1
    \<and> on_node (n_ID t) (sv_db (place_all ps s)) = on_node (n_ID t) (sv_db s) + length reqs"
proof -
  obtain e0 cx0 rq0 where "(e0, cx0, rq0) \<in> set reqs" using assms(3) by (cases reqs) auto
  then obtain project req t where c: "choose_node cx0 rq0 (sv_db s) = Inr (project, req, t)"
    using assms(4) by (cases "choose_node cx0 rq0 (sv_db s)") auto
  obtain nodes where l: "ListOnlineNodes (sv_db s) = Inr nodes" "find has_room nodes = Some t" using choose_node_target [OF c] by blast
  have t: "t \<in> candidates (sv_db s)"
    using l found [OF l(2)] by (auto simp: ListOnlineNodes_def db_query_def assms(2) candidates_def)
  have same: "n = t" if "choose_node cx rq (sv_db s) = Inr (pr, r, n)" for cx rq pr r n
    using choose_node_target [OF that] l by simp
  have p1: "\<forall>(e, project, req, n) \<in> set ps. accepts_all e \<and> n = t"
  proof (rule ballI, clarify)
    fix e a b n assume "(e, a, b, n) \<in> set ps"
    then obtain cx rq where m: "(e, cx, rq) \<in> set reqs" "projr (choose_node cx rq (sv_db s)) = (a, b, n)" by (auto simp: assms(5))
    then show "accepts_all e \<and> n = t" using assms(4) same [of cx rq a b n] by (cases "choose_node cx rq (sv_db s)") auto
  qed
  have p2: "distinct (map (\<lambda>(e, p). new_sandbox_id (e_uuid e 0)) ps)"
    using assms(6) by (simp add: assms(5) comp_def case_prod_unfold)
  have p3: "\<forall>(e, p) \<in> set ps. new_sandbox_id (e_uuid e 0) \<notin> s_ID ` set (t_sandboxes (sv_db s))"
    using assms(7) by (auto simp: assms(5))
  let ?d = "sv_db (place_all ps s)"
  have all: "on_node (n_ID t) ?d = on_node (n_ID t) (sv_db s) + length reqs"
    "\<forall>n \<in> set (t_nodes ?d). n_ID n = n_ID t \<longrightarrow> n_Running n = n_Running t + 1"
    "map n_ID (t_nodes ?d) = map n_ID (t_nodes (sv_db s))" "down ?d = None"
    using place_all_rows [OF p1 assms(2) p2 p3] assms(3,5) by auto
  have "n_ID t \<in> set (map n_ID (t_nodes ?d))" using t unfolding all(3) by (simp add: candidates_def)
  then obtain n where n: "n \<in> set (t_nodes ?d)" "n_ID n = n_ID t" by auto
  have "distinct (map n_ID (t_nodes ?d))" using assms(1) unfolding all(3) by (simp add: db_ok_def)
  then have "GetNode (n_ID t) ?d = Inr n" using n all(4) by (simp add: GetNode_def db_row_Inr find_key_iff)
  with t n all(1,2) show ?thesis by blast
qed

lemma one_node_chosen:
  "choose_node (background\<lparr>cx_project := Some demo_project\<rparr>) create_cp_rq (sv_db one_node_server)
     = Inr (demo_project, \<lparr>cs_Template = ''python'', cs_VCPUs = 0, cs_MemoryMB = 0, cs_Timeout = 0, cs_Metadata = [], cs_EnvVars = None\<rparr>,
         (demo_cp_node ''n1'')\<lparr>n_LastSeen := stored_time (7 * second + 5), n_CreatedAt := stored_time (7 * second + 5)\<rparr>)"
  by (simp add: choose_node_def create_cp_rq_decodes ListOnlineNodes_def db_query_def one_node_nodes demo_cp_node_def has_room_def)

text \<open>Requests that differ in the identifier they draw.\<close>

definition numbered_env :: "nat \<Rightarrow> unit cp_env" where
  "numbered_env k = (demo_env accepting)\<lparr>e_uuid := (\<lambda>_. replicate k CHR ''a'')\<rparr>"

lemma overlapping_placements_witness:
  "\<exists>t (n :: cp_node). t \<in> candidates (sv_db one_node_server) \<and> n_Running n = n_Running t + 1
     \<and> on_node (n_ID t) (sv_db (place_all (map (\<lambda>k. (numbered_env k,
           projr (choose_node (background\<lparr>cx_project := Some demo_project\<rparr>) create_cp_rq (sv_db one_node_server)))) [0, 1, 2]) one_node_server)) = 3"
proof -
  let ?cx = "background\<lparr>cx_project := Some demo_project\<rparr>"
  let ?reqs = "map (\<lambda>k. (numbered_env k, ?cx, create_cp_rq)) [0, 1, 2]"
  have u: "e_uuid (numbered_env k) 0 = replicate k CHR ''a''" for k by (simp add: numbered_env_def)
  have a: "accepts_all (numbered_env k)" for k
    by (auto simp: accepts_all_def numbered_env_def demo_env_def accepting_def)
  let ?ps = "map (\<lambda>k. (numbered_env k, projr (choose_node ?cx create_cp_rq (sv_db one_node_server)))) [0, 1, 2]"
  have ps: "?ps = map (\<lambda>(e, cx, rq). (e, projr (choose_node cx rq (sv_db one_node_server)))) ?reqs" by simp
  have z: "on_node i (sv_db one_node_server) = 0" for i by (simp add: on_node_def one_node_nodes)
  have h: "?reqs \<noteq> []" "\<forall>(e, cx, rq) \<in> set ?reqs. accepts_all e \<and> \<not> isl (choose_node cx rq (sv_db one_node_server))"
    "distinct (map (\<lambda>(e, cx, rq). new_sandbox_id (e_uuid e 0)) ?reqs)"
    "\<forall>(e, cx, rq) \<in> set ?reqs. new_sandbox_id (e_uuid e 0) \<notin> s_ID ` set (t_sandboxes (sv_db one_node_server))"
    by (simp_all add: a one_node_chosen one_node_nodes u new_sandbox_id_def numeral_2_eq_2)
  obtain t and n :: cp_node where t: "t \<in> candidates (sv_db one_node_server)" "n_Running n = n_Running t + 1"
    and c: "on_node (n_ID t) (sv_db (place_all ?ps one_node_server)) = on_node (n_ID t) (sv_db one_node_server) + length ?reqs"
    using overlapping_placements [OF one_node_ok one_node_nodes(2) h(1,2) ps h(3,4)] by (elim exE conjE) (rule that)
  have "on_node (n_ID t) (sv_db (place_all ?ps one_node_server)) = 3" unfolding c z by simp
  with t show ?thesis by (intro exI [of _ t] exI [of _ n] conjI)
qed

end
