(* ===== verification/Cluster_Run.thy ===== *)
theory Cluster_Run
  imports ControlPlane_Run Cluster_Composition
begin

text \<open>
  The whole cluster: a control plane whose world is the nodes' machines and the cloud account. Nodes boot,
  serve, clean up and shut down on their own, requests reach them over a network that may cut a
  call before or after the node has served it. A request, with the call it makes of a node, is one
  step: requests that overlap are not covered here; without them every node stays within its capacity.
\<close>

section \<open>What a request asks of the world\<close>

text \<open>A request makes at most one call: of a node, or of a provider to buy a machine.\<close>

definition one_call :: "'w cp_env \<Rightarrow> 'w registry \<Rightarrow> 'w \<Rightarrow> 'w \<Rightarrow> bool" where
  "one_call e ps w w' \<longleftrightarrow> w' = w \<or> (\<exists>q. w' = snd (e_client e q w))
     \<or> (\<exists>name pv opts. reg_Get ps name = Inr pv \<and> w' = snd (pv_ProvisionNode pv opts w))"

named_theorems calls \<open>handlers make at most one call\<close>

lemma one_call_same [simp]: "one_call e ps w w"
  by (simp add: one_call_def)

lemma one_call_client [simp]: "one_call e ps w (snd (e_client e q w))"
  by (auto simp: one_call_def)

lemma one_call_provider: "reg_Get ps name = Inr pv \<Longrightarrow> one_call e ps w (snd (pv_ProvisionNode pv opts w))"
  by (auto simp: one_call_def)

lemma forwardToNode_calls [calls]: "one_call e ps (sv_world s) (sv_world (snd (forwardToNode e n m p b s)))"
  by (simp add: forwardToNode_def Let_def case_prod_unfold split: option.split sum.split)

lemma sandbox_handlers_call [calls]:
  "one_call e ps (sv_world s) (sv_world (snd (handleCreateSandbox e cx rq s)))"
  "one_call e ps (sv_world s) (sv_world (snd (handleDeleteSandbox e rq s)))"
  "one_call e ps (sv_world s) (sv_world (snd (set_status_on_node e verb st rq s)))"
  "one_call e ps (sv_world s) (sv_world (snd (proxySandboxToNode e m sub rq s)))"
  by (simp_all add: handleCreateSandbox_def handleDeleteSandbox_def set_status_on_node_def proxySandboxToNode_def Let_def
      case_prod_unfold forwardToNode_calls split: option.split sum.split list.split)

lemma account_handlers_call [calls]:
  "sv_world (snd (handleRegister e rq s)) = sv_world s" "sv_world (snd (handleLogin e rq s)) = sv_world s"
  "sv_world (snd (handleLogout rq s)) = sv_world s" "sv_world (snd (handleNodeRegister e rq s)) = sv_world s"
  "sv_world (snd (handleNodeHeartbeat e rq s)) = sv_world s"
  by (auto simp: handleRegister_def handleLogin_def handleLogout_def handleNodeRegister_def handleNodeHeartbeat_def Let_def
      case_prod_unfold split: sum.split prod.split option.split db_error.split)

lemma Provision_calls [calls]: "one_call e (sv_providers s) (sv_world s) (sv_world (snd (handleProvisionNode e rq s)))"
proof -
  have f: "sv_world (s\<lparr>sv_world := w\<rparr>) = w" "sv_world (s\<lparr>sv_world := w, sv_db := d\<rparr>) = w" for w d by simp_all
  show ?thesis
    unfolding handleProvisionNode_def Let_def case_prod_unfold
    by (simp only: snd_conv f one_call_same simp_thms split: sum.split) (blast intro: one_call_provider)
qed

lemma Handler_calls: "one_call e (sv_providers s) (sv_world s) (sv_world (snd (cp_Handler e rq s)))"
proof -
  have "one_call e (sv_providers s) (sv_world s) (sv_world (snd (rt_handler r rq s)))" if "r \<in> set (cp_routes e cx)" for r rq cx
    using that by (auto simp: cp_routes_def calls readers_keep handlePauseSandbox_def handleResumeSandbox_def handleExecSandbox_def
      handleExecStreamSandbox_def cp_handleReadFile_def cp_handleWriteFile_def cp_handleListFiles_def)
  then have "one_call e (sv_providers s) (sv_world s) (sv_world (snd (serve_mux (cp_routes e cx) rq s)))" for cx
    using serve_mux_invariant [of "cp_routes e cx" "\<lambda>s s'. one_call e (sv_providers s) (sv_world s) (sv_world s')" s rq] by simp
  then have "one_call e (sv_providers s) (sv_world s) (sv_world (snd (AuthMiddleware (\<lambda>cx. serve_mux (cp_routes e cx)) rq s)))"
    by (simp add: AuthMiddleware_def Let_def split: sum.split option.split)
  then show ?thesis by (simp add: cp_Handler_def corsMiddleware_def case_prod_unfold Let_def)
qed

section \<open>Machines\<close>

text \<open>The nodes by the address of their machines, and the rest of the world.\<close>

record ('r, 'c) cluster =
  machines :: "(string, 'r node) gomap"
  account :: 'c

datatype delivery = Delivered | Unreachable string | AnswerLost string

definition cluster_client ::
  "(string \<Rightarrow> string + json) \<Rightarrow> 'r runtime \<Rightarrow> 'r http_client \<Rightarrow> string \<Rightarrow> time \<Rightarrow> delivery \<Rightarrow> ('r, 'c) cluster http_client" where
  "cluster_client parse rt cl uuid now net q w =
     (case find (\<lambda>(a, nd). has_prefix (oq_url q) (a @ ''/'')) (machines w) of
        None \<Rightarrow> (Inl ''connection refused'', w)
      | Some (a, nd) \<Rightarrow>
          let (resp, nd') = node_Handler rt cl uuid now (served parse a q) nd;
              w' = w\<lparr>machines := gm_put a nd' (machines w)\<rparr>
          in case net of
               Delivered \<Rightarrow> (Inr resp, w')
             | Unreachable err \<Rightarrow> (Inl err, w)
             | AnswerLost err \<Rightarrow> (Inl err, w'))"

text \<open>An identifier that no node uses.\<close>

definition unused :: "string \<Rightarrow> ('r, 'c) cluster \<Rightarrow> bool" where
  "unused uuid w \<longleftrightarrow> (\<forall>(a, nd) \<in> set (machines w). sandbox_id uuid \<notin> gm_keys (store (nd_orch nd)))"

text \<open>
  What can happen in the cluster: the control plane serves a request or its scaler ticks, its database fails, a
  machine boots under a new address, a node takes a step of its own, or the cloud account changes.
\<close>

inductive cluster_step ::
  "(string \<Rightarrow> string + json) \<Rightarrow> 'r runtime \<Rightarrow> 'r http_client \<Rightarrow> ('r \<Rightarrow> 'r \<Rightarrow> bool)
    \<Rightarrow> ('r, 'c) cluster cpserver \<Rightarrow> ('r, 'c) cluster cpserver \<Rightarrow> bool"
  for parse :: "string \<Rightarrow> string + json" and rt :: "'r runtime" and cl :: "'r http_client" and env :: "'r \<Rightarrow> 'r \<Rightarrow> bool" where
  request: "e_client e = cluster_client parse rt cl uuid now net \<Longrightarrow> unused uuid (sv_world s) \<Longrightarrow>
    cluster_step parse rt cl env s (snd (cp_Handler e rq s))"
| tick: "cluster_step parse rt cl env s (evaluate e s)"
| outage: "cluster_step parse rt cl env s (s\<lparr>sv_db := (sv_db s)\<lparr>down := x\<rparr>\<rparr>)"
| boot: "a \<notin> gm_keys (machines (sv_world s)) \<Longrightarrow>
    cluster_step parse rt cl env s (s\<lparr>sv_world := (sv_world s)\<lparr>machines := gm_put a (NewNodeServer ncfg (NewOrch cfg r)) (machines (sv_world s))\<rparr>\<rparr>)"
| machine: "gm_get (machines (sv_world s)) a = Some nd \<Longrightarrow> node_step rt cl env nd nd' \<Longrightarrow>
    cluster_step parse rt cl env s (s\<lparr>sv_world := (sv_world s)\<lparr>machines := gm_put a nd' (machines (sv_world s))\<rparr>\<rparr>)"
| cloud: "cluster_step parse rt cl env s (s\<lparr>sv_world := (sv_world s)\<lparr>account := c\<rparr>\<rparr>)"

text \<open>Every machine runs a node in a state that the node's own operations reach.\<close>

definition machines_ok :: "'r runtime \<Rightarrow> 'r http_client \<Rightarrow> ('r \<Rightarrow> 'r \<Rightarrow> bool) \<Rightarrow> ('r, 'c) cluster \<Rightarrow> bool" where
  "machines_ok rt cl env w \<longleftrightarrow> gm_wf (machines w)
     \<and> (\<forall>(a, nd) \<in> set (machines w). \<exists>ncfg cfg r. node_reachable rt cl env ncfg cfg r nd)"

lemma machines_ok_put:
  assumes "machines_ok rt cl env w" and "node_reachable rt cl env ncfg cfg r nd"
  shows "machines_ok rt cl env (w\<lparr>machines := gm_put a nd (machines w)\<rparr>)"
proof -
  have "set (gm_put a nd (machines w)) \<subseteq> insert (a, nd) (set (machines w))" by (rule set_gm_put)
  then show ?thesis using assms unfolding machines_ok_def by fastforce
qed

lemma machines_ok_step:
  assumes "machines_ok rt cl env w" and "(a, nd) \<in> set (machines w)" and "node_step rt cl env nd nd'"
  shows "machines_ok rt cl env (w\<lparr>machines := gm_put a' nd' (machines w)\<rparr>)"
proof -
  obtain ncfg cfg r where "node_reachable rt cl env ncfg cfg r nd" using assms(1,2) by (auto simp: machines_ok_def)
  then have "node_reachable rt cl env ncfg cfg r nd'" using assms(3) by (rule rtranclp.rtrancl_into_rtrancl)
  then show ?thesis by (rule machines_ok_put [OF assms(1)])
qed

text \<open>A call that reaches a node is a step of that node; any other call leaves the machines alone.\<close>

lemma cluster_client_step:
  assumes "machines_ok rt cl env w" and "unused uuid w"
  shows "machines_ok rt cl env (snd (cluster_client parse rt cl uuid now net q w))"
proof (cases "find (\<lambda>(a, nd). has_prefix (oq_url q) (a @ ''/'')) (machines w)")
  case None
  then show ?thesis using assms(1) by (simp add: cluster_client_def)
next
  case (Some m)
  obtain a nd where p: "m = (a, nd)" by (cases m)
  have mem: "(a, nd) \<in> set (machines w)" using found [OF Some] p by simp
  with assms(2) have "sandbox_id uuid \<notin> gm_keys (store (nd_orch nd))" by (auto simp: unused_def)
  from machines_ok_step [OF assms(1) mem node_step.serve [OF this]] assms(1) Some p
  show ?thesis by (simp add: cluster_client_def case_prod_unfold Let_def split: delivery.split)
qed

section \<open>Every run of the cluster\<close>

text \<open>Buying a machine changes the account only: the machine joins when it boots.\<close>

definition cloud_only :: "('r, 'c) cluster registry \<Rightarrow> bool" where
  "cloud_only ps \<longleftrightarrow> (\<forall>(name, pv) \<in> set ps. \<forall>opts w. machines (snd (pv_ProvisionNode pv opts w)) = machines w)"

text \<open>A provider of the account, as a provider of the cluster.\<close>

definition on_account :: "('c \<Rightarrow> 'a \<times> 'c) \<Rightarrow> ('r, 'c) cluster \<Rightarrow> 'a \<times> ('r, 'c) cluster" where
  "on_account f w = (let (x, c) = f (account w) in (x, w\<lparr>account := c\<rparr>))"

definition cluster_provider :: "'c provider \<Rightarrow> ('r, 'c) cluster provider" where
  "cluster_provider pv = \<lparr>pv_Name = pv_Name pv, pv_ProvisionNode = (\<lambda>opts. on_account (pv_ProvisionNode pv opts)),
     pv_TerminateNode = (\<lambda>i. on_account (pv_TerminateNode pv i)), pv_ListNodes = on_account (pv_ListNodes pv)\<rparr>"

lemma cluster_provider_cloud_only: "cloud_only (map (\<lambda>(name, pv). (name, cluster_provider pv)) ps)"
  by (auto simp: cloud_only_def cluster_provider_def on_account_def case_prod_unfold Let_def)

lemma cloud_only_Get: "cloud_only ps \<Longrightarrow> reg_Get ps name = Inr pv \<Longrightarrow> machines (snd (pv_ProvisionNode pv opts w)) = machines w"
  by (fastforce simp: cloud_only_def reg_Get_def split: option.splits dest: map_of_SomeD)

lemma machines_ok_same: "machines w' = machines w \<Longrightarrow> machines_ok rt cl env w' = machines_ok rt cl env w"
  by (simp add: machines_ok_def)

definition cluster_ok :: "'r runtime \<Rightarrow> 'r http_client \<Rightarrow> ('r \<Rightarrow> 'r \<Rightarrow> bool) \<Rightarrow> ('r, 'c) cluster cpserver \<Rightarrow> bool" where
  "cluster_ok rt cl env s \<longleftrightarrow> cp_typed s \<and> fleet {} (sv_db s) \<and> cloud_only (sv_providers s) \<and> machines_ok rt cl env (sv_world s)"

lemma request_keeps_machines:
  assumes "machines_ok rt cl env (sv_world s)" and "cloud_only (sv_providers s)" and "unused uuid (sv_world s)"
    and "e_client e = cluster_client parse rt cl uuid now net"
  shows "machines_ok rt cl env (sv_world (snd (cp_Handler e rq s)))"
proof -
  consider "sv_world (snd (cp_Handler e rq s)) = sv_world s"
    | q where "sv_world (snd (cp_Handler e rq s)) = snd (cluster_client parse rt cl uuid now net q (sv_world s))"
    | name pv opts where "reg_Get (sv_providers s) name = Inr pv" "sv_world (snd (cp_Handler e rq s)) = snd (pv_ProvisionNode pv opts (sv_world s))"
    using Handler_calls [of e s rq] assms(4) by (auto simp: one_call_def)
  then show ?thesis
  proof cases
    case 3
    then have "machines (sv_world (snd (cp_Handler e rq s))) = machines (sv_world s)"
      using cloud_only_Get [OF assms(2)] by simp
    then show ?thesis using machines_ok_same assms(1) by blast
  qed (use assms(1) cluster_client_step [OF assms(1,3)] in simp_all)
qed

text \<open>No request changes the providers.\<close>

lemma forwardToNode_providers: "sv_providers (snd (forwardToNode e n m p b s)) = sv_providers s"
  by (simp add: forwardToNode_def Let_def case_prod_unfold split: option.split sum.split)

lemma handlers_keep_providers:
  "sv_providers (snd (handleCreateSandbox e cx rq s)) = sv_providers s" "sv_providers (snd (handleDeleteSandbox e rq s)) = sv_providers s"
  "sv_providers (snd (set_status_on_node e verb st rq s)) = sv_providers s" "sv_providers (snd (proxySandboxToNode e m sub rq s)) = sv_providers s"
  "sv_providers (snd (handleRegister e rq s)) = sv_providers s" "sv_providers (snd (handleLogin e rq s)) = sv_providers s"
  "sv_providers (snd (handleLogout rq s)) = sv_providers s" "sv_providers (snd (handleNodeRegister e rq s)) = sv_providers s"
  "sv_providers (snd (handleNodeHeartbeat e rq s)) = sv_providers s"
  by (simp_all add: handleCreateSandbox_def handleDeleteSandbox_def set_status_on_node_def proxySandboxToNode_def handleRegister_def
      handleLogin_def handleLogout_def handleNodeRegister_def handleNodeHeartbeat_def Let_def case_prod_unfold forwardToNode_providers
      split: option.split sum.split list.split db_error.split)

lemma Provision_keeps_providers: "sv_providers (snd (handleProvisionNode e rq s)) = sv_providers s"
proof -
  have f: "sv_providers (s\<lparr>sv_world := w\<rparr>) = sv_providers s" "sv_providers (s\<lparr>sv_world := w, sv_db := d\<rparr>) = sv_providers s" for w d by simp_all
  show ?thesis
    unfolding handleProvisionNode_def Let_def case_prod_unfold by (simp only: snd_conv f simp_thms split: sum.split)
qed

lemma Handler_keeps_providers: "sv_providers (snd (cp_Handler e rq s)) = sv_providers s"
proof -
  have "sv_providers (snd (rt_handler r rq s)) = sv_providers s" if "r \<in> set (cp_routes e cx)" for r rq cx
    using that by (auto simp: cp_routes_def handlers_keep_providers Provision_keeps_providers readers_keep handlePauseSandbox_def
        handleResumeSandbox_def handleExecSandbox_def handleExecStreamSandbox_def cp_handleReadFile_def cp_handleWriteFile_def
        cp_handleListFiles_def)
  then have "sv_providers (snd (serve_mux (cp_routes e cx) rq s)) = sv_providers s" for cx
    using serve_mux_invariant [of "cp_routes e cx" "\<lambda>s s'. sv_providers s' = sv_providers s" s rq] by simp
  then have "sv_providers (snd (AuthMiddleware (\<lambda>cx. serve_mux (cp_routes e cx)) rq s)) = sv_providers s"
    by (simp add: AuthMiddleware_def Let_def split: sum.split option.split)
  then show ?thesis by (simp add: cp_Handler_def corsMiddleware_def case_prod_unfold Let_def)
qed

lemma cluster_ok_step:
  assumes "cluster_step parse rt cl env s t" and "cluster_ok rt cl env s"
  shows "cluster_ok rt cl env t"
proof -
  note ok = assms(2) [unfolded cluster_ok_def]
  from assms(1) show ?thesis
  proof cases
    case (request e uuid now net rq)
    have "cp_typed t" "fleet {} (sv_db t)" "sv_providers t = sv_providers s"
      unfolding request(1) using ok by (simp_all add: Handler_typed fleet.Handler_keeps Handler_keeps_providers)
    moreover have "machines_ok rt cl env (sv_world t)"
      unfolding request(1) using ok request_keeps_machines [OF _ _ request(3,2)] by blast
    ultimately show ?thesis using ok by (simp add: cluster_ok_def)
  next
    case (tick e)
    have "t_pools (sv_db s) = []" using ok by (simp add: fleet_def)
    then have "sv_world t = sv_world s" "sv_providers t = sv_providers s" unfolding tick by (simp_all add: evaluate_without_pools)
    moreover have "cp_typed t" unfolding tick using ok by (simp add: evaluate_typed)
    moreover have "fleet {} (sv_db t)" using cp_step_fleet [of s t "{}"] ok unfolding tick by (simp add: cp_step.tick)
    ultimately show ?thesis using ok by (simp add: cluster_ok_def)
  next
    case (boot a ncfg cfg r)
    have "machines_ok rt cl env ((sv_world s)\<lparr>machines := gm_put a (NewNodeServer ncfg (NewOrch cfg r)) (machines (sv_world s))\<rparr>)"
      using ok machines_ok_put [of rt cl env "sv_world s" ncfg cfg r] by blast
    then show ?thesis using ok by (simp add: boot cluster_ok_def)
  next
    case (machine a nd nd')
    then have "(a, nd) \<in> set (machines (sv_world s))" by (simp add: map_of_SomeD)
    then show ?thesis using ok machines_ok_step [of rt cl env "sv_world s" a nd nd' a] machine by (simp add: cluster_ok_def)
  next
    case (cloud c)
    then show ?thesis using ok machines_ok_same [of "(sv_world s)\<lparr>account := c\<rparr>" "sv_world s" rt cl env] by (simp add: cluster_ok_def)
  next
    case (outage x)
    then show ?thesis using ok by (simp add: cluster_ok_def fleet_def)
  qed
qed

lemma cluster_ok_steps: "(cluster_step parse rt cl env)\<^sup>*\<^sup>* s t \<Longrightarrow> cluster_ok rt cl env s \<Longrightarrow> cluster_ok rt cl env t"
  by (induction rule: rtranclp_induct) (auto intro: cluster_ok_step)

lemma cluster_starts_ok: "machines w = [] \<Longrightarrow> cloud_only ps \<Longrightarrow> cluster_ok rt cl env ((cp_NewServer cfg OpenDB w)\<lparr>sv_providers := ps\<rparr>)"
  using initial_typed [where cfg = cfg and w = w and providers = ps] by (simp add: cluster_ok_def fleet_def machines_ok_def) (simp add: cp_NewServer_def OpenDB_def)

text \<open>
  C5. As long as requests do not overlap, the cluster keeps every node within its capacity. A step is a whole
  request to the control plane with the one call it makes of a node, or lost before or after the
  node served it, a tick, a database outage, a booting machine, or a whole request or other
  operation on a node. After any sequence of steps every node holds at
  most as many sandboxes as its limit allows, each under its own identifier and running or paused, and
  the control plane's tables are well typed. Overlapping creations are excluded: they exceed the
  capacity, on a node (\<open>Orchestrator.concurrent_creates_bound\<close>) and in the control plane's counters
  (\<open>Placement_Overlap\<close>).
\<close>
theorem cluster_within_capacity:
  assumes "(cluster_step parse rt cl env)\<^sup>*\<^sup>* ((cp_NewServer cfg OpenDB w)\<lparr>sv_providers := ps\<rparr>) s"
    and "machines w = []" and "cloud_only ps" and "\<And>q r resp r'. cl q r = (resp, r') \<Longrightarrow> env r r'"
    and "gm_get (machines (sv_world s)) a = Some nd"
  shows "store_Count (store (nd_orch nd)) \<le> max 0 (cf_MaxVMs (config (nd_orch nd)))
    \<and> distinct (map vi_ID (orch_List (nd_orch nd)))
    \<and> vi_State ` set (orch_List (nd_orch nd)) \<subseteq> {''running'', ''paused''} \<and> cp_typed s"
proof -
  have ok: "cluster_ok rt cl env s" by (rule cluster_ok_steps [OF assms(1) cluster_starts_ok [OF assms(2,3)]])
  then obtain ncfg ocfg r where n: "node_reachable rt cl env ncfg ocfg r nd"
    using map_of_SomeD [OF assms(5)] by (fastforce simp: cluster_ok_def machines_ok_def)
  have o: "orch_reachable rt cl env ocfg r (nd_orch nd)"
    by (rule node_reachable_orch [of rt cl env, OF n]) (rule assms(4))
  from orch_reachable_capacity [OF o] have w: "within_capacity (nd_orch nd)" .
  then have "store_ok (store (nd_orch nd))" by (simp add: within_capacity_def)
  from store_ok_listed [OF this] w ok show ?thesis by (simp add: within_capacity_def cluster_ok_def)
qed

text \<open>A cluster of one machine, which serves a creation.\<close>

definition demo_registry :: "(unit, unit) cluster registry" where
  "demo_registry = map (\<lambda>(name, pv). (name, cluster_provider pv))
     [(''gcp'', gcp (\<lambda>_ _ c. ((Some ''gcloud: not found'', ''''), c)) (\<lambda>_. Inr JNull)
        \<lparr>gcp_ProjectID = ''p'', gcp_Zone = ''z'', gcp_Network = '''', gcp_Subnet = '''', gcp_MachineImage = ''img''\<rparr>)]"

definition demo_fleet :: "(unit, unit) cluster cpserver" where
  "demo_fleet = (cp_NewServer demo_config OpenDB \<lparr>machines = [], account = ()\<rparr>)\<lparr>sv_providers := demo_registry\<rparr>"

lemma cluster_within_capacity_witness:
  "\<exists>s. (cluster_step (\<lambda>_. Inr JNull) idle_runtime no_client (\<lambda>r r'. True))\<^sup>*\<^sup>* demo_fleet s
     \<and> gm_get (machines (sv_world s)) ''http://n1'' = Some (busy_node ()) \<and> store_Count (store (nd_orch (busy_node ()))) \<le> 1"
proof -
  let ?step = "cluster_step (\<lambda>_. Inr JNull) idle_runtime no_client (\<lambda>r r'. True)"
  let ?n0 = "NewNodeServer (nd_config (demo_node '''' ())) (NewOrch small_config ())"
  let ?s1 = "demo_fleet\<lparr>sv_world := (sv_world demo_fleet)\<lparr>machines := gm_put ''http://n1'' ?n0 (machines (sv_world demo_fleet))\<rparr>\<rparr>"
  let ?s2 = "?s1\<lparr>sv_world := (sv_world ?s1)\<lparr>machines := gm_put ''http://n1'' (busy_node ()) (machines (sv_world ?s1))\<rparr>\<rparr>"
  have b: "?step demo_fleet ?s1" by (rule cluster_step.boot) (simp add: demo_fleet_def cp_NewServer_def)
  have f: "sandbox_id ''0a1b2c3d-'' \<notin> gm_keys (store (nd_orch (demo_node '''' ())))"
    by (simp add: demo_node_def NewNodeServer_def NewOrch_def NewVMStore_def)
  have n: "node_step idle_runtime no_client (\<lambda>r r'. True) ?n0 (busy_node ())"
    using node_step.serve [OF f, of idle_runtime no_client "\<lambda>r r'. True" 0 create_rq]
    by (simp add: busy_node_def demo_node_def NewNodeServer_def)
  have m: "?step ?s1 ?s2" by (rule cluster_step.machine [OF _ n]) simp
  have r: "?step\<^sup>*\<^sup>* demo_fleet ?s2" using b m by (meson converse_rtranclp_into_rtranclp rtranclp.rtrancl_refl)
  have g: "gm_get (machines (sv_world ?s2)) ''http://n1'' = Some (busy_node ())" by simp
  have c': "cloud_only demo_registry" unfolding demo_registry_def by (rule cluster_provider_cloud_only)
  have c: "config (nd_orch (busy_node ())) = small_config" by (simp add: busy_node NewOrch_def)
  have "store_Count (store (nd_orch (busy_node ()))) \<le> max 0 (cf_MaxVMs (config (nd_orch (busy_node ()))))"
    using cluster_within_capacity [OF r [unfolded demo_fleet_def] _ c' _ g [unfolded demo_fleet_def]] by simp
  then show ?thesis using r g c by (intro exI [of _ ?s2]) (simp add: small_config_def)
qed

end
