(* ===== verification/Spec2Isabelle.thy ===== *)
theory Spec2Isabelle
  imports Network_Pool Orchestrator Firecracker_Runtime Docker_Runtime Node_Server ControlPlane_Scaler Host_Composition
    Cluster_Composition Startup_Bounds Gitvm_Command Node_Command Gitvmd_Command
    ControlPlane_Run Ui_Server Placement_Overlap Cluster_Run
begin

text \<open>
  gitvm runs sandboxes for agents: a sandbox is a Firecracker microVM or a Docker container with a
  guest agent inside. A host offers its sandboxes through a REST server or as a node of a cluster;
  a control plane places sandboxes on nodes and buys nodes from cloud providers. This is a model of
  the Go code under \<open>src/\<close> and the theorems that hold of it.

  \<^bold>\<open>Conventions.\<close> A function of the code is a function here, of the same name where Isabelle allows it
  (a prefix marks the component where two packages use one name). A struct is a record, a Go error
  an option or the left side of a sum, a Go map an association list with distinct keys whose order
  stands for the iteration order, a duration or a fixed-width integer is computed at its
  width. What is outside the repository (the host and its programs, remote servers, cloud
  command lines, the guest's kernel) is a function of an abstract world, passed as an argument; so
  are generated identifiers and the clock. The theorems hold for all of them, under the hypotheses
  they state. Handlers run one at a time, so an invariant of the servers is one of requests that do not
  overlap; Orchestrator and Placement_Overlap split the creation of a sandbox, on a host (restorations too)
  and on the control plane, and show what overlapping requests exceed.

  \<^bold>\<open>The theories\<close>, with the code each models.
  \<^item> Go_Base, Go_Http, Go_Url, Go_Router, Go_Host: what the code uses of the language and its standard
    library, no file of the repository: maps, decimal texts, durations and civil dates, JSON and HTTP
    messages, query escaping, the request multiplexer, the host.
  \<^item> Network_Pool (\<open>network/\<close>): slots, TAP devices, iptables rules, the pool. Held slots share no device or
    address; allocate and release restore the host; a partial failure leaks rules; addresses
    repeat after 16384 slots.
  \<^item> Runtime_Iface (\<open>runtime/runtime.go\<close>): the backend interface as a record of methods and, as locales,
    the contracts \<open>runtime_backend\<close> and \<open>tracked_backend\<close> that the orchestrator's lemmas rest on.
  \<^item> Orchestrator (\<open>orchestrator/\<close>): the store, create, pause, resume, snapshot, restore, delete, expiry and
    shutdown over any backend; the step relation \<open>orch_step\<close>, its invariants, and
    \<open>conc_step\<close>, where the check of Create and Restore (\<open>check_capacity\<close>) and the rest of them are two steps.
    Of the steps of \<open>orch_step\<close>, \<open>relabel\<close> is no operation of the orchestrator: it is the label that the node
    writes into the store past Pause and Resume.
  \<^item> Template_Cache (\<open>template/\<close>): the cache of root file systems and the builder.
  \<^item> Firecracker_VM and Firecracker_Runtime (\<open>runtime/firecracker/\<close>): one microVM's start and stop as calls
    to the host, and the backend, which interprets \<open>tracked_backend\<close>: the listed sandboxes are
    exactly the entries it tracks and hold exactly the slots in use. An entry is no running process: the
    process is bound to the context of the creating request, whose end kills it (\<open>end_of_request\<close>).
  \<^item> Docker_Runtime (\<open>runtime/docker/docker.go\<close>): the container backend through the docker command line.
  \<^item> Node_Server (\<open>node/server.go\<close>): the node's handlers, routes, registration and heartbeats, with
    what each request does to the orchestrator (\<open>node_effect\<close>).
  \<^item> ControlPlane_DB, ControlPlane_Cloud, ControlPlane_Auth, ControlPlane_Handlers, ControlPlane_Scaler
    (\<open>controlplane/\<close>): the database as tables with the constraints of the schema, the provider
    interface as the locale \<open>cloud_provider\<close> interpreted on AWS, GCP and Azure, sessions and the
    authentication of every request, the handlers with placement and proxying, and the scaler.
  \<^item> ControlPlane_Run: requests, ticks, outages and a changing world as the step relation \<open>cp_step\<close>. What every
    run keeps: the typing of tables and sessions, and, by the locale \<open>request_invariant\<close> of what the statements
    under the handlers keep, the unique keys and the absence of pools and of drained nodes.
  \<^item> Placement_Overlap: the placement of a sandbox split at the call of the node, for overlapping requests.
  \<^item> Ui_Server (\<open>ui/\<close>): the pages and routes of the web interface, the requests of its scripts, what the
    control plane answers to them, and what a browser makes of that (\<open>browser_fetch\<close>: the preflight and the
    check of the answer's headers for requests with credentials to another origin).
  \<^item> Rest_Api (\<open>api/\<close>), Guest_Agent (\<open>agent/\<close>), Sdk_Machine (\<open>sdk/\<close>): the server of a single host, the agent
    inside a sandbox, and the client library with its machine.
  \<^item> Host_Composition: a machine of the SDK against the REST server, and that server against the agent.
    Cluster_Composition: the control plane against a node's server. Cluster_Run: every run of a control plane with
    its machines (\<open>cluster_step\<close>), which boot, act on their own and are reached over a network that loses calls.
  \<^item> Startup_Bounds: the locale \<open>metered_host\<close>, a host with a meter of what the code's loops do, and the bounds on
    the sleeps and probes of creating a sandbox, read off the log of a run by two interpretations. The time of a call
    that is never answered is not bounded: the code sets no timeout.
  \<^item> Command_Line, Gitvm_Command, Node_Command, Gitvmd_Command (\<open>cmd/\<close>): environment, flags, outputs and exit values
    of the three commands, and the commands against the REST server, the agent and the control plane.

  \<^bold>\<open>How the parts interact.\<close> A handler is a function of a request and its server's state, so a client is run
  against a server by handing its requests to the server's handler (\<open>served_by\<close>). A request to the
  REST server is at most one operation of the orchestrator or one call to an agent, and so is a request to a
  node, which may also write a label into the store; all of these are steps of \<open>orch_step\<close>, whose invariants
  therefore hold for them; the orchestrator's steps are calls of the backend's methods, whose contract
  the Firecracker backend meets.

  \<^bold>\<open>Bounds and fuel.\<close> Loops that end by themselves are recursive functions. The loops that run until their
  context is cancelled (cleanup, heartbeats, scaler) are functions of the list or number of their
  ticks, so a theorem about them speaks of every prefix of a run. Polling loops (the socket of a microVM, the
  agent in a sandbox) have the bound of the code. A timeout in seconds up to 9223372036 has a
  duration that fits 64 bits; beyond it the model wraps as the code does.

  \<^bold>\<open>Not modelled.\<close> Executing the HTML templates and serving static files (parameters of Ui_Server), the rendering of
  formatted output, logging, the listening sockets and signal handling, and concurrent access to the
  maps other than the overlapping creations. JSON texts are not parsed: a body is the value it
  decodes to, or a parser is an argument. The strings of a JSON value are taken as UTF-8, except where the
  replacement of other bytes is written out (\<open>valid_text\<close>, for an agent's commands and outputs); the line end
  an encoder adds is left out. Request paths are taken as cleaned. Of the contexts only the one that the process of
  a microVM is bound to is modelled; a client that leaves before its answer is not. The database file is a new
  one (that an existing one stays well formed is the preservation of the invariants), its sums fit 64
  bits, and rows that an ORDER BY leaves tied come in the order of their insertion. A node's control plane
  URL is taken to parse: one that does not makes \<open>register\<close> panic.
\<close>

end
